(* ===== verification/Prelude.thy ===== *)
theory Prelude
  imports Main "HOL-Library.AList" "HOL-Library.Char_ord" "HOL-Library.List_Lexorder"
    "HOL-Library.Monad_Syntax" "HOL-Library.Multiset" "HOL-Library.Word"
begin

text \<open>
  What every component shares: the lemma collections, the model of Go maps (an association
  list in the order in which a \<open>range\<close> loop happens to visit the entries), and the part of
  Go's \<open>strings\<close>, \<open>sort\<close> and \<open>fmt\<close> packages that the program uses.
  Go strings are byte strings and so is \<open>string\<close>. Case conversion, trimming and
  quoting are written for ASCII text; other bytes pass through unchanged.
  A function that may end in a run-time panic returns an \<open>option\<close>, \<open>None\<close> being the panic.
\<close>

text \<open>The rules that compute with a map whose entries are written out.\<close>

named_theorems gmap_simps

section \<open>Go maps\<close>

text \<open>
  Iteration order over a Go map is unspecified and differs from run to run. A map is the list
  of its entries in the order of one run; \<open>gmap_ok\<close> says that its keys are distinct, and two
  lists with the same multiset of entries are the same map iterated in two orders.
\<close>

type_synonym 'v gmap = "(string \<times> 'v) list"

definition gmap_ok :: "'v gmap \<Rightarrow> bool" where
  "gmap_ok m \<longleftrightarrow> distinct (map fst m)"

definition gmap_put :: "string \<Rightarrow> 'v \<Rightarrow> 'v gmap \<Rightarrow> 'v gmap" where
  "gmap_put k v m = AList.update k v m"

definition gmap_get :: "'v gmap \<Rightarrow> string \<Rightarrow> 'v option" where
  "gmap_get m k = map_of m k"

definition same_entries :: "'v gmap \<Rightarrow> 'v gmap \<Rightarrow> bool" where
  "same_entries m n \<longleftrightarrow> mset m = mset n"

text \<open>What the clients of a map rely on, and the two loops they build maps with.\<close>

locale string_map =
  fixes empty :: "'m"
    and put :: "string \<Rightarrow> 'v \<Rightarrow> 'm \<Rightarrow> 'm"
    and get :: "'m \<Rightarrow> string \<Rightarrow> 'v option"
    and ok :: "'m \<Rightarrow> bool"
  assumes get_empty: "get empty k = None"
    and get_put: "get (put k v m) k' = (if k' = k then Some v else get m k')"
    and ok_empty: "ok empty"
    and ok_put: "ok m \<Longrightarrow> ok (put k v m)"
begin

lemma get_put_same: "get (put k v m) k = Some v"
  by (simp add: get_put)

lemma get_put_other: "k' \<noteq> k \<Longrightarrow> get (put k v m) k' = get m k'"
  by (simp add: get_put)

lemma get_fold_put:
  "get (foldl (\<lambda>acc x. put (f x) (g x) acc) m xs) k =
     (case find (\<lambda>x. f x = k) (rev xs) of None \<Rightarrow> get m k | Some x \<Rightarrow> Some (g x))"
  by (induction xs rule: rev_induct) (auto simp: get_put)

lemma ok_fold_put: "ok m \<Longrightarrow> ok (foldl (\<lambda>acc x. put (f x) (g x) acc) m xs)"
  by (induction xs arbitrary: m) (auto intro: ok_put)

lemma get_fold_put_None:
  "get (foldl (\<lambda>acc x. put (f x) (g x) acc) empty xs) k = None \<longleftrightarrow> k \<notin> f ` set xs"
proof -
  let ?hit = "find (\<lambda>x. f x = k) (rev xs)"
  have "?hit = None \<longleftrightarrow> k \<notin> f ` set xs"
    by (auto simp: find_None_iff)
  then show ?thesis
    by (auto simp: get_fold_put get_empty split: option.split)
qed

end

interpretation gm: string_map "[]" gmap_put gmap_get gmap_ok
  by unfold_locales
    (auto simp: gmap_put_def gmap_get_def gmap_ok_def update_conv distinct_update)

declare gm.get_put_same [simp]
declare gm.get_put_other [simp]

lemma gmap_get_Nil [simp]: "gmap_get [] k = None"
  by (rule gm.get_empty)

lemma gmap_get_Cons [gmap_simps]: "gmap_get ((k, v) # m) k' = (if k' = k then Some v else gmap_get m k')"
  by (simp add: gmap_get_def)

lemma gmap_ok_Nil [gmap_simps]: "gmap_ok []"
  by (simp add: gmap_ok_def)

lemma gmap_ok_Cons [gmap_simps]: "gmap_ok (kv # m) \<longleftrightarrow> fst kv \<notin> fst ` set m \<and> gmap_ok m"
  by (simp add: gmap_ok_def)

lemma gmap_put_Nil [gmap_simps]: "gmap_put k v [] = [(k, v)]"
  by (simp add: gmap_put_def)

lemma gmap_put_Cons [gmap_simps]:
  "gmap_put k v ((k', v') # m) = (if k' = k then (k, v) # m else (k', v') # gmap_put k v m)"
  by (simp add: gmap_put_def)

lemma gmap_get_SomeD: "gmap_get m k = Some v \<Longrightarrow> (k, v) \<in> set m"
  by (simp add: gmap_get_def map_of_SomeD)

lemma gmap_get_in: "gmap_ok m \<Longrightarrow> (k, v) \<in> set m \<Longrightarrow> gmap_get m k = Some v"
  by (simp add: gmap_get_def gmap_ok_def)

lemma gmap_get_None: "gmap_get m k = None \<longleftrightarrow> k \<notin> fst ` set m"
  by (simp add: gmap_get_def map_of_eq_None_iff)

lemma gmap_get_dom: "(\<exists>v. gmap_get m k = Some v) \<longleftrightarrow> k \<in> fst ` set m"
  using gmap_get_None [of m k] by auto

text \<open>The iteration order of a map does not show in look-ups.\<close>

lemma same_entries_set: "same_entries m n \<Longrightarrow> set m = set n"
  unfolding same_entries_def by (metis set_mset_mset)

lemma same_entries_ok: "same_entries m n \<Longrightarrow> gmap_ok m \<Longrightarrow> gmap_ok n"
  unfolding same_entries_def gmap_ok_def
  by (metis distinct_count_atmost_1 mset_map set_mset_mset)

lemma same_entries_get:
  assumes "gmap_ok m" and "same_entries m n"
  shows "gmap_get m k = gmap_get n k"
proof (cases "gmap_get m k")
  case None
  with assms(2) show ?thesis
    by (metis gmap_get_None same_entries_set)
next
  case (Some v)
  then have "(k, v) \<in> set n"
    using assms(2) by (metis gmap_get_SomeD same_entries_set)
  with assms Some show ?thesis
    by (metis gmap_get_in same_entries_ok)
qed

text \<open>Copying a map entry by entry, as \<open>for k, v := range m { out[k] = f(v) }\<close> does.\<close>

definition gmap_copy :: "('a \<Rightarrow> 'b) \<Rightarrow> 'a gmap \<Rightarrow> 'b gmap" where
  "gmap_copy f m = foldl (\<lambda>acc kv. gmap_put (fst kv) (f (snd kv)) acc) [] m"

lemma gmap_copy_ok: "gmap_ok (gmap_copy f m)"
  unfolding gmap_copy_def by (intro gm.ok_fold_put gm.ok_empty)

lemma gmap_put_fresh: "k \<notin> fst ` set m \<Longrightarrow> gmap_put k v m = m @ [(k, v)]"
  unfolding gmap_put_def by (induction m) auto

lemma gmap_copy_snoc: "gmap_copy f (m @ [kv]) = gmap_put (fst kv) (f (snd kv)) (gmap_copy f m)"
  by (simp add: gmap_copy_def)

lemma gmap_copy_eq: "gmap_ok m \<Longrightarrow> gmap_copy f m = map (\<lambda>(k, v). (k, f v)) m"
proof (induction m rule: rev_induct)
  case Nil
  show ?case by (simp add: gmap_copy_def)
next
  case (snoc kv m)
  then have IH: "gmap_copy f m = map (\<lambda>(k, v). (k, f v)) m" and new: "fst kv \<notin> fst ` set m"
    by (auto simp: gmap_ok_def)
  have "fst ` set (map (\<lambda>(k, v). (k, f v)) m) = fst ` set m"
    by force
  with IH new show ?case
    by (cases kv) (simp add: gmap_copy_snoc gmap_put_fresh)
qed

lemma gmap_get_map: "gmap_get (map (\<lambda>(k, v). (k, f v)) m) k = map_option f (gmap_get m k)"
  by (induction m) (auto simp: gmap_get_Cons)

lemma gmap_get_copy: "gmap_ok m \<Longrightarrow> gmap_get (gmap_copy f m) k = map_option f (gmap_get m k)"
  by (simp add: gmap_copy_eq gmap_get_map)

section \<open>Text\<close>

definition digit_char :: "nat \<Rightarrow> char" where
  "digit_char d = ''0123456789abcdef'' ! d"

function show_pos :: "int \<Rightarrow> string" where
  "show_pos i =
     (if i < 10 then [digit_char (nat i)] else show_pos (i div 10) @ [digit_char (nat (i mod 10))])"
  by pat_completeness auto
termination
  by (relation "measure nat") auto

declare show_pos.simps [simp del]

text \<open>\<open>%d\<close> of an integer, and the zero padding of \<open>%02d\<close> and its kin.\<close>

definition show_int :: "int \<Rightarrow> string" where
  "show_int i = (if i < 0 then ''-'' @ show_pos (- i) else show_pos i)"

definition pad0 :: "nat \<Rightarrow> string \<Rightarrow> string" where
  "pad0 w s = replicate (w - length s) CHR ''0'' @ s"

definition upper_letters :: string where
  "upper_letters = ''ABCDEFGHIJKLMNOPQRSTUVWXYZ''"

definition lower_letters :: string where
  "lower_letters = ''abcdefghijklmnopqrstuvwxyz''"

definition lower_char :: "char \<Rightarrow> char" where
  "lower_char c = (case map_of (zip upper_letters lower_letters) c of None \<Rightarrow> c | Some d \<Rightarrow> d)"

definition upper_char :: "char \<Rightarrow> char" where
  "upper_char c = (case map_of (zip lower_letters upper_letters) c of None \<Rightarrow> c | Some d \<Rightarrow> d)"

text \<open>\<open>strings.ToLower\<close>, \<open>strings.ToUpper\<close>, \<open>strings.TrimSpace\<close> on ASCII text.\<close>

definition to_lower :: "string \<Rightarrow> string" where
  "to_lower s = map lower_char s"

definition to_upper :: "string \<Rightarrow> string" where
  "to_upper s = map upper_char s"

definition is_space :: "char \<Rightarrow> bool" where
  "is_space c \<longleftrightarrow> c \<in> {CHR 0x09, CHR 0x0A, CHR 0x0B, CHR 0x0C, CHR 0x0D, CHR '' ''}"

definition trim_space :: "string \<Rightarrow> string" where
  "trim_space s = rev (dropWhile is_space (rev (dropWhile is_space s)))"

text \<open>\<open>strings.Join\<close> and \<open>strings.ReplaceAll\<close> with a one-byte pattern.\<close>

fun join :: "string \<Rightarrow> string list \<Rightarrow> string" where
  "join sep [] = []"
| "join sep [x] = x"
| "join sep (x # y # xs) = x @ sep @ join sep (y # xs)"

definition replace_char :: "char \<Rightarrow> string \<Rightarrow> string \<Rightarrow> string" where
  "replace_char c r s = concat (map (\<lambda>x. if x = c then r else [x]) s)"

text \<open>\<open>%q\<close>: a double-quoted string with Go escapes.\<close>

definition quote_char :: "char \<Rightarrow> string" where
  "quote_char c =
     (let n = of_char c :: nat in
      if c = CHR 0x22 then [CHR 0x5C, CHR 0x22]
      else if c = CHR 0x5C then [CHR 0x5C, CHR 0x5C]
      else if n = 7 then [CHR 0x5C, CHR ''a'']
      else if n = 8 then [CHR 0x5C, CHR ''b'']
      else if n = 9 then [CHR 0x5C, CHR ''t'']
      else if n = 10 then [CHR 0x5C, CHR ''n'']
      else if n = 11 then [CHR 0x5C, CHR ''v'']
      else if n = 12 then [CHR 0x5C, CHR ''f'']
      else if n = 13 then [CHR 0x5C, CHR ''r'']
      else if n < 32 \<or> n = 127
        then [CHR 0x5C, CHR ''x'', digit_char (n div 16), digit_char (n mod 16)]
      else [c])"

definition go_quote :: "string \<Rightarrow> string" where
  "go_quote s = [CHR 0x22] @ concat (map quote_char s) @ [CHR 0x22]"

lemma show_pos_nonempty [simp]: "show_pos i \<noteq> []"
  by (subst show_pos.simps) simp

lemma show_int_nonempty [simp]: "show_int i \<noteq> []"
  by (simp add: show_int_def)

lemma join_Nil_iff: "join sep xs = [] \<longleftrightarrow> (\<forall>x\<in>set xs. x = []) \<and> (sep = [] \<or> length xs \<le> 1)"
  by (induction sep xs rule: join.induct) auto

lemma join_Cons: "xs \<noteq> [] \<Longrightarrow> join sep (x # xs) = x @ sep @ join sep xs"
  by (cases xs) auto

lemma join_append:
  "xs \<noteq> [] \<Longrightarrow> ys \<noteq> [] \<Longrightarrow> join sep (xs @ ys) = join sep xs @ sep @ join sep ys"
proof (induction xs)
  case Nil
  then show ?case by simp
next
  case (Cons x xs)
  then show ?case by (cases "xs = []") (auto simp: join_Cons)
qed

lemma lower_char_idem: "lower_char (lower_char c) = lower_char c"
proof -
  have "lower_char c = c \<or> lower_char c \<in> set lower_letters"
    unfolding lower_char_def by (auto split: option.split dest!: map_of_SomeD dest: set_zip_rightD)
  moreover have "\<forall>d \<in> set lower_letters. lower_char d = d"
    by (simp add: lower_char_def lower_letters_def upper_letters_def)
  ultimately show ?thesis by auto
qed

lemma to_lower_idem [simp]: "to_lower (to_lower s) = to_lower s"
  by (simp add: to_lower_def lower_char_idem)

lemma length_to_lower [simp]: "length (to_lower s) = length s"
  by (simp add: to_lower_def)

section \<open>Errors\<close>

text \<open>
  Go errors as the program builds and inspects them: a plain \<open>errors.New\<close> or \<open>fmt.Errorf\<close>
  text, a \<open>*url.Error\<close> with what its \<open>Timeout\<close> method answers, a \<open>*client.APIError\<close>, and
  \<open>fmt.Errorf("prefix: %w", err)\<close>.
\<close>

record api_error =
  ae_Message :: string
  ae_StatusCode :: int
  ae_Retriable :: bool

datatype go_error =
    ErrText string
  | ErrURL bool string
  | ErrAPI api_error
  | ErrWrap string go_error

definition APIError_Error :: "api_error \<Rightarrow> string" where
  "APIError_Error e =
     (if ae_StatusCode e > 0
      then ''API error (status '' @ show_int (ae_StatusCode e) @ ''): '' @ ae_Message e
      else ae_Message e)"

fun error_text :: "go_error \<Rightarrow> string" where
  "error_text (ErrText s) = s"
| "error_text (ErrURL _ s) = s"
| "error_text (ErrAPI e) = APIError_Error e"
| "error_text (ErrWrap p e) = p @ '': '' @ error_text e"

text \<open>\<open>errors.As\<close> for the two error types the program looks for.\<close>

fun as_api_error :: "go_error \<Rightarrow> api_error option" where
  "as_api_error (ErrAPI e) = Some e"
| "as_api_error (ErrWrap _ e) = as_api_error e"
| "as_api_error _ = None"

fun as_url_timeout :: "go_error \<Rightarrow> bool option" where
  "as_url_timeout (ErrURL t _) = Some t"
| "as_url_timeout (ErrWrap _ e) = as_url_timeout e"
| "as_url_timeout _ = None"

end
