(* ===== verification/Go_Time.thy ===== *)
theory Go_Time
  imports Prelude Complex_Main
begin

text \<open>
  The part of Go's \<open>time\<close> package the program uses: instants with a zone offset, the zero
  time, the saturating difference of two instants, durations as signed 64-bit words with
  their wrap-around, and the two text forms (\<open>Time.Format(time.RFC3339Nano)\<close> and
  \<open>Duration.String\<close>).
\<close>

section \<open>Instants and durations\<close>

text \<open>
  \<open>t_instant\<close> counts nanoseconds from 0001-01-01T00:00:00Z, Go's zero time;
  \<open>t_offset\<close> is the zone in seconds east of UTC, used for printing only.
\<close>

record gtime =
  t_instant :: int
  t_offset :: int

type_synonym duration = "64 word"

definition zero_time :: gtime where
  "zero_time = \<lparr>t_instant = 0, t_offset = 0\<rparr>"

definition IsZero :: "gtime \<Rightarrow> bool" where
  "IsZero t \<longleftrightarrow> t_instant t = 0"

definition max_int64 :: int where
  "max_int64 = 9223372036854775807"

definition min_int64 :: int where
  "min_int64 = - 9223372036854775808"

definition sat_int64 :: "int \<Rightarrow> int" where
  "sat_int64 i = max min_int64 (min max_int64 i)"

text \<open>\<open>t.Sub(u)\<close> saturates instead of wrapping.\<close>

definition time_sub :: "gtime \<Rightarrow> gtime \<Rightarrow> duration" where
  "time_sub t u = word_of_int (sat_int64 (t_instant t - t_instant u))"

definition nanosecond :: duration where "nanosecond = 1"
definition second :: duration where "second = 1000000000"
definition minute :: duration where "minute = 60 * second"

definition seconds_of :: "duration \<Rightarrow> rat" where
  "seconds_of d = of_int (sint d) / 1000000000"

lemma sint_bounds_64: "min_int64 \<le> sint (d :: duration) \<and> sint d \<le> max_int64"
  using sint_greater_eq [of d] sint_lt [of d] by (simp add: min_int64_def max_int64_def)

lemma sint_word_of_int_64:
  assumes "min_int64 \<le> i" and "i \<le> max_int64"
  shows "sint (word_of_int i :: duration) = i"
  using assms by (simp add: min_int64_def max_int64_def sint_sbintrunc' signed_take_bit_int_eq_self)

lemma sint_time_sub: "sint (time_sub t u) = sat_int64 (t_instant t - t_instant u)"
  unfolding time_sub_def
  by (rule sint_word_of_int_64) (auto simp: sat_int64_def min_int64_def max_int64_def)

lemma seconds_of_neg: "seconds_of d < 0 \<longleftrightarrow> sint d < 0"
proof -
  have "seconds_of d < 0 \<longleftrightarrow> (of_int (sint d) :: rat) < 0"
    unfolding seconds_of_def by (simp add: divide_less_0_iff del: of_int_sint)
  then show ?thesis by (simp only: of_int_less_0_iff)
qed

section \<open>Calendar dates\<close>

definition leap_year :: "int \<Rightarrow> bool" where
  "leap_year y \<longleftrightarrow> y mod 4 = 0 \<and> (y mod 100 \<noteq> 0 \<or> y mod 400 = 0)"

definition month_lengths :: "int \<Rightarrow> int list" where
  "month_lengths y = [31, if leap_year y then 29 else 28, 31, 30, 31, 30, 31, 31, 30, 31, 30, 31]"

text \<open>Year and day of the year (from 0) of a day counted from 0001-01-01.\<close>

definition year_of_day :: "int \<Rightarrow> int \<times> int" where
  "year_of_day d =
     (let n400 = d div 146097; d = d mod 146097;
          n100 = min 3 (d div 36524); d = d - 36524 * n100;
          n4 = d div 1461; d = d mod 1461;
          n1 = min 3 (d div 365); d = d - 365 * n1
      in (400 * n400 + 100 * n100 + 4 * n4 + n1 + 1, d))"

text \<open>Month (from the given number) and day of the month (from 1) of a day of the year.\<close>

fun month_of_day :: "int list \<Rightarrow> int \<Rightarrow> int \<Rightarrow> int \<times> int" where
  "month_of_day [] m d = (m, d + 1)"
| "month_of_day (l # ls) m d = (if d < l \<or> ls = [] then (m, d + 1) else month_of_day ls (m + 1) (d - l))"

section \<open>Text forms\<close>

definition show_padded :: "nat \<Rightarrow> int \<Rightarrow> string" where
  "show_padded w i = (if i < 0 then ''-'' @ pad0 w (show_pos (- i)) else pad0 w (show_pos i))"

definition strip0 :: "string \<Rightarrow> string" where
  "strip0 s = rev (dropWhile (\<lambda>c. c = CHR ''0'') (rev s))"

definition frac_text :: "nat \<Rightarrow> int \<Rightarrow> string" where
  "frac_text prec r =
     (let s = strip0 (pad0 prec (show_pos r)) in if s = [] then [] else ''.'' @ s)"

definition zone_text :: "int \<Rightarrow> string" where
  "zone_text off =
     (if off = 0 then ''Z''
      else let zone = \<bar>off\<bar> div 60; sign = (if off \<le> - 60 then ''-'' else ''+'')
           in sign @ show_padded 2 (zone div 60) @ '':'' @ show_padded 2 (zone mod 60))"

definition format_rfc3339nano :: "gtime \<Rightarrow> string" where
  "format_rfc3339nano t =
     (let local = t_instant t + t_offset t * 1000000000;
          secs = local div 1000000000; nanos = local mod 1000000000;
          day = secs div 86400; sod = secs mod 86400;
          (y, yd) = year_of_day day;
          (m, d) = month_of_day (month_lengths y) 1 yd
      in show_padded 4 y @ ''-'' @ show_padded 2 m @ ''-'' @ show_padded 2 d @ ''T'' @
         show_padded 2 (sod div 3600) @ '':'' @ show_padded 2 (sod mod 3600 div 60) @ '':'' @
         show_padded 2 (sod mod 60) @ frac_text 9 nanos @ zone_text (t_offset t))"

definition duration_string :: "duration \<Rightarrow> string" where
  "duration_string d =
     (let i = sint d; u = \<bar>i\<bar>;
          body =
            (if u = 0 then ''0s''
             else if u < 1000 then show_int u @ ''ns''
             else if u < 1000000 then show_int (u div 1000) @ frac_text 3 (u mod 1000) @ [CHR 0xC2, CHR 0xB5] @ ''s''
             else if u < 1000000000 then show_int (u div 1000000) @ frac_text 6 (u mod 1000000) @ ''ms''
             else
               let s = u div 1000000000; fr = frac_text 9 (u mod 1000000000);
                   m = s div 60; h = m div 60;
                   secs = show_int (s mod 60) @ fr @ ''s''
               in if m = 0 then secs
                  else if h = 0 then show_int m @ ''m'' @ secs
                  else show_int h @ ''h'' @ show_int (m mod 60) @ ''m'' @ secs)
      in if i < 0 then ''-'' @ body else body)"

text \<open>
  A formatted time is never empty, not even the zero time: an empty time string in the data
  handed to CEL can only come from a condition that is absent.
\<close>

lemma format_rfc3339nano_nonempty [simp]: "format_rfc3339nano t \<noteq> []"
  by (simp add: format_rfc3339nano_def Let_def split: prod.split)

lemma format_zero_time: "format_rfc3339nano zero_time = ''0001-01-01T00:00:00Z''"
  by code_simp

lemma duration_string_nonempty [simp]: "duration_string d \<noteq> []"
  by (simp add: duration_string_def Let_def)

lemma format_sample:
  "format_rfc3339nano \<lparr>t_instant = 63871322400123456000, t_offset = - 19800\<rparr> =
     ''2025-01-01T04:30:00.123456-05:30''"
  by code_simp

lemma duration_sample: "duration_string (word_of_int (- 5400500000000)) = ''-1h30m0.5s''"
  by code_simp

end
