(* ===== verification/Go_Value.thy ===== *)
theory Go_Value
  imports Go_Time
begin

text \<open>
  Values of Go's \<open>interface{}\<close>: what YAML configuration decodes to, what the activations and
  payload maps hold, and what the CEL library hands back. Machine integers keep their width;
  floating-point numbers are carried as their bit patterns and never computed with. A
  \<open>map[string]interface{}\<close> that is a nil map is \<open>GNilMap\<close>, which Go keeps apart
  from both the empty map and the nil interface.
\<close>

datatype gval =
    GNil
  | GBool bool
  | GInt "64 word"
  | GInt32 "32 word"
  | GInt64 "64 word"
  | GFloat32 "32 word"
  | GFloat64 "64 word"
  | GStr string
  | GTime gtime
  | GDuration duration
  | GMap "(string \<times> gval) list"
  | GNilMap
  | GList "gval list"
  | GOther string

text \<open>The type names \<open>%T\<close> prints; \<open>GOther\<close> carries the name of any other type.\<close>

fun type_name :: "gval \<Rightarrow> string" where
  "type_name GNil = ''<nil>''"
| "type_name (GBool _) = ''bool''"
| "type_name (GInt _) = ''int''"
| "type_name (GInt32 _) = ''int32''"
| "type_name (GInt64 _) = ''int64''"
| "type_name (GFloat32 _) = ''float32''"
| "type_name (GFloat64 _) = ''float64''"
| "type_name (GStr _) = ''string''"
| "type_name (GTime _) = ''time.Time''"
| "type_name (GDuration _) = ''time.Duration''"
| "type_name (GMap _) = ''map[string]interface {}''"
| "type_name GNilMap = ''map[string]interface {}''"
| "type_name (GList _) = ''[]interface {}''"
| "type_name (GOther n) = n"

text \<open>The conversion \<open>int64(x)\<close> of an \<open>int32\<close>.\<close>

definition int64_of_int32 :: "32 word \<Rightarrow> 64 word" where
  "int64_of_int32 w = scast w"

lemma sint_int64_of_int32 [simp]: "sint (int64_of_int32 w) = sint w"
  by (simp add: int64_of_int32_def sint_up_scast is_up)

lemma int64_of_int32_inj: "int64_of_int32 v = int64_of_int32 w \<longleftrightarrow> v = w"
  by (metis sint_int64_of_int32 signed_word_eqI)

text \<open>
  The values the code builds itself to hand to CEL or to the event encoder: no nil and no nil
  map anywhere inside, and every map with distinct keys.
\<close>

fun clean_value :: "gval \<Rightarrow> bool" where
  "clean_value GNil = False"
| "clean_value GNilMap = False"
| "clean_value (GMap m) = (distinct (map fst m) \<and> (\<forall>kv \<in> set m. clean_value (snd kv)))"
| "clean_value (GList vs) = (\<forall>v \<in> set vs. clean_value v)"
| "clean_value _ = True"

end
