(* ===== verification/Config.thy ===== *)
theory Config
  imports Go_Value
begin

text \<open>
  The configuration (\<open>internal/config/config.go\<close>): its records, the label selectors, the
  default decision, the built-in defaults, the validation of every part with the error texts
  it produces, and the loading pipeline over the viper library, which is a parameter.
\<close>

section \<open>Data\<close>

record label_selector =
  ls_Label :: string
  ls_Value :: string

type_synonym label_selector_list = "label_selector list"

record param =
  p_Name :: string
  p_Expr :: string

record message_decision_config =
  md_Result :: string
  md_Params :: "param list"

record log_config =
  lc_Level :: string
  lc_Format :: string
  lc_Output :: string

record sentinel_info =
  si_Name :: string

record api_config =
  ac_BaseURL :: string
  ac_Version :: string
  ac_Timeout :: duration

record broker_config =
  bc_Topic :: string

record clients_config =
  cc_HyperFleetAPI :: "api_config option"
  cc_Broker :: "broker_config option"

text \<open>Pointers and the \<open>message_data\<close> map are optional: \<open>None\<close> is nil.\<close>

record sentinel_config =
  sc_Log :: log_config
  sc_Sentinel :: sentinel_info
  sc_ResourceType :: string
  sc_Clients :: clients_config
  sc_MessageData :: "gval gmap option"
  sc_MessageDecision :: "message_decision_config option"
  sc_ResourceSelector :: label_selector_list
  sc_PollInterval :: duration
  sc_DebugConfig :: bool
  sc_TracingEnabled :: bool

section \<open>Label selectors\<close>

text \<open>A nil map has no entries: \<open>len\<close> and \<open>range\<close> treat it as the empty map.\<close>

definition entries_of :: "'v gmap option \<Rightarrow> 'v gmap" where
  "entries_of m = (case m of None \<Rightarrow> [] | Some es \<Rightarrow> es)"

definition ToMap :: "label_selector_list \<Rightarrow> string gmap option" where
  "ToMap ls =
     (if ls = [] then None
      else Some (foldl (\<lambda>result selector.
                    if ls_Label selector \<noteq> [] then gmap_put (ls_Label selector) (ls_Value selector) result
                    else result) [] ls))"

lemma entries_of_simps [simp]: "entries_of None = []" "entries_of (Some m) = m"
  by (simp_all add: entries_of_def)

lemma ToMap_filter:
  "entries_of (ToMap ls) =
     foldl (\<lambda>m s. gmap_put (ls_Label s) (ls_Value s) m) [] (filter (\<lambda>s. ls_Label s \<noteq> []) ls)"
proof -
  have "foldl (\<lambda>result selector. if ls_Label selector \<noteq> []
            then gmap_put (ls_Label selector) (ls_Value selector) result else result) m ls =
        foldl (\<lambda>m s. gmap_put (ls_Label s) (ls_Value s) m) m (filter (\<lambda>s. ls_Label s \<noteq> []) ls)"
    for m by (induction ls arbitrary: m) auto
  then show ?thesis by (auto simp: ToMap_def)
qed

lemma ToMap_ok: "gmap_ok (entries_of (ToMap ls))"
  unfolding ToMap_filter by (intro gm.ok_fold_put gm.ok_empty)

lemma ToMap_get:
  "gmap_get (entries_of (ToMap ls)) k =
     map_option ls_Value (find (\<lambda>s. ls_Label s = k \<and> k \<noteq> []) (rev ls))"
proof -
  have find_eq: "find (\<lambda>s. ls_Label s = k) (filter (\<lambda>s. ls_Label s \<noteq> []) xs) =
        find (\<lambda>s. ls_Label s = k \<and> k \<noteq> []) xs" for xs
    by (induction xs) auto
  show ?thesis
    by (simp add: ToMap_filter gm.get_fold_put rev_filter find_eq split: option.split)
qed

section \<open>The default decision and the default configuration\<close>

definition mk_param :: "string \<Rightarrow> string \<Rightarrow> param" where
  "mk_param n e = \<lparr>p_Name = n, p_Expr = e\<rparr>"

definition expr_ref_time :: string where
  "expr_ref_time = ''condition(\"Reconciled\").last_updated_time''"

definition expr_is_reconciled :: string where
  "expr_is_reconciled = ''condition(\"Reconciled\").status == \"True\"''"

definition expr_has_ref_time :: string where
  "expr_has_ref_time = ''ref_time != \"\"''"

definition expr_is_new_resource :: string where
  "expr_is_new_resource = ''!is_reconciled && resource.generation == 1''"

definition expr_generation_mismatch :: string where
  "expr_generation_mismatch = ''resource.generation > condition(\"Reconciled\").observed_generation''"

definition expr_reconciled_and_stale :: string where
  "expr_reconciled_and_stale =
     ''is_reconciled && has_ref_time && now - timestamp(ref_time) > duration(\"30m\")''"

definition expr_not_reconciled_and_debounced :: string where
  "expr_not_reconciled_and_debounced =
     ''!is_reconciled && has_ref_time && now - timestamp(ref_time) > duration(\"10s\")''"

definition expr_result :: string where
  "expr_result =
     ''is_new_resource || generation_mismatch || reconciled_and_stale || not_reconciled_and_debounced''"

definition DefaultMessageDecision :: message_decision_config where
  "DefaultMessageDecision =
     \<lparr>md_Result = expr_result,
      md_Params =
        [mk_param ''ref_time'' expr_ref_time,
         mk_param ''is_reconciled'' expr_is_reconciled,
         mk_param ''has_ref_time'' expr_has_ref_time,
         mk_param ''is_new_resource'' expr_is_new_resource,
         mk_param ''generation_mismatch'' expr_generation_mismatch,
         mk_param ''reconciled_and_stale'' expr_reconciled_and_stale,
         mk_param ''not_reconciled_and_debounced'' expr_not_reconciled_and_debounced]\<rparr>"

definition NewSentinelConfig :: sentinel_config where
  "NewSentinelConfig =
     \<lparr>sc_Log = \<lparr>lc_Level = ''info'', lc_Format = ''json'', lc_Output = ''stdout''\<rparr>,
      sc_Sentinel = \<lparr>si_Name = ''hyperfleet-sentinel''\<rparr>,
      sc_ResourceType = [],
      sc_Clients =
        \<lparr>cc_HyperFleetAPI =
           Some \<lparr>ac_BaseURL = [], ac_Version = ''v1'', ac_Timeout = 10 * second\<rparr>,
         cc_Broker = Some \<lparr>bc_Topic = []\<rparr>\<rparr>,
      sc_MessageData = None,
      sc_MessageDecision = None,
      sc_ResourceSelector = [],
      sc_PollInterval = 5 * second,
      sc_DebugConfig = False,
      sc_TracingEnabled = True\<rparr>"

section \<open>Validation\<close>

record field_remediation =
  fr_Flag :: string
  fr_Env :: string
  fr_File :: string

definition fieldRemediations :: "field_remediation gmap" where
  "fieldRemediations =
    [(''sentinel.name'',
      \<lparr>fr_Flag = ''--name'', fr_Env = ''HYPERFLEET_SENTINEL_NAME'', fr_File = ''sentinel.name''\<rparr>),
     (''resource_type'',
      \<lparr>fr_Flag = ''--resource-type'', fr_Env = ''HYPERFLEET_RESOURCE_TYPE'', fr_File = ''resource_type''\<rparr>),
     (''clients.hyperfleet_api'',
      \<lparr>fr_Flag = [], fr_Env = [], fr_File = ''clients.hyperfleet_api''\<rparr>),
     (''clients.hyperfleet_api.base_url'',
      \<lparr>fr_Flag = ''--hyperfleet-api-base-url'', fr_Env = ''HYPERFLEET_API_BASE_URL'',
       fr_File = ''clients.hyperfleet_api.base_url''\<rparr>),
     (''poll_interval'',
      \<lparr>fr_Flag = ''--poll-interval'', fr_Env = ''HYPERFLEET_POLL_INTERVAL'', fr_File = ''poll_interval''\<rparr>),
     (''message_decision'', \<lparr>fr_Flag = [], fr_Env = [], fr_File = ''message_decision''\<rparr>),
     (''message_data'', \<lparr>fr_Flag = [], fr_Env = [], fr_File = ''message_data''\<rparr>),
     (''tracing_enabled'',
      \<lparr>fr_Flag = ''--tracing-enabled'', fr_Env = ''HYPERFLEET_TRACING_ENABLED'',
       fr_File = ''tracing_enabled''\<rparr>)]"

definition newline :: string where
  "newline = [CHR 0x0A]"

text \<open>The bullet of the remediation lines is the UTF-8 form of U+2022.\<close>

definition bullet :: string where
  "bullet = ''  '' @ [CHR 0xE2, CHR 0x80, CHR 0xA2] @ '' ''"

definition quoted1 :: "string \<Rightarrow> string" where
  "quoted1 s = [CHR 0x27] @ s @ [CHR 0x27]"

text \<open>The variadic \<open>actualValue\<close> is a list, of which the first element counts.\<close>

definition validationErr :: "string \<Rightarrow> string \<Rightarrow> string list \<Rightarrow> go_error" where
  "validationErr field reason actualValue =
     ErrText
       (''Field '' @ quoted1 field @ '' failed validation: '' @ reason @ newline @
        (case actualValue of [] \<Rightarrow> [] | a # _ \<Rightarrow>
           if a \<noteq> [] then ''  Actual value: '' @ a @ newline else []) @
        ''Please provide via:'' @ newline @
        (case gmap_get fieldRemediations field of
           None \<Rightarrow> []
         | Some rem \<Rightarrow>
             (if fr_Flag rem \<noteq> [] then bullet @ ''Flag: '' @ fr_Flag rem @ newline else []) @
             (if fr_Env rem \<noteq> [] then bullet @ ''Env:  '' @ fr_Env rem @ newline else []) @
             (if fr_File rem \<noteq> [] then bullet @ ''File: '' @ fr_File rem @ newline else [])))"

fun contains :: "string list \<Rightarrow> string \<Rightarrow> bool" where
  "contains [] value = False"
| "contains (v # vs) value = (if v = value then True else contains vs value)"

lemma contains_iff [simp]: "contains xs v \<longleftrightarrow> v \<in> set xs"
  by (induction xs) auto

text \<open>The parameter loop of \<open>MessageDecisionConfig.Validate\<close>; \<open>seen\<close> is \<open>seenNames\<close>.\<close>

fun validate_params :: "bool gmap \<Rightarrow> param list \<Rightarrow> go_error option" where
  "validate_params seen [] = None"
| "validate_params seen (p # ps) =
     (if p_Name p = [] then Some (ErrText ''param has empty name'')
      else if p_Expr p = [] then
        Some (ErrText (''param '' @ go_quote (p_Name p) @ '' has empty expression''))
      else if gmap_get seen (p_Name p) = Some True then
        Some (ErrText (''param '' @ go_quote (p_Name p) @ '' is defined more than once''))
      else validate_params (gmap_put (p_Name p) True seen) ps)"

definition MessageDecision_Validate :: "message_decision_config \<Rightarrow> go_error option" where
  "MessageDecision_Validate md =
     (if md_Result md = [] then Some (ErrText ''result expression is required'')
      else validate_params [] (md_Params md))"

definition nil_leaf_error :: "string \<Rightarrow> go_error" where
  "nil_leaf_error key = ErrText (key @ '': nil value is not allowed; every leaf must be a non-empty CEL expression string (was the field left blank in the config?)'')"

definition empty_leaf_error :: "string \<Rightarrow> go_error" where
  "empty_leaf_error key = ErrText (key @ '': empty CEL expression is not allowed; every leaf must be a non-empty CEL expression string'')"

fun validateMessageDataLeaves :: "(string \<times> gval) list \<Rightarrow> string \<Rightarrow> go_error option" where
  "validateMessageDataLeaves [] path = None"
| "validateMessageDataLeaves ((k, GNil) # data) path = Some (nil_leaf_error (path @ ''.'' @ k))"
| "validateMessageDataLeaves ((k, GStr val) # data) path =
     (if val = [] then Some (empty_leaf_error (path @ ''.'' @ k))
      else validateMessageDataLeaves data path)"
| "validateMessageDataLeaves ((k, GMap val) # data) path =
     (case validateMessageDataLeaves val (path @ ''.'' @ k) of
        Some err \<Rightarrow> Some err
      | None \<Rightarrow> validateMessageDataLeaves data path)"
| "validateMessageDataLeaves ((k, _) # data) path = validateMessageDataLeaves data path"

definition validResourceTypes :: "string list" where
  "validResourceTypes = [''clusters'', ''nodepools'']"

definition Validate :: "sentinel_config \<Rightarrow> go_error option" where
  "Validate c =
     (if si_Name (sc_Sentinel c) = [] then Some (validationErr ''sentinel.name'' ''required'' [])
      else if sc_ResourceType c = [] then Some (validationErr ''resource_type'' ''required'' [])
      else if \<not> contains validResourceTypes (sc_ResourceType c) then
        Some (validationErr ''resource_type''
          (''invalid value '' @ go_quote (sc_ResourceType c) @ '' (must be one of: '' @
           join '', '' validResourceTypes @ '')'') [])
      else case cc_HyperFleetAPI (sc_Clients c) of
        None \<Rightarrow> Some (validationErr ''clients.hyperfleet_api'' ''required'' [])
      | Some api \<Rightarrow>
          if ac_BaseURL api = [] then Some (validationErr ''clients.hyperfleet_api.base_url'' ''required'' [])
          else if sint (sc_PollInterval c) \<le> 0 then
            Some (validationErr ''poll_interval'' ''must be positive'' [duration_string (sc_PollInterval c)])
          else case sc_MessageDecision c of
            None \<Rightarrow> Some (validationErr ''message_decision'' ''required'' [])
          | Some md \<Rightarrow>
              (case MessageDecision_Validate md of
                 Some err \<Rightarrow> Some (ErrWrap ''message_decision'' err)
               | None \<Rightarrow>
                   (case sc_MessageData c of
                      None \<Rightarrow> Some (validationErr ''message_data'' ''required'' [])
                    | Some data \<Rightarrow> validateMessageDataLeaves data ''message_data'')))"

section \<open>What validation accepts\<close>

text \<open>The two recursive checks, as conditions on the configuration.\<close>

definition decision_ok :: "message_decision_config \<Rightarrow> bool" where
  "decision_ok md \<longleftrightarrow>
     md_Result md \<noteq> [] \<and> (\<forall>p \<in> set (md_Params md). p_Name p \<noteq> [] \<and> p_Expr p \<noteq> []) \<and>
     distinct (map p_Name (md_Params md))"

fun leaf_ok :: "gval \<Rightarrow> bool" where
  "leaf_ok GNil = False"
| "leaf_ok (GStr s) = (s \<noteq> [])"
| "leaf_ok (GMap m) = (\<forall>kv \<in> set m. leaf_ok (snd kv))"
| "leaf_ok _ = True"

definition config_ok :: "sentinel_config \<Rightarrow> bool" where
  "config_ok c \<longleftrightarrow>
     si_Name (sc_Sentinel c) \<noteq> [] \<and> sc_ResourceType c \<in> set validResourceTypes \<and>
     (\<exists>api. cc_HyperFleetAPI (sc_Clients c) = Some api \<and> ac_BaseURL api \<noteq> []) \<and>
     0 < sint (sc_PollInterval c) \<and>
     (\<exists>md. sc_MessageDecision c = Some md \<and> decision_ok md) \<and>
     (\<exists>data. sc_MessageData c = Some data \<and> leaf_ok (GMap data))"

lemma validate_params_iff:
  "validate_params seen ps = None \<longleftrightarrow>
     (\<forall>p \<in> set ps. p_Name p \<noteq> [] \<and> p_Expr p \<noteq> [] \<and> gmap_get seen (p_Name p) \<noteq> Some True) \<and>
     distinct (map p_Name ps)"
proof (induction seen ps rule: validate_params.induct)
  case (1 seen)
  show ?case by simp
next
  case (2 seen p ps)
  show ?case
  proof (cases "p_Name p = [] \<or> p_Expr p = [] \<or> gmap_get seen (p_Name p) = Some True")
    case True
    then show ?thesis by auto
  next
    case False
    let ?seen = "gmap_put (p_Name p) True seen"
    have put: "gmap_get ?seen n \<noteq> Some True \<longleftrightarrow> n \<noteq> p_Name p \<and> gmap_get seen n \<noteq> Some True" for n
      by (simp add: gm.get_put)
    from False have step: "validate_params seen (p # ps) = validate_params ?seen ps"
      by simp
    from False have IH: "validate_params ?seen ps = None \<longleftrightarrow>
        (\<forall>q \<in> set ps. p_Name q \<noteq> [] \<and> p_Expr q \<noteq> [] \<and> p_Name q \<noteq> p_Name p \<and>
           gmap_get seen (p_Name q) \<noteq> Some True) \<and> distinct (map p_Name ps)"
      using 2 unfolding put by blast
    have names: "distinct (map p_Name (p # ps)) \<longleftrightarrow>
        (\<forall>q \<in> set ps. p_Name q \<noteq> p_Name p) \<and> distinct (map p_Name ps)"
      by (auto simp: image_def)
    show ?thesis
      unfolding step IH names using False by auto
  qed
qed

lemma MessageDecision_Validate_iff: "MessageDecision_Validate md = None \<longleftrightarrow> decision_ok md"
  by (auto simp: MessageDecision_Validate_def decision_ok_def validate_params_iff)

lemma validateMessageDataLeaves_iff:
  "validateMessageDataLeaves data path = None \<longleftrightarrow> leaf_ok (GMap data)"
  by (induction data path rule: validateMessageDataLeaves.induct)
    (auto split: option.splits)

lemma validResourceTypes_nonempty: "rt \<in> set validResourceTypes \<Longrightarrow> rt \<noteq> []"
  by (auto simp: validResourceTypes_def)

lemma validate_iff_config_ok: "Validate c = None \<longleftrightarrow> config_ok c"
  unfolding config_ok_def MessageDecision_Validate_iff [symmetric]
    validateMessageDataLeaves_iff [of _ "''message_data''", symmetric]
  by (auto simp: Validate_def not_le dest: validResourceTypes_nonempty split: option.split)

lemma default_decision_ok: "decision_ok DefaultMessageDecision"
  by (simp add: decision_ok_def DefaultMessageDecision_def mk_param_def expr_ref_time_def
      expr_is_reconciled_def expr_has_ref_time_def expr_is_new_resource_def
      expr_generation_mismatch_def expr_reconciled_and_stale_def
      expr_not_reconciled_and_debounced_def expr_result_def)

section \<open>The redacted copy as a value\<close>

text \<open>
  \<open>RedactedCopy\<close> read as a function on values: each section that is there is replaced by its copy,
  the map by a new one with the same entries. What the copy shares with its original is the
  subject of another theory.
\<close>

definition redacted :: "sentinel_config \<Rightarrow> sentinel_config" where
  "redacted c =
     (let cp = c;
          cp = (case cc_HyperFleetAPI (sc_Clients cp) of
                  None \<Rightarrow> cp
                | Some api \<Rightarrow> cp\<lparr>sc_Clients := (sc_Clients cp)\<lparr>cc_HyperFleetAPI := Some api\<rparr>\<rparr>);
          cp = (case cc_Broker (sc_Clients cp) of
                  None \<Rightarrow> cp
                | Some b \<Rightarrow> cp\<lparr>sc_Clients := (sc_Clients cp)\<lparr>cc_Broker := Some b\<rparr>\<rparr>);
          cp = cp\<lparr>sc_ResourceSelector := sc_ResourceSelector c\<rparr>;
          cp = (case sc_MessageData c of
                  None \<Rightarrow> cp
                | Some data \<Rightarrow> cp\<lparr>sc_MessageData := Some (map (\<lambda>(k, v). (k, v)) data)\<rparr>)
      in cp)"

lemma redacted_same [simp]: "redacted c = c"
  by (simp add: redacted_def Let_def split: option.split)

end
