(* ===== verification/Log_Context.thy ===== *)
theory Log_Context
  imports Go_Value
begin

text \<open>
  The context values the logger reads (\<open>pkg/logger/operationid_middleware.go\<close>). Each key has a
  Go type of its own, so two keys never collide; a context is the chain of its
  \<open>context.WithValue\<close> calls, the latest first, and a look-up finds the latest.
  \<open>ActiveSpan\<close> is the entry OpenTelemetry makes in a context for the span it belongs to.
\<close>

datatype ctx_key =
    OpIDKey
  | TxIDKey
  | TraceIDCtxKey
  | SpanIDCtxKey
  | DecisionReasonCtxKey
  | TopicCtxKey
  | SubsetCtxKey
  | ActiveSpan nat

type_synonym context_values = "(ctx_key \<times> gval) list"

definition ctx_WithValue :: "context_values \<Rightarrow> ctx_key \<Rightarrow> gval \<Rightarrow> context_values" where
  "ctx_WithValue ctx k v = (k, v) # ctx"

definition ctx_Value :: "context_values \<Rightarrow> ctx_key \<Rightarrow> gval" where
  "ctx_Value ctx k = (case map_of ctx k of None \<Rightarrow> GNil | Some v \<Rightarrow> v)"

fun active_span :: "context_values \<Rightarrow> nat option" where
  "active_span [] = None"
| "active_span ((k, v) # ctx) = (case k of ActiveSpan n \<Rightarrow> Some n | _ \<Rightarrow> active_span ctx)"

definition WithTraceID :: "context_values \<Rightarrow> string \<Rightarrow> context_values" where
  "WithTraceID ctx traceID = ctx_WithValue ctx TraceIDCtxKey (GStr traceID)"

definition WithSpanID :: "context_values \<Rightarrow> string \<Rightarrow> context_values" where
  "WithSpanID ctx spanID = ctx_WithValue ctx SpanIDCtxKey (GStr spanID)"

definition WithDecisionReason :: "context_values \<Rightarrow> string \<Rightarrow> context_values" where
  "WithDecisionReason ctx reason = ctx_WithValue ctx DecisionReasonCtxKey (GStr reason)"

definition WithTopic :: "context_values \<Rightarrow> string \<Rightarrow> context_values" where
  "WithTopic ctx topic = ctx_WithValue ctx TopicCtxKey (GStr topic)"

definition WithSubset :: "context_values \<Rightarrow> string \<Rightarrow> context_values" where
  "WithSubset ctx s = ctx_WithValue ctx SubsetCtxKey (GStr s)"

definition WithSentinelFields ::
    "context_values \<Rightarrow> string \<Rightarrow> string \<Rightarrow> string \<Rightarrow> context_values" where
  "WithSentinelFields ctx decisionReason topic s =
     WithSubset (WithTopic (WithDecisionReason ctx decisionReason) topic) s"

lemmas ctx_setters =
  WithTraceID_def WithSpanID_def WithDecisionReason_def WithTopic_def WithSubset_def

lemma ctx_Value_WithValue [simp]:
  "ctx_Value (ctx_WithValue ctx k v) k' = (if k' = k then v else ctx_Value ctx k')"
  by (simp add: ctx_Value_def ctx_WithValue_def)

lemma ctx_Value_Nil [simp]: "ctx_Value [] k = GNil"
  by (simp add: ctx_Value_def)

lemma ctx_Value_setters [simp]:
  "ctx_Value (WithTraceID ctx s) k = (if k = TraceIDCtxKey then GStr s else ctx_Value ctx k)"
  "ctx_Value (WithSpanID ctx s) k = (if k = SpanIDCtxKey then GStr s else ctx_Value ctx k)"
  "ctx_Value (WithDecisionReason ctx s) k =
     (if k = DecisionReasonCtxKey then GStr s else ctx_Value ctx k)"
  "ctx_Value (WithTopic ctx s) k = (if k = TopicCtxKey then GStr s else ctx_Value ctx k)"
  "ctx_Value (WithSubset ctx s) k = (if k = SubsetCtxKey then GStr s else ctx_Value ctx k)"
  by (simp_all add: ctx_setters)

lemma active_span_setters [simp]:
  "active_span (WithTraceID ctx s) = active_span ctx"
  "active_span (WithSpanID ctx s) = active_span ctx"
  "active_span (WithDecisionReason ctx s) = active_span ctx"
  "active_span (WithTopic ctx s) = active_span ctx"
  "active_span (WithSubset ctx s) = active_span ctx"
  by (simp_all add: ctx_setters ctx_WithValue_def)

end
