(* ===== verification/Client.thy ===== *)
theory Client
  imports Config Log_Context
begin

text \<open>
  The API client (\<open>internal/client/client.go\<close>): the resources it hands out, the search
  string, one fetch with its error classification, the conversion of the API's items, and the
  retried fetch. The OpenAPI client and the backoff library are parameters: the record
  \<open>api_client\<close> answers one call, and \<open>retry\<close> runs an operation until it stops.
\<close>

section \<open>Resources\<close>

record condition =
  c_Type :: string
  c_Status :: string
  c_LastTransitionTime :: gtime
  c_LastUpdatedTime :: gtime
  c_ObservedGeneration :: "32 word"
  c_Reason :: string
  c_Message :: string

record owner_reference =
  o_ID :: string
  o_Href :: string
  o_Kind :: string

record resource =
  r_CreatedTime :: gtime
  r_UpdatedTime :: gtime
  r_Labels :: "string gmap option"
  r_OwnerReferences :: "owner_reference option"
  r_Metadata :: "gval gmap option"
  r_ID :: string
  r_Href :: string
  r_Kind :: string
  r_Conditions :: "condition list"
  r_Generation :: "32 word"

definition ResourceTypeClusters :: string where
  "ResourceTypeClusters = ''clusters''"

definition ResourceTypeNodePools :: string where
  "ResourceTypeNodePools = ''nodepools''"

section \<open>The search string\<close>

definition render_label :: "string \<times> string \<Rightarrow> string" where
  "render_label kv =
     ''labels.'' @ fst kv @ ''='' @ quoted1 (replace_char CHR 0x27 [CHR 0x27, CHR 0x27] (snd kv))"

definition labelSelectorToSearchString :: "string gmap \<Rightarrow> string" where
  "labelSelectorToSearchString labelSelector =
     (if length labelSelector = 0 then []
      else join '' and '' (sort (map render_label labelSelector)))"

definition buildSearchString :: "string gmap \<Rightarrow> string list \<Rightarrow> string" where
  "buildSearchString labelSelector additionalFilters =
     (let labelSearch = labelSelectorToSearchString labelSelector;
          parts = (if labelSearch \<noteq> [] then [labelSearch] else []) @
                  filter (\<lambda>f. f \<noteq> []) additionalFilters
      in join '' and '' parts)"

section \<open>Errors\<close>

definition StatusTooManyRequests :: int where "StatusTooManyRequests = 429"
definition StatusRequestTimeout :: int where "StatusRequestTimeout = 408"
definition StatusOK :: int where "StatusOK = 200"

definition isHTTPStatusRetriable :: "int \<Rightarrow> bool" where
  "isHTTPStatusRetriable statusCode =
     (if 500 \<le> statusCode \<and> statusCode < 600 then True
      else if statusCode = StatusTooManyRequests then True
      else if statusCode = StatusRequestTimeout then True
      else False)"

definition isRetriable :: "go_error \<Rightarrow> bool" where
  "isRetriable err = (case as_api_error err of Some apiErr \<Rightarrow> ae_Retriable apiErr | None \<Rightarrow> False)"

section \<open>The API's answers\<close>

text \<open>
  The generated types, as far as the client reads them. A reply is an error, a nil response
  without error (which \<open>VerifyConnectivity\<close> checks and the fetches dereference: a panic),
  or a response; \<open>rp_HTTPStatus\<close> is \<open>None\<close> for a nil \<open>HTTPResponse\<close> and \<open>rp_Items\<close>
  for a nil \<open>JSON200\<close>.
\<close>

record api_condition =
  ap_Type :: string
  ap_Status :: string
  ap_LastTransitionTime :: gtime
  ap_LastUpdatedTime :: gtime
  ap_ObservedGeneration :: "32 word"
  ap_Reason :: "string option"
  ap_Message :: "string option"

record api_item =
  it_Id :: "string option"
  it_Href :: "string option"
  it_Kind :: "string option"
  it_Generation :: "32 word"
  it_CreatedTime :: gtime
  it_UpdatedTime :: gtime
  it_Labels :: "string gmap option"
  it_Conditions :: "api_condition list"

record api_owner =
  ow_Id :: "string option"
  ow_Href :: "string option"
  ow_Kind :: "string option"

record nodepool_item = api_item +
  it_OwnerReferences :: api_owner

record 'item api_response =
  rp_HTTPStatus :: "int option"
  rp_Items :: "'item list option"

datatype 'item api_reply = ReplyErr go_error | ReplyNil | Reply "'item api_response"

text \<open>
  One call to the server, and the whole of the client's traffic: the calls made, the debug lines
  logged between them, the server state.
\<close>

datatype api_call = CallClusters "string option" | CallNodePools "string option"

record 'w net =
  net_calls :: "api_call list"
  net_debug :: "string list"
  net_server :: 'w

record 'w api_client =
  GetClusters :: "string option \<Rightarrow> 'w \<Rightarrow> api_item api_reply \<times> 'w"
  GetNodePools :: "string option \<Rightarrow> 'w \<Rightarrow> nodepool_item api_reply \<times> 'w"

definition GetClustersWithResponse ::
    "'w api_client \<Rightarrow> string option \<Rightarrow> 'w net \<Rightarrow> api_item api_reply \<times> 'w net" where
  "GetClustersWithResponse api search net =
     (let (reply, w) = GetClusters api search (net_server net)
      in (reply, net\<lparr>net_calls := net_calls net @ [CallClusters search], net_server := w\<rparr>))"

definition GetNodePoolsWithResponse ::
    "'w api_client \<Rightarrow> string option \<Rightarrow> 'w net \<Rightarrow> nodepool_item api_reply \<times> 'w net" where
  "GetNodePoolsWithResponse api search net =
     (let (reply, w) = GetNodePools api search (net_server net)
      in (reply, net\<lparr>net_calls := net_calls net @ [CallNodePools search], net_server := w\<rparr>))"

section \<open>Conversion\<close>

definition deref :: "string option \<Rightarrow> string" where
  "deref p = (case p of None \<Rightarrow> [] | Some s \<Rightarrow> s)"

definition convert_condition :: "api_condition \<Rightarrow> condition" where
  "convert_condition cond =
     \<lparr>c_Type = ap_Type cond, c_Status = ap_Status cond,
      c_LastTransitionTime = ap_LastTransitionTime cond,
      c_LastUpdatedTime = ap_LastUpdatedTime cond,
      c_ObservedGeneration = ap_ObservedGeneration cond,
      c_Reason = deref (ap_Reason cond), c_Message = deref (ap_Message cond)\<rparr>"

definition convert_cluster :: "('a api_item_scheme) \<Rightarrow> resource" where
  "convert_cluster item =
     \<lparr>r_CreatedTime = it_CreatedTime item, r_UpdatedTime = it_UpdatedTime item,
      r_Labels = it_Labels item, r_OwnerReferences = None, r_Metadata = None,
      r_ID = deref (it_Id item), r_Href = deref (it_Href item), r_Kind = deref (it_Kind item),
      r_Conditions = map convert_condition (it_Conditions item),
      r_Generation = it_Generation item\<rparr>"

definition convert_nodepool :: "nodepool_item \<Rightarrow> resource" where
  "convert_nodepool item =
     (let ownerRef = it_OwnerReferences item;
          ref = \<lparr>o_ID = deref (ow_Id ownerRef), o_Href = deref (ow_Href ownerRef),
                 o_Kind = deref (ow_Kind ownerRef)\<rparr>
      in (convert_cluster item)
           \<lparr>r_OwnerReferences :=
              (if o_ID ref \<noteq> [] \<or> o_Href ref \<noteq> [] \<or> o_Kind ref \<noteq> [] then Some ref else None)\<rparr>)"

section \<open>One fetch\<close>

definition transport_error :: "go_error \<Rightarrow> go_error" where
  "transport_error err =
     (if as_url_timeout err = Some True
      then ErrAPI \<lparr>ae_Message = ''request timeout'', ae_StatusCode = 0, ae_Retriable = True\<rparr>
      else ErrAPI \<lparr>ae_Message = ''network error: '' @ error_text err, ae_StatusCode = 0,
                   ae_Retriable = True\<rparr>)"

definition status_error :: "int \<Rightarrow> go_error" where
  "status_error code =
     ErrAPI \<lparr>ae_Message = ''API request failed with status '' @ show_int code,
             ae_StatusCode = code, ae_Retriable = isHTTPStatusRetriable code\<rparr>"

definition nil_body_error :: go_error where
  "nil_body_error =
     ErrAPI \<lparr>ae_Message = ''received nil response from API'', ae_StatusCode = 0,
             ae_Retriable = False\<rparr>"

text \<open>What both fetches do with a reply; \<open>None\<close> is the panic on a nil response.\<close>

definition handle_reply :: "('item \<Rightarrow> resource) \<Rightarrow> 'item api_reply \<Rightarrow> (go_error + resource list) option" where
  "handle_reply convert reply =
     (case reply of
        ReplyErr err \<Rightarrow> Some (Inl (transport_error err))
      | ReplyNil \<Rightarrow> None
      | Reply response \<Rightarrow>
          (case rp_HTTPStatus response of
             Some code \<Rightarrow>
               if code \<ge> 400 then Some (Inl (status_error code))
               else (case rp_Items response of
                       None \<Rightarrow> Some (Inl nil_body_error)
                     | Some items \<Rightarrow> Some (Inr (map convert items)))
           | None \<Rightarrow>
               (case rp_Items response of
                  None \<Rightarrow> Some (Inl nil_body_error)
                | Some items \<Rightarrow> Some (Inr (map convert items)))))"

definition search_param :: "string \<Rightarrow> string option" where
  "search_param searchParam = (if searchParam \<noteq> [] then Some searchParam else None)"

definition fetchClusters ::
    "'w api_client \<Rightarrow> string \<Rightarrow> 'w net \<Rightarrow> (go_error + resource list) option \<times> 'w net" where
  "fetchClusters api searchParam net =
     (let (reply, net') = GetClustersWithResponse api (search_param searchParam) net
      in (handle_reply convert_cluster reply, net'))"

definition fetchNodePools ::
    "'w api_client \<Rightarrow> string \<Rightarrow> 'w net \<Rightarrow> (go_error + resource list) option \<times> 'w net" where
  "fetchNodePools api searchParam net =
     (let (reply, net') = GetNodePoolsWithResponse api (search_param searchParam) net
      in (handle_reply convert_nodepool reply, net'))"

definition fetchResourcesOnce ::
    "'w api_client \<Rightarrow> string \<Rightarrow> string gmap \<Rightarrow> string list \<Rightarrow> 'w net \<Rightarrow>
     (go_error + resource list) option \<times> 'w net" where
  "fetchResourcesOnce api resourceType labelSelector additionalFilters net =
     (let searchParam = buildSearchString labelSelector additionalFilters in
      if resourceType = ResourceTypeClusters then fetchClusters api searchParam net
      else if resourceType = ResourceTypeNodePools then fetchNodePools api searchParam net
      else (Some (Inl (ErrText (''unsupported resource type: '' @ resourceType))), net))"

section \<open>The retried fetch\<close>

text \<open>
  What one run of an operation tells the backoff library: a result, an error to retry after,
  an error wrapped in \<open>backoff.Permanent\<close>, or a panic.
\<close>

datatype 'a op_result = OpOk 'a | OpRetry go_error | OpPermanent go_error | OpPanic

record backoff_config =
  bo_InitialInterval :: duration
  bo_MaxInterval :: duration
  bo_Multiplier :: rat
  bo_RandomizationFactor :: rat
  bo_MaxElapsedTime :: duration

definition DefaultInitialInterval :: duration where "DefaultInitialInterval = 500000000"
definition DefaultMaxInterval :: duration where "DefaultMaxInterval = 8 * second"
definition DefaultMaxElapsedTime :: duration where "DefaultMaxElapsedTime = 30 * second"
definition DefaultMultiplier :: rat where "DefaultMultiplier = 2"
definition DefaultRandomizationFactor :: rat where "DefaultRandomizationFactor = 1 / 10"

definition fetch_backoff :: backoff_config where
  "fetch_backoff =
     \<lparr>bo_InitialInterval = DefaultInitialInterval, bo_MaxInterval = DefaultMaxInterval,
      bo_Multiplier = DefaultMultiplier, bo_RandomizationFactor = DefaultRandomizationFactor,
      bo_MaxElapsedTime = DefaultMaxElapsedTime\<rparr>"

type_synonym ('a, 's) retrier =
  "backoff_config \<Rightarrow> ('s \<Rightarrow> 'a op_result \<times> 's) \<Rightarrow> 's \<Rightarrow> (go_error + 'a) option \<times> 's"

definition debug_line :: "string \<Rightarrow> 'w net \<Rightarrow> 'w net" where
  "debug_line text net = net\<lparr>net_debug := net_debug net @ [text]\<rparr>"

lemma debug_line_frame [simp]:
  "net_calls (debug_line text net) = net_calls net" "net_server (debug_line text net) = net_server net"
  by (simp_all add: debug_line_def)

definition fetch_operation ::
    "'w api_client \<Rightarrow> string \<Rightarrow> string gmap \<Rightarrow> string list \<Rightarrow> 'w net \<Rightarrow>
     resource list op_result \<times> 'w net" where
  "fetch_operation api resourceType labelSelector additionalFilters net =
     (case fetchResourcesOnce api resourceType labelSelector additionalFilters net of
        (None, net') \<Rightarrow> (OpPanic, net')
      | (Some (Inr resources), net') \<Rightarrow> (OpOk resources, net')
      | (Some (Inl err), net') \<Rightarrow>
          if isRetriable err
          then (OpRetry err, debug_line (''Retriable error fetching '' @ resourceType @ '': '' @
                  error_text err @ '' (will retry)'') net')
          else (OpPermanent err, debug_line (''Non-retriable error fetching '' @ resourceType @ '': '' @
                  error_text err @ '' (will not retry)'') net'))"

definition FetchResources ::
    "'w api_client \<Rightarrow> (resource list, 'w net) retrier \<Rightarrow> context_values option \<Rightarrow> string \<Rightarrow>
     string gmap \<Rightarrow> string list \<Rightarrow> 'w net \<Rightarrow> (go_error + resource list) option \<times> 'w net" where
  "FetchResources api retry ctx resourceType labelSelector additionalFilters net =
     (if ctx = None then (Some (Inl (ErrText ''context cannot be nil'')), net)
      else if resourceType \<noteq> ResourceTypeClusters \<and> resourceType \<noteq> ResourceTypeNodePools then
        (Some (Inl (ErrText (''invalid resourceType: '' @ go_quote resourceType @ '' (must be one of: '' @
           go_quote ResourceTypeClusters @ '', '' @ go_quote ResourceTypeNodePools @ '')''))), net)
      else case retry fetch_backoff
                  (fetch_operation api resourceType labelSelector additionalFilters) net of
          (None, net') \<Rightarrow> (None, net')
        | (Some (Inl err), net') \<Rightarrow>
            (Some (Inl (ErrWrap (''failed to fetch '' @ resourceType @ '' after retries'') err)), net')
        | (Some (Inr resources), net') \<Rightarrow> (Some (Inr resources), net'))"

section \<open>Connectivity\<close>

definition VerifyConnectivity :: "'w api_client \<Rightarrow> 'w net \<Rightarrow> go_error option \<times> 'w net" where
  "VerifyConnectivity api net =
     (let search = labelSelectorToSearchString [(''non_existing_label'', ''value'')];
          (reply, net') = GetClustersWithResponse api (Some search) net
      in (case reply of
            ReplyErr err \<Rightarrow> Some (ErrWrap ''an error occurred while fetching clusters'' err)
          | ReplyNil \<Rightarrow> Some (ErrText ''could not verify connectivity: received nil response'')
          | Reply response \<Rightarrow>
              (let code = (case rp_HTTPStatus response of None \<Rightarrow> 0 | Some c \<Rightarrow> c)
               in if code = StatusOK then None
                  else Some (ErrText (''could not verify connectivity: response status code '' @
                         show_int code))), net'))"

subsection \<open>Rendered selectors can be read back\<close>

text \<open>
  The reader of the search language for the shape the client writes: a sequence of
  \<open>labels.<key>='<value>'\<close> terms joined by \<open>and\<close>, where a doubled quote inside a literal
  stands for one quote.
\<close>

fun read_quoted :: "string \<Rightarrow> (string \<times> string) option" where
  "read_quoted [] = None"
| "read_quoted [c] = (if c = CHR 0x27 then Some ([], []) else None)"
| "read_quoted (c # d # cs) =
     (if c = CHR 0x27 then
        if d = CHR 0x27 then map_option (apfst ((#) c)) (read_quoted cs) else Some ([], d # cs)
      else map_option (apfst ((#) c)) (read_quoted (d # cs)))"

fun read_key :: "string \<Rightarrow> (string \<times> string) option" where
  "read_key [] = None"
| "read_key (c # cs) =
     (if c = CHR ''='' then Some ([], cs) else map_option (apfst ((#) c)) (read_key cs))"

fun strip_prefix :: "string \<Rightarrow> string \<Rightarrow> string option" where
  "strip_prefix [] s = Some s"
| "strip_prefix (p # ps) [] = None"
| "strip_prefix (p # ps) (c # cs) = (if p = c then strip_prefix ps cs else None)"

definition read_term :: "string \<Rightarrow> ((string \<times> string) \<times> string) option" where
  "read_term s = do {
     s1 \<leftarrow> strip_prefix ''labels.'' s;
     (k, s2) \<leftarrow> read_key s1;
     s3 \<leftarrow> strip_prefix [CHR 0x27] s2;
     (v, s4) \<leftarrow> read_quoted s3;
     Some ((k, v), s4) }"

text \<open>The fuel is the number of terms; a string of \<open>n\<close> terms needs \<open>n\<close>.\<close>

fun read_search :: "nat \<Rightarrow> string \<Rightarrow> (string \<times> string) list option" where
  "read_search 0 s = None"
| "read_search (Suc n) s = do {
     (kv, rest) \<leftarrow> read_term s;
     if rest = [] then Some [kv]
     else do { rest' \<leftarrow> strip_prefix '' and '' rest; kvs \<leftarrow> read_search n rest'; Some (kv # kvs) } }"

definition escape_quotes :: "string \<Rightarrow> string" where
  "escape_quotes v = replace_char CHR 0x27 [CHR 0x27, CHR 0x27] v"

lemma escape_quotes_simps [simp]:
  "escape_quotes [] = []"
  "escape_quotes (c # v) = (if c = CHR 0x27 then [c, c] else [c]) @ escape_quotes v"
  by (simp_all add: escape_quotes_def replace_char_def)

lemma read_quoted_escaped:
  "(rest = [] \<or> hd rest \<noteq> CHR 0x27) \<Longrightarrow> read_quoted (escape_quotes v @ CHR 0x27 # rest) = Some (v, rest)"
proof (induction v)
  case Nil
  then show ?case by (cases rest) auto
next
  case (Cons c v)
  obtain x xs where eq: "escape_quotes v @ CHR 0x27 # rest = x # xs"
    by (cases "escape_quotes v") auto
  from Cons have IH: "read_quoted (x # xs) = Some (v, rest)"
    by (simp only: eq)
  show ?case
    using eq IH by auto
qed

lemma read_key_eq: "CHR ''='' \<notin> set k \<Longrightarrow> read_key (k @ CHR ''='' # s) = Some (k, s)"
  by (induction k) auto

lemma strip_prefix_append [simp]: "strip_prefix p (p @ s) = Some s"
  by (induction p) auto

lemma render_label_eq:
  "render_label (k, v) = ''labels.'' @ k @ CHR ''='' # CHR 0x27 # escape_quotes v @ [CHR 0x27]"
  by (simp add: render_label_def quoted1_def escape_quotes_def)

lemma read_term_rendered:
  assumes "CHR ''='' \<notin> set (fst kv)" and "rest = [] \<or> hd rest \<noteq> CHR 0x27"
  shows "read_term (render_label kv @ rest) = Some (kv, rest)"
proof -
  obtain k v where kv: "kv = (k, v)" by (cases kv)
  have "strip_prefix ''labels.'' (render_label kv @ rest) =
        Some (k @ CHR ''='' # CHR 0x27 # escape_quotes v @ CHR 0x27 # rest)"
    by (simp add: kv render_label_eq)
  moreover have "read_key (k @ CHR ''='' # CHR 0x27 # escape_quotes v @ CHR 0x27 # rest) =
        Some (k, CHR 0x27 # escape_quotes v @ CHR 0x27 # rest)"
    using assms(1) by (simp add: kv read_key_eq)
  ultimately show ?thesis
    using read_quoted_escaped [OF assms(2), of v] by (simp add: read_term_def kv)
qed

lemma read_search_rendered:
  "kvs \<noteq> [] \<Longrightarrow> \<forall>kv\<in>set kvs. CHR ''='' \<notin> set (fst kv) \<Longrightarrow>
   read_search (length kvs) (join '' and '' (map render_label kvs)) = Some kvs"
proof (induction kvs)
  case Nil
  then show ?case by simp
next
  case (Cons kv kvs)
  show ?case
  proof (cases "kvs = []")
    case True
    with Cons.prems read_term_rendered [of kv "[]"] show ?thesis by simp
  next
    case False
    let ?rest = "join '' and '' (map render_label kvs)"
    have "join '' and '' (map render_label (kv # kvs)) = render_label kv @ '' and '' @ ?rest"
      using False by (simp add: join_Cons)
    moreover have "read_term (render_label kv @ '' and '' @ ?rest) = Some (kv, '' and '' @ ?rest)"
      using Cons.prems(2) by (intro read_term_rendered) auto
    moreover have "strip_prefix '' and '' ('' and '' @ ?rest) = Some ?rest"
      by (rule strip_prefix_append)
    ultimately show ?thesis
      using Cons.IH Cons.prems(2) False by simp
  qed
qed

lemma map_insort_key: "map f (insort_key f x xs) = insort (f x) (map f xs)"
  by (induction xs) auto

lemma sort_map_eq: "sort (map f xs) = map f (sort_key f xs)"
  by (induction xs) (simp_all add: map_insort_key)

text \<open>
  C3: The search string of a non-empty selector denotes exactly that selector. When no label
  contains an equals sign, reading the string back term by term, with doubled quotes undone,
  gives the selector's entries; no quote inside a value can end its literal early.
\<close>

theorem search_string_reads_back:
  assumes "sel \<noteq> []" and "\<forall>kv\<in>set sel. CHR ''='' \<notin> set (fst kv)"
  shows "\<exists>kvs. read_search (length sel) (labelSelectorToSearchString sel) = Some kvs \<and> same_entries kvs sel"
proof -
  let ?kvs = "sort_key render_label sel"
  have "labelSelectorToSearchString sel = join '' and '' (map render_label ?kvs)"
    using assms(1) by (simp add: labelSelectorToSearchString_def sort_map_eq)
  moreover have "read_search (length ?kvs) (join '' and '' (map render_label ?kvs)) = Some ?kvs"
  proof (rule read_search_rendered)
    show "?kvs \<noteq> []" using assms(1) by (metis length_0_conv length_sort)
    show "\<forall>kv\<in>set ?kvs. CHR ''='' \<notin> set (fst kv)" using assms(2) by simp
  qed
  ultimately show ?thesis
    by (intro exI [of _ ?kvs]) (simp add: same_entries_def)
qed

text \<open>
  The search string does not depend on the order in which the map is iterated: two
  iterations of the same selector give the same string.
\<close>

theorem search_string_order_free:
  assumes "same_entries m n"
  shows "labelSelectorToSearchString m = labelSelectorToSearchString n"
proof -
  from assms have "length m = length n"
    unfolding same_entries_def by (metis size_mset)
  moreover have "sort (map render_label m) = sort (map render_label n)"
    using assms unfolding same_entries_def by (metis mset_map mset_sort properties_for_sort sorted_sort)
  ultimately show ?thesis
    by (simp add: labelSelectorToSearchString_def)
qed

subsection \<open>The backoff library's contract\<close>

text \<open>
  What \<open>backoff.Retry\<close> documents, as the runs it allows: the operation is run until it
  succeeds, fails permanently or panics, or, after a retriable failure, until the library
  gives up (elapsed time, cancelled context) with an error of its choice.
\<close>

inductive retry_run ::
    "('s \<Rightarrow> 'a op_result \<times> 's) \<Rightarrow> 's \<Rightarrow> (go_error + 'a) option \<Rightarrow> 's \<Rightarrow> bool"
  for f :: "'s \<Rightarrow> 'a op_result \<times> 's" where
  run_ok: "f s = (OpOk a, s') \<Longrightarrow> retry_run f s (Some (Inr a)) s'"
| run_permanent: "f s = (OpPermanent e, s') \<Longrightarrow> retry_run f s (Some (Inl e)) s'"
| run_panic: "f s = (OpPanic, s') \<Longrightarrow> retry_run f s None s'"
| run_give_up: "f s = (OpRetry e, s') \<Longrightarrow> retry_run f s (Some (Inl e')) s'"
| run_again: "f s = (OpRetry e, s') \<Longrightarrow> retry_run f s' r s'' \<Longrightarrow> retry_run f s r s''"

definition retry_contract :: "('a, 's) retrier \<Rightarrow> bool" where
  "retry_contract retry \<longleftrightarrow>
     (\<forall>cfg f s. retry_run f s (fst (retry cfg f s)) (snd (retry cfg f s)))"

text \<open>A retrier that satisfies it: at most \<open>Suc n\<close> attempts, the last error returned.\<close>

fun retry_attempts :: "nat \<Rightarrow> ('s \<Rightarrow> 'a op_result \<times> 's) \<Rightarrow> 's \<Rightarrow> (go_error + 'a) option \<times> 's" where
  "retry_attempts n f s =
     (case f s of
        (OpOk a, s') \<Rightarrow> (Some (Inr a), s')
      | (OpPermanent e, s') \<Rightarrow> (Some (Inl e), s')
      | (OpPanic, s') \<Rightarrow> (None, s')
      | (OpRetry e, s') \<Rightarrow> (case n of 0 \<Rightarrow> (Some (Inl e), s') | Suc m \<Rightarrow> retry_attempts m f s'))"

declare retry_attempts.simps [simp del]

lemma retry_attempts_run: "retry_run f s (fst (retry_attempts n f s)) (snd (retry_attempts n f s))"
proof (induction n f s rule: retry_attempts.induct)
  case (1 n f s)
  obtain o1 s1 where f: "f s = (o1, s1)" by (cases "f s")
  show ?case
  proof (cases o1)
    case (OpRetry e)
    show ?thesis
    proof (cases n)
      case 0
      with f OpRetry show ?thesis by (simp add: retry_attempts.simps retry_run.run_give_up)
    next
      case (Suc m)
      with 1 f OpRetry have "retry_run f s1 (fst (retry_attempts m f s1)) (snd (retry_attempts m f s1))"
        by auto
      with f OpRetry Suc show ?thesis
        by (simp add: retry_attempts.simps [of "Suc m" f s] retry_run.run_again)
    qed
  qed (simp_all add: f retry_attempts.simps retry_run.intros)
qed

lemma retry_attempts_contract: "retry_contract (\<lambda>_. retry_attempts n)"
  by (simp add: retry_contract_def retry_attempts_run)

text \<open>The states an operation passes through when it is run again and again.\<close>

fun after_runs :: "('s \<Rightarrow> 'a op_result \<times> 's) \<Rightarrow> nat \<Rightarrow> 's \<Rightarrow> 's" where
  "after_runs f 0 s = s"
| "after_runs f (Suc n) s = after_runs f n (snd (f s))"

definition retriable_run :: "('s \<Rightarrow> 'a op_result \<times> 's) \<Rightarrow> 's \<Rightarrow> bool" where
  "retriable_run f s \<longleftrightarrow> (\<exists>e. fst (f s) = OpRetry e)"

text \<open>What the library may return after the given outcome of the last attempt.\<close>

fun final_result :: "'a op_result \<Rightarrow> (go_error + 'a) option \<Rightarrow> bool" where
  "final_result (OpOk a) r \<longleftrightarrow> r = Some (Inr a)"
| "final_result (OpPermanent e) r \<longleftrightarrow> r = Some (Inl e)"
| "final_result OpPanic r \<longleftrightarrow> r = None"
| "final_result (OpRetry e) r \<longleftrightarrow> (\<exists>e'. r = Some (Inl e'))"

lemma retry_run_attempts:
  "retry_run f s r s' \<Longrightarrow>
   \<exists>n. (\<forall>i<n. retriable_run f (after_runs f i s)) \<and> s' = after_runs f (Suc n) s \<and>
       final_result (fst (f (after_runs f n s))) r"
proof (induction rule: retry_run.induct)
  case (run_again s e s' r s'')
  then obtain n where n: "\<forall>i<n. retriable_run f (after_runs f i s')"
    "s'' = after_runs f (Suc n) s'" "final_result (fst (f (after_runs f n s'))) r" by blast
  have "\<forall>i<Suc n. retriable_run f (after_runs f i s)"
    using n(1) run_again.hyps by (auto simp: less_Suc_eq_0_disj retriable_run_def)
  with n(2,3) run_again.hyps show ?case
    by (intro exI [of _ "Suc n"]) simp
qed (rule exI [of _ 0], simp)+

subsection \<open>The traffic of a fetch\<close>

definition fetch_call :: "string \<Rightarrow> string gmap \<Rightarrow> string list \<Rightarrow> api_call" where
  "fetch_call rt sel filters =
     (let search = search_param (buildSearchString sel filters)
      in if rt = ResourceTypeClusters then CallClusters search else CallNodePools search)"

definition known_type :: "string \<Rightarrow> bool" where
  "known_type rt \<longleftrightarrow> rt = ResourceTypeClusters \<or> rt = ResourceTypeNodePools"

lemma resource_types_differ [simp]: "ResourceTypeNodePools \<noteq> ResourceTypeClusters"
  by (simp add: ResourceTypeNodePools_def ResourceTypeClusters_def)

lemma fetch_operation_calls:
  "known_type rt \<Longrightarrow>
   net_calls (snd (fetch_operation api rt sel filters net)) = net_calls net @ [fetch_call rt sel filters]"
  by (auto simp: known_type_def fetch_operation_def fetchResourcesOnce_def fetchClusters_def
      fetchNodePools_def GetClustersWithResponse_def GetNodePoolsWithResponse_def fetch_call_def
      Let_def split: prod.splits option.splits sum.splits)

lemma after_runs_calls:
  "known_type rt \<Longrightarrow>
   net_calls (after_runs (fetch_operation api rt sel filters) n net) =
     net_calls net @ replicate n (fetch_call rt sel filters)"
  by (induction n arbitrary: net) (simp_all add: fetch_operation_calls)

text \<open>The answer of a fetch, from the answer of the library.\<close>

definition fetch_answer :: "string \<Rightarrow> (go_error + resource list) option \<Rightarrow> (go_error + resource list) option" where
  "fetch_answer rt r =
     map_option (map_sum (ErrWrap (''failed to fetch '' @ rt @ '' after retries'')) id) r"

lemma FetchResources_known:
  "known_type rt \<Longrightarrow>
   FetchResources api retry (Some ctx) rt sel filters net =
     apfst (fetch_answer rt) (retry fetch_backoff (fetch_operation api rt sel filters) net)"
  by (auto simp: FetchResources_def known_type_def fetch_answer_def split: prod.split option.split sum.split)

lemma fetch_answer_ok [simp]: "fetch_answer rt r = Some (Inr rs) \<longleftrightarrow> r = Some (Inr rs)"
proof (cases r)
  case (Some x)
  then show ?thesis by (cases x) (auto simp: fetch_answer_def)
qed (simp add: fetch_answer_def)

lemma after_runs_snoc: "after_runs f (Suc n) s = snd (f (after_runs f n s))"
  by (induction n arbitrary: s) simp_all

lemma fetch_library_run:
  assumes "retry_contract retry" and "known_type rt"
    and "FetchResources api retry (Some ctx) rt sel filters net = (r, net')"
  obtains r0 where "retry_run (fetch_operation api rt sel filters) net r0 net'"
    and "r = fetch_answer rt r0"
proof -
  let ?attempt = "fetch_operation api rt sel filters"
  obtain r0 net0 where r0: "retry fetch_backoff ?attempt net = (r0, net0)"
    by (cases "retry fetch_backoff ?attempt net")
  with assms(1) have run: "retry_run ?attempt net r0 net0"
    unfolding retry_contract_def by (metis fst_conv snd_conv)
  have "net' = net0" and "r = fetch_answer rt r0"
    using assms(3) r0 unfolding FetchResources_known [OF assms(2)] by simp_all
  with run that show thesis by blast
qed

lemma fetch_runs:
  assumes "retry_contract retry" and "known_type rt"
    and "FetchResources api retry (Some ctx) rt sel filters net = (r, net')"
  obtains n where
    "\<forall>i<n. retriable_run (fetch_operation api rt sel filters)
       (after_runs (fetch_operation api rt sel filters) i net)"
    and "net' = after_runs (fetch_operation api rt sel filters) (Suc n) net"
    and "\<And>rs. r = Some (Inr rs) \<longleftrightarrow>
       fst (fetch_operation api rt sel filters (after_runs (fetch_operation api rt sel filters) n net)) = OpOk rs"
proof -
  let ?attempt = "fetch_operation api rt sel filters"
  obtain r0 where run: "retry_run ?attempt net r0 net'" and r: "r = fetch_answer rt r0"
    using fetch_library_run [OF assms] .
  from retry_run_attempts [OF run] obtain n where
    n: "\<forall>i<n. retriable_run ?attempt (after_runs ?attempt i net)" "net' = after_runs ?attempt (Suc n) net"
      "final_result (fst (?attempt (after_runs ?attempt n net))) r0"
    by (elim exE conjE) (rule that)
  have "r = Some (Inr rs) \<longleftrightarrow> fst (?attempt (after_runs ?attempt n net)) = OpOk rs" for rs
    using n(3) by (cases "fst (?attempt (after_runs ?attempt n net))") (auto simp: r)
  with n(1,2) show thesis by (rule that)
qed

text \<open>The HTTP status in the server's answer to a call, if the answer is a response.\<close>

definition reply_status :: "'w api_client \<Rightarrow> api_call \<Rightarrow> 'w \<Rightarrow> int option" where
  "reply_status api call w =
     (case call of
        CallClusters search \<Rightarrow>
          (case fst (GetClusters api search w) of Reply r \<Rightarrow> rp_HTTPStatus r | _ \<Rightarrow> None)
      | CallNodePools search \<Rightarrow>
          (case fst (GetNodePools api search w) of Reply r \<Rightarrow> rp_HTTPStatus r | _ \<Rightarrow> None))"

lemma isHTTPStatusRetriable_iff:
  "isHTTPStatusRetriable code \<longleftrightarrow> 500 \<le> code \<and> code < 600 \<or> code = 408 \<or> code = 429"
  by (auto simp: isHTTPStatusRetriable_def StatusTooManyRequests_def StatusRequestTimeout_def)

lemma isRetriable_status_error [simp]: "isRetriable (status_error code) = isHTTPStatusRetriable code"
  by (simp add: isRetriable_def status_error_def)

lemma handle_reply_status:
  "rp_HTTPStatus resp = Some code \<Longrightarrow> 400 \<le> code \<Longrightarrow>
   handle_reply convert (Reply resp) = Some (Inl (status_error code))"
  by (simp add: handle_reply_def)

lemma fetchResourcesOnce_error_status:
  assumes known: "known_type rt"
    and reply: "reply_status api (fetch_call rt sel filters) (net_server net) = Some code"
    and code: "400 \<le> code"
  shows "fst (fetchResourcesOnce api rt sel filters net) = Some (Inl (status_error code))"
proof -
  let ?search = "search_param (buildSearchString sel filters)"
  consider (clusters) "rt = ResourceTypeClusters" | (nodepools) "rt = ResourceTypeNodePools"
    using known by (auto simp: known_type_def)
  then show ?thesis
  proof cases
    case clusters
    with reply obtain resp where "fst (GetClusters api ?search (net_server net)) = Reply resp"
      and "rp_HTTPStatus resp = Some code"
      by (auto simp: reply_status_def fetch_call_def Let_def split: api_reply.splits)
    with clusters code show ?thesis
      by (simp add: fetchResourcesOnce_def fetchClusters_def GetClustersWithResponse_def
          handle_reply_status case_prod_beta Let_def)
  next
    case nodepools
    with reply obtain resp where "fst (GetNodePools api ?search (net_server net)) = Reply resp"
      and "rp_HTTPStatus resp = Some code"
      by (auto simp: reply_status_def fetch_call_def Let_def split: api_reply.splits)
    with nodepools code show ?thesis
      by (simp add: fetchResourcesOnce_def fetchNodePools_def GetNodePoolsWithResponse_def
          handle_reply_status case_prod_beta Let_def)
  qed
qed

lemma fetch_operation_error_status:
  assumes "known_type rt" and "reply_status api (fetch_call rt sel filters) (net_server net) = Some code"
    and "400 \<le> code" and "\<not> isHTTPStatusRetriable code"
  shows "fst (fetch_operation api rt sel filters net) = OpPermanent (status_error code)"
  using fetchResourcesOnce_error_status [OF assms(1-3)] assms(4)
  by (cases "fetchResourcesOnce api rt sel filters net") (simp add: fetch_operation_def)

lemma fetch_retries_status:
  assumes "known_type rt" and "reply_status api (fetch_call rt sel filters) (net_server net) = Some code"
    and "400 \<le> code"
  shows "retriable_run (fetch_operation api rt sel filters) net \<longleftrightarrow> isHTTPStatusRetriable code"
  using fetchResourcesOnce_error_status [OF assms]
  by (cases "fetchResourcesOnce api rt sel filters net") (simp add: fetch_operation_def retriable_run_def)

text \<open>The call was not answered: a timeout or an error of the network.\<close>

definition reply_failed :: "'w api_client \<Rightarrow> api_call \<Rightarrow> 'w \<Rightarrow> bool" where
  "reply_failed api call w \<longleftrightarrow>
     (case call of
        CallClusters search \<Rightarrow> \<exists>err. fst (GetClusters api search w) = ReplyErr err
      | CallNodePools search \<Rightarrow> \<exists>err. fst (GetNodePools api search w) = ReplyErr err)"

lemma fetch_retries_failure:
  assumes "known_type rt" and "reply_failed api (fetch_call rt sel filters) (net_server net)"
  shows "retriable_run (fetch_operation api rt sel filters) net"
proof -
  have retriable: "isRetriable (transport_error err)" for err
    by (simp add: transport_error_def isRetriable_def)
  consider (clusters) "rt = ResourceTypeClusters" | (nodepools) "rt = ResourceTypeNodePools"
    using assms(1) by (auto simp: known_type_def)
  then show ?thesis
  proof cases
    case clusters
    with assms(2) show ?thesis
      by (auto simp: reply_failed_def fetch_call_def fetch_operation_def fetchResourcesOnce_def fetchClusters_def
          GetClustersWithResponse_def handle_reply_def retriable_run_def retriable case_prod_beta Let_def)
  next
    case nodepools
    with assms(2) show ?thesis
      by (auto simp: reply_failed_def fetch_call_def fetch_operation_def fetchResourcesOnce_def fetchNodePools_def
          GetNodePoolsWithResponse_def handle_reply_def retriable_run_def retriable case_prod_beta Let_def)
  qed
qed

text \<open>
  C16: Given a backoff library that keeps its documented contract, a fetch of a known resource
  type makes one or more identical requests, each carrying the search string of the selector
  and the filters; every request but the last ended in a retriable error, and the fetch
  returns resources exactly when the last request did, and returns those. Retriable is every
  request that is not answered, and of those answered with a status of 400 or more exactly
  those with 5xx, 408 and 429.
\<close>

theorem fetch_attempts:
  assumes "retry_contract retry" and "known_type rt"
    and "FetchResources api retry (Some ctx) rt sel filters net = (r, net')"
  shows "(\<exists>n. net_calls net' = net_calls net @ replicate (Suc n) (fetch_call rt sel filters) \<and>
             (\<forall>i<n. retriable_run (fetch_operation api rt sel filters)
                      (after_runs (fetch_operation api rt sel filters) i net)) \<and>
             (\<forall>rs. r = Some (Inr rs) \<longleftrightarrow>
                fst (fetch_operation api rt sel filters
                       (after_runs (fetch_operation api rt sel filters) n net)) = OpOk rs)) \<and>
         (\<forall>s code. reply_status api (fetch_call rt sel filters) (net_server s) = Some code \<and> 400 \<le> code \<longrightarrow>
            (retriable_run (fetch_operation api rt sel filters) s \<longleftrightarrow>
               500 \<le> code \<and> code < 600 \<or> code = 408 \<or> code = 429)) \<and>
         (\<forall>s. reply_failed api (fetch_call rt sel filters) (net_server s) \<longrightarrow>
            retriable_run (fetch_operation api rt sel filters) s)"
proof -
  obtain n where n: "\<forall>i<n. retriable_run (fetch_operation api rt sel filters)
       (after_runs (fetch_operation api rt sel filters) i net)"
    "net' = after_runs (fetch_operation api rt sel filters) (Suc n) net"
    "\<And>rs. r = Some (Inr rs) \<longleftrightarrow>
       fst (fetch_operation api rt sel filters (after_runs (fetch_operation api rt sel filters) n net)) = OpOk rs"
    using fetch_runs [OF assms] by blast
  have "net_calls net' = net_calls net @ replicate (Suc n) (fetch_call rt sel filters)"
    unfolding n(2) by (rule after_runs_calls [OF assms(2)])
  with n(1,3) have "\<exists>n. net_calls net' = net_calls net @ replicate (Suc n) (fetch_call rt sel filters) \<and>
             (\<forall>i<n. retriable_run (fetch_operation api rt sel filters)
                      (after_runs (fetch_operation api rt sel filters) i net)) \<and>
             (\<forall>rs. r = Some (Inr rs) \<longleftrightarrow>
                fst (fetch_operation api rt sel filters
                       (after_runs (fetch_operation api rt sel filters) n net)) = OpOk rs)"
    by (intro exI conjI allI) (assumption | blast)+
  moreover have "\<forall>s code. reply_status api (fetch_call rt sel filters) (net_server s) = Some code \<and> 400 \<le> code \<longrightarrow>
            (retriable_run (fetch_operation api rt sel filters) s \<longleftrightarrow>
               500 \<le> code \<and> code < 600 \<or> code = 408 \<or> code = 429)"
    unfolding isHTTPStatusRetriable_iff [symmetric] using fetch_retries_status [OF assms(2)] by blast
  moreover have "\<forall>s. reply_failed api (fetch_call rt sel filters) (net_server s) \<longrightarrow>
            retriable_run (fetch_operation api rt sel filters) s"
    using fetch_retries_failure [OF assms(2)] by blast
  ultimately show ?thesis by blast
qed

lemma retry_run_permanent:
  "retry_run f s r s' \<Longrightarrow> f s = (OpPermanent e, s1) \<Longrightarrow> r = Some (Inl e) \<and> s' = s1"
  by (auto elim: retry_run.cases)

text \<open>
  C30: A client error is not retried. When the server answers the first request of a fetch with
  a status of 400 or more that is neither 5xx nor 408 nor 429, the fetch makes that one request
  and returns the error with the status.
\<close>

theorem fetch_fails_fast:
  assumes "retry_contract retry" and "known_type rt"
    and "reply_status api (fetch_call rt sel filters) (net_server net) = Some code"
    and "400 \<le> code" and "\<not> isHTTPStatusRetriable code"
    and "FetchResources api retry (Some ctx) rt sel filters net = (r, net')"
  shows "net_calls net' = net_calls net @ [fetch_call rt sel filters] \<and>
         r = Some (Inl (ErrWrap (''failed to fetch '' @ rt @ '' after retries'') (status_error code)))"
proof -
  let ?attempt = "fetch_operation api rt sel filters"
  obtain r0 where run: "retry_run ?attempt net r0 net'" and r: "r = fetch_answer rt r0"
    using fetch_library_run [OF assms(1,2,6)] .
  have op: "?attempt net = (OpPermanent (status_error code), snd (?attempt net))"
    using fetch_operation_error_status [OF assms(2-5)] by (metis prod.collapse)
  from retry_run_permanent [OF run op] have "r0 = Some (Inl (status_error code))"
    and "net' = snd (?attempt net)" by simp_all
  then show ?thesis
    using fetch_operation_calls [OF assms(2), of api sel filters net] by (simp add: r fetch_answer_def)
qed

lemma fetch_operation_clusters_ok:
  assumes "fst (fetch_operation api ResourceTypeClusters sel filters net) = OpOk rs"
  shows "\<exists>resp items.
           GetClusters api (search_param (buildSearchString sel filters)) (net_server net) =
             (Reply resp, net_server (snd (fetch_operation api ResourceTypeClusters sel filters net))) \<and>
           (\<forall>code. rp_HTTPStatus resp = Some code \<longrightarrow> code < 400) \<and>
           rp_Items resp = Some items \<and> rs = map convert_cluster items"
  using assms
  by (auto simp: fetch_operation_def fetchResourcesOnce_def fetchClusters_def
      GetClustersWithResponse_def handle_reply_def Let_def
      split: prod.splits option.splits sum.splits api_reply.splits if_splits)

lemma fetch_operation_nodepools_ok:
  assumes "fst (fetch_operation api ResourceTypeNodePools sel filters net) = OpOk rs"
  shows "\<exists>resp items.
           GetNodePools api (search_param (buildSearchString sel filters)) (net_server net) =
             (Reply resp, net_server (snd (fetch_operation api ResourceTypeNodePools sel filters net))) \<and>
           (\<forall>code. rp_HTTPStatus resp = Some code \<longrightarrow> code < 400) \<and>
           rp_Items resp = Some items \<and> rs = map convert_nodepool items"
  using assms
  by (auto simp: fetch_operation_def fetchResourcesOnce_def fetchNodePools_def
      GetNodePoolsWithResponse_def handle_reply_def Let_def
      split: prod.splits option.splits sum.splits api_reply.splits if_splits)

lemma fetched_clusters:
  assumes "retry_contract retry"
    and "FetchResources api retry (Some ctx) ResourceTypeClusters sel filters net = (Some (Inr rs), net')"
  shows "\<exists>w resp items.
           GetClusters api (search_param (buildSearchString sel filters)) w = (Reply resp, net_server net') \<and>
           (\<forall>code. rp_HTTPStatus resp = Some code \<longrightarrow> code < 400) \<and>
           rp_Items resp = Some items \<and> rs = map convert_cluster items"
proof -
  let ?attempt = "fetch_operation api ResourceTypeClusters sel filters"
  have known: "known_type ResourceTypeClusters" by (simp add: known_type_def)
  obtain n where n: "net' = after_runs ?attempt (Suc n) net"
    and ok: "fst (?attempt (after_runs ?attempt n net)) = OpOk rs"
    using fetch_runs [OF assms(1) known assms(2)] by metis
  show ?thesis
    using fetch_operation_clusters_ok [OF ok] unfolding n after_runs_snoc by blast
qed

lemma fetched_nodepools:
  assumes "retry_contract retry"
    and "FetchResources api retry (Some ctx) ResourceTypeNodePools sel filters net = (Some (Inr rs), net')"
  shows "\<exists>w resp items.
           GetNodePools api (search_param (buildSearchString sel filters)) w = (Reply resp, net_server net') \<and>
           (\<forall>code. rp_HTTPStatus resp = Some code \<longrightarrow> code < 400) \<and>
           rp_Items resp = Some items \<and> rs = map convert_nodepool items"
proof -
  let ?attempt = "fetch_operation api ResourceTypeNodePools sel filters"
  have known: "known_type ResourceTypeNodePools" by (simp add: known_type_def)
  obtain n where n: "net' = after_runs ?attempt (Suc n) net"
    and ok: "fst (?attempt (after_runs ?attempt n net)) = OpOk rs"
    using fetch_runs [OF assms(1) known assms(2)] by metis
  show ?thesis
    using fetch_operation_nodepools_ok [OF ok] unfolding n after_runs_snoc by blast
qed

text \<open>
  C31: A successful fetch returns the items of one server response with a status below 400, each
  converted as its type is (nodepools with their owner), none left out and none added, in the
  response's order, and that response is the last thing the server sent.
\<close>

theorem fetch_returns_every_item:
  assumes "retry_contract retry"
    and "FetchResources api retry (Some ctx) rt sel filters net = (Some (Inr rs), net')"
  shows "(rt = ResourceTypeClusters \<longrightarrow>
      (\<exists>w resp items.
         GetClusters api (search_param (buildSearchString sel filters)) w = (Reply resp, net_server net') \<and>
         (\<forall>code. rp_HTTPStatus resp = Some code \<longrightarrow> code < 400) \<and>
         rp_Items resp = Some items \<and> rs = map convert_cluster items)) \<and>
    (rt = ResourceTypeNodePools \<longrightarrow>
      (\<exists>w resp items.
         GetNodePools api (search_param (buildSearchString sel filters)) w = (Reply resp, net_server net') \<and>
         (\<forall>code. rp_HTTPStatus resp = Some code \<longrightarrow> code < 400) \<and>
         rp_Items resp = Some items \<and> rs = map convert_nodepool items)) \<and>
    (rt = ResourceTypeClusters \<or> rt = ResourceTypeNodePools)"
proof (intro conjI impI)
  show "rt = ResourceTypeClusters \<or> rt = ResourceTypeNodePools"
    using assms(2) by (auto simp: FetchResources_def split: if_splits)
qed (use assms fetched_clusters fetched_nodepools in blast)+

section \<open>No panic\<close>

text \<open>The generated client returns a response or an error, never neither.\<close>

definition never_nil_reply :: "'w api_client \<Rightarrow> bool" where
  "never_nil_reply api \<longleftrightarrow>
     (\<forall>search w. fst (GetClusters api search w) \<noteq> ReplyNil \<and> fst (GetNodePools api search w) \<noteq> ReplyNil)"

lemma handle_reply_Some: "(\<exists>r. handle_reply convert reply = Some r) \<longleftrightarrow> reply \<noteq> ReplyNil"
  by (auto simp: handle_reply_def split: api_reply.split option.split)

lemma fetch_operation_no_panic:
  assumes "never_nil_reply api"
  shows "fst (fetch_operation api rt sel filters net) \<noteq> OpPanic"
proof -
  have "fst (GetClusters api s w) \<noteq> ReplyNil" "fst (GetNodePools api s w) \<noteq> ReplyNil" for s w
    using assms by (simp_all add: never_nil_reply_def)
  then have "fst (fetchResourcesOnce api rt sel filters net) \<noteq> None"
    by (simp add: fetchResourcesOnce_def fetchClusters_def fetchNodePools_def Let_def split_def
        GetClustersWithResponse_def GetNodePoolsWithResponse_def handle_reply_Some)
  then show ?thesis
    by (auto simp: fetch_operation_def split: prod.split option.split sum.split)
qed

lemma retry_run_no_panic:
  "retry_run f s r s' \<Longrightarrow> (\<And>s. fst (f s) \<noteq> OpPanic) \<Longrightarrow> r \<noteq> None"
proof (induction rule: retry_run.induct)
  case (run_panic s s')
  then show ?case by (metis fst_conv)
qed auto

lemma fetch_never_panics:
  assumes "retry_contract retry" and "never_nil_reply api"
  shows "fst (FetchResources api retry ctx rt sel filters net) \<noteq> None"
proof -
  let ?f = "fetch_operation api rt sel filters"
  have "retry_run ?f net (fst (retry fetch_backoff ?f net)) (snd (retry fetch_backoff ?f net))"
    using assms(1) by (simp add: retry_contract_def)
  then have "fst (retry fetch_backoff ?f net) \<noteq> None"
    by (rule retry_run_no_panic) (rule fetch_operation_no_panic [OF assms(2)])
  then show ?thesis
    by (auto simp: FetchResources_def split: prod.split option.split sum.split)
qed

section \<open>Samples\<close>

text \<open>A server that answers its first request with the given status and later ones with one item.\<close>

definition sample_item :: api_item where
  "sample_item =
     \<lparr>it_Id = Some ''c1'', it_Href = None, it_Kind = Some ''Cluster'', it_Generation = 2,
      it_CreatedTime = zero_time, it_UpdatedTime = zero_time, it_Labels = None,
      it_Conditions = []\<rparr>"

definition sample_api :: "int \<Rightarrow> nat api_client" where
  "sample_api status =
     \<lparr>GetClusters = (\<lambda>search n.
        (Reply \<lparr>rp_HTTPStatus = Some (if n = 0 then status else 200),
                rp_Items = (if n = 0 then None else Some [sample_item])\<rparr>, n + 1)),
      GetNodePools = (\<lambda>search n. (ReplyErr (ErrText ''refused''), n + 1))\<rparr>"

definition sample_selector :: "string gmap" where
  "sample_selector = [(''shard'', ''1''), (''owner'', ''o'' @ [CHR 0x27] @ ''neil'')]"

definition sample_net :: "nat net" where
  "sample_net = \<lparr>net_calls = [], net_debug = [], net_server = 0\<rparr>"

theorem search_string_reads_back_witness:
  "\<exists>kvs. read_search (length sample_selector) (labelSelectorToSearchString sample_selector) = Some kvs \<and>
         same_entries kvs sample_selector"
  by (rule search_string_reads_back) (simp_all add: sample_selector_def)

theorem search_string_order_free_witness:
  "labelSelectorToSearchString sample_selector = labelSelectorToSearchString (rev sample_selector)"
proof -
  have "same_entries sample_selector (rev sample_selector)"
    by (simp add: same_entries_def)
  then show ?thesis by (rule search_string_order_free)
qed

lemma sample_fetch:
  "FetchResources (sample_api 503) (\<lambda>_. retry_attempts 3) (Some []) ''clusters'' sample_selector [] sample_net =
     (Some (Inr [convert_cluster sample_item]),
      \<lparr>net_calls = replicate 2 (fetch_call ''clusters'' sample_selector []),
       net_debug = [''Retriable error fetching clusters: '' @ error_text (status_error 503) @ '' (will retry)''],
       net_server = 2\<rparr>)"
  by code_simp

lemma sample_fetch_refused:
  "fst (FetchResources (sample_api 404) (\<lambda>_. retry_attempts 3) (Some []) ''clusters'' sample_selector [] sample_net)
     \<noteq> None"
  by code_simp

lemma known_type_clusters: "known_type ''clusters''"
  by (simp add: known_type_def ResourceTypeClusters_def)

theorem fetch_attempts_witness:
  "\<exists>n. replicate 2 (fetch_call ''clusters'' sample_selector []) =
         replicate (Suc n) (fetch_call ''clusters'' sample_selector []) \<and>
       (\<forall>rs. Some (Inr [convert_cluster sample_item]) = Some (Inr rs :: go_error + resource list) \<longleftrightarrow>
          fst (fetch_operation (sample_api 503) ''clusters'' sample_selector []
                 (after_runs (fetch_operation (sample_api 503) ''clusters'' sample_selector []) n sample_net)) = OpOk rs)"
  using fetch_attempts [OF retry_attempts_contract known_type_clusters sample_fetch]
  by (auto simp: sample_net_def)

theorem fetch_returns_every_item_witness:
  "\<exists>w resp items.
     GetClusters (sample_api 503) (search_param (buildSearchString sample_selector [])) w = (Reply resp, 2) \<and>
     (\<forall>code. rp_HTTPStatus resp = Some code \<longrightarrow> code < 400) \<and>
     rp_Items resp = Some items \<and> [convert_cluster sample_item] = map convert_cluster items"
  using fetch_returns_every_item [OF retry_attempts_contract sample_fetch [folded ResourceTypeClusters_def]]
  by (simp only: net.select_convs)

theorem fetch_fails_fast_witness:
  "net_calls (snd (FetchResources (sample_api 404) (\<lambda>_. retry_attempts 3) (Some []) ''clusters''
       sample_selector [] sample_net)) = [fetch_call ''clusters'' sample_selector []]"
proof -
  let ?run = "FetchResources (sample_api 404) (\<lambda>_. retry_attempts 3) (Some []) ''clusters'' sample_selector [] sample_net"
  have status: "reply_status (sample_api 404) (fetch_call ''clusters'' sample_selector []) (net_server sample_net) =
      Some 404"
    by code_simp
  have run: "?run = (fst ?run, snd ?run)" by simp
  show ?thesis
    using fetch_fails_fast [OF retry_attempts_contract known_type_clusters status _ _ run]
    by (simp add: isHTTPStatusRetriable_iff sample_net_def)
qed

end
