(* ===== verification/Cel.thy ===== *)
theory Cel
  imports Go_Value
begin

text \<open>
  The CEL library (\<open>github.com/google/cel-go\<close>) as the program sees it. The library is not
  part of the repository: everything it does is the parameter \<open>cel\<close> of the definitions
  that use it. An environment is made from options, an expression is compiled in it and
  turned into a program, and a program is evaluated on an activation with the current
  meaning of the functions that were bound into its environment.
\<close>

datatype cel_opt =
    OptStrings
  | OptVarDyn string
  | OptVarTimestamp string
  | OptVarString string
  | OptUnaryFunction string string

text \<open>The outcome of \<open>Program.Eval\<close>: an error, a nil value without one, or \<open>out.Value()\<close>.\<close>

datatype cel_out = CelErr go_error | CelNil | CelVal gval

record ('env, 'ast, 'prog) cel =
  cel_NewEnv :: "cel_opt list \<Rightarrow> go_error + 'env"
  cel_Compile :: "'env \<Rightarrow> string \<Rightarrow> go_error + 'ast"
  cel_Program :: "'env \<Rightarrow> 'ast \<Rightarrow> go_error + 'prog"
  cel_Eval :: "'prog \<Rightarrow> (string \<rightharpoonup> (gval \<Rightarrow> gval)) \<Rightarrow> (string \<rightharpoonup> gval) \<Rightarrow> cel_out"

text \<open>Documented behaviour of \<open>Eval\<close>: a value comes with every evaluation that has no error.\<close>

definition cel_never_nil :: "('env, 'ast, 'prog) cel \<Rightarrow> bool" where
  "cel_never_nil cel \<longleftrightarrow> (\<forall>prog fs act. cel_Eval cel prog fs act \<noteq> CelNil)"

text \<open>Compilation of an expression in one go: the pair of calls every user makes.\<close>

definition cel_accepts :: "('env, 'ast, 'prog) cel \<Rightarrow> 'env \<Rightarrow> string \<Rightarrow> bool" where
  "cel_accepts cel env expr \<longleftrightarrow>
     (case cel_Compile cel env expr of Inl _ \<Rightarrow> False | Inr ast \<Rightarrow> \<not> isl (cel_Program cel env ast))"

lemma cel_never_nilD: "cel_never_nil cel \<Longrightarrow> cel_Eval cel prog fs act \<noteq> CelNil"
  by (simp add: cel_never_nil_def)

end
