(* ===== verification/Engine.thy ===== *)
theory Engine
  imports Client Cel
begin

text \<open>
  The decision engine (\<open>internal/engine/decision.go\<close>): compilation of the configured CEL
  expressions, the data handed to them, and the evaluation of one resource. The engine's state
  is the condition look-up that its \<open>condition()\<close> function reads; evaluating a resource
  replaces it. A nil value from CEL would be dereferenced, so evaluation may panic.
\<close>

section \<open>State and data\<close>

record decision =
  d_Reason :: string
  d_ShouldPublish :: bool

record 'prog param_entry =
  pe_prog :: 'prog
  pe_name :: string

record 'prog decision_engine =
  de_resultProg :: 'prog
  de_conditionsLookup :: "gval gmap gmap"
  de_params :: "'prog param_entry list"

definition zeroCondition :: "gval gmap" where
  "zeroCondition =
     [(''status'', GStr []), (''observed_generation'', GInt64 0), (''last_updated_time'', GStr []),
      (''last_transition_time'', GStr []), (''reason'', GStr []), (''message'', GStr [])]"

definition condition_map :: "condition \<Rightarrow> gval gmap" where
  "condition_map c =
     [(''status'', GStr (c_Status c)),
      (''observed_generation'', GInt64 (int64_of_int32 (c_ObservedGeneration c))),
      (''last_updated_time'', GStr (format_rfc3339nano (c_LastUpdatedTime c))),
      (''last_transition_time'', GStr (format_rfc3339nano (c_LastTransitionTime c))),
      (''reason'', GStr (c_Reason c)), (''message'', GStr (c_Message c))]"

definition buildConditionsLookup :: "condition list \<Rightarrow> gval gmap gmap" where
  "buildConditionsLookup conditions =
     foldl (\<lambda>lookup c. gmap_put (c_Type c) (condition_map c) lookup) [] conditions"

definition owner_map :: "owner_reference \<Rightarrow> gval" where
  "owner_map own =
     GMap [(''id'', GStr (o_ID own)), (''href'', GStr (o_Href own)), (''kind'', GStr (o_Kind own))]"

definition engine_resourceToMap :: "resource \<Rightarrow> gval gmap" where
  "engine_resourceToMap r =
     (let m = [(''id'', GStr (r_ID r)), (''href'', GStr (r_Href r)), (''kind'', GStr (r_Kind r)),
               (''created_time'', GStr (format_rfc3339nano (r_CreatedTime r))),
               (''updated_time'', GStr (format_rfc3339nano (r_UpdatedTime r))),
               (''generation'', GInt64 (int64_of_int32 (r_Generation r)))];
          m = (if length (entries_of (r_Labels r)) > 0
               then gmap_put ''labels'' (GMap (gmap_copy GStr (entries_of (r_Labels r)))) m else m);
          m = (case r_OwnerReferences r of None \<Rightarrow> m
               | Some own \<Rightarrow> gmap_put ''owner_references'' (owner_map own) m)
      in case r_Metadata r of None \<Rightarrow> m | Some md \<Rightarrow> gmap_put ''metadata'' (GMap md) m)"

text \<open>The binding of \<open>condition()\<close> at a given content of the look-up.\<close>

definition condition_binding :: "gval gmap gmap \<Rightarrow> gval \<Rightarrow> gval" where
  "condition_binding lookup val =
     (case val of
        GStr name \<Rightarrow> (case gmap_get lookup name of
                        Some cond \<Rightarrow> GMap cond
                      | None \<Rightarrow> GMap zeroCondition)
      | _ \<Rightarrow> GMap zeroCondition)"

section \<open>Building an engine\<close>

definition engine_env_opts :: "message_decision_config \<Rightarrow> cel_opt list" where
  "engine_env_opts cfg =
     [OptStrings, OptVarDyn ''resource'', OptVarTimestamp ''now'',
      OptUnaryFunction ''condition'' ''condition_string_to_dyn''] @
     map (\<lambda>p. OptVarDyn (p_Name p)) (md_Params cfg)"

fun compile_params ::
    "('env, 'ast, 'prog) cel \<Rightarrow> 'env \<Rightarrow> param list \<Rightarrow> go_error + 'prog param_entry list" where
  "compile_params cel env [] = Inr []"
| "compile_params cel env (p # ps) =
     (case cel_Compile cel env (p_Expr p) of
        Inl err \<Rightarrow> Inl (ErrWrap (''failed to compile param '' @ go_quote (p_Name p) @ '' expression '' @
                            go_quote (p_Expr p)) err)
      | Inr ast \<Rightarrow>
          (case cel_Program cel env ast of
             Inl err \<Rightarrow> Inl (ErrWrap (''failed to create program for param '' @ go_quote (p_Name p)) err)
           | Inr prg \<Rightarrow>
               (case compile_params cel env ps of
                  Inl err \<Rightarrow> Inl err
                | Inr rest \<Rightarrow> Inr (\<lparr>pe_prog = prg, pe_name = p_Name p\<rparr> # rest))))"

definition NewDecisionEngine ::
    "('env, 'ast, 'prog) cel \<Rightarrow> message_decision_config option \<Rightarrow> go_error + 'prog decision_engine" where
  "NewDecisionEngine cel cfg_ptr =
     (case cfg_ptr of
        None \<Rightarrow> Inl (ErrText ''message_decision config is required'')
      | Some cfg \<Rightarrow>
          (case MessageDecision_Validate cfg of
             Some err \<Rightarrow> Inl (ErrWrap ''invalid message_decision config'' err)
           | None \<Rightarrow>
               (case cel_NewEnv cel (engine_env_opts cfg) of
                  Inl err \<Rightarrow> Inl (ErrWrap ''failed to create CEL environment'' err)
                | Inr env \<Rightarrow>
                    (case compile_params cel env (md_Params cfg) of
                       Inl err \<Rightarrow> Inl err
                     | Inr params \<Rightarrow>
                         (case cel_Compile cel env (md_Result cfg) of
                            Inl err \<Rightarrow> Inl (ErrWrap (''failed to compile result expression '' @
                                              go_quote (md_Result cfg)) err)
                          | Inr ast \<Rightarrow>
                              (case cel_Program cel env ast of
                                 Inl err \<Rightarrow> Inl (ErrWrap ''failed to create result program'' err)
                               | Inr prg \<Rightarrow> Inr \<lparr>de_resultProg = prg, de_conditionsLookup = [],
                                                 de_params = params\<rparr>))))))"

section \<open>Evaluating a resource\<close>

definition no_publish :: "string \<Rightarrow> decision" where
  "no_publish reason = \<lparr>d_Reason = reason, d_ShouldPublish = False\<rparr>"

definition param_failed :: "string \<Rightarrow> go_error \<Rightarrow> decision" where
  "param_failed name err =
     no_publish (''param '' @ go_quote name @ '' evaluation failed: '' @ error_text err)"

text \<open>
  The parameter loop: each program sees the base activation overridden by the values so far.
  \<open>Inl\<close> is the early return of a failed evaluation, \<open>None\<close> the panic on a nil value.
\<close>

fun eval_params ::
    "('env, 'ast, 'prog) cel \<Rightarrow> (string \<rightharpoonup> (gval \<Rightarrow> gval)) \<Rightarrow> (string \<rightharpoonup> gval) \<Rightarrow>
     'prog param_entry list \<Rightarrow> (string \<rightharpoonup> gval) \<Rightarrow> (decision + (string \<rightharpoonup> gval)) option" where
  "eval_params cel fs activation [] paramValues = Some (Inr paramValues)"
| "eval_params cel fs activation (p # ps) paramValues =
     (case cel_Eval cel (pe_prog p) fs (activation ++ paramValues) of
        CelErr err \<Rightarrow> Some (Inl (param_failed (pe_name p) err))
      | CelNil \<Rightarrow> None
      | CelVal out \<Rightarrow> eval_params cel fs activation ps (paramValues(pe_name p \<mapsto> out)))"

definition eval_result ::
    "('env, 'ast, 'prog) cel \<Rightarrow> (string \<rightharpoonup> (gval \<Rightarrow> gval)) \<Rightarrow> 'prog \<Rightarrow> (string \<rightharpoonup> gval) \<Rightarrow> decision option" where
  "eval_result cel fs prog resultActivation =
     (case cel_Eval cel prog fs resultActivation of
        CelErr err \<Rightarrow> Some (no_publish (''result evaluation failed: '' @ error_text err))
      | CelNil \<Rightarrow> None
      | CelVal out \<Rightarrow>
          (case out of
             GBool shouldPublish \<Rightarrow>
               if shouldPublish
               then Some \<lparr>d_Reason = ''message decision matched'', d_ShouldPublish = True\<rparr>
               else Some (no_publish ''message decision result is false'')
           | _ \<Rightarrow> Some (no_publish (''result expression did not return bool, got '' @ type_name out))))"

definition base_activation :: "resource \<Rightarrow> gtime \<Rightarrow> (string \<rightharpoonup> gval)" where
  "base_activation r now = [''resource'' \<mapsto> GMap (engine_resourceToMap r), ''now'' \<mapsto> GTime now]"

definition engine_functions :: "'prog decision_engine \<Rightarrow> (string \<rightharpoonup> (gval \<Rightarrow> gval))" where
  "engine_functions de = [''condition'' \<mapsto> condition_binding (de_conditionsLookup de)]"

definition Evaluate ::
    "('env, 'ast, 'prog) cel \<Rightarrow> 'prog decision_engine \<Rightarrow> resource option \<Rightarrow> gtime \<Rightarrow>
     (decision \<times> 'prog decision_engine) option" where
  "Evaluate cel e resource_ptr now =
     (case resource_ptr of
        None \<Rightarrow> Some (no_publish ''resource is nil'', e)
      | Some resource \<Rightarrow>
          if IsZero now then Some (no_publish ''now time is zero'', e)
          else
            let e = e\<lparr>de_conditionsLookup := buildConditionsLookup (r_Conditions resource)\<rparr>;
                fs = engine_functions e;
                activation = base_activation resource now
            in do {
              params \<leftarrow> eval_params cel fs activation (de_params e) Map.empty;
              d \<leftarrow> (case params of
                       Inl early \<Rightarrow> Some early
                     | Inr paramValues \<Rightarrow>
                         eval_result cel fs (de_resultProg e) (activation ++ paramValues));
              Some (d, e) })"

section \<open>The conditions a program can ask for\<close>

text \<open>The condition \<open>condition(name)\<close> reads: the last one of that type, if there is one.\<close>

definition condition_named :: "condition list \<Rightarrow> string \<Rightarrow> condition option" where
  "condition_named cs name = find (\<lambda>c. c_Type c = name) (rev cs)"

lemma buildConditionsLookup_get:
  "gmap_get (buildConditionsLookup cs) name = map_option condition_map (condition_named cs name)"
  by (simp add: buildConditionsLookup_def condition_named_def gm.get_fold_put split: option.split)

lemma condition_named_None: "condition_named cs name = None \<longleftrightarrow> name \<notin> c_Type ` set cs"
  by (auto simp: condition_named_def find_None_iff)

lemma condition_named_Some: "condition_named cs name = Some c \<Longrightarrow> c \<in> set cs \<and> c_Type c = name"
  unfolding condition_named_def by (auto simp: find_Some_iff) (metis length_rev nth_mem set_rev)

lemma condition_binding_str:
  "condition_binding (buildConditionsLookup cs) (GStr name) =
     GMap (case condition_named cs name of None \<Rightarrow> zeroCondition | Some c \<Rightarrow> condition_map c)"
  by (simp add: condition_binding_def buildConditionsLookup_get split: option.split)

text \<open>
  What \<open>condition(name)\<close> gives a CEL program. It never fails: for a name no condition
  carries it is the all-empty record, whose time fields are the empty string; otherwise it is
  the record of the last condition of that type, whose time fields are never empty and whose
  observed generation is the condition's. So \<open>ref_time != ""\<close> holds exactly when the
  condition exists.
\<close>

theorem condition_function_total:
  "\<exists>m. condition_binding (buildConditionsLookup cs) (GStr name) = GMap m \<and>
       map fst m = map fst zeroCondition \<and>
       (gmap_get m ''last_updated_time'' \<noteq> Some (GStr []) \<longleftrightarrow> name \<in> c_Type ` set cs) \<and>
       (gmap_get m ''last_transition_time'' \<noteq> Some (GStr []) \<longleftrightarrow> name \<in> c_Type ` set cs) \<and>
       gmap_get m ''status'' =
         Some (GStr (case condition_named cs name of None \<Rightarrow> [] | Some c \<Rightarrow> c_Status c)) \<and>
       (\<exists>g. gmap_get m ''observed_generation'' = Some (GInt64 g) \<and>
            sint g = (case condition_named cs name of None \<Rightarrow> 0 | Some c \<Rightarrow> sint (c_ObservedGeneration c)))"
proof (cases "condition_named cs name")
  case None
  moreover from None have "name \<notin> c_Type ` set cs"
    using condition_named_None by metis
  ultimately show ?thesis
    by (simp add: condition_binding_str zeroCondition_def gmap_simps)
next
  case (Some c)
  moreover from Some have "name \<in> c_Type ` set cs"
    by (metis condition_named_None option.distinct(1))
  ultimately show ?thesis
    by (simp add: condition_binding_str condition_map_def zeroCondition_def gmap_simps)
qed

section \<open>Accepted configurations\<close>

lemma compile_params_iff:
  "(\<exists>es. compile_params cel env ps = Inr es) \<longleftrightarrow> (\<forall>p \<in> set ps. cel_accepts cel env (p_Expr p))"
proof (induction ps)
  case Nil
  show ?case by simp
next
  case (Cons p ps)
  have "(\<exists>es. compile_params cel env (p # ps) = Inr es) \<longleftrightarrow>
      cel_accepts cel env (p_Expr p) \<and> (\<exists>es. compile_params cel env ps = Inr es)"
    by (auto simp: cel_accepts_def split: sum.split)
  with Cons.IH show ?case by simp
qed

lemma compile_params_nth:
  "compile_params cel env ps = Inr es \<Longrightarrow>
     map pe_name es = map p_Name ps \<and>
     (\<forall>i < length ps. \<exists>ast. cel_Compile cel env (p_Expr (ps ! i)) = Inr ast \<and>
        cel_Program cel env ast = Inr (pe_prog (es ! i)))"
proof (induction ps arbitrary: es)
  case Nil
  then show ?case by simp
next
  case (Cons p ps)
  from Cons.prems obtain ast prg rest where
    c: "cel_Compile cel env (p_Expr p) = Inr ast" "cel_Program cel env ast = Inr prg"
      "compile_params cel env ps = Inr rest" and es: "es = \<lparr>pe_prog = prg, pe_name = p_Name p\<rparr> # rest"
    by (auto split: sum.splits)
  from Cons.IH [OF c(3)] c es show ?case
    by (auto simp: nth_Cons split: nat.splits)
qed

text \<open>The state of an engine that the configuration determines: a program per expression.\<close>

definition engine_for ::
    "('env, 'ast, 'prog) cel \<Rightarrow> 'env \<Rightarrow> message_decision_config \<Rightarrow> 'prog decision_engine \<Rightarrow> bool" where
  "engine_for cel env cfg e \<longleftrightarrow>
     map pe_name (de_params e) = map p_Name (md_Params cfg) \<and>
     (\<forall>i < length (md_Params cfg). \<exists>ast. cel_Compile cel env (p_Expr (md_Params cfg ! i)) = Inr ast \<and>
        cel_Program cel env ast = Inr (pe_prog (de_params e ! i))) \<and>
     (\<exists>ast. cel_Compile cel env (md_Result cfg) = Inr ast \<and>
        cel_Program cel env ast = Inr (de_resultProg e))"

lemma NewDecisionEngine_ok:
  assumes "NewDecisionEngine cel cfg_ptr = Inr e"
  obtains cfg env where "cfg_ptr = Some cfg" "decision_ok cfg"
    "cel_NewEnv cel (engine_env_opts cfg) = Inr env" "engine_for cel env cfg e"
    "de_conditionsLookup e = []"
  using assms
  by (auto simp: NewDecisionEngine_def engine_for_def MessageDecision_Validate_iff
        split: option.splits sum.splits dest!: compile_params_nth)

lemma engine_accepts:
  assumes "engine_for cel env cfg e"
  shows "cel_accepts cel env (md_Result cfg) \<and> list_all (\<lambda>p. cel_accepts cel env (p_Expr p)) (md_Params cfg)"
  using assms by (force simp: engine_for_def cel_accepts_def list_all_length)

text \<open>
  C19: An engine is built exactly from a configuration that is there, that validation accepts,
  whose CEL environment the library can make, and whose expressions, the parameters' and the
  result's, all compile in it; every other configuration is refused with an error, so a broken
  expression is met at start-up and never while resources are evaluated. An engine that is built
  holds the program of each parameter's expression, in the order and under the names of the
  configuration, the program of the result, and an empty look-up.
\<close>

theorem engine_built_iff:
  "((\<exists>e. NewDecisionEngine cel cfg_ptr = Inr e) \<longleftrightarrow>
      (\<exists>cfg env. cfg_ptr = Some cfg \<and> decision_ok cfg \<and> cel_NewEnv cel (engine_env_opts cfg) = Inr env \<and>
         cel_accepts cel env (md_Result cfg) \<and>
         list_all (\<lambda>p. cel_accepts cel env (p_Expr p)) (md_Params cfg))) \<and>
   (\<forall>e. NewDecisionEngine cel cfg_ptr = Inr e \<longrightarrow>
      (\<exists>cfg env. cfg_ptr = Some cfg \<and> cel_NewEnv cel (engine_env_opts cfg) = Inr env \<and>
         engine_for cel env cfg e \<and> de_conditionsLookup e = []))"
proof (intro conjI iffI allI impI)
  assume "\<exists>e. NewDecisionEngine cel cfg_ptr = Inr e"
  then obtain e where "NewDecisionEngine cel cfg_ptr = Inr e" by blast
  then show "\<exists>cfg env. cfg_ptr = Some cfg \<and> decision_ok cfg \<and> cel_NewEnv cel (engine_env_opts cfg) = Inr env \<and>
      cel_accepts cel env (md_Result cfg) \<and> list_all (\<lambda>p. cel_accepts cel env (p_Expr p)) (md_Params cfg)"
    by (rule NewDecisionEngine_ok) (blast dest: engine_accepts)
next
  assume "\<exists>cfg env. cfg_ptr = Some cfg \<and> decision_ok cfg \<and> cel_NewEnv cel (engine_env_opts cfg) = Inr env \<and>
      cel_accepts cel env (md_Result cfg) \<and> list_all (\<lambda>p. cel_accepts cel env (p_Expr p)) (md_Params cfg)"
  then obtain cfg env where *: "cfg_ptr = Some cfg" "decision_ok cfg"
    "cel_NewEnv cel (engine_env_opts cfg) = Inr env" "cel_accepts cel env (md_Result cfg)"
    "\<forall>p \<in> set (md_Params cfg). cel_accepts cel env (p_Expr p)"
    unfolding list_all_iff by blast
  from *(5) obtain es where "compile_params cel env (md_Params cfg) = Inr es"
    using compile_params_iff [of cel env "md_Params cfg"] by auto
  moreover from *(2) have "MessageDecision_Validate cfg = None"
    by (simp only: MessageDecision_Validate_iff)
  moreover from *(4) obtain ast prg where
    "cel_Compile cel env (md_Result cfg) = Inr ast" "cel_Program cel env ast = Inr prg"
    by (auto simp: cel_accepts_def isl_def split: sum.splits) (metis sum.exhaust)
  ultimately show "\<exists>e. NewDecisionEngine cel cfg_ptr = Inr e"
    using *(1,3) by (simp add: NewDecisionEngine_def)
next
  fix e assume "NewDecisionEngine cel cfg_ptr = Inr e"
  then show "\<exists>cfg env. cfg_ptr = Some cfg \<and> cel_NewEnv cel (engine_env_opts cfg) = Inr env \<and>
      engine_for cel env cfg e \<and> de_conditionsLookup e = []"
    by (rule NewDecisionEngine_ok) blast
qed

section \<open>What an evaluation decides\<close>

text \<open>
  The parameter loop, declaratively: \<open>vals\<close> is the list of the values of the parameters, each
  computed from the base activation and the values of the parameters before it.
\<close>

definition named_values :: "'prog param_entry list \<Rightarrow> gval list \<Rightarrow> (string \<rightharpoonup> gval)" where
  "named_values ps vals = map_of (rev (zip (map pe_name ps) vals))"

definition params_yield ::
    "('env, 'ast, 'prog) cel \<Rightarrow> (string \<rightharpoonup> (gval \<Rightarrow> gval)) \<Rightarrow> (string \<rightharpoonup> gval) \<Rightarrow>
     'prog param_entry list \<Rightarrow> gval list \<Rightarrow> bool" where
  "params_yield cel fs act ps vals \<longleftrightarrow>
     length vals = length ps \<and>
     (\<forall>i < length ps. cel_Eval cel (pe_prog (ps ! i)) fs
        (act ++ named_values (take i ps) (take i vals)) = CelVal (vals ! i))"

lemma named_values_Nil [simp]: "named_values [] vals = Map.empty" "named_values ps [] = Map.empty"
  by (simp_all add: named_values_def)

lemma named_values_Cons: "named_values (p # ps) (v # vs) = [pe_name p \<mapsto> v] ++ named_values ps vs"
  by (simp add: named_values_def)

lemma params_yield_Nil [simp]: "params_yield cel fs act [] vals \<longleftrightarrow> vals = []"
  by (auto simp: params_yield_def)

lemma params_yield_Cons:
  "params_yield cel fs act (p # ps) vals \<longleftrightarrow>
     (\<exists>v vs. vals = v # vs \<and> cel_Eval cel (pe_prog p) fs act = CelVal v \<and>
        params_yield cel fs (act(pe_name p \<mapsto> v)) ps vs)"
proof (cases vals)
  case Nil
  then show ?thesis by (simp add: params_yield_def)
next
  case (Cons v vs)
  have upd: "act ++ ([pe_name p \<mapsto> v] ++ m) = act(pe_name p \<mapsto> v) ++ m" for m
    by (simp add: map_add_assoc [symmetric])
  show ?thesis
    unfolding Cons params_yield_def by (auto simp: All_less_Suc2 named_values_Cons upd)
qed

lemma eval_params_iff:
  "eval_params cel fs act ps pv = Some (Inr pv') \<longleftrightarrow>
     (\<exists>vals. params_yield cel fs (act ++ pv) ps vals \<and> pv' = pv ++ named_values ps vals)"
proof (induction ps arbitrary: pv)
  case Nil
  show ?case by auto
next
  case (Cons p ps)
  show ?case
  proof (cases "cel_Eval cel (pe_prog p) fs (act ++ pv)")
    case (CelVal v)
    have val: "pv(pe_name p \<mapsto> v) ++ m = pv ++ ([pe_name p \<mapsto> v] ++ m)" for m
      by (simp add: map_add_assoc [symmetric])
    have "eval_params cel fs act (p # ps) pv = Some (Inr pv') \<longleftrightarrow>
        (\<exists>vs. params_yield cel fs (act ++ pv(pe_name p \<mapsto> v)) ps vs \<and>
              pv' = pv(pe_name p \<mapsto> v) ++ named_values ps vs)"
      using CelVal by (simp only: eval_params.simps cel_out.case Cons.IH)
    also have "\<dots> \<longleftrightarrow> (\<exists>vals. params_yield cel fs (act ++ pv) (p # ps) vals \<and>
              pv' = pv ++ named_values (p # ps) vals)"
      using CelVal by (simp only: params_yield_Cons cel_out.inject val map_add_upd)
        (metis named_values_Cons)
    finally show ?thesis .
  qed (simp_all add: params_yield_Cons)
qed

lemma eval_params_early:
  "eval_params cel fs act ps pv = Some (Inl d) \<Longrightarrow>
     \<exists>p err. p \<in> set ps \<and> d = param_failed (pe_name p) err"
proof (induction ps arbitrary: pv)
  case (Cons p ps)
  then show ?case
    by (cases "cel_Eval cel (pe_prog p) fs (act ++ pv)") (auto, metis)
qed simp

lemma eval_params_total: "cel_never_nil cel \<Longrightarrow> eval_params cel fs act ps pv \<noteq> None"
  by (induction ps arbitrary: pv) (auto split: cel_out.split dest: cel_never_nilD)

text \<open>The look-up an evaluation reads is the one of the resource it is given.\<close>

definition functions_for :: "resource \<Rightarrow> (string \<rightharpoonup> (gval \<Rightarrow> gval))" where
  "functions_for r = [''condition'' \<mapsto> condition_binding (buildConditionsLookup (r_Conditions r))]"

lemma Evaluate_none: "Evaluate cel e None now = Some (no_publish ''resource is nil'', e)"
  by (simp add: Evaluate_def)

lemma Evaluate_zero: "IsZero now \<Longrightarrow> Evaluate cel e (Some r) now = Some (no_publish ''now time is zero'', e)"
  by (simp add: Evaluate_def)

lemma Evaluate_some:
  "\<not> IsZero now \<Longrightarrow> Evaluate cel e (Some r) now =
     (case eval_params cel (functions_for r) (base_activation r now) (de_params e) Map.empty of
        None \<Rightarrow> None
      | Some (Inl early) \<Rightarrow> Some (early, e\<lparr>de_conditionsLookup := buildConditionsLookup (r_Conditions r)\<rparr>)
      | Some (Inr pv) \<Rightarrow>
          map_option (\<lambda>d. (d, e\<lparr>de_conditionsLookup := buildConditionsLookup (r_Conditions r)\<rparr>))
            (eval_result cel (functions_for r) (de_resultProg e) (base_activation r now ++ pv)))"
  by (auto simp: Evaluate_def Let_def functions_for_def engine_functions_def map_conv_bind_option
        comp_def split: option.splits sum.splits)

lemmas Evaluate_cases = Evaluate_none Evaluate_zero Evaluate_some

definition publish_decision :: decision where
  "publish_decision = \<lparr>d_Reason = ''message decision matched'', d_ShouldPublish = True\<rparr>"

lemma eval_result_publish:
  "eval_result cel fs prog act = Some d \<and> d_ShouldPublish d \<longleftrightarrow>
     d = publish_decision \<and> cel_Eval cel prog fs act = CelVal (GBool True)"
  by (auto simp: eval_result_def no_publish_def publish_decision_def
        split: cel_out.splits gval.splits if_splits)

text \<open>
  C13: Exactly when an evaluation says to publish: there is a resource, the time given is not the
  zero time, every parameter evaluates without error in the configured order, each from the
  resource, the time and the parameters before it, and the result expression, on all of
  these values, yields the boolean true. Nothing else, neither an error nor a value of another
  type, leads to an event.
\<close>

theorem evaluate_publishes_iff:
  "(\<exists>d e'. Evaluate cel e rp now = Some (d, e') \<and> d_ShouldPublish d) \<longleftrightarrow>
     (\<exists>r vals. rp = Some r \<and> \<not> IsZero now \<and>
        params_yield cel (functions_for r) (base_activation r now) (de_params e) vals \<and>
        cel_Eval cel (de_resultProg e) (functions_for r)
          (base_activation r now ++ named_values (de_params e) vals) = CelVal (GBool True))"
proof (cases "rp = None \<or> IsZero now")
  case True
  then show ?thesis
    by (auto simp: Evaluate_def no_publish_def split: option.splits)
next
  case False
  then obtain r where r: "rp = Some r" and now: "\<not> IsZero now" by auto
  let ?fs = "functions_for r" and ?act = "base_activation r now"
  let ?run = "eval_params cel ?fs ?act (de_params e) Map.empty"
  have yields: "?run = Some (Inr pv) \<longleftrightarrow>
      (\<exists>vals. params_yield cel ?fs ?act (de_params e) vals \<and> pv = named_values (de_params e) vals)" for pv
    by (simp add: eval_params_iff)
  have "(\<exists>d e'. Evaluate cel e rp now = Some (d, e') \<and> d_ShouldPublish d) \<longleftrightarrow>
      (\<exists>pv. ?run = Some (Inr pv) \<and> cel_Eval cel (de_resultProg e) ?fs (?act ++ pv) = CelVal (GBool True))"
  proof (cases ?run)
    case None
    then show ?thesis by (simp add: r Evaluate_some [OF now])
  next
    case (Some out)
    then show ?thesis
    proof (cases out)
      case (Inl early)
      with Some eval_params_early [of cel ?fs ?act "de_params e" Map.empty early] show ?thesis
        by (auto simp: r Evaluate_some [OF now] param_failed_def no_publish_def)
    next
      case (Inr pv)
      with Some eval_result_publish [of cel ?fs "de_resultProg e" "?act ++ pv"] show ?thesis
        by (auto simp: r Evaluate_some [OF now])
    qed
  qed
  then show ?thesis
    using r now by (auto simp: yields)
qed

section \<open>Reasons, totality, independence of the past\<close>

text \<open>The reasons an evaluation can give for not publishing.\<close>

inductive skip_reason :: "'prog decision_engine \<Rightarrow> string \<Rightarrow> bool" for e where
  no_resource: "skip_reason e ''resource is nil''"
| no_time: "skip_reason e ''now time is zero''"
| bad_param: "p \<in> set (de_params e) \<Longrightarrow> skip_reason e
     (''param '' @ go_quote (pe_name p) @ '' evaluation failed: '' @ error_text err)"
| bad_result: "skip_reason e (''result evaluation failed: '' @ error_text err)"
| not_bool: "skip_reason e (''result expression did not return bool, got '' @ type_name v)"
| not_wanted: "skip_reason e ''message decision result is false''"

lemma skip_reason_not_match: "skip_reason e reason \<Longrightarrow> reason \<noteq> [] \<and> reason \<noteq> ''message decision matched''"
  by (induction rule: skip_reason.induct) auto

lemma eval_result_reason:
  "eval_result cel fs prog act = Some d \<Longrightarrow>
     d = publish_decision \<or> \<not> d_ShouldPublish d \<and> skip_reason e (d_Reason d)"
  by (auto simp: eval_result_def no_publish_def publish_decision_def simp del: append.simps type_name.simps
        intro: bad_result not_bool not_wanted split: cel_out.splits gval.splits if_splits)

lemma Evaluate_reason:
  assumes "Evaluate cel e rp now = Some (d, e')"
  shows "d = publish_decision \<or> \<not> d_ShouldPublish d \<and> skip_reason e (d_Reason d)"
proof (cases "rp = None \<or> IsZero now")
  case True
  with assms show ?thesis
    by (auto simp: Evaluate_def no_publish_def intro: skip_reason.intros split: option.splits)
next
  case False
  then obtain r where r: "rp = Some r" and now: "\<not> IsZero now" by auto
  from assms show ?thesis
    unfolding r Evaluate_some [OF now]
    by (auto split: option.splits sum.splits dest!: eval_params_early dest: eval_result_reason
        simp: param_failed_def no_publish_def intro!: bad_param simp del: append.simps)
qed

text \<open>
  C33: The reason of a decision tells what happened. It is never empty; it is
  \<open>message decision matched\<close> exactly when an event is to be published; and otherwise it is one of
  six: no resource, a zero time, a named parameter whose evaluation failed (one of the
  engine's), a failed result expression, a result that is not a boolean, or the result false.
\<close>

theorem decision_reason:
  assumes "Evaluate cel e rp now = Some (d, e')"
  shows "d_Reason d \<noteq> [] \<and> (d_ShouldPublish d \<longleftrightarrow> d_Reason d = ''message decision matched'') \<and>
     (d_ShouldPublish d \<or> skip_reason e (d_Reason d))"
  using Evaluate_reason [OF assms] skip_reason_not_match [of e "d_Reason d"]
  by (auto simp: publish_decision_def)

lemma Evaluate_lookup_free:
  "Evaluate cel (e\<lparr>de_conditionsLookup := l\<rparr>) (Some r) now =
     (if IsZero now then map_option (\<lambda>(d, _). (d, e\<lparr>de_conditionsLookup := l\<rparr>)) (Evaluate cel e (Some r) now)
      else Evaluate cel e (Some r) now)"
  by (simp add: Evaluate_def Let_def engine_functions_def)

lemma eval_result_total: "cel_never_nil cel \<Longrightarrow> eval_result cel fs prog act \<noteq> None"
  by (auto simp: eval_result_def dest: cel_never_nilD split: cel_out.splits gval.splits)

lemma Evaluate_total: "cel_never_nil cel \<Longrightarrow> Evaluate cel e rp now \<noteq> None"
  by (cases rp; cases "IsZero now")
    (auto simp: Evaluate_cases eval_params_total eval_result_total
      split: option.splits sum.splits dest: eval_params_total eval_result_total)

text \<open>Evaluating a list of resources one after the other, the engine threaded through.\<close>

fun evaluate_all ::
    "('env, 'ast, 'prog) cel \<Rightarrow> 'prog decision_engine \<Rightarrow> (resource option \<times> gtime) list \<Rightarrow>
     (decision list \<times> 'prog decision_engine) option" where
  "evaluate_all cel e [] = Some ([], e)"
| "evaluate_all cel e ((rp, now) # rs) =
     do { (d, e') \<leftarrow> Evaluate cel e rp now;
          (ds, e'') \<leftarrow> evaluate_all cel e' rs;
          Some (d # ds, e'') }"

definition decides :: "('env, 'ast, 'prog) cel \<Rightarrow> 'prog decision_engine \<Rightarrow> resource option \<times> gtime \<Rightarrow> decision option" where
  "decides cel e q = map_option fst (Evaluate cel e (fst q) (snd q))"

lemma Evaluate_engine:
  "Evaluate cel e rp now = Some (d, e') \<Longrightarrow> \<exists>l. e' = e\<lparr>de_conditionsLookup := l\<rparr>"
  by (cases rp; cases "IsZero now")
    (auto simp: Evaluate_cases
      split: option.splits sum.splits intro: exI [of _ "de_conditionsLookup e"])

lemma decides_lookup_free: "decides cel (e\<lparr>de_conditionsLookup := l\<rparr>) q = decides cel e q"
proof (cases "fst q")
  case None
  then show ?thesis by (simp add: decides_def Evaluate_def)
next
  case (Some r)
  then show ?thesis
    by (simp add: decides_def Evaluate_lookup_free option.map_comp comp_def split_def)
qed

text \<open>
  C27: Evaluations do not influence each other. Although every evaluation overwrites the
  condition look-up its programs read, a run over any sequence of resources and times ends
  without a panic (when the CEL library keeps its promise never to return nil without an
  error) and gives each resource the decision that the freshly built engine gives it alone; the
  compiled programs are never changed.
\<close>

theorem evaluations_independent:
  assumes "cel_never_nil cel"
  shows "\<exists>ds l. evaluate_all cel e qs = Some (ds, e\<lparr>de_conditionsLookup := l\<rparr>) \<and>
           map Some ds = map (decides cel e) qs"
proof (induction qs arbitrary: e)
  case Nil
  have "e = e\<lparr>de_conditionsLookup := de_conditionsLookup e\<rparr>" by simp
  then show ?case by (auto intro: exI [of _ "de_conditionsLookup e"])
next
  case (Cons q qs)
  obtain rp now where q: "q = (rp, now)" by force
  obtain d e1 where ev: "Evaluate cel e rp now = Some (d, e1)"
    using Evaluate_total [OF assms, of e rp now] by auto
  then obtain l1 where e1: "e1 = e\<lparr>de_conditionsLookup := l1\<rparr>"
    using Evaluate_engine by blast
  from Cons.IH [of e1] obtain ds l where
    "evaluate_all cel e1 qs = Some (ds, e1\<lparr>de_conditionsLookup := l\<rparr>)"
    "map Some ds = map (decides cel e1) qs" by blast
  with ev show ?case
    by (auto simp: q e1 decides_lookup_free) (simp add: decides_def)
qed

section \<open>Instances\<close>

text \<open>A library that knows the two boolean literals, an engine on it, and a resource.\<close>

definition literal_cel :: "(unit, string, string) cel" where
  "literal_cel =
     \<lparr>cel_NewEnv = \<lambda>_. Inr (), cel_Compile = \<lambda>_ text. Inr text, cel_Program = \<lambda>_ ast. Inr ast,
      cel_Eval = \<lambda>prog fs act. if prog = ''true'' then CelVal (GBool True)
                 else if prog = ''false'' then CelVal (GBool False)
                 else CelErr (ErrText ''no such attribute'')\<rparr>"

definition literal_engine :: "string \<Rightarrow> string \<Rightarrow> string decision_engine" where
  "literal_engine expr result =
     \<lparr>de_resultProg = result, de_conditionsLookup = [],
      de_params = [\<lparr>pe_prog = expr, pe_name = ''ready''\<rparr>]\<rparr>"

definition sample_time :: gtime where
  "sample_time = \<lparr>t_instant = 63871322400000000000, t_offset = 0\<rparr>"

definition sample_condition :: "string \<Rightarrow> gtime \<Rightarrow> condition" where
  "sample_condition status updated =
     \<lparr>c_Type = ''Reconciled'', c_Status = status, c_LastTransitionTime = updated,
      c_LastUpdatedTime = updated, c_ObservedGeneration = 2, c_Reason = [], c_Message = []\<rparr>"

definition sample_resource :: "condition list \<Rightarrow> resource" where
  "sample_resource cs =
     \<lparr>r_CreatedTime = sample_time, r_UpdatedTime = sample_time, r_Labels = Some [(''shard'', ''1'')],
      r_OwnerReferences = None, r_Metadata = None, r_ID = ''c1'', r_Href = ''/c1'', r_Kind = ''Cluster'',
      r_Conditions = cs, r_Generation = 2\<rparr>"

lemma literal_cel_never_nil: "cel_never_nil literal_cel"
  by (simp add: cel_never_nil_def literal_cel_def)

lemma literal_decision:
  "Evaluate literal_cel (literal_engine ''true'' ''true'') (Some (sample_resource [])) sample_time =
     Some (publish_decision, literal_engine ''true'' ''true'')"
  by (simp add: Evaluate_def IsZero_def sample_time_def literal_cel_def literal_engine_def Let_def
      eval_result_def publish_decision_def sample_resource_def buildConditionsLookup_def)

theorem engine_built_iff_witness:
  "(\<exists>e. NewDecisionEngine literal_cel (Some \<lparr>md_Result = ''true'', md_Params = []\<rparr>) = Inr e) \<and>
   \<not> (\<exists>e. NewDecisionEngine (literal_cel\<lparr>cel_Compile := \<lambda>_ text. if text = ''true'' then Inr text else Inl (ErrText ''syntax'')\<rparr>)
       (Some \<lparr>md_Result = ''true'', md_Params = [\<lparr>p_Name = ''n'', p_Expr = ''(''\<rparr>]\<rparr>) = Inr e)"
proof
  show "\<exists>e. NewDecisionEngine literal_cel (Some \<lparr>md_Result = ''true'', md_Params = []\<rparr>) = Inr e"
    by (rule iffD2 [OF conjunct1 [OF engine_built_iff]])
      (simp add: decision_ok_def cel_accepts_def literal_cel_def)
  let ?cel = "literal_cel\<lparr>cel_Compile := \<lambda>_ text. if text = ''true'' then Inr text else Inl (ErrText ''syntax'')\<rparr>"
  show "\<not> (\<exists>e. NewDecisionEngine ?cel
       (Some \<lparr>md_Result = ''true'', md_Params = [\<lparr>p_Name = ''n'', p_Expr = ''(''\<rparr>]\<rparr>) = Inr e)"
    unfolding engine_built_iff [THEN conjunct1]
    by (simp add: cel_accepts_def literal_cel_def)
qed

theorem decision_reason_witness:
  "d_Reason publish_decision \<noteq> [] \<and>
   (d_ShouldPublish publish_decision \<longleftrightarrow> d_Reason publish_decision = ''message decision matched'')"
  using decision_reason [OF literal_decision] by blast

theorem evaluations_independent_witness:
  "\<exists>ds l. evaluate_all literal_cel (literal_engine ''false'' ''x'') [(None, sample_time)] =
       Some (ds, (literal_engine ''false'' ''x'')\<lparr>de_conditionsLookup := l\<rparr>) \<and>
     map Some ds = map (decides literal_cel (literal_engine ''false'' ''x'')) [(None, sample_time)]"
  using evaluations_independent [OF literal_cel_never_nil, of "literal_engine ''false'' ''x''"
      "[(None, sample_time)]"] .

end
