(* ===== verification/Default_Decision.thy ===== *)
theory Default_Decision
  imports Engine
begin

text \<open>
  What the built-in decision of \<open>DefaultMessageDecision\<close> (\<open>internal/config/config.go\<close>)
  means for a resource when the decision engine runs it: an abstract specification over the
  resource's conditions, generation and the current time, and the proof that the engine on
  the configured expression texts implements it. The CEL language enters as the documented
  meaning of the eight texts, a hypothesis on the library.
\<close>

section \<open>The fragment of CEL the default decision is written in\<close>

datatype cexp =
    EVar string
  | EStr string
  | EInt int
  | ESel cexp string
  | ECall string cexp
  | ENot cexp
  | EAnd cexp cexp
  | EOr cexp cexp
  | EEq cexp cexp
  | ENe cexp cexp
  | EGt cexp cexp
  | ESub cexp cexp

fun ctext :: "cexp \<Rightarrow> string" where
  "ctext (EVar x) = x"
| "ctext (EStr s) = [CHR 0x22] @ s @ [CHR 0x22]"
| "ctext (EInt i) = show_int i"
| "ctext (ESel e f) = ctext e @ ''.'' @ f"
| "ctext (ECall f e) = f @ ''('' @ ctext e @ '')''"
| "ctext (ENot e) = ''!'' @ ctext e"
| "ctext (EAnd a b) = ctext a @ '' && '' @ ctext b"
| "ctext (EOr a b) = ctext a @ '' || '' @ ctext b"
| "ctext (EEq a b) = ctext a @ '' == '' @ ctext b"
| "ctext (ENe a b) = ctext a @ '' != '' @ ctext b"
| "ctext (EGt a b) = ctext a @ '' > '' @ ctext b"
| "ctext (ESub a b) = ctext a @ '' - '' @ ctext b"

text \<open>The duration literals the decision uses.\<close>

definition duration_literal :: "string \<Rightarrow> duration option" where
  "duration_literal s =
     (if s = ''30m'' then Some (30 * minute) else if s = ''10s'' then Some (10 * second) else None)"

text \<open>
  The operators: \<open>&&\<close> is false as soon as one side is, \<open>||\<close> true as soon as one side is, even
  where the other side is an error; a difference of timestamps that does not fit a duration is
  an error. \<open>None\<close> stands for an error and for what the fragment leaves open.
\<close>

fun cel_not :: "gval option \<Rightarrow> gval option" where
  "cel_not (Some (GBool b)) = Some (GBool (\<not> b))"
| "cel_not _ = None"

definition cel_and :: "gval option \<Rightarrow> gval option \<Rightarrow> gval option" where
  "cel_and a b =
     (if a = Some (GBool False) \<or> b = Some (GBool False) then Some (GBool False)
      else if a = Some (GBool True) \<and> b = Some (GBool True) then Some (GBool True) else None)"

definition cel_or :: "gval option \<Rightarrow> gval option \<Rightarrow> gval option" where
  "cel_or a b = cel_not (cel_and (cel_not a) (cel_not b))"

fun cel_eq :: "gval option \<Rightarrow> gval option \<Rightarrow> gval option" where
  "cel_eq (Some (GStr a)) (Some (GStr b)) = Some (GBool (a = b))"
| "cel_eq (Some (GInt64 a)) (Some (GInt64 b)) = Some (GBool (a = b))"
| "cel_eq _ _ = None"

fun cel_gt :: "gval option \<Rightarrow> gval option \<Rightarrow> gval option" where
  "cel_gt (Some (GInt64 a)) (Some (GInt64 b)) = Some (GBool (sint a > sint b))"
| "cel_gt (Some (GDuration a)) (Some (GDuration b)) = Some (GBool (sint a > sint b))"
| "cel_gt _ _ = None"

fun cel_sub :: "gval option \<Rightarrow> gval option \<Rightarrow> gval option" where
  "cel_sub (Some (GTime a)) (Some (GTime b)) =
     (let d = t_instant a - t_instant b
      in if min_int64 \<le> d \<and> d \<le> max_int64 then Some (GDuration (word_of_int d)) else None)"
| "cel_sub _ _ = None"

fun cel_select :: "gval option \<Rightarrow> string \<Rightarrow> gval option" where
  "cel_select (Some (GMap m)) f = gmap_get m f"
| "cel_select _ f = None"

text \<open>\<open>read_time\<close> is what \<open>timestamp(text)\<close> reads.\<close>

definition cel_call ::
    "(string \<Rightarrow> gtime option) \<Rightarrow> (string \<rightharpoonup> (gval \<Rightarrow> gval)) \<Rightarrow> string \<Rightarrow> gval option \<Rightarrow> gval option" where
  "cel_call read_time fs f a =
     (case a of
        Some (GStr s) \<Rightarrow>
          if f = ''timestamp'' then map_option GTime (read_time s)
          else if f = ''duration'' then map_option GDuration (duration_literal s)
          else map_option (\<lambda>g. g (GStr s)) (fs f)
      | _ \<Rightarrow> None)"

fun ceval ::
    "(string \<Rightarrow> gtime option) \<Rightarrow> (string \<rightharpoonup> (gval \<Rightarrow> gval)) \<Rightarrow> (string \<rightharpoonup> gval) \<Rightarrow> cexp \<Rightarrow> gval option" where
  "ceval rt fs act (EVar x) = act x"
| "ceval rt fs act (EStr s) = Some (GStr s)"
| "ceval rt fs act (EInt i) = Some (GInt64 (word_of_int i))"
| "ceval rt fs act (ESel e f) = cel_select (ceval rt fs act e) f"
| "ceval rt fs act (ECall f e) = cel_call rt fs f (ceval rt fs act e)"
| "ceval rt fs act (ENot e) = cel_not (ceval rt fs act e)"
| "ceval rt fs act (EAnd a b) = cel_and (ceval rt fs act a) (ceval rt fs act b)"
| "ceval rt fs act (EOr a b) = cel_or (ceval rt fs act a) (ceval rt fs act b)"
| "ceval rt fs act (EEq a b) = cel_eq (ceval rt fs act a) (ceval rt fs act b)"
| "ceval rt fs act (ENe a b) = cel_not (cel_eq (ceval rt fs act a) (ceval rt fs act b))"
| "ceval rt fs act (EGt a b) = cel_gt (ceval rt fs act a) (ceval rt fs act b)"
| "ceval rt fs act (ESub a b) = cel_sub (ceval rt fs act a) (ceval rt fs act b)"

section \<open>The default decision in the fragment\<close>

definition reconciled_field :: "string \<Rightarrow> cexp" where
  "reconciled_field f = ESel (ECall ''condition'' (EStr ''Reconciled'')) f"

definition generation_field :: cexp where
  "generation_field = ESel (EVar ''resource'') ''generation''"

definition older_than :: "string \<Rightarrow> cexp" where
  "older_than limit =
     EGt (ESub (EVar ''now'') (ECall ''timestamp'' (EVar ''ref_time''))) (ECall ''duration'' (EStr limit))"

definition default_params :: "(string \<times> cexp) list" where
  "default_params =
     [(''ref_time'', reconciled_field ''last_updated_time''),
      (''is_reconciled'', EEq (reconciled_field ''status'') (EStr ''True'')),
      (''has_ref_time'', ENe (EVar ''ref_time'') (EStr [])),
      (''is_new_resource'', EAnd (ENot (EVar ''is_reconciled'')) (EEq generation_field (EInt 1))),
      (''generation_mismatch'', EGt generation_field (reconciled_field ''observed_generation'')),
      (''reconciled_and_stale'',
        EAnd (EAnd (EVar ''is_reconciled'') (EVar ''has_ref_time'')) (older_than ''30m'')),
      (''not_reconciled_and_debounced'',
        EAnd (EAnd (ENot (EVar ''is_reconciled'')) (EVar ''has_ref_time'')) (older_than ''10s''))]"

definition default_result :: cexp where
  "default_result =
     EOr (EOr (EOr (EVar ''is_new_resource'') (EVar ''generation_mismatch''))
              (EVar ''reconciled_and_stale''))
         (EVar ''not_reconciled_and_debounced'')"

lemma show_int_1 [simp]: "show_int 1 = ''1''"
  by (simp add: show_int_def show_pos.simps digit_char_def)

lemma default_decision_texts:
  "md_Params DefaultMessageDecision = map (\<lambda>(n, e). mk_param n (ctext e)) default_params"
  "md_Result DefaultMessageDecision = ctext default_result"
  by (simp_all add: DefaultMessageDecision_def default_params_def default_result_def
      reconciled_field_def generation_field_def older_than_def expr_ref_time_def
      expr_is_reconciled_def expr_has_ref_time_def expr_is_new_resource_def
      expr_generation_mismatch_def expr_reconciled_and_stale_def
      expr_not_reconciled_and_debounced_def expr_result_def)

text \<open>
  The hypothesis on the library: a program made from the text of one of these expressions, in
  the environment of the default decision, evaluates to the expression's value where the
  fragment gives it one.
\<close>

definition cel_reads ::
    "(string \<Rightarrow> gtime option) \<Rightarrow> ('env, 'ast, 'prog) cel \<Rightarrow> cexp list \<Rightarrow> bool" where
  "cel_reads read_time cel es \<longleftrightarrow>
     (\<forall>e \<in> set es. \<forall>env ast prog fs act v.
        cel_NewEnv cel (engine_env_opts DefaultMessageDecision) = Inr env \<longrightarrow>
        cel_Compile cel env (ctext e) = Inr ast \<longrightarrow> cel_Program cel env ast = Inr prog \<longrightarrow>
        ceval read_time fs act e = Some v \<longrightarrow> cel_Eval cel prog fs act = CelVal v)"

definition default_exprs :: "cexp list" where
  "default_exprs = default_result # map snd default_params"

section \<open>The specification\<close>

definition is_reconciled :: "resource \<Rightarrow> bool" where
  "is_reconciled r \<longleftrightarrow>
     (\<exists>c. condition_named (r_Conditions r) ''Reconciled'' = Some c \<and> c_Status c = ''True'')"

definition observed_generation :: "resource \<Rightarrow> int" where
  "observed_generation r =
     (case condition_named (r_Conditions r) ''Reconciled'' of
        None \<Rightarrow> 0 | Some c \<Rightarrow> sint (c_ObservedGeneration c))"

text \<open>Nanoseconds since the last report, if there was one.\<close>

definition report_age :: "resource \<Rightarrow> gtime \<Rightarrow> int option" where
  "report_age r now =
     map_option (\<lambda>c. t_instant now - t_instant (c_LastUpdatedTime c))
       (condition_named (r_Conditions r) ''Reconciled'')"

definition max_age :: "resource \<Rightarrow> int" where
  "max_age r = (if is_reconciled r then 30 * 60 else 10) * 1000000000"

definition wants_event :: "resource \<Rightarrow> gtime \<Rightarrow> bool" where
  "wants_event r now \<longleftrightarrow>
     \<not> is_reconciled r \<and> sint (r_Generation r) = 1 \<or>
     sint (r_Generation r) > observed_generation r \<or>
     (\<exists>age. report_age r now = Some age \<and> age > max_age r)"

text \<open>
  When the text of the report time reads back as the same instant and the age fits Go's
  duration type (within 292 years).
\<close>

definition readable_report :: "(string \<Rightarrow> gtime option) \<Rightarrow> resource \<Rightarrow> gtime \<Rightarrow> bool" where
  "readable_report read_time r now \<longleftrightarrow>
     (case condition_named (r_Conditions r) ''Reconciled'' of
        None \<Rightarrow> True
      | Some c \<Rightarrow>
          map_option t_instant (read_time (format_rfc3339nano (c_LastUpdatedTime c))) =
            Some (t_instant (c_LastUpdatedTime c)) \<and>
          min_int64 \<le> t_instant now - t_instant (c_LastUpdatedTime c) \<and>
          t_instant now - t_instant (c_LastUpdatedTime c) \<le> max_int64)"

section \<open>The parameters in the fragment\<close>

fun run_params ::
    "(string \<Rightarrow> gtime option) \<Rightarrow> (string \<rightharpoonup> (gval \<Rightarrow> gval)) \<Rightarrow> (string \<rightharpoonup> gval) \<Rightarrow>
     (string \<times> cexp) list \<Rightarrow> (string \<rightharpoonup> gval) option" where
  "run_params rt fs act [] = Some act"
| "run_params rt fs act ((n, e) # nes) =
     (case ceval rt fs act e of None \<Rightarrow> None | Some v \<Rightarrow> run_params rt fs (act(n \<mapsto> v)) nes)"

definition runs_as ::
    "(string \<Rightarrow> gtime option) \<Rightarrow> ('env, 'ast, 'prog) cel \<Rightarrow> 'prog \<Rightarrow> cexp \<Rightarrow> bool" where
  "runs_as rt cel prog e \<longleftrightarrow>
     (\<forall>fs act v. ceval rt fs act e = Some v \<longrightarrow> cel_Eval cel prog fs act = CelVal v)"

lemma eval_params_run:
  assumes "list_all2 (\<lambda>p (n, e). pe_name p = n \<and> runs_as rt cel (pe_prog p) e) ps nes"
    and "run_params rt fs (act ++ pv) nes = Some act'"
  shows "\<exists>pv'. eval_params cel fs act ps pv = Some (Inr pv') \<and> act ++ pv' = act'"
  using assms
proof (induction ps nes arbitrary: pv rule: list_all2_induct)
  case Nil
  then show ?case by simp
next
  case (Cons p ps ne nes)
  then show ?case
    by (cases ne) (auto simp: runs_as_def split: option.splits)
qed

lemma default_engine_runs:
  assumes "NewDecisionEngine cel (Some DefaultMessageDecision) = Inr e"
    and reads: "cel_reads rt cel default_exprs"
  shows "list_all2 (\<lambda>p (n, x). pe_name p = n \<and> runs_as rt cel (pe_prog p) x) (de_params e) default_params"
    and "runs_as rt cel (de_resultProg e) default_result"
proof -
  from assms(1) obtain env where env: "cel_NewEnv cel (engine_env_opts DefaultMessageDecision) = Inr env"
    and eng: "engine_for cel env DefaultMessageDecision e"
    by (rule NewDecisionEngine_ok) auto
  have runs: "runs_as rt cel prog x"
    if "x \<in> set default_exprs" "cel_Compile cel env (ctext x) = Inr ast" "cel_Program cel env ast = Inr prog"
    for x ast prog
    using reads that env unfolding cel_reads_def runs_as_def by blast
  have names: "map pe_name (de_params e) = map fst default_params"
    using eng by (simp add: engine_for_def default_decision_texts mk_param_def comp_def split_def)
  then have len: "length (de_params e) = length default_params"
    by (metis length_map)
  show "list_all2 (\<lambda>p (n, x). pe_name p = n \<and> runs_as rt cel (pe_prog p) x) (de_params e) default_params"
  proof (rule list_all2_all_nthI [OF len])
    fix i assume i: "i < length (de_params e)"
    have "pe_name (de_params e ! i) = fst (default_params ! i)"
      using names i len by (metis nth_map)
    moreover have "runs_as rt cel (pe_prog (de_params e ! i)) (snd (default_params ! i))"
    proof -
      have "snd (default_params ! i) \<in> set default_exprs"
        using i len by (simp add: default_exprs_def)
      moreover obtain ast where "cel_Compile cel env (ctext (snd (default_params ! i))) = Inr ast"
        "cel_Program cel env ast = Inr (pe_prog (de_params e ! i))"
        using eng i len
        by (auto simp: engine_for_def default_decision_texts mk_param_def split_def)
      ultimately show ?thesis by (rule runs)
    qed
    ultimately show "case default_params ! i of (n, x) \<Rightarrow>
        pe_name (de_params e ! i) = n \<and> runs_as rt cel (pe_prog (de_params e ! i)) x"
      by (simp add: split_def)
  qed
  obtain ast where "cel_Compile cel env (ctext default_result) = Inr ast"
    "cel_Program cel env ast = Inr (de_resultProg e)"
    using eng by (auto simp: engine_for_def default_decision_texts)
  then show "runs_as rt cel (de_resultProg e) default_result"
    by (intro runs) (simp add: default_exprs_def)
qed

section \<open>The values of the default parameters\<close>

lemma ceval_reconciled_field:
  assumes "fs ''condition'' = Some (condition_binding (buildConditionsLookup (r_Conditions r)))"
  shows "ceval rt fs act (reconciled_field f) =
     gmap_get (case condition_named (r_Conditions r) ''Reconciled'' of
                 None \<Rightarrow> zeroCondition | Some c \<Rightarrow> condition_map c) f"
  using assms by (simp add: reconciled_field_def cel_call_def condition_binding_str)

lemma engine_map_generation:
  "gmap_get (engine_resourceToMap r) ''generation'' = Some (GInt64 (int64_of_int32 (r_Generation r)))"
  by (simp add: engine_resourceToMap_def Let_def gm.get_put gmap_get_Cons split: option.split)

lemma ceval_generation:
  assumes "act ''resource'' = Some (GMap (engine_resourceToMap r))"
  shows "ceval rt fs act generation_field = Some (GInt64 (int64_of_int32 (r_Generation r)))"
  using assms by (simp add: generation_field_def engine_map_generation)

lemma word_gen_one: "int64_of_int32 g = 1 \<longleftrightarrow> sint g = 1"
proof -
  have "sint (1 :: 64 word) = 1" by simp
  then show ?thesis by (metis signed_word_eqI sint_int64_of_int32)
qed

lemma cel_bool_simps [simp]:
  "cel_and (Some (GBool False)) b = Some (GBool False)"
  "cel_and a (Some (GBool False)) = Some (GBool False)"
  "cel_and (Some (GBool p)) (Some (GBool q)) = Some (GBool (p \<and> q))"
  "cel_or (Some (GBool p)) (Some (GBool q)) = Some (GBool (p \<or> q))"
  by (auto simp: cel_and_def cel_or_def)

text \<open>The booleans the default parameters compute, from the resource.\<close>

definition default_value :: "resource \<Rightarrow> gtime \<Rightarrow> string \<Rightarrow> bool" where
  "default_value r now n =
     (if n = ''is_reconciled'' then is_reconciled r
      else if n = ''has_ref_time'' then report_age r now \<noteq> None
      else if n = ''is_new_resource'' then \<not> is_reconciled r \<and> sint (r_Generation r) = 1
      else if n = ''generation_mismatch'' then sint (r_Generation r) > observed_generation r
      else if n = ''reconciled_and_stale'' then
        is_reconciled r \<and> (\<exists>age. report_age r now = Some age \<and> age > 1800000000000)
      else \<not> is_reconciled r \<and> (\<exists>age. report_age r now = Some age \<and> age > 10000000000))"

lemma wants_event_values:
  "wants_event r now \<longleftrightarrow>
     default_value r now ''is_new_resource'' \<or> default_value r now ''generation_mismatch'' \<or>
     default_value r now ''reconciled_and_stale'' \<or> default_value r now ''not_reconciled_and_debounced''"
  by (auto simp: wants_event_def default_value_def max_age_def)

lemma duration_limits:
  "sint (30 * minute) = 1800000000000" "sint (10 * second) = 10000000000"
  by (code_simp, code_simp)

lemma duration_literals:
  "duration_literal ''30m'' = Some (30 * minute)" "duration_literal ''10s'' = Some (10 * second)"
  by (simp_all add: duration_literal_def)

lemma ceval_older_than:
  assumes c: "condition_named (r_Conditions r) ''Reconciled'' = Some c"
    and readable: "readable_report rt r now"
    and act: "act ''now'' = Some (GTime now)"
      "act ''ref_time'' = Some (GStr (format_rfc3339nano (c_LastUpdatedTime c)))"
    and lit: "duration_literal limit = Some d"
  shows "ceval rt fs act (older_than limit) =
     Some (GBool (\<exists>age. report_age r now = Some age \<and> age > sint d))"
proof -
  from readable c obtain t where
    t: "rt (format_rfc3339nano (c_LastUpdatedTime c)) = Some t" "t_instant t = t_instant (c_LastUpdatedTime c)"
    and fits: "min_int64 \<le> t_instant now - t_instant (c_LastUpdatedTime c)"
      "t_instant now - t_instant (c_LastUpdatedTime c) \<le> max_int64"
    by (auto simp: readable_report_def)
  have "sint (word_of_int (t_instant now - t_instant (c_LastUpdatedTime c)) :: duration) =
      t_instant now - t_instant (c_LastUpdatedTime c)"
    using fits by (rule sint_word_of_int_64)
  with t fits act lit c show ?thesis
    by (simp add: older_than_def cel_call_def report_age_def del: sint_sbintrunc' sint_word_of_int_64)
qed

lemma default_params_run:
  fixes r now
  defines "fs \<equiv> functions_for r" and "value \<equiv> default_value r now"
  assumes readable: "readable_report rt r now"
  shows "\<exists>act'. run_params rt fs (base_activation r now) default_params = Some act' \<and>
     ceval rt fs act' default_result = Some (GBool (wants_event r now))"
proof -
  have fs: "fs ''condition'' = Some (condition_binding (buildConditionsLookup (r_Conditions r)))"
    by (simp add: fs_def functions_for_def)
  note field = ceval_reconciled_field [of fs r, OF fs]
  note gen = ceval_generation [of _ r rt fs]
  show ?thesis
  proof (cases "condition_named (r_Conditions r) ''Reconciled''")
    case None
    then show ?thesis
      by (simp add: default_params_def default_result_def field gen base_activation_def
          zeroCondition_def gmap_get_Cons wants_event_values default_value_def
          is_reconciled_def report_age_def observed_generation_def word_gen_one)
  next
    case (Some c)
    note older = ceval_older_than [OF Some readable]
    from Some show ?thesis
      by (simp add: default_params_def default_result_def field gen base_activation_def older
          condition_map_def gmap_get_Cons wants_event_values default_value_def duration_literals
          is_reconciled_def report_age_def observed_generation_def word_gen_one duration_limits)
  qed
qed

section \<open>The engine implements the specification\<close>

lemma default_decides:
  assumes "NewDecisionEngine cel (Some DefaultMessageDecision) = Inr e"
    and "cel_reads read_time cel default_exprs"
    and "readable_report read_time r now" and "\<not> IsZero now"
  shows "decides cel (e\<lparr>de_conditionsLookup := l\<rparr>) (Some r, now) =
     Some (if wants_event r now then publish_decision else no_publish ''message decision result is false'')"
proof -
  note runs = default_engine_runs [OF assms(1,2)]
  obtain act' where act': "run_params read_time (functions_for r) (base_activation r now) default_params = Some act'"
    and result: "ceval read_time (functions_for r) act' default_result = Some (GBool (wants_event r now))"
    using default_params_run [OF assms(3)] by blast
  from act' have "run_params read_time (functions_for r) (base_activation r now ++ Map.empty) default_params = Some act'"
    by simp
  then obtain pv where
    "eval_params cel (functions_for r) (base_activation r now) (de_params e) Map.empty = Some (Inr pv)"
    and pv: "base_activation r now ++ pv = act'"
    using eval_params_run [OF runs(1)] by blast
  moreover have "cel_Eval cel (de_resultProg e) (functions_for r) act' = CelVal (GBool (wants_event r now))"
    using runs(2) result by (simp add: runs_as_def)
  ultimately have "decides cel e (Some r, now) =
      Some (if wants_event r now then publish_decision else no_publish ''message decision result is false'')"
    using assms(4) by (simp add: decides_def Evaluate_some eval_result_def publish_decision_def)
  then show ?thesis by (simp add: decides_lookup_free)
qed

text \<open>
  C5: The built-in decision, run by the engine on its configured expression texts, is the
  specification \<open>wants_event\<close>: publish for a resource that is not reconciled and is at
  generation 1, for one whose generation is ahead of the one last reported, and for one whose
  last report is older than 30 minutes when reconciled and 10 seconds when not. Missing
  conditions count as not reconciled, generation 0 and no report. It holds for every engine
  built from the default configuration, whatever it evaluated before. The hypotheses say that
  the library evaluates the eight texts by CEL's documented semantics, and that the
  report's time reads back from its text and lies within 292 years of the present.
\<close>

theorem default_decision_refines:
  assumes "NewDecisionEngine cel (Some DefaultMessageDecision) = Inr e"
    and "cel_reads read_time cel default_exprs"
    and "readable_report read_time r now" and "\<not> IsZero now"
  shows "decides cel (e\<lparr>de_conditionsLookup := l\<rparr>) (Some r, now) =
     Some (if wants_event r now then publish_decision else no_publish ''message decision result is false'')"
  using assms by (rule default_decides)

text \<open>
  Silence is bounded: under the default decision a resource that has a \<open>Reconciled\<close>
  condition gets an event from every evaluation later than 30 minutes after its last report, and
  a resource whose generation moved gets one at once, whatever its conditions say.
\<close>

theorem default_decision_silence_bounded:
  assumes "NewDecisionEngine cel (Some DefaultMessageDecision) = Inr e"
    and "cel_reads read_time cel default_exprs"
    and "readable_report read_time r now" and "\<not> IsZero now"
    and "(\<exists>c. condition_named (r_Conditions r) ''Reconciled'' = Some c \<and>
           t_instant now - t_instant (c_LastUpdatedTime c) > 30 * 60 * 1000000000) \<or>
         observed_generation r < sint (r_Generation r)"
  shows "decides cel (e\<lparr>de_conditionsLookup := l\<rparr>) (Some r, now) = Some publish_decision"
proof -
  have "wants_event r now"
    using assms(5) by (auto simp: wants_event_def report_age_def max_age_def)
  then show ?thesis
    using default_decides [OF assms(1-4)] by simp
qed

section \<open>Instances\<close>

text \<open>A library that knows the eight expressions and evaluates them in the fragment.\<close>

definition sample_read_time :: "string \<Rightarrow> gtime option" where
  "sample_read_time s = (if s = format_rfc3339nano sample_time then Some sample_time else None)"

definition fragment_cel :: "(unit, cexp, cexp) cel" where
  "fragment_cel =
     \<lparr>cel_NewEnv = \<lambda>_. Inr (),
      cel_Compile = \<lambda>_ text. (case map_of (map (\<lambda>e. (ctext e, e)) default_exprs) text of
                                None \<Rightarrow> Inl (ErrText ''syntax error'') | Some e \<Rightarrow> Inr e),
      cel_Program = \<lambda>_ ast. Inr ast,
      cel_Eval = \<lambda>prog fs act. (case ceval sample_read_time fs act prog of
                                   None \<Rightarrow> CelErr (ErrText ''no such overload'') | Some v \<Rightarrow> CelVal v)\<rparr>"

definition fragment_engine :: "cexp decision_engine" where
  "fragment_engine =
     \<lparr>de_resultProg = default_result, de_conditionsLookup = [],
      de_params = map (\<lambda>(n, e). \<lparr>pe_prog = e, pe_name = n\<rparr>) default_params\<rparr>"

lemma fragment_lookup:
  "list_all (\<lambda>e. map_of (map (\<lambda>e. (ctext e, e)) default_exprs) (ctext e) = Some e) default_exprs"
  by code_simp

lemma fragment_cel_reads: "cel_reads sample_read_time fragment_cel default_exprs"
  using fragment_lookup by (auto simp: cel_reads_def fragment_cel_def list_all_iff)

lemma fragment_engine_built: "NewDecisionEngine fragment_cel (Some DefaultMessageDecision) = Inr fragment_engine"
  by code_simp

definition sample_cluster :: "string \<Rightarrow> resource" where
  "sample_cluster status = sample_resource [sample_condition status sample_time]"

definition sample_now :: "int \<Rightarrow> gtime" where
  "sample_now secs = sample_time\<lparr>t_instant := t_instant sample_time + secs * 1000000000\<rparr>"

lemma sample_cluster_condition:
  "condition_named (r_Conditions (sample_cluster status)) ''Reconciled'' =
     Some (sample_condition status sample_time)"
  by (simp add: condition_named_def sample_cluster_def sample_resource_def sample_condition_def)

lemma sample_cluster_readable:
  "\<bar>secs\<bar> \<le> 1000000 \<Longrightarrow> readable_report sample_read_time (sample_cluster status) (sample_now secs)"
  by (simp add: readable_report_def sample_cluster_condition sample_condition_def sample_read_time_def
      sample_now_def min_int64_def max_int64_def abs_le_iff)

lemma sample_now_set: "0 \<le> secs \<Longrightarrow> \<not> IsZero (sample_now secs)"
  by (simp add: IsZero_def sample_now_def sample_time_def)

theorem default_decision_refines_witness:
  "decides fragment_cel (fragment_engine\<lparr>de_conditionsLookup := []\<rparr>) (Some (sample_cluster ''True''), sample_now 1700) =
     Some (no_publish ''message decision result is false'') \<and>
   decides fragment_cel (fragment_engine\<lparr>de_conditionsLookup := []\<rparr>) (Some (sample_cluster ''False''), sample_now 11) =
     Some publish_decision"
proof
  have "\<not> wants_event (sample_cluster ''True'') (sample_now 1700)"
    by (simp add: wants_event_def is_reconciled_def observed_generation_def report_age_def max_age_def
        sample_cluster_condition sample_condition_def)
      (simp add: sample_cluster_def sample_resource_def sample_now_def)
  then show "decides fragment_cel (fragment_engine\<lparr>de_conditionsLookup := []\<rparr>)
      (Some (sample_cluster ''True''), sample_now 1700) = Some (no_publish ''message decision result is false'')"
    using default_decision_refines [OF fragment_engine_built fragment_cel_reads
        sample_cluster_readable sample_now_set, of 1700 "[]" "''True''"] by simp
  have "wants_event (sample_cluster ''False'') (sample_now 11)"
    by (simp add: wants_event_def is_reconciled_def report_age_def max_age_def
        sample_cluster_condition sample_condition_def sample_now_def)
  then show "decides fragment_cel (fragment_engine\<lparr>de_conditionsLookup := []\<rparr>)
      (Some (sample_cluster ''False''), sample_now 11) = Some publish_decision"
    using default_decision_refines [OF fragment_engine_built fragment_cel_reads
        sample_cluster_readable sample_now_set, of 11 "[]" "''False''"] by simp
qed

theorem default_decision_silence_bounded_witness:
  "decides fragment_cel (fragment_engine\<lparr>de_conditionsLookup := []\<rparr>) (Some (sample_cluster ''True''), sample_now 1801) =
     Some publish_decision"
  by (rule default_decision_silence_bounded
      [OF fragment_engine_built fragment_cel_reads sample_cluster_readable sample_now_set])
    (simp_all add: sample_cluster_condition sample_condition_def sample_now_def)

end
