(* ===== verification/Engine_Race.thy ===== *)
theory Engine_Race
  imports Default_Decision
begin

text \<open>
  Several callers of one decision engine (\<open>internal/engine/decision.go\<close>). The engine keeps one
  condition look-up; \<open>Evaluate\<close> replaces it under the mutex, and the \<open>condition\<close> function reads it
  under the mutex, but the evaluation as a whole is not under it. Here \<open>Evaluate\<close> is cut into its
  parts, which calls from several goroutines may interleave: the replacement of the look-up, the
  evaluation of each parameter, and the evaluation of the result. The evaluation of one CEL program
  is kept whole, as the CEL library is a parameter: its functions are those of the look-up at
  that step. In the program a replacement may also fall between two reads of the same program; with
  equal conditions such a replacement changes no read, and a race shown here is a race there.
\<close>

section \<open>A call in parts\<close>

datatype 'prog eval_stage =
    NotBegun
  | Evaluating "'prog param_entry list" "string \<rightharpoonup> gval"
  | Finished decision
  | Faulted

record 'prog eval_call =
  ec_resource :: resource
  ec_now :: gtime
  ec_stage :: "'prog eval_stage"

fun decided :: "'prog eval_stage \<Rightarrow> decision option" where
  "decided (Finished d) = Some d"
| "decided _ = None"

lemma decided_Some [simp]: "decided stage = Some d \<longleftrightarrow> stage = Finished d"
  by (cases stage) simp_all

definition eval_call_step ::
    "('env, 'ast, 'prog) cel \<Rightarrow> 'prog decision_engine \<Rightarrow> 'prog eval_call \<Rightarrow>
     'prog decision_engine \<times> 'prog eval_call" where
  "eval_call_step cel e c =
     (let activation = base_activation (ec_resource c) (ec_now c); fs = engine_functions e in
      case ec_stage c of
        NotBegun \<Rightarrow>
          if IsZero (ec_now c) then (e, c\<lparr>ec_stage := Finished (no_publish ''now time is zero'')\<rparr>)
          else (e\<lparr>de_conditionsLookup := buildConditionsLookup (r_Conditions (ec_resource c))\<rparr>,
                c\<lparr>ec_stage := Evaluating (de_params e) Map.empty\<rparr>)
      | Evaluating [] pv \<Rightarrow>
          (e, c\<lparr>ec_stage := (case eval_result cel fs (de_resultProg e) (activation ++ pv) of
                              None \<Rightarrow> Faulted | Some d \<Rightarrow> Finished d)\<rparr>)
      | Evaluating (p # ps) pv \<Rightarrow>
          (e, c\<lparr>ec_stage := (case cel_Eval cel (pe_prog p) fs (activation ++ pv) of
                              CelErr err \<Rightarrow> Finished (param_failed (pe_name p) err)
                            | CelNil \<Rightarrow> Faulted
                            | CelVal out \<Rightarrow> Evaluating ps (pv(pe_name p \<mapsto> out)))\<rparr>)
      | Finished d \<Rightarrow> (e, c)
      | Faulted \<Rightarrow> (e, c))"

text \<open>A schedule names the call whose turn it is.\<close>

fun run_calls ::
    "('env, 'ast, 'prog) cel \<Rightarrow> nat list \<Rightarrow> 'prog decision_engine \<Rightarrow> 'prog eval_call list \<Rightarrow>
     'prog decision_engine \<times> 'prog eval_call list" where
  "run_calls cel [] e calls = (e, calls)"
| "run_calls cel (i # schedule) e calls =
     (if i < length calls then
        let (e, c) = eval_call_step cel e (calls ! i) in run_calls cel schedule e (calls[i := c])
      else run_calls cel schedule e calls)"

section \<open>Calls that see their own conditions\<close>

text \<open>What is left of an evaluation.\<close>

definition rest_of_evaluation ::
    "('env, 'ast, 'prog) cel \<Rightarrow> (string \<rightharpoonup> (gval \<Rightarrow> gval)) \<Rightarrow> 'prog \<Rightarrow> (string \<rightharpoonup> gval) \<Rightarrow>
     'prog param_entry list \<Rightarrow> (string \<rightharpoonup> gval) \<Rightarrow> decision option" where
  "rest_of_evaluation cel fs prog act ps pv =
     (case eval_params cel fs act ps pv of
        None \<Rightarrow> None
      | Some (Inl early) \<Rightarrow> Some early
      | Some (Inr pv') \<Rightarrow> eval_result cel fs prog (act ++ pv'))"

lemma decides_rest:
  "\<not> IsZero now \<Longrightarrow> decides cel e (Some r, now) =
     rest_of_evaluation cel (functions_for r) (de_resultProg e) (base_activation r now) (de_params e) Map.empty"
  by (auto simp: decides_def Evaluate_some rest_of_evaluation_def option.map_comp comp_def option.map_ident
      split: option.split sum.split)

lemma rest_simps:
  "rest_of_evaluation cel fs prog act [] pv = eval_result cel fs prog (act ++ pv)"
  "rest_of_evaluation cel fs prog act (p # ps) pv =
     (case cel_Eval cel (pe_prog p) fs (act ++ pv) of
        CelErr err \<Rightarrow> Some (param_failed (pe_name p) err)
      | CelNil \<Rightarrow> None
      | CelVal out \<Rightarrow> rest_of_evaluation cel fs prog act ps (pv(pe_name p \<mapsto> out)))"
  by (simp_all add: rest_of_evaluation_def split: cel_out.split)

text \<open>A call is on its way to the decision a call of its own would take.\<close>

definition call_ok ::
    "('env, 'ast, 'prog) cel \<Rightarrow> 'prog decision_engine \<Rightarrow> 'prog eval_call \<Rightarrow> bool" where
  "call_ok cel e c \<longleftrightarrow>
     (let r = ec_resource c; now = ec_now c in
      case ec_stage c of
        NotBegun \<Rightarrow> True
      | Evaluating ps pv \<Rightarrow> \<not> IsZero now \<and> de_conditionsLookup e = buildConditionsLookup (r_Conditions r) \<and>
          decides cel e (Some r, now) =
          rest_of_evaluation cel (functions_for r) (de_resultProg e) (base_activation r now) ps pv
      | Finished d \<Rightarrow> decides cel e (Some r, now) = Some d
      | Faulted \<Rightarrow> decides cel e (Some r, now) = None)"

lemma decides_any_lookup: "decides cel (e\<lparr>de_conditionsLookup := l\<rparr>) q = decides cel e q"
  by (rule decides_lookup_free)

lemma call_step_ok:
  assumes "call_ok cel e c" and "eval_call_step cel e c = (e', c')"
  shows "call_ok cel e' c' \<and> ec_resource c' = ec_resource c \<and> ec_now c' = ec_now c \<and>
     (e' = e \<or> e' = e\<lparr>de_conditionsLookup := buildConditionsLookup (r_Conditions (ec_resource c))\<rparr>)"
proof (cases "ec_stage c")
  case NotBegun
  show ?thesis
  proof (cases "IsZero (ec_now c)")
    case True
    with NotBegun assms(2) show ?thesis
      by (auto simp: eval_call_step_def call_ok_def decides_def Evaluate_zero)
  next
    case False
    with NotBegun assms(2) show ?thesis
      by (auto simp: eval_call_step_def call_ok_def decides_any_lookup decides_rest)
  qed
next
  case (Evaluating ps pv)
  with assms(1) have "engine_functions e = functions_for (ec_resource c)"
    by (simp add: call_ok_def engine_functions_def functions_for_def Let_def)
  with Evaluating assms show ?thesis
    by (cases ps) (auto simp: eval_call_step_def call_ok_def rest_simps Let_def split: cel_out.splits option.splits)
next
  case (Finished d)
  with assms show ?thesis by (simp add: eval_call_step_def)
next
  case Faulted
  with assms show ?thesis by (simp add: eval_call_step_def)
qed

lemma call_ok_lookup:
  assumes "call_ok cel e c" and "l = buildConditionsLookup (r_Conditions (ec_resource c))"
  shows "call_ok cel (e\<lparr>de_conditionsLookup := l\<rparr>) c"
  using assms by (cases "ec_stage c") (simp_all add: call_ok_def Let_def decides_any_lookup)

definition own_conditions :: "gval gmap gmap \<Rightarrow> 'prog eval_call \<Rightarrow> bool" where
  "own_conditions l c \<longleftrightarrow> buildConditionsLookup (r_Conditions (ec_resource c)) = l"

lemma run_calls_ok:
  "list_all (\<lambda>c. call_ok cel e c \<and> own_conditions l c) calls \<Longrightarrow>
     run_calls cel schedule e calls = (e', calls') \<Longrightarrow>
     list_all2 (\<lambda>c c'. call_ok cel e' c' \<and> ec_resource c' = ec_resource c \<and> ec_now c' = ec_now c) calls calls' \<and>
     (\<exists>l. e' = e\<lparr>de_conditionsLookup := l\<rparr>)"
proof (induction schedule arbitrary: e calls)
  case Nil
  then have "e' = e\<lparr>de_conditionsLookup := de_conditionsLookup e\<rparr>" by simp
  moreover have "list_all2 (\<lambda>c c'. call_ok cel e' c' \<and> ec_resource c' = ec_resource c \<and> ec_now c' = ec_now c) calls calls'"
    using Nil by (auto simp: list_all2_same list_all_iff)
  ultimately show ?case by blast
next
  case (Cons i schedule)
  show ?case
  proof (cases "i < length calls")
    case False
    with Cons show ?thesis by simp
  next
    case True
    obtain e1 c1 where s: "eval_call_step cel e (calls ! i) = (e1, c1)" by force
    from True Cons.prems(1) have "call_ok cel e (calls ! i)" "own_conditions l (calls ! i)"
      by (auto simp: list_all_length)
    note c = call_step_ok [OF this(1) s] this(2)
    have e1: "e1 = e \<or> e1 = e\<lparr>de_conditionsLookup := l\<rparr>" using c by (auto simp: own_conditions_def)
    have others: "call_ok cel e1 x" if "x \<in> set calls" for x
      using Cons.prems(1) e1 that call_ok_lookup [of cel e x l] by (auto simp: list_all_iff own_conditions_def)
    have "list_all (\<lambda>c. call_ok cel e1 c \<and> own_conditions l c) (calls[i := c1])"
      using Cons.prems(1) c others set_update_subset_insert [of calls i c1]
      by (auto simp: list_all_iff own_conditions_def)
    from Cons.IH [OF this] Cons.prems(2) True s have
      r: "list_all2 (\<lambda>c c'. call_ok cel e' c' \<and> ec_resource c' = ec_resource c \<and> ec_now c' = ec_now c) (calls[i := c1]) calls'"
      "\<exists>l. e' = e1\<lparr>de_conditionsLookup := l\<rparr>" by auto
    have "list_all2 (\<lambda>c c'. call_ok cel e' c' \<and> ec_resource c' = ec_resource c \<and> ec_now c' = ec_now c) calls calls'"
      using r(1) c(1) True by (auto simp: list_all2_conv_all_nth nth_list_update split: if_splits)
    moreover have "\<exists>l. e' = e\<lparr>de_conditionsLookup := l\<rparr>" using r(2) e1 by auto
    ultimately show ?thesis ..
  qed
qed

lemma run_calls_decide:
  assumes "list_all (\<lambda>c. ec_stage c = NotBegun \<and> own_conditions l c) calls" and "i < length calls"
    and "ec_stage (snd (run_calls cel schedule e calls) ! i) = Finished d"
  shows "decides cel e (Some (ec_resource (calls ! i)), ec_now (calls ! i)) = Some d"
proof -
  obtain e' calls' where r: "run_calls cel schedule e calls = (e', calls')" by force
  have "list_all (\<lambda>c. call_ok cel e c \<and> own_conditions l c) calls"
    using assms(1) by (auto simp: list_all_iff call_ok_def Let_def)
  from run_calls_ok [OF this r] assms(2) obtain k where
    "call_ok cel e' (calls' ! i)" "ec_resource (calls' ! i) = ec_resource (calls ! i)"
    "ec_now (calls' ! i) = ec_now (calls ! i)" "e' = e\<lparr>de_conditionsLookup := k\<rparr>"
    by (auto simp: list_all2_conv_all_nth)
  with assms(3) r show ?thesis by (simp add: call_ok_def Let_def decides_any_lookup)
qed

text \<open>A call that is given its turns comes to an end, whatever the look-up holds.\<close>

lemma over_stays:
  "i < length calls \<Longrightarrow> ec_stage (calls ! i) = Finished d \<or> ec_stage (calls ! i) = Faulted \<Longrightarrow>
     snd (run_calls cel (replicate n i) e calls) ! i = calls ! i"
  by (induction n arbitrary: e calls) (auto simp: eval_call_step_def Let_def split: prod.split)

lemma own_turns:
  "i < length calls \<Longrightarrow> ec_stage (calls ! i) = Evaluating ps pv \<Longrightarrow> length ps < n \<Longrightarrow>
     decided (ec_stage (snd (run_calls cel (replicate n i) e calls) ! i)) =
       rest_of_evaluation cel (engine_functions e) (de_resultProg e)
         (base_activation (ec_resource (calls ! i)) (ec_now (calls ! i))) ps pv"
proof (induction ps arbitrary: calls pv n)
  case Nil
  then obtain m where n: "n = Suc m" by (cases n) simp_all
  obtain c where step: "eval_call_step cel e (calls ! i) = (e, c)"
    and c: "ec_stage c = (case eval_result cel (engine_functions e) (de_resultProg e)
      (base_activation (ec_resource (calls ! i)) (ec_now (calls ! i)) ++ pv) of None \<Rightarrow> Faulted | Some d \<Rightarrow> Finished d)"
    using Nil.prems by (simp add: eval_call_step_def Let_def)
  then have "ec_stage c = Faulted \<or> (\<exists>d. ec_stage c = Finished d)"
    by (simp split: option.split)
  then have "snd (run_calls cel (replicate m i) e (calls[i := c])) ! i = c"
    using Nil.prems(1) over_stays [of i "calls[i := c]"] by auto
  then show ?case
    using Nil.prems(1) c by (simp add: n step rest_simps split: option.split)
next
  case (Cons p ps)
  then obtain m where n: "n = Suc m" by (cases n) simp_all
  let ?act = "base_activation (ec_resource (calls ! i)) (ec_now (calls ! i))"
  obtain e1 c where step1: "eval_call_step cel e (calls ! i) = (e1, c)" by force
  then have step: "eval_call_step cel e (calls ! i) = (e, c)"
    and same: "ec_resource c = ec_resource (calls ! i)" "ec_now c = ec_now (calls ! i)"
    and c: "ec_stage c = (case cel_Eval cel (pe_prog p) (engine_functions e) (?act ++ pv) of
        CelErr err \<Rightarrow> Finished (param_failed (pe_name p) err) | CelNil \<Rightarrow> Faulted
      | CelVal out \<Rightarrow> Evaluating ps (pv(pe_name p \<mapsto> out)))"
    using Cons.prems by (auto simp: eval_call_step_def Let_def)
  have stays: "snd (run_calls cel (replicate m i) e (calls[i := c])) ! i = c"
    if "ec_stage c = Finished d \<or> ec_stage c = Faulted" for d
    using Cons.prems(1) over_stays [of i "calls[i := c]"] that by auto
  show ?case
  proof (cases "cel_Eval cel (pe_prog p) (engine_functions e) (?act ++ pv)")
    case (CelVal v)
    have at: "i < length (calls[i := c])" "length ps < m" using Cons.prems(1,3) n by simp_all
    have "ec_stage (calls[i := c] ! i) = Evaluating ps (pv(pe_name p \<mapsto> v))"
      using Cons.prems(1) c CelVal by simp
    from Cons.IH [OF at(1) this at(2)] Cons.prems(1) same show ?thesis
      by (simp add: n step rest_simps CelVal del: fun_upd_apply)
  qed (use Cons.prems(1) c stays in \<open>simp_all add: n step rest_simps\<close>)
qed

section \<open>Calls that overlap\<close>

text \<open>
  Two calls for clusters whose reports differ: the first is reconciled and needs no message. It
  begins, the second begins and replaces the look-up, and the first goes on.
\<close>

definition overlapping_calls :: "cexp eval_call list" where
  "overlapping_calls =
     [\<lparr>ec_resource = sample_cluster ''True'', ec_now = sample_now 11, ec_stage = NotBegun\<rparr>,
      \<lparr>ec_resource = sample_cluster ''False'', ec_now = sample_now 11, ec_stage = NotBegun\<rparr>]"

lemma two_begun:
  assumes "\<not> IsZero (ec_now a)" and "\<not> IsZero (ec_now b)" and "ec_stage a = NotBegun" and "ec_stage b = NotBegun"
    and "engine_resourceToMap (ec_resource a) = engine_resourceToMap (ec_resource b)" and "ec_now a = ec_now b"
    and "length (de_params e) < n"
  shows "decided (ec_stage (snd (run_calls cel (0 # 1 # replicate n 0) e [a, b]) ! 0)) =
     decides cel e (Some (ec_resource b), ec_now b)"
  using assms
  by (simp add: eval_call_step_def Let_def own_turns decides_rest base_activation_def engine_functions_def
      functions_for_def)

lemma sample_clusters_map: "engine_resourceToMap (sample_cluster x) = engine_resourceToMap (sample_cluster y)"
proof -
  have "r_ID (sample_cluster x) = r_ID (sample_cluster y)" "r_Href (sample_cluster x) = r_Href (sample_cluster y)"
    "r_Kind (sample_cluster x) = r_Kind (sample_cluster y)" "r_CreatedTime (sample_cluster x) = r_CreatedTime (sample_cluster y)"
    "r_UpdatedTime (sample_cluster x) = r_UpdatedTime (sample_cluster y)"
    "r_Generation (sample_cluster x) = r_Generation (sample_cluster y)" "r_Labels (sample_cluster x) = r_Labels (sample_cluster y)"
    "r_OwnerReferences (sample_cluster x) = r_OwnerReferences (sample_cluster y)"
    "r_Metadata (sample_cluster x) = r_Metadata (sample_cluster y)"
    by (simp_all add: sample_cluster_def sample_resource_def)
  then show ?thesis by (simp only: engine_resourceToMap_def)
qed

lemma overlap_published:
  "decided (ec_stage (snd (run_calls fragment_cel (0 # 1 # replicate 8 0) fragment_engine overlapping_calls) ! 0)) = Some publish_decision"
proof -
  have "decides fragment_cel fragment_engine (Some (sample_cluster ''False''), sample_now 11) = Some publish_decision"
    by code_simp
  moreover have "length (de_params fragment_engine) < 8" by code_simp
  ultimately show ?thesis
    using two_begun [of "overlapping_calls ! 0" "overlapping_calls ! 1" fragment_engine 8 fragment_cel]
      sample_clusters_map [of "''True''" "''False''"]
    by (simp add: overlapping_calls_def sample_now_set del: run_calls.simps)
qed

lemma alone_not_published:
  "decides fragment_cel fragment_engine (Some (sample_cluster ''True''), sample_now 11) =
     Some (no_publish ''message decision result is false'')"
  by code_simp

text \<open>
  C28: An engine serves one call at a time. However the parts of several calls interleave, a call
  that finishes has decided as it would have alone, as long as the resources being evaluated have the same
  conditions. Without that it need not: the mutex guards each access to the look-up but not the
  evaluation, and a call for a reconciled cluster that overlaps one for a cluster that is not is
  told to publish by the other's conditions. (The sentinel evaluates from one goroutine only.)
\<close>

theorem overlapping_evaluations:
  "(\<forall>calls i d. list_all (\<lambda>c. ec_stage c = NotBegun \<and> own_conditions l c) calls \<and> i < length calls \<and>
      decided (ec_stage (snd (run_calls cel schedule e calls) ! i)) = Some d \<longrightarrow>
      decides cel e (Some (ec_resource (calls ! i)), ec_now (calls ! i)) = Some d) \<and>
   (\<exists>schedule d d'. decided (ec_stage (snd (run_calls fragment_cel schedule fragment_engine overlapping_calls) ! 0)) = Some d \<and>
      decides fragment_cel fragment_engine
        (Some (ec_resource (overlapping_calls ! 0)), ec_now (overlapping_calls ! 0)) = Some d' \<and>
      d_ShouldPublish d \<and> \<not> d_ShouldPublish d')"
proof (intro conjI allI impI)
  fix calls i d
  assume "list_all (\<lambda>c. ec_stage c = NotBegun \<and> own_conditions l c) calls \<and> i < length calls \<and>
      decided (ec_stage (snd (run_calls cel schedule e calls) ! i)) = Some d"
  then show "decides cel e (Some (ec_resource (calls ! i)), ec_now (calls ! i)) = Some d"
    using run_calls_decide by fastforce
next
  show "\<exists>schedule d d'. decided (ec_stage (snd (run_calls fragment_cel schedule fragment_engine overlapping_calls) ! 0)) = Some d \<and>
      decides fragment_cel fragment_engine
        (Some (ec_resource (overlapping_calls ! 0)), ec_now (overlapping_calls ! 0)) = Some d' \<and>
      d_ShouldPublish d \<and> \<not> d_ShouldPublish d'"
    using overlap_published alone_not_published unfolding decided_Some
    by (intro exI [of _ "0 # 1 # replicate 8 0"] exI [of _ publish_decision]
        exI [of _ "no_publish ''message decision result is false''"])
      (simp add: overlapping_calls_def publish_decision_def no_publish_def)
qed

section \<open>Instances\<close>

definition same_calls :: "cexp eval_call list" where
  "same_calls =
     [\<lparr>ec_resource = sample_cluster ''False'', ec_now = sample_now 11, ec_stage = NotBegun\<rparr>,
      \<lparr>ec_resource = sample_cluster ''False'', ec_now = sample_now 11, ec_stage = NotBegun\<rparr>]"

theorem overlapping_evaluations_witness:
  "decides fragment_cel fragment_engine (Some (sample_cluster ''False''), sample_now 11) = Some publish_decision"
proof -
  have "decides fragment_cel fragment_engine (Some (sample_cluster ''False''), sample_now 11) = Some publish_decision"
    by code_simp
  moreover have "length (de_params fragment_engine) < 8" by code_simp
  ultimately have "decided (ec_stage (snd (run_calls fragment_cel (0 # 1 # replicate 8 0) fragment_engine same_calls) ! 0)) =
      Some publish_decision"
    using two_begun [of "same_calls ! 0" "same_calls ! 1" fragment_engine 8 fragment_cel]
    by (simp add: same_calls_def sample_now_set del: run_calls.simps)
  moreover have "list_all (\<lambda>c. ec_stage c = NotBegun \<and>
      own_conditions (buildConditionsLookup (r_Conditions (sample_cluster ''False''))) c) same_calls"
    by (simp add: same_calls_def own_conditions_def)
  moreover have "0 < length same_calls" by (simp add: same_calls_def)
  ultimately have "decides fragment_cel fragment_engine (Some (ec_resource (same_calls ! 0)), ec_now (same_calls ! 0)) =
      Some publish_decision"
    using overlapping_evaluations [of "buildConditionsLookup (r_Conditions (sample_cluster ''False''))"
        fragment_cel "0 # 1 # replicate 8 0" fragment_engine] by blast
  then show ?thesis by (simp add: same_calls_def)
qed

end
