(* ===== verification/Metrics.thy ===== *)
theory Metrics
  imports Config
begin

text \<open>
  The Prometheus metrics (\<open>internal/metrics/metrics.go\<close>): the package-level collectors with
  the once-only registration, their reset, and the update functions with their guards. A
  collector that was never created is \<open>None\<close>; using one is a nil dereference, the panic
  \<open>None\<close> of the update. Warnings go to a list, in the order they are logged. The client library
  enters as what the code relies on: a registry refuses a second collector with the same
  name and constant labels, a vector keeps one series per label set.
\<close>

section \<open>Names and labels\<close>

definition metricsSubsystem :: string where "metricsSubsystem = ''hyperfleet_sentinel''"

definition metricsResourceTypeLabel :: string where "metricsResourceTypeLabel = ''resource_type''"
definition metricsResourceSelectorLabel :: string where "metricsResourceSelectorLabel = ''resource_selector''"
definition metricsReasonLabel :: string where "metricsReasonLabel = ''reason''"
definition metricsErrorTypeLabel :: string where "metricsErrorTypeLabel = ''error_type''"
definition metricsComponentLabel :: string where "metricsComponentLabel = ''component''"
definition metricsVersionLabel :: string where "metricsVersionLabel = ''version''"
definition componentName :: string where "componentName = ''sentinel''"

definition MetricsLabels :: "string list" where
  "MetricsLabels = [metricsResourceTypeLabel, metricsResourceSelectorLabel]"

definition MetricsLabelsWithReason :: "string list" where
  "MetricsLabelsWithReason =
     [metricsResourceTypeLabel, metricsResourceSelectorLabel, metricsReasonLabel]"

definition MetricsLabelsWithErrorType :: "string list" where
  "MetricsLabelsWithErrorType =
     [metricsResourceTypeLabel, metricsResourceSelectorLabel, metricsErrorTypeLabel]"

definition MetricsNames :: "string list" where
  "MetricsNames =
     [''pending_resources'', ''events_published_total'', ''resources_skipped_total'',
      ''poll_duration_seconds'', ''api_errors_total'', ''broker_errors_total'',
      ''last_successful_poll_timestamp_seconds'']"

section \<open>State\<close>

type_synonym labels = "string gmap"
type_synonym 'a vec = "labels \<rightharpoonup> 'a"

datatype registry = DefaultRegisterer | Registry nat

record descriptor =
  ds_name :: string
  ds_constLabels :: labels

record metrics =
  pendingResourcesGauge :: "int vec option"
  eventsPublishedCounter :: "nat vec option"
  resourcesSkippedCounter :: "nat vec option"
  pollDurationHistogram :: "rat list vec option"
  apiErrorsCounter :: "nat vec option"
  brokerErrorsCounter :: "nat vec option"
  lastSuccessfulPollTimestampGauge :: "rat option"
  registerOnceDone :: bool
  metricsInstance :: "nat option"
  mt_created :: nat
  mt_registered :: "registry \<Rightarrow> descriptor list"
  mt_warnings :: "string list"

text \<open>The state when the program starts.\<close>

definition metrics_start :: metrics where
  "metrics_start =
     \<lparr>pendingResourcesGauge = None, eventsPublishedCounter = None, resourcesSkippedCounter = None,
      pollDurationHistogram = None, apiErrorsCounter = None, brokerErrorsCounter = None,
      lastSuccessfulPollTimestampGauge = None, registerOnceDone = False, metricsInstance = None,
      mt_created = 0, mt_registered = \<lambda>_. [], mt_warnings = []\<rparr>"

section \<open>Creation and reset\<close>

definition descriptors :: "string \<Rightarrow> descriptor list" where
  "descriptors version =
     map (\<lambda>name. \<lparr>ds_name = metricsSubsystem @ ''_'' @ name,
                  ds_constLabels = [(metricsComponentLabel, componentName), (metricsVersionLabel, version)]\<rparr>)
       MetricsNames"

text \<open>\<open>MustRegister\<close>, one collector after the other; a second one of the same identity panics.\<close>

fun must_register :: "descriptor list \<Rightarrow> descriptor list \<Rightarrow> descriptor list option" where
  "must_register present [] = Some present"
| "must_register present (d # ds) =
     (if d \<in> set present then None else must_register (present @ [d]) ds)"

text \<open>
  The pointer \<open>NewSentinelMetrics\<close> returns is the number of its creation; \<open>None\<close> as a pointer
  is nil.
\<close>

definition NewSentinelMetrics :: "registry option \<Rightarrow> string \<Rightarrow> metrics \<Rightarrow> (nat option \<times> metrics) option" where
  "NewSentinelMetrics registry_arg version m =
     (if registerOnceDone m then Some (metricsInstance m, m)
      else
        let registry = (case registry_arg of None \<Rightarrow> DefaultRegisterer | Some r \<Rightarrow> r);
            m = m\<lparr>pendingResourcesGauge := Some Map.empty, eventsPublishedCounter := Some Map.empty,
                  resourcesSkippedCounter := Some Map.empty, pollDurationHistogram := Some Map.empty,
                  apiErrorsCounter := Some Map.empty, brokerErrorsCounter := Some Map.empty,
                  lastSuccessfulPollTimestampGauge := Some 0\<rparr>
        in case must_register (mt_registered m registry) (descriptors version) of
             None \<Rightarrow> None
           | Some present \<Rightarrow>
               let m = m\<lparr>mt_registered := (mt_registered m)(registry := present),
                         metricsInstance := Some (mt_created m), mt_created := Suc (mt_created m),
                         registerOnceDone := True\<rparr>
               in Some (metricsInstance m, m))"

definition ResetSentinelMetrics :: "metrics \<Rightarrow> metrics" where
  "ResetSentinelMetrics m =
     m\<lparr>pendingResourcesGauge := map_option (\<lambda>_. Map.empty) (pendingResourcesGauge m),
       eventsPublishedCounter := map_option (\<lambda>_. Map.empty) (eventsPublishedCounter m),
       resourcesSkippedCounter := map_option (\<lambda>_. Map.empty) (resourcesSkippedCounter m),
       pollDurationHistogram := map_option (\<lambda>_. Map.empty) (pollDurationHistogram m),
       apiErrorsCounter := map_option (\<lambda>_. Map.empty) (apiErrorsCounter m),
       brokerErrorsCounter := map_option (\<lambda>_. Map.empty) (brokerErrorsCounter m),
       lastSuccessfulPollTimestampGauge := map_option (\<lambda>_. 0) (lastSuccessfulPollTimestampGauge m),
       registerOnceDone := False, metricsInstance := None\<rparr>"

section \<open>Updates\<close>

definition metrics_warn :: "string \<Rightarrow> metrics \<Rightarrow> metrics" where
  "metrics_warn text m = m\<lparr>mt_warnings := mt_warnings m @ [text]\<rparr>"

definition empty_parameters :: "string \<Rightarrow> string \<Rightarrow> string \<Rightarrow> string \<Rightarrow> string" where
  "empty_parameters metric resourceType resourceSelector rest =
     ''Attempted to update '' @ metric @ '' metric with empty parameters: resourceType='' @
     go_quote resourceType @ '' resourceSelector='' @ go_quote resourceSelector @ rest"

definition common_labels :: "string \<Rightarrow> string \<Rightarrow> labels" where
  "common_labels resourceType resourceSelector =
     [(metricsResourceTypeLabel, resourceType), (metricsResourceSelectorLabel, resourceSelector)]"

definition reason_labels :: "string \<Rightarrow> string \<Rightarrow> string \<Rightarrow> labels" where
  "reason_labels resourceType resourceSelector reason =
     common_labels resourceType resourceSelector @ [(metricsReasonLabel, reason)]"

definition error_labels :: "string \<Rightarrow> string \<Rightarrow> string \<Rightarrow> labels" where
  "error_labels resourceType resourceSelector errorType =
     common_labels resourceType resourceSelector @ [(metricsErrorTypeLabel, errorType)]"

definition count_of :: "nat vec \<Rightarrow> labels \<Rightarrow> nat" where
  "count_of v ls = (case v ls of None \<Rightarrow> 0 | Some n \<Rightarrow> n)"

definition vec_inc :: "labels \<Rightarrow> nat vec \<Rightarrow> nat vec" where
  "vec_inc ls v = v(ls \<mapsto> Suc (count_of v ls))"

definition vec_observe :: "labels \<Rightarrow> rat \<Rightarrow> rat list vec \<Rightarrow> rat list vec" where
  "vec_observe ls x v = v(ls \<mapsto> (case v ls of None \<Rightarrow> [] | Some xs \<Rightarrow> xs) @ [x])"

definition UpdatePendingResourcesMetric :: "string \<Rightarrow> string \<Rightarrow> int \<Rightarrow> metrics \<Rightarrow> metrics option" where
  "UpdatePendingResourcesMetric resourceType resourceSelector n m =
     (if resourceType = [] \<or> resourceSelector = []
      then Some (metrics_warn (empty_parameters ''pending_resources'' resourceType resourceSelector []) m)
      else
        let n = (if n < 0 then 0 else n) in
        map_option (\<lambda>v. m\<lparr>pendingResourcesGauge := Some (v(common_labels resourceType resourceSelector \<mapsto> n))\<rparr>)
          (pendingResourcesGauge m))"

definition UpdateEventsPublishedMetric :: "string \<Rightarrow> string \<Rightarrow> string \<Rightarrow> metrics \<Rightarrow> metrics option" where
  "UpdateEventsPublishedMetric resourceType resourceSelector reason m =
     (if resourceType = [] \<or> resourceSelector = [] \<or> reason = []
      then Some (metrics_warn (empty_parameters ''events_published'' resourceType resourceSelector
                   ('' reason='' @ go_quote reason)) m)
      else map_option (\<lambda>v. m\<lparr>eventsPublishedCounter := Some (vec_inc (reason_labels resourceType resourceSelector reason) v)\<rparr>)
             (eventsPublishedCounter m))"

definition UpdateResourcesSkippedMetric :: "string \<Rightarrow> string \<Rightarrow> string \<Rightarrow> metrics \<Rightarrow> metrics option" where
  "UpdateResourcesSkippedMetric resourceType resourceSelector reason m =
     (if resourceType = [] \<or> resourceSelector = [] \<or> reason = []
      then Some (metrics_warn (empty_parameters ''resources_skipped'' resourceType resourceSelector
                   ('' reason='' @ go_quote reason)) m)
      else map_option (\<lambda>v. m\<lparr>resourcesSkippedCounter := Some (vec_inc (reason_labels resourceType resourceSelector reason) v)\<rparr>)
             (resourcesSkippedCounter m))"

text \<open>A negative number of seconds is only ever printed to say that it was refused (\<open>%f\<close>).\<close>

definition show_fixed :: "nat \<Rightarrow> rat \<Rightarrow> string" where
  "show_fixed prec q =
     (let n = round (\<bar>q\<bar> * 10 ^ prec);
          digits = show_int (n div 10 ^ prec) @ ''.'' @ pad0 prec (show_pos (n mod 10 ^ prec))
      in if q < 0 then ''-'' @ digits else digits)"

definition UpdatePollDurationMetric :: "string \<Rightarrow> string \<Rightarrow> rat \<Rightarrow> metrics \<Rightarrow> metrics option" where
  "UpdatePollDurationMetric resourceType resourceSelector durationSeconds m =
     (if resourceType = [] \<or> resourceSelector = []
      then Some (metrics_warn (empty_parameters ''poll_duration'' resourceType resourceSelector []) m)
      else if durationSeconds < 0
      then Some (metrics_warn (''Attempted to update poll_duration metric with negative duration: '' @
                   show_fixed 6 durationSeconds) m)
      else map_option (\<lambda>v. m\<lparr>pollDurationHistogram :=
                 Some (vec_observe (common_labels resourceType resourceSelector) durationSeconds v)\<rparr>)
             (pollDurationHistogram m))"

definition UpdateAPIErrorsMetric :: "string \<Rightarrow> string \<Rightarrow> string \<Rightarrow> metrics \<Rightarrow> metrics option" where
  "UpdateAPIErrorsMetric resourceType resourceSelector errorType m =
     (if resourceType = [] \<or> resourceSelector = [] \<or> errorType = []
      then Some (metrics_warn (empty_parameters ''api_errors'' resourceType resourceSelector
                   ('' errorType='' @ go_quote errorType)) m)
      else map_option (\<lambda>v. m\<lparr>apiErrorsCounter := Some (vec_inc (error_labels resourceType resourceSelector errorType) v)\<rparr>)
             (apiErrorsCounter m))"

definition UpdateBrokerErrorsMetric :: "string \<Rightarrow> string \<Rightarrow> string \<Rightarrow> metrics \<Rightarrow> metrics option" where
  "UpdateBrokerErrorsMetric resourceType resourceSelector errorType m =
     (if resourceType = [] \<or> resourceSelector = [] \<or> errorType = []
      then Some (metrics_warn (empty_parameters ''broker_errors'' resourceType resourceSelector
                   ('' errorType='' @ go_quote errorType)) m)
      else map_option (\<lambda>v. m\<lparr>brokerErrorsCounter := Some (vec_inc (error_labels resourceType resourceSelector errorType) v)\<rparr>)
             (brokerErrorsCounter m))"

text \<open>The wall clock is an argument: Unix seconds at the time of the call.\<close>

definition UpdateLastSuccessfulPollTimestampMetric :: "rat \<Rightarrow> metrics \<Rightarrow> metrics" where
  "UpdateLastSuccessfulPollTimestampMetric unix_now m =
     (case lastSuccessfulPollTimestampGauge m of
        None \<Rightarrow> metrics_warn ''Attempted to update last_successful_poll_timestamp metric before initialization'' m
      | Some _ \<Rightarrow> m\<lparr>lastSuccessfulPollTimestampGauge := Some unix_now\<rparr>)"

definition GetResourceSelectorLabel :: "label_selector_list \<Rightarrow> string" where
  "GetResourceSelectorLabel selectors =
     (if length selectors = 0 then ''all''
      else join '','' (map (\<lambda>selector. ls_Label selector @ '':'' @ ls_Value selector) selectors))"

section \<open>Facts\<close>

text \<open>The selector label is never empty, so no update is ever refused for it.\<close>

lemma GetResourceSelectorLabel_nonempty [simp]: "GetResourceSelectorLabel selectors \<noteq> []"
  by (cases selectors) (auto simp: GetResourceSelectorLabel_def join_Nil_iff)

text \<open>All collectors exist.\<close>

definition metrics_ready :: "metrics \<Rightarrow> bool" where
  "metrics_ready m \<longleftrightarrow>
     pendingResourcesGauge m \<noteq> None \<and> eventsPublishedCounter m \<noteq> None \<and>
     resourcesSkippedCounter m \<noteq> None \<and> pollDurationHistogram m \<noteq> None \<and>
     apiErrorsCounter m \<noteq> None \<and> brokerErrorsCounter m \<noteq> None \<and>
     lastSuccessfulPollTimestampGauge m \<noteq> None"

text \<open>The value of one series, 0 where it was never touched.\<close>

definition counter_value :: "nat vec option \<Rightarrow> labels \<Rightarrow> nat" where
  "counter_value c ls = (case c of None \<Rightarrow> 0 | Some v \<Rightarrow> count_of v ls)"

lemma count_of_inc: "count_of (vec_inc ls v) ls' = (if ls' = ls then Suc (count_of v ls) else count_of v ls')"
  by (simp add: count_of_def vec_inc_def)

lemmas metrics_updates =
  UpdatePendingResourcesMetric_def UpdateEventsPublishedMetric_def UpdateResourcesSkippedMetric_def
  UpdatePollDurationMetric_def UpdateAPIErrorsMetric_def UpdateBrokerErrorsMetric_def

text \<open>What the callers of the metrics rely on: with the collectors made, no update panics.\<close>

locale metrics_sink =
  fixes ready :: "'m \<Rightarrow> bool"
    and pending :: "string \<Rightarrow> string \<Rightarrow> int \<Rightarrow> 'm \<Rightarrow> 'm option"
    and events :: "string \<Rightarrow> string \<Rightarrow> string \<Rightarrow> 'm \<Rightarrow> 'm option"
    and skips :: "string \<Rightarrow> string \<Rightarrow> string \<Rightarrow> 'm \<Rightarrow> 'm option"
    and poll_seconds :: "string \<Rightarrow> string \<Rightarrow> rat \<Rightarrow> 'm \<Rightarrow> 'm option"
    and api_errors :: "string \<Rightarrow> string \<Rightarrow> string \<Rightarrow> 'm \<Rightarrow> 'm option"
    and broker_errors :: "string \<Rightarrow> string \<Rightarrow> string \<Rightarrow> 'm \<Rightarrow> 'm option"
    and heartbeat :: "rat \<Rightarrow> 'm \<Rightarrow> 'm"
  assumes pending_ready: "ready m \<Longrightarrow> \<exists>m'. pending rt rs n m = Some m' \<and> ready m'"
    and events_ready: "ready m \<Longrightarrow> \<exists>m'. events rt rs r m = Some m' \<and> ready m'"
    and skips_ready: "ready m \<Longrightarrow> \<exists>m'. skips rt rs r m = Some m' \<and> ready m'"
    and poll_seconds_ready: "ready m \<Longrightarrow> \<exists>m'. poll_seconds rt rs s m = Some m' \<and> ready m'"
    and api_errors_ready: "ready m \<Longrightarrow> \<exists>m'. api_errors rt rs e m = Some m' \<and> ready m'"
    and broker_errors_ready: "ready m \<Longrightarrow> \<exists>m'. broker_errors rt rs e m = Some m' \<and> ready m'"
    and heartbeat_ready: "ready m \<Longrightarrow> ready (heartbeat t m)"
begin

text \<open>The tail of a completed cycle.\<close>

definition finish_cycle :: "string \<Rightarrow> string \<Rightarrow> int \<Rightarrow> rat \<Rightarrow> rat \<Rightarrow> 'm \<Rightarrow> 'm option" where
  "finish_cycle rt rs n secs t m =
     do { m \<leftarrow> pending rt rs n m; m \<leftarrow> poll_seconds rt rs secs m; Some (heartbeat t m) }"

lemma finish_cycle_ready:
  assumes "ready m"
  shows "\<exists>m'. finish_cycle rt rs n secs t m = Some m' \<and> ready m'"
proof -
  obtain m1 where m1: "pending rt rs n m = Some m1" "ready m1"
    using pending_ready [OF assms] by blast
  obtain m2 where "poll_seconds rt rs secs m1 = Some m2" "ready m2"
    using poll_seconds_ready [OF m1(2)] by blast
  with m1 heartbeat_ready show ?thesis by (auto simp: finish_cycle_def)
qed

end

interpretation prom: metrics_sink metrics_ready UpdatePendingResourcesMetric UpdateEventsPublishedMetric
    UpdateResourcesSkippedMetric UpdatePollDurationMetric UpdateAPIErrorsMetric UpdateBrokerErrorsMetric
    UpdateLastSuccessfulPollTimestampMetric
  by unfold_locales
    (auto simp: metrics_ready_def metrics_updates metrics_warn_def Let_def
      UpdateLastSuccessfulPollTimestampMetric_def)

text \<open>
  A successful publication is counted once and nowhere else: with the collectors made and no
  empty label, \<open>UpdateEventsPublishedMetric\<close> raises the series of its resource type, selector
  and reason by one, leaves every other series of the counter and every other collector as it
  is, logs nothing and cannot panic.
\<close>

theorem events_published_exact:
  assumes "metrics_ready m" and "rt \<noteq> []" and "rs \<noteq> []" and "reason \<noteq> []"
  shows "\<exists>m'. UpdateEventsPublishedMetric rt rs reason m = Some m' \<and> metrics_ready m' \<and>
     (\<forall>ls. counter_value (eventsPublishedCounter m') ls =
        counter_value (eventsPublishedCounter m) ls + (if ls = reason_labels rt rs reason then 1 else 0)) \<and>
     m'\<lparr>eventsPublishedCounter := eventsPublishedCounter m\<rparr> = m"
  using assms
  by (auto simp: UpdateEventsPublishedMetric_def metrics_ready_def counter_value_def count_of_inc)

text \<open>
  Metrics are created once. As long as they are not reset, every further call of
  \<open>NewSentinelMetrics\<close>, with whatever registry and version, returns the same instance and
  changes nothing: no counter is lost and no collector is registered twice.
\<close>

theorem metrics_created_once:
  assumes "NewSentinelMetrics r v m = Some (inst, m')"
  shows "NewSentinelMetrics r' v' m' = Some (inst, m')"
  using assms
  by (auto simp: NewSentinelMetrics_def Let_def split: if_splits option.splits)

text \<open>The first creation on a fresh registry succeeds and makes every collector.\<close>

lemma must_register_fresh:
  "distinct ds \<Longrightarrow> set ds \<inter> set present = {} \<Longrightarrow> must_register present ds = Some (present @ ds)"
  by (induction present ds rule: must_register.induct) auto

lemma descriptors_distinct: "distinct (descriptors version)"
  by (simp add: descriptors_def MetricsNames_def)

lemma metrics_start_ready:
  "\<exists>m. NewSentinelMetrics r v metrics_start = Some (Some 0, m) \<and> metrics_ready m \<and> mt_warnings m = []"
  by (simp add: NewSentinelMetrics_def Let_def metrics_start_def must_register_fresh descriptors_distinct
      metrics_ready_def)

text \<open>
  C34: A reset does not undo the registration. After \<open>ResetSentinelMetrics\<close>, creating the metrics
  again for the same version on the registry they were made on ends in the duplicate
  registration panic that the once-only creation is there to prevent.
\<close>

theorem reset_then_create_panics:
  assumes "\<not> registerOnceDone m" and "NewSentinelMetrics r v m = Some (inst, m')"
  shows "NewSentinelMetrics r v (ResetSentinelMetrics m') = None"
proof -
  have sub: "must_register present ds = Some present' \<Longrightarrow> set ds \<subseteq> set present'" for present ds present'
  proof (induction present ds rule: must_register.induct)
    case (2 present d ds)
    have mono: "must_register p es = Some p' \<Longrightarrow> set p \<subseteq> set p'" for p es p'
      by (induction p es rule: must_register.induct) (auto split: if_splits)
    from 2 mono [of "present @ [d]" ds present'] show ?case by (auto split: if_splits)
  qed simp
  have again: "must_register present (descriptors v) = None" if "set (descriptors v) \<subseteq> set present" for present
    using that by (simp add: descriptors_def MetricsNames_def)
  show ?thesis
    using assms sub [of _ "descriptors v"] again
    by (auto simp: NewSentinelMetrics_def Let_def ResetSentinelMetrics_def split: if_splits option.splits)
qed

section \<open>Instances\<close>

definition sample_metrics :: metrics where
  "sample_metrics = snd (the (NewSentinelMetrics None ''dev'' metrics_start))"

lemma sample_metrics_new: "NewSentinelMetrics None ''dev'' metrics_start = Some (Some 0, sample_metrics)"
  using metrics_start_ready [of None "''dev''"] by (auto simp: sample_metrics_def)

lemma sample_metrics_ready: "metrics_ready sample_metrics"
  using metrics_start_ready [of None "''dev''"] sample_metrics_new by auto

theorem events_published_exact_witness:
  "\<exists>m'. UpdateEventsPublishedMetric ''clusters'' ''all'' ''message decision matched'' sample_metrics = Some m' \<and>
        counter_value (eventsPublishedCounter m')
          (reason_labels ''clusters'' ''all'' ''message decision matched'') =
        counter_value (eventsPublishedCounter sample_metrics)
          (reason_labels ''clusters'' ''all'' ''message decision matched'') + 1"
proof -
  have "''clusters'' \<noteq> []" "''all'' \<noteq> []" "''message decision matched'' \<noteq> []" by simp_all
  from events_published_exact [OF sample_metrics_ready this] show ?thesis by auto
qed

theorem metrics_created_once_witness:
  "NewSentinelMetrics (Some (Registry 3)) ''v2'' sample_metrics = Some (Some 0, sample_metrics)"
  by (rule metrics_created_once [OF sample_metrics_new])

theorem reset_then_create_panics_witness:
  "NewSentinelMetrics None ''dev'' (ResetSentinelMetrics sample_metrics) = None"
  by (rule reset_then_create_panics [OF _ sample_metrics_new]) (simp add: metrics_start_def)

end
