(* ===== verification/World.thy ===== *)
theory World
  imports Metrics Client
begin

text \<open>
  What the running program changes outside itself, as one state that its operations thread
  through: the log, the spans of the tracer, the messages handed to the broker, the metrics,
  and the rest of the world (clock, network, randomness) as an abstract component that the
  libraries step. The libraries are the fields of \<open>libs\<close>, parameters of the model.
\<close>

section \<open>Logging\<close>

datatype log_level = LevelDebug | LevelInfo | LevelWarn | LevelError

record log_entry =
  le_level :: log_level
  le_ctx :: context_values
  le_extra :: "gval gmap"
  le_text :: string

section \<open>Spans and events\<close>

record span_context =
  sp_valid :: bool
  sp_traceID :: string
  sp_spanID :: string
  sp_flags :: "8 word"

text \<open>A span is known by the number of its start.\<close>

record span =
  sn_id :: nat
  sn_context :: span_context

type_synonym attributes = "(string \<times> string) list"

datatype span_event =
    SpanStarted nat "nat option" string
  | SpanAttributes nat attributes
  | SpanError nat go_error
  | SpanStatusError nat string
  | SpanEnded nat

record cloud_event =
  ce_SpecVersion :: string
  ce_Type :: string
  ce_Source :: string
  ce_ID :: string
  ce_DataContentType :: string
  ce_Data :: "string option"
  ce_Extensions :: "string gmap"

record publication =
  pb_topic :: string
  pb_event :: cloud_event
  pb_error :: "go_error option"

section \<open>The state\<close>

record 'w world =
  wd_logs :: "log_entry list"
  wd_calls :: "api_call list"
  wd_spans :: "span_event list"
  wd_next_span :: nat
  wd_sent :: "publication list"
  wd_metrics :: metrics
  wd_rest :: 'w

text \<open>
  The clock, the tracer, the generator of UUIDs, the encoder of event data and the broker. A
  started span is given its number by the model; the library chooses its context. A nil
  publisher is one whose \<open>BrokerType\<close> is \<open>None\<close>: calling a method of it panics.
\<close>

record 'w libs =
  lib_Now :: "'w \<Rightarrow> gtime \<times> 'w"
  lib_Start :: "context_values \<Rightarrow> string \<Rightarrow> 'w \<Rightarrow> span_context \<times> 'w"
  lib_NewV7 :: "'w \<Rightarrow> (go_error + string) \<times> 'w"
  lib_Encode :: "gval gmap \<Rightarrow> go_error + string"
  lib_Publish :: "context_values \<Rightarrow> string \<Rightarrow> cloud_event \<Rightarrow> 'w \<Rightarrow> go_error option \<times> 'w"
  lib_BrokerType :: "string option"

section \<open>Primitive effects\<close>

definition log_extra :: "log_level \<Rightarrow> gval gmap \<Rightarrow> context_values \<Rightarrow> string \<Rightarrow> 'w world \<Rightarrow> 'w world" where
  "log_extra level ex ctx text w =
     w\<lparr>wd_logs := wd_logs w @ [\<lparr>le_level = level, le_ctx = ctx, le_extra = ex, le_text = text\<rparr>]\<rparr>"

definition log_at :: "log_level \<Rightarrow> context_values \<Rightarrow> string \<Rightarrow> 'w world \<Rightarrow> 'w world" where
  "log_at level ctx text w = log_extra level [] ctx text w"

definition time_Now :: "'w libs \<Rightarrow> 'w world \<Rightarrow> gtime \<times> 'w world" where
  "time_Now lib w = (let (t, rest) = lib_Now lib (wd_rest w) in (t, w\<lparr>wd_rest := rest\<rparr>))"

definition span_event :: "span_event \<Rightarrow> 'w world \<Rightarrow> 'w world" where
  "span_event ev w = w\<lparr>wd_spans := wd_spans w @ [ev]\<rparr>"

definition span_SetAttributes :: "span \<Rightarrow> attributes \<Rightarrow> 'w world \<Rightarrow> 'w world" where
  "span_SetAttributes s attrs w = span_event (SpanAttributes (sn_id s) attrs) w"

definition span_RecordError :: "span \<Rightarrow> go_error \<Rightarrow> 'w world \<Rightarrow> 'w world" where
  "span_RecordError s err w = span_event (SpanError (sn_id s) err) w"

definition span_SetStatus :: "span \<Rightarrow> string \<Rightarrow> 'w world \<Rightarrow> 'w world" where
  "span_SetStatus s text w = span_event (SpanStatusError (sn_id s) text) w"

definition span_End :: "span \<Rightarrow> 'w world \<Rightarrow> 'w world" where
  "span_End s w = span_event (SpanEnded (sn_id s)) w"

definition uuid_NewV7 :: "'w libs \<Rightarrow> 'w world \<Rightarrow> (go_error + string) \<times> 'w world" where
  "uuid_NewV7 lib w = (let (r, rest) = lib_NewV7 lib (wd_rest w) in (r, w\<lparr>wd_rest := rest\<rparr>))"

definition broker_Publish ::
    "'w libs \<Rightarrow> context_values \<Rightarrow> string \<Rightarrow> cloud_event \<Rightarrow> 'w world \<Rightarrow> go_error option \<times> 'w world" where
  "broker_Publish lib ctx topic ev w =
     (let (r, rest) = lib_Publish lib ctx topic ev (wd_rest w)
      in (r, w\<lparr>wd_rest := rest,
               wd_sent := wd_sent w @ [\<lparr>pb_topic = topic, pb_event = ev, pb_error = r\<rparr>]\<rparr>))"

text \<open>A metrics update inside the state; its panic is the panic of the whole step.\<close>

definition on_metrics :: "(metrics \<Rightarrow> metrics option) \<Rightarrow> 'w world \<Rightarrow> 'w world option" where
  "on_metrics f w = map_option (\<lambda>m. w\<lparr>wd_metrics := m\<rparr>) (f (wd_metrics w))"

section \<open>What each primitive leaves alone\<close>

lemma log_frame [simp]:
  "wd_spans (log_extra l e c t w) = wd_spans w" "wd_sent (log_extra l e c t w) = wd_sent w"
  "wd_metrics (log_extra l e c t w) = wd_metrics w" "wd_rest (log_extra l e c t w) = wd_rest w"
  "wd_next_span (log_extra l e c t w) = wd_next_span w" "wd_calls (log_extra l e c t w) = wd_calls w"
  "wd_spans (log_at l c t w) = wd_spans w" "wd_sent (log_at l c t w) = wd_sent w"
  "wd_metrics (log_at l c t w) = wd_metrics w" "wd_rest (log_at l c t w) = wd_rest w"
  "wd_next_span (log_at l c t w) = wd_next_span w" "wd_calls (log_at l c t w) = wd_calls w"
  by (simp_all add: log_extra_def log_at_def)

lemma span_event_frame [simp]:
  "wd_spans (span_event ev w) = wd_spans w @ [ev]" "wd_sent (span_event ev w) = wd_sent w"
  "wd_metrics (span_event ev w) = wd_metrics w" "wd_rest (span_event ev w) = wd_rest w"
  "wd_next_span (span_event ev w) = wd_next_span w" "wd_calls (span_event ev w) = wd_calls w"
  "wd_logs (span_event ev w) = wd_logs w"
  by (simp_all add: span_event_def)

lemmas span_ops = span_SetAttributes_def span_RecordError_def span_SetStatus_def span_End_def

lemma time_Now_frame:
  "time_Now lib w = (t, w') \<Longrightarrow>
     wd_spans w' = wd_spans w \<and> wd_sent w' = wd_sent w \<and> wd_metrics w' = wd_metrics w \<and>
     wd_next_span w' = wd_next_span w \<and> wd_calls w' = wd_calls w \<and> wd_logs w' = wd_logs w"
  by (auto simp: time_Now_def split: prod.splits)

lemma uuid_frame:
  "uuid_NewV7 lib w = (r, w') \<Longrightarrow>
     wd_spans w' = wd_spans w \<and> wd_sent w' = wd_sent w \<and> wd_metrics w' = wd_metrics w \<and>
     wd_next_span w' = wd_next_span w \<and> wd_calls w' = wd_calls w \<and> wd_logs w' = wd_logs w"
  by (auto simp: uuid_NewV7_def split: prod.splits)

lemma publish_frame:
  "broker_Publish lib ctx topic ev w = (r, w') \<Longrightarrow>
     wd_spans w' = wd_spans w \<and> wd_metrics w' = wd_metrics w \<and>
     wd_sent w' = wd_sent w @ [\<lparr>pb_topic = topic, pb_event = ev, pb_error = r\<rparr>] \<and>
     wd_next_span w' = wd_next_span w \<and> wd_calls w' = wd_calls w \<and> wd_logs w' = wd_logs w"
  by (auto simp: broker_Publish_def split: prod.splits)

lemma on_metrics_Some:
  "on_metrics f w = Some w' \<longleftrightarrow> (\<exists>m. f (wd_metrics w) = Some m \<and> w' = w\<lparr>wd_metrics := m\<rparr>)"
  by (auto simp: on_metrics_def)

end
