(* ===== verification/Telemetry.thy ===== *)
theory Telemetry
  imports World
begin

text \<open>
  Tracing (\<open>pkg/telemetry/otel.go\<close>): the start of a span with the log fields it leaves in the
  context, the trace context of an event, and the set-up of the trace provider from the
  environment. OpenTelemetry's exporters, resource detection and number parsing are parameters.
\<close>

section \<open>Spans\<close>

definition StartSpan ::
    "'w libs \<Rightarrow> context_values \<Rightarrow> string \<Rightarrow> attributes \<Rightarrow> 'w world \<Rightarrow>
     (context_values \<times> span) \<times> 'w world" where
  "StartSpan lib ctx spanName attrs w =
     (let parent = active_span ctx;
          (sc, rest) = lib_Start lib ctx spanName (wd_rest w);
          sn = \<lparr>sn_id = wd_next_span w, sn_context = sc\<rparr>;
          ctx = ctx_WithValue ctx (ActiveSpan (sn_id sn)) GNil;
          w = span_event (SpanStarted (sn_id sn) parent spanName)
                (w\<lparr>wd_rest := rest, wd_next_span := Suc (wd_next_span w)\<rparr>);
          w = (if length attrs > 0 then span_SetAttributes sn attrs w else w);
          ctx = (if sp_valid sc then WithSpanID (WithTraceID ctx (sp_traceID sc)) (sp_spanID sc) else ctx)
      in ((ctx, sn), w))"

definition hex2 :: "8 word \<Rightarrow> string" where
  "hex2 b = [digit_char (unat b div 16), digit_char (unat b mod 16)]"

definition traceparent :: "span_context \<Rightarrow> string" where
  "traceparent sc = ''00-'' @ sp_traceID sc @ ''-'' @ sp_spanID sc @ ''-'' @ hex2 (sp_flags sc)"

definition SetTraceContext :: "cloud_event option \<Rightarrow> span option \<Rightarrow> cloud_event option" where
  "SetTraceContext event_ptr span_ptr =
     (case (event_ptr, span_ptr) of
        (Some event, Some sn) \<Rightarrow>
          if sp_valid (sn_context sn)
          then Some (event\<lparr>ce_Extensions :=
                       gmap_put ''traceparent'' (traceparent (sn_context sn)) (ce_Extensions event)\<rparr>)
          else Some event
      | _ \<Rightarrow> event_ptr)"

section \<open>The trace provider\<close>

datatype exporter = OtlpHTTP | OtlpGRPC | StdoutTrace

datatype sampler = AlwaysSample | NeverSample | TraceIDRatioBased rat | ParentBased sampler

record tracer_provider =
  tp_exporter :: exporter
  tp_serviceName :: string
  tp_serviceVersion :: string
  tp_sampler :: sampler

text \<open>
  \<open>ol_ParseFloat\<close> is \<open>strconv.ParseFloat\<close> on a finite number; NaN and the infinities, which no
  comparison with the unit interval accepts, count with the errors as \<open>None\<close>.
\<close>

record otel_libs =
  ol_Getenv :: "string \<Rightarrow> string"
  ol_NewExporter :: "exporter \<Rightarrow> go_error option"
  ol_NewResource :: "string \<Rightarrow> string \<Rightarrow> go_error option"
  ol_ShutdownExporter :: "exporter \<Rightarrow> go_error option"
  ol_ShutdownProvider :: "tracer_provider \<Rightarrow> go_error option"
  ol_ParseFloat :: "string \<Rightarrow> rat option"

record otel_state =
  os_provider :: "tracer_provider option"
  os_propagator :: bool
  os_logs :: "(log_level \<times> gval gmap \<times> string) list"

definition otel_log_extra :: "log_level \<Rightarrow> gval gmap \<Rightarrow> string \<Rightarrow> otel_state \<Rightarrow> otel_state" where
  "otel_log_extra level ex text st = st\<lparr>os_logs := os_logs st @ [(level, ex, text)]\<rparr>"

definition otel_log :: "log_level \<Rightarrow> string \<Rightarrow> otel_state \<Rightarrow> otel_state" where
  "otel_log level text st = otel_log_extra level [] text st"

definition defaultSamplingRate :: rat where "defaultSamplingRate = 1"

definition parseSamplingRate :: "otel_libs \<Rightarrow> otel_state \<Rightarrow> rat \<times> otel_state" where
  "parseSamplingRate lib st =
     (let rate = defaultSamplingRate; arg = ol_Getenv lib ''OTEL_TRACES_SAMPLER_ARG''
      in if arg \<noteq> []
         then (case ol_ParseFloat lib arg of
                 Some parsedRate \<Rightarrow>
                   if parsedRate \<ge> 0 \<and> parsedRate \<le> 1 then (parsedRate, st)
                   else (rate, otel_log LevelWarn (''Invalid OTEL_TRACES_SAMPLER_ARG value='' @ go_quote arg @
                                 '', using default: 1'') st)
               | None \<Rightarrow> (rate, otel_log LevelWarn (''Invalid OTEL_TRACES_SAMPLER_ARG value='' @ go_quote arg @
                                 '', using default: 1'') st))
         else (rate, st))"

text \<open>The choice of the exporter, with the error it failed with.\<close>

definition create_exporter :: "otel_libs \<Rightarrow> otel_state \<Rightarrow> (go_error + exporter) \<times> otel_state" where
  "create_exporter lib st =
     (let otlpEndpoint = ol_Getenv lib ''OTEL_EXPORTER_OTLP_ENDPOINT''
      in if otlpEndpoint \<noteq> []
         then
           let protocol = ol_Getenv lib ''OTEL_EXPORTER_OTLP_PROTOCOL'';
               low = to_lower protocol;
               (kind, st) =
                 (if low = ''http'' \<or> low = ''http/protobuf'' then (OtlpHTTP, st)
                  else if low = ''grpc'' \<or> low = [] then (OtlpGRPC, st)
                  else (OtlpGRPC, otel_log LevelWarn (''Unrecognized OTEL_EXPORTER_OTLP_PROTOCOL '' @
                                    go_quote protocol @ '', using default grpc'') st));
               what = ''ailed to create OTLP exporter (protocol='' @ protocol @ '')''
           in (case ol_NewExporter lib kind of
                 Some err \<Rightarrow> (Inl (ErrWrap (''f'' @ what) err),
                              otel_log LevelError (''F'' @ what @ '': '' @ error_text err) st)
               | None \<Rightarrow> (Inr kind, st))
         else
           (case ol_NewExporter lib StdoutTrace of
              Some err \<Rightarrow>
                (Inl (ErrWrap ''failed to create OpenTelemetry stdout exporter'' err),
                 otel_log LevelError (''Failed to create OpenTelemetry stdout exporter: '' @ error_text err) st)
            | None \<Rightarrow> (Inr StdoutTrace, st)))"

definition choose_sampler :: "otel_libs \<Rightarrow> otel_state \<Rightarrow> sampler \<times> otel_state" where
  "choose_sampler lib st =
     (let samplerType = to_lower (ol_Getenv lib ''OTEL_TRACES_SAMPLER'')
      in if samplerType = ''always_on'' then (AlwaysSample, st)
         else if samplerType = ''always_off'' then (NeverSample, st)
         else if samplerType = ''traceidratio'' then
           (let (r, st) = parseSamplingRate lib st in (TraceIDRatioBased r, st))
         else if samplerType = ''parentbased_traceidratio'' \<or> samplerType = [] then
           (let (r, st) = parseSamplingRate lib st in (ParentBased (TraceIDRatioBased r), st))
         else if samplerType = ''parentbased_always_on'' then (ParentBased AlwaysSample, st)
         else if samplerType = ''parentbased_always_off'' then (ParentBased NeverSample, st)
         else
           (let st = otel_log LevelWarn (''Unrecognized sampler '' @ go_quote samplerType @
                       '', using default'') st;
                (r, st) = parseSamplingRate lib st
            in (ParentBased (TraceIDRatioBased r), st)))"

definition InitTraceProvider ::
    "otel_libs \<Rightarrow> string \<Rightarrow> string \<Rightarrow> otel_state \<Rightarrow> (go_error + tracer_provider) \<times> otel_state" where
  "InitTraceProvider lib serviceName serviceVersion st =
     (case create_exporter lib st of
        (Inl err, st) \<Rightarrow> (Inl err, st)
      | (Inr exporter, st) \<Rightarrow>
          (case ol_NewResource lib serviceName serviceVersion of
             Some err \<Rightarrow>
               let st = (case ol_ShutdownExporter lib exporter of
                           Some shutdownErr \<Rightarrow>
                             otel_log LevelWarn (''Failed to shutdown exporter: '' @ error_text shutdownErr) st
                         | None \<Rightarrow> st)
               in (Inl (ErrWrap ''failed to create OTel resource'' err),
                   otel_log_extra LevelError
                     [(''service_name'', GStr serviceName), (''service_version'', GStr serviceVersion)]
                     (''Failed to create OpenTelemetry resource: '' @ error_text err) st)
           | None \<Rightarrow>
               let (sampler, st) = choose_sampler lib st;
                   tp = \<lparr>tp_exporter = exporter, tp_serviceName = serviceName,
                         tp_serviceVersion = serviceVersion, tp_sampler = sampler\<rparr>
               in (Inr tp, st\<lparr>os_provider := Some tp, os_propagator := True\<rparr>)))"

definition Shutdown :: "otel_libs \<Rightarrow> tracer_provider option \<Rightarrow> go_error option" where
  "Shutdown lib tp_ptr = (case tp_ptr of None \<Rightarrow> None | Some tp \<Rightarrow> ol_ShutdownProvider lib tp)"

section \<open>What the set-up guarantees\<close>

fun sampler_rate :: "sampler \<Rightarrow> rat" where
  "sampler_rate AlwaysSample = 1"
| "sampler_rate NeverSample = 0"
| "sampler_rate (TraceIDRatioBased r) = r"
| "sampler_rate (ParentBased s) = sampler_rate s"

text \<open>The exporter the environment asks for.\<close>

definition wanted_exporter :: "otel_libs \<Rightarrow> exporter" where
  "wanted_exporter lib =
     (if ol_Getenv lib ''OTEL_EXPORTER_OTLP_ENDPOINT'' = [] then StdoutTrace
      else if to_lower (ol_Getenv lib ''OTEL_EXPORTER_OTLP_PROTOCOL'') \<in> {''http'', ''http/protobuf''}
      then OtlpHTTP else OtlpGRPC)"

lemma otel_log_simps [simp]:
  "os_provider (otel_log l t st) = os_provider st" "os_propagator (otel_log l t st) = os_propagator st"
  "os_logs (otel_log l t st) = os_logs st @ [(l, [], t)]"
  "os_provider (otel_log_extra l e t st) = os_provider st"
  "os_logs (otel_log_extra l e t st) = os_logs st @ [(l, e, t)]"
  by (simp_all add: otel_log_def otel_log_extra_def)

lemma parseSamplingRate_spec:
  "parseSamplingRate lib st = (r, st') \<Longrightarrow>
     0 \<le> r \<and> r \<le> 1 \<and> os_provider st' = os_provider st \<and> (\<exists>ls. os_logs st' = os_logs st @ ls)"
  by (auto simp: parseSamplingRate_def Let_def defaultSamplingRate_def split: if_splits option.splits)

lemma choose_sampler_spec:
  "choose_sampler lib st = (s, st') \<Longrightarrow>
     0 \<le> sampler_rate s \<and> sampler_rate s \<le> 1 \<and> os_provider st' = os_provider st \<and>
     (\<exists>ls. os_logs st' = os_logs st @ ls)"
  by (auto simp: choose_sampler_def Let_def split: if_splits prod.splits dest!: parseSamplingRate_spec)

lemma create_exporter_ok:
  "create_exporter lib st = (Inr ex, st') \<Longrightarrow>
     ex = wanted_exporter lib \<and> ol_NewExporter lib ex = None \<and> os_provider st' = os_provider st"
  by (auto simp: create_exporter_def wanted_exporter_def Let_def split: if_splits option.splits prod.splits)

lemma create_exporter_error:
  "create_exporter lib st = (Inl err, st') \<Longrightarrow>
     ol_NewExporter lib (wanted_exporter lib) \<noteq> None \<and> os_provider st' = os_provider st \<and>
     LevelError \<in> fst ` set (os_logs st')"
  by (auto simp: create_exporter_def wanted_exporter_def Let_def split: if_splits option.splits prod.splits)

text \<open>
  C35: Setting up tracing is all or nothing. It succeeds exactly when the exporter the environment
  asks for and the resource can be made; the provider it then installs globally is the one it
  returns, with that exporter and a sampling rate within 0 and 1 whatever the environment says.
  When it fails, the global provider is the one there was before and an error is logged.
\<close>

theorem trace_provider_all_or_nothing:
  assumes "InitTraceProvider lib serviceName serviceVersion st = (r, st')"
  shows "(\<exists>tp. r = Inr tp \<and> os_provider st' = Some tp \<and> tp_exporter tp = wanted_exporter lib \<and>
            tp_serviceName tp = serviceName \<and> tp_serviceVersion tp = serviceVersion \<and>
            0 \<le> sampler_rate (tp_sampler tp) \<and> sampler_rate (tp_sampler tp) \<le> 1 \<and>
            ol_NewExporter lib (wanted_exporter lib) = None \<and>
            ol_NewResource lib serviceName serviceVersion = None) \<or>
         (isl r \<and> os_provider st' = os_provider st \<and> LevelError \<in> fst ` set (os_logs st') \<and>
            \<not> (ol_NewExporter lib (wanted_exporter lib) = None \<and>
               ol_NewResource lib serviceName serviceVersion = None))"
proof -
  obtain ex st1 where c: "create_exporter lib st = (ex, st1)" by force
  show ?thesis
  proof (cases ex)
    case (Inl err)
    with assms c create_exporter_error [of lib st err st1] show ?thesis
      by (auto simp: InitTraceProvider_def)
  next
    case (Inr kind)
    note ok = create_exporter_ok [OF c [unfolded Inr]]
    show ?thesis
    proof (cases "ol_NewResource lib serviceName serviceVersion")
      case None
      obtain s st2 where s: "choose_sampler lib st1 = (s, st2)" by force
      from assms c ok None choose_sampler_spec [OF s] s show ?thesis
        by (auto simp: InitTraceProvider_def Inr Let_def)
    next
      case (Some err)
      with assms c ok show ?thesis
        by (auto simp: InitTraceProvider_def Inr Let_def split: option.splits)
    qed
  qed
qed

text \<open>
  An event carries the trace of the span it is sent under exactly when that span's context is
  valid: then its \<open>traceparent\<close> extension is the W3C text of the span, 55 characters for the
  identifiers' usual 32 and 16; and every other attribute and extension stays as it was.
\<close>

theorem trace_context_attached:
  assumes "SetTraceContext (Some ev) (Some sn) = Some ev'"
  shows "ev'\<lparr>ce_Extensions := ce_Extensions ev\<rparr> = ev \<and>
    gmap_get (ce_Extensions ev') ''traceparent'' =
      (if sp_valid (sn_context sn) then Some (traceparent (sn_context sn))
       else gmap_get (ce_Extensions ev) ''traceparent'') \<and>
    (\<forall>k. k \<noteq> ''traceparent'' \<longrightarrow> gmap_get (ce_Extensions ev') k = gmap_get (ce_Extensions ev) k) \<and>
    (length (sp_traceID (sn_context sn)) = 32 \<and> length (sp_spanID (sn_context sn)) = 16 \<longrightarrow>
       length (traceparent (sn_context sn)) = 55)"
  using assms by (auto simp: SetTraceContext_def traceparent_def hex2_def split: if_splits)

section \<open>Instances\<close>

definition sample_otel :: "string \<Rightarrow> otel_libs" where
  "sample_otel endpoint =
     \<lparr>ol_Getenv = \<lambda>n. if n = ''OTEL_EXPORTER_OTLP_ENDPOINT'' then endpoint
                  else if n = ''OTEL_TRACES_SAMPLER_ARG'' then ''7'' else [],
      ol_NewExporter = \<lambda>ex. if ex = OtlpGRPC then Some (ErrText ''no route'') else None,
      ol_NewResource = \<lambda>_ _. None, ol_ShutdownExporter = \<lambda>_. None,
      ol_ShutdownProvider = \<lambda>_. None, ol_ParseFloat = \<lambda>s. if s = ''7'' then Some 7 else None\<rparr>"

definition otel_start :: otel_state where
  "otel_start = \<lparr>os_provider = None, os_propagator = False, os_logs = []\<rparr>"

lemma sample_otel_stdout:
  "InitTraceProvider (sample_otel []) ''sentinel'' ''dev'' otel_start =
     (Inr \<lparr>tp_exporter = StdoutTrace, tp_serviceName = ''sentinel'', tp_serviceVersion = ''dev'',
           tp_sampler = ParentBased (TraceIDRatioBased 1)\<rparr>,
      snd (InitTraceProvider (sample_otel []) ''sentinel'' ''dev'' otel_start))"
  by (simp add: InitTraceProvider_def create_exporter_def choose_sampler_def parseSamplingRate_def
      sample_otel_def Let_def defaultSamplingRate_def to_lower_def)

theorem trace_provider_all_or_nothing_witness:
  "os_provider (snd (InitTraceProvider (sample_otel []) ''sentinel'' ''dev'' otel_start)) =
     Some \<lparr>tp_exporter = StdoutTrace, tp_serviceName = ''sentinel'', tp_serviceVersion = ''dev'',
           tp_sampler = ParentBased (TraceIDRatioBased 1)\<rparr>"
  using trace_provider_all_or_nothing [OF sample_otel_stdout] by auto

definition sample_span :: span where
  "sample_span =
     \<lparr>sn_id = 0, sn_context = \<lparr>sp_valid = True, sp_traceID = replicate 32 CHR ''a'',
        sp_spanID = replicate 16 CHR ''b'', sp_flags = 1\<rparr>\<rparr>"

definition empty_event :: cloud_event where
  "empty_event =
     \<lparr>ce_SpecVersion = ''1.0'', ce_Type = [], ce_Source = [], ce_ID = [], ce_DataContentType = [],
      ce_Data = None, ce_Extensions = []\<rparr>"

theorem trace_context_attached_witness:
  "\<exists>ev'. SetTraceContext (Some empty_event) (Some sample_span) = Some ev' \<and>
     gmap_get (ce_Extensions ev') ''traceparent'' = Some (traceparent (sn_context sample_span))"
proof -
  obtain ev' where ev': "SetTraceContext (Some empty_event) (Some sample_span) = Some ev'"
    by (simp add: SetTraceContext_def sample_span_def)
  from trace_context_attached [OF this] ev' show ?thesis by (simp add: sample_span_def)
qed

end
