(* ===== verification/Payload.thy ===== *)
theory Payload
  imports Client Cel Config
begin

text \<open>
  The payload builder (\<open>internal/payload/builder.go\<close>): the compilation of the configured
  \<open>message_data\<close> tree into a tree of programs, and the evaluation of that tree for a resource
  and a decision reason, with the warnings it logs. The CEL library is a parameter.
\<close>

section \<open>Parsing and compiling the definition\<close>

record value_def =
  vd_Literal :: gval
  vd_Children :: "gval gmap option"
  vd_Expression :: string
  vd_ExpressionSet :: bool

definition zero_value_def :: value_def where
  "zero_value_def =
     \<lparr>vd_Literal = GNil, vd_Children = None, vd_Expression = [], vd_ExpressionSet = False\<rparr>"

definition parse_nil_error :: go_error where
  "parse_nil_error =
     ErrText ''ParseValueDef: nil is not a valid value; every leaf must be a CEL expression string''"

fun ParseValueDef :: "gval \<Rightarrow> go_error + value_def" where
  "ParseValueDef (GStr v) = Inr (zero_value_def\<lparr>vd_Expression := v, vd_ExpressionSet := True\<rparr>)"
| "ParseValueDef (GInt v) = Inr (zero_value_def\<lparr>vd_Literal := GInt v\<rparr>)"
| "ParseValueDef (GInt32 v) = Inr (zero_value_def\<lparr>vd_Literal := GInt32 v\<rparr>)"
| "ParseValueDef (GInt64 v) = Inr (zero_value_def\<lparr>vd_Literal := GInt64 v\<rparr>)"
| "ParseValueDef (GFloat32 v) = Inr (zero_value_def\<lparr>vd_Literal := GFloat32 v\<rparr>)"
| "ParseValueDef (GFloat64 v) = Inr (zero_value_def\<lparr>vd_Literal := GFloat64 v\<rparr>)"
| "ParseValueDef (GBool v) = Inr (zero_value_def\<lparr>vd_Literal := GBool v\<rparr>)"
| "ParseValueDef GNil = Inl parse_nil_error"
| "ParseValueDef (GMap v) = Inr (zero_value_def\<lparr>vd_Children := Some v\<rparr>)"
| "ParseValueDef GNilMap = Inr (zero_value_def\<lparr>vd_Children := None\<rparr>)"
| "ParseValueDef raw = Inl (ErrText (''unsupported value type '' @ type_name raw))"

lemma ParseValueDef_children:
  "ParseValueDef raw = Inr vd \<Longrightarrow> vd_Children vd = Some m \<Longrightarrow> raw = GMap m"
  by (cases raw) (auto simp: zero_value_def_def)

text \<open>Exactly one of the three fields of a compiled node is set: a variant each.\<close>

datatype 'prog compiled_node =
    NodeProgram 'prog
  | NodeChildren "(string \<times> 'prog compiled_node) list"
  | NodeLiteral gval

definition empty_expression_error :: go_error where
  "empty_expression_error =
     ErrText (''compileNode: ParseValueDef returned an empty expression (vd.Expression='' @ go_quote [] @
       ''); a compiledNode cannot be created from an empty CEL expression'')"

definition newCELEnv :: "('env, 'ast, 'prog) cel \<Rightarrow> go_error + 'env" where
  "newCELEnv cel = cel_NewEnv cel [OptVarDyn ''resource'', OptVarString ''reason'']"

function (sequential) compileMap ::
      "('env, 'ast, 'prog) cel \<Rightarrow> 'env \<Rightarrow> (string \<times> gval) list \<Rightarrow>
       go_error + (string \<times> 'prog compiled_node) list"
  and compileNode :: "('env, 'ast, 'prog) cel \<Rightarrow> 'env \<Rightarrow> gval \<Rightarrow> go_error + 'prog compiled_node" where
  "compileMap cel env [] = Inr []"
| "compileMap cel env ((key, rawVal) # defs) =
     (case compileNode cel env rawVal of
        Inl err \<Rightarrow> Inl (ErrWrap (''key '' @ go_quote key) err)
      | Inr node \<Rightarrow>
          (case compileMap cel env defs of
             Inl err \<Rightarrow> Inl err
           | Inr result \<Rightarrow> Inr ((key, node) # result)))"
| "compileNode cel env raw =
     (case ParseValueDef raw of
        Inl err \<Rightarrow> Inl err
      | Inr vd \<Rightarrow>
          (case vd_Children vd of
             Some ch \<Rightarrow>
               (case compileMap cel env ch of
                  Inl err \<Rightarrow> Inl err
                | Inr children \<Rightarrow> Inr (NodeChildren children))
           | None \<Rightarrow>
               if vd_ExpressionSet vd \<and> vd_Expression vd = [] then Inl empty_expression_error
               else if vd_Expression vd \<noteq> [] then
                 (case cel_Compile cel env (vd_Expression vd) of
                    Inl err \<Rightarrow> Inl (ErrWrap (''CEL expression '' @ go_quote (vd_Expression vd)) err)
                  | Inr ast \<Rightarrow>
                      (case cel_Program cel env ast of
                         Inl err \<Rightarrow> Inl (ErrWrap (''CEL program for '' @ go_quote (vd_Expression vd)) err)
                       | Inr prg \<Rightarrow> Inr (NodeProgram prg)))
               else Inr (NodeLiteral (vd_Literal vd))))"
  by pat_completeness auto
termination
  by (relation "measure (\<lambda>x. case x of Inl (_, _, m) \<Rightarrow> size (GMap m)
                                | Inr (_, _, v) \<Rightarrow> Suc (size v))")
    (auto dest!: ParseValueDef_children)

declare compileNode.simps [simp del]

record 'prog builder =
  b_compiled :: "(string \<times> 'prog compiled_node) list"

definition NewBuilder :: "('env, 'ast, 'prog) cel \<Rightarrow> gval \<Rightarrow> go_error + 'prog builder" where
  "NewBuilder cel buildDef =
     (let build = \<lambda>defMap.
            (case newCELEnv cel of
               Inl err \<Rightarrow> Inl (ErrWrap ''failed to create CEL environment'' err)
             | Inr env \<Rightarrow>
                 (case compileMap cel env defMap of
                    Inl err \<Rightarrow> Inl (ErrWrap ''failed to compile build definition'' err)
                  | Inr compiled \<Rightarrow> Inr \<lparr>b_compiled = compiled\<rparr>))
      in case buildDef of
           GMap defMap \<Rightarrow> build defMap
         | GNilMap \<Rightarrow> build []
         | _ \<Rightarrow> Inl (ErrText (''build definition must be a map, got '' @ type_name buildDef)))"

section \<open>The data handed to the programs\<close>

definition payload_condition :: "condition \<Rightarrow> gval" where
  "payload_condition c =
     (let cond = [(''type'', GStr (c_Type c)), (''status'', GStr (c_Status c)),
                  (''last_transition_time'', GStr (format_rfc3339nano (c_LastTransitionTime c))),
                  (''last_updated_time'', GStr (format_rfc3339nano (c_LastUpdatedTime c))),
                  (''observed_generation'', GInt32 (c_ObservedGeneration c))];
          cond = (if c_Reason c \<noteq> [] then gmap_put ''reason'' (GStr (c_Reason c)) cond else cond);
          cond = (if c_Message c \<noteq> [] then gmap_put ''message'' (GStr (c_Message c)) cond else cond)
      in GMap cond)"

definition payload_resourceToMap :: "resource \<Rightarrow> gval gmap" where
  "payload_resourceToMap r =
     (let status = (if length (r_Conditions r) > 0
                    then gmap_put ''conditions'' (GList (map payload_condition (r_Conditions r))) []
                    else []);
          m = [(''id'', GStr (r_ID r)), (''href'', GStr (r_Href r)), (''kind'', GStr (r_Kind r)),
               (''created_time'', GStr (format_rfc3339nano (r_CreatedTime r))),
               (''updated_time'', GStr (format_rfc3339nano (r_UpdatedTime r))),
               (''generation'', GInt32 (r_Generation r)),
               (''status'', GMap status)];
          m = (if length (entries_of (r_Labels r)) > 0
               then gmap_put ''labels'' (GMap (gmap_copy GStr (entries_of (r_Labels r)))) m else m);
          m = (case r_OwnerReferences r of None \<Rightarrow> m
               | Some own \<Rightarrow>
                   gmap_put ''owner_references''
                     (GMap [(''id'', GStr (o_ID own)), (''href'', GStr (o_Href own)),
                            (''kind'', GStr (o_Kind own))]) m)
      in case r_Metadata r of None \<Rightarrow> m | Some md \<Rightarrow> gmap_put ''metadata'' (GMap md) m)"

section \<open>Building a payload\<close>

text \<open>
  \<open>None\<close> is Go's nil result; the second component is the warnings logged, in order.
\<close>

fun evalCompiledMap ::
      "('env, 'ast, 'prog) cel \<Rightarrow> (string \<times> 'prog compiled_node) list \<Rightarrow> gval gmap \<Rightarrow> string \<Rightarrow>
       gval gmap \<times> string list"
  and evalCompiledNode ::
      "('env, 'ast, 'prog) cel \<Rightarrow> 'prog compiled_node \<Rightarrow> gval gmap \<Rightarrow> string \<Rightarrow>
       gval \<times> string list" where
  "evalCompiledMap cel [] resourceMap reason = ([], [])"
| "evalCompiledMap cel ((key, node) # nodes) resourceMap reason =
     (let (val, warns) = evalCompiledNode cel node resourceMap reason;
          (result, more) = evalCompiledMap cel nodes resourceMap reason
      in (if val \<noteq> GNil then (key, val) # result else result, warns @ more))"
| "evalCompiledNode cel (NodeChildren children) resourceMap reason =
     (let (nested, warns) = evalCompiledMap cel children resourceMap reason
      in (if length nested = 0 then GNil else GMap nested, warns))"
| "evalCompiledNode cel (NodeProgram program) resourceMap reason =
     (case cel_Eval cel program Map.empty [''resource'' \<mapsto> GMap resourceMap, ''reason'' \<mapsto> GStr reason] of
        CelErr err \<Rightarrow> (GNil, [''CEL expression evaluation failed: '' @ error_text err])
      | CelNil \<Rightarrow> (GNil, [''CEL expression evaluated to nil''])
      | CelVal out \<Rightarrow> (out, []))"
| "evalCompiledNode cel (NodeLiteral literal) resourceMap reason = (literal, [])"

definition BuildPayload ::
    "('env, 'ast, 'prog) cel \<Rightarrow> 'prog builder \<Rightarrow> resource \<Rightarrow> string \<Rightarrow> gval gmap \<times> string list" where
  "BuildPayload cel b resource reason =
     evalCompiledMap cel (b_compiled b) (payload_resourceToMap resource) reason"

section \<open>Accepted definitions\<close>

text \<open>The value types a leaf may have, and the expressions of a definition in order.\<close>

fun plain_data :: "gval \<Rightarrow> bool" where
  "plain_data (GMap m) = (\<forall>kv \<in> set m. plain_data (snd kv))"
| "plain_data (GList _) = False"
| "plain_data (GTime _) = False"
| "plain_data (GDuration _) = False"
| "plain_data (GOther _) = False"
| "plain_data _ = True"

fun expressions :: "gval \<Rightarrow> string list" where
  "expressions (GStr s) = [s]"
| "expressions (GMap m) = concat (map (\<lambda>kv. expressions (snd kv)) m)"
| "expressions _ = []"

definition buildable :: "('env, 'ast, 'prog) cel \<Rightarrow> 'env \<Rightarrow> gval \<Rightarrow> bool" where
  "buildable cel env v \<longleftrightarrow> leaf_ok v \<and> plain_data v \<and> (\<forall>e \<in> set (expressions v). cel_accepts cel env e)"

lemma buildable_map: "buildable cel env (GMap m) \<longleftrightarrow> (\<forall>kv \<in> set m. buildable cel env (snd kv))"
  by (auto simp: buildable_def)

lemma compile_iff:
  shows "(\<exists>ns. compileMap cel env m = Inr ns) \<longleftrightarrow> buildable cel env (GMap m)"
    and "(\<exists>n. compileNode cel env v = Inr n) \<longleftrightarrow> buildable cel env v"
proof (induction cel env m and cel env v rule: compileMap_compileNode.induct)
  case (1 cel env)
  show ?case by (simp add: buildable_map)
next
  case (2 cel env key rawVal defs)
  have "(\<exists>ns. compileMap cel env ((key, rawVal) # defs) = Inr ns) \<longleftrightarrow>
      (\<exists>n. compileNode cel env rawVal = Inr n) \<and> (\<exists>ns. compileMap cel env defs = Inr ns)"
    by (auto split: sum.split)
  with 2 show ?case
    by (auto simp: buildable_map)
next
  case (3 cel env raw)
  show ?case
  proof (cases raw)
    case (GMap m)
    have "(\<exists>ns. compileMap cel env m = Inr ns) \<longleftrightarrow> buildable cel env (GMap m)"
      by (rule 3 [of "zero_value_def\<lparr>vd_Children := Some m\<rparr>" m]) (simp_all add: GMap zero_value_def_def)
    then show ?thesis
      by (auto simp: GMap compileNode.simps zero_value_def_def split: sum.split)
  next
    case (GStr s)
    then show ?thesis
      by (auto simp: compileNode.simps zero_value_def_def buildable_def cel_accepts_def split: sum.split)
  qed (simp_all add: compileNode.simps zero_value_def_def buildable_def)
qed

text \<open>
  C14: The builder and the validation of the configuration agree. A \<open>message_data\<close> tree is
  accepted by \<open>NewBuilder\<close> exactly when the CEL environment can be made, the tree passes
  \<open>validateMessageDataLeaves\<close> (no nil, no empty string, at any depth), it holds no list or
  other unsupported type, and every one of its expressions compiles. What is left for an event
  to meet at run time is only the evaluation itself.
\<close>

theorem builder_accepts_iff:
  "(\<exists>b. NewBuilder cel (GMap data) = Inr b) \<longleftrightarrow>
     (\<exists>env. newCELEnv cel = Inr env \<and> validateMessageDataLeaves data ''message_data'' = None \<and>
        plain_data (GMap data) \<and> list_all (cel_accepts cel env) (expressions (GMap data)))"
proof -
  have "(\<exists>b. NewBuilder cel (GMap data) = Inr b) \<longleftrightarrow>
      (\<exists>env. newCELEnv cel = Inr env \<and> (\<exists>ns. compileMap cel env data = Inr ns))"
    by (auto simp: NewBuilder_def split: sum.split)
  then show ?thesis
    by (simp only: compile_iff buildable_def validateMessageDataLeaves_iff list_all_iff)
qed

section \<open>The payload, field by field\<close>

text \<open>The value at a path of nested maps, in a definition or in a payload.\<close>

fun at_path :: "gval \<Rightarrow> string list \<Rightarrow> gval option" where
  "at_path v [] = Some v"
| "at_path (GMap m) (k # ks) = (case gmap_get m k of None \<Rightarrow> None | Some v \<Rightarrow> at_path v ks)"
| "at_path _ (k # ks) = None"

fun node_at :: "'prog compiled_node \<Rightarrow> string list \<Rightarrow> 'prog compiled_node option" where
  "node_at n [] = Some n"
| "node_at (NodeChildren ch) (k # ks) = (case map_of ch k of None \<Rightarrow> None | Some n \<Rightarrow> node_at n ks)"
| "node_at _ (k # ks) = None"

text \<open>Go maps have distinct keys, at every depth.\<close>

fun maps_ok :: "gval \<Rightarrow> bool" where
  "maps_ok (GMap m) = (gmap_ok m \<and> (\<forall>kv \<in> set m. maps_ok (snd kv)))"
| "maps_ok _ = True"

fun nodes_ok :: "'prog compiled_node \<Rightarrow> bool" where
  "nodes_ok (NodeChildren ch) = (distinct (map fst ch) \<and> (\<forall>kn \<in> set ch. nodes_ok (snd kn)))"
| "nodes_ok _ = True"

text \<open>What compilation makes of the nodes of a definition.\<close>

lemma compileMap_nth:
  "compileMap cel env m = Inr ns \<Longrightarrow>
     map fst ns = map fst m \<and> list_all2 (\<lambda>kv kn. compileNode cel env (snd kv) = Inr (snd kn)) m ns"
  by (induction m arbitrary: ns) (auto split: sum.splits)

lemma compileMap_get:
  assumes "compileMap cel env m = Inr ns"
  shows "gmap_get m k = None \<and> map_of ns k = None \<or>
    (\<exists>v n. gmap_get m k = Some v \<and> map_of ns k = Some n \<and> compileNode cel env v = Inr n)"
  using assms
  by (induction m arbitrary: ns) (auto simp: gmap_get_Cons split: sum.splits if_splits)

lemma compileNode_map:
  "compileNode cel env (GMap m) = Inr n \<longleftrightarrow>
     (\<exists>ns. compileMap cel env m = Inr ns \<and> n = NodeChildren ns)"
  by (auto simp: compileNode.simps zero_value_def_def split: sum.split)

lemma compile_nodes_ok:
  shows "compileMap cel env m = Inr ns \<Longrightarrow> maps_ok (GMap m) \<Longrightarrow> nodes_ok (NodeChildren ns)"
    and "compileNode cel env v = Inr n \<Longrightarrow> maps_ok v \<Longrightarrow> nodes_ok n"
proof (induction cel env m and cel env v arbitrary: ns and n rule: compileMap_compileNode.induct)
  case (1 cel env)
  then show ?case by simp
next
  case (2 cel env key rawVal defs)
  from "2.prems"(1) obtain n ns' where c: "compileNode cel env rawVal = Inr n"
    "compileMap cel env defs = Inr ns'" "ns = (key, n) # ns'"
    by (auto split: sum.splits)
  with "2.IH"(1) [OF c(1)] "2.IH"(2) [OF c(1) c(2)] "2.prems"(2) compileMap_nth [OF c(2)]
  show ?case by (auto simp: gmap_ok_def)
next
  case (3 cel env raw)
  show ?case
  proof (cases raw)
    case (GMap m)
    from "3.prems"(1) obtain ns where c: "compileMap cel env m = Inr ns" "n = NodeChildren ns"
      by (auto simp: GMap compileNode_map)
    show ?thesis
      unfolding c(2)
      by (rule "3.IH" [of "zero_value_def\<lparr>vd_Children := Some m\<rparr>" m])
        (use "3.prems"(2) c(1) in \<open>simp_all add: GMap zero_value_def_def\<close>)
  qed (use "3.prems"(1) in \<open>auto simp: compileNode.simps zero_value_def_def split: sum.splits if_splits\<close>)
qed

lemma compile_node_at:
  assumes "compileNode cel env v = Inr n" and "at_path v path = Some w"
  shows "\<exists>n'. node_at n path = Some n' \<and> compileNode cel env w = Inr n'"
  using assms
proof (induction v path arbitrary: n rule: at_path.induct)
  case (2 m k ks)
  from "2.prems" obtain ns v where ns: "n = NodeChildren ns" "compileMap cel env m = Inr ns"
    and v: "gmap_get m k = Some v" "at_path v ks = Some w"
    by (auto simp: compileNode_map split: option.splits)
  from compileMap_get [OF ns(2), of k] v obtain n' where
    "map_of ns k = Some n'" "compileNode cel env v = Inr n'" by auto
  with "2.IH" [OF v(1) _ v(2)] ns(1) show ?case by auto
qed auto

text \<open>What a leaf contributes on its own.\<close>

definition payload_activation :: "resource \<Rightarrow> string \<Rightarrow> (string \<rightharpoonup> gval)" where
  "payload_activation r reason =
     [''resource'' \<mapsto> GMap (payload_resourceToMap r), ''reason'' \<mapsto> GStr reason]"

definition present :: "gval \<Rightarrow> gval option" where
  "present v = (if v = GNil then None else Some v)"

definition outcome :: "cel_out \<Rightarrow> gval option" where
  "outcome out = (case out of CelVal v \<Rightarrow> present v | _ \<Rightarrow> None)"

fun leaf_value ::
    "('env, 'ast, 'prog) cel \<Rightarrow> 'prog compiled_node \<Rightarrow> gval gmap \<Rightarrow> string \<Rightarrow> gval option" where
  "leaf_value cel (NodeProgram p) rm reason =
     outcome (cel_Eval cel p Map.empty [''resource'' \<mapsto> GMap rm, ''reason'' \<mapsto> GStr reason])"
| "leaf_value cel (NodeLiteral v) rm reason = present v"
| "leaf_value cel (NodeChildren ch) rm reason = None"

lemma evalCompiledMap_keys: "fst ` set (fst (evalCompiledMap cel ns rm reason)) \<subseteq> fst ` set ns"
  by (induction ns) (auto simp: split_def Let_def image_subset_iff split: if_splits)

lemma evalCompiledMap_get:
  "distinct (map fst ns) \<Longrightarrow>
     gmap_get (fst (evalCompiledMap cel ns rm reason)) k =
       (case map_of ns k of None \<Rightarrow> None
        | Some n \<Rightarrow> present (fst (evalCompiledNode cel n rm reason)))"
proof (induction ns)
  case Nil
  show ?case by simp
next
  case (Cons kn ns)
  obtain key n where kn: "kn = (key, n)" by force
  have "gmap_get (fst (evalCompiledMap cel ns rm reason)) key = None" if "key \<notin> fst ` set ns"
    using that evalCompiledMap_keys [of cel ns rm reason] by (auto simp: gmap_get_None)
  with Cons show ?case
    by (auto simp: kn split_def Let_def gmap_get_Cons present_def)
qed

lemma eval_node_at:
  assumes "nodes_ok n" and "node_at n path = Some leaf" and "\<nexists>ch. leaf = NodeChildren ch"
  shows "Option.bind (present (fst (evalCompiledNode cel n rm reason))) (\<lambda>v. at_path v path) =
           leaf_value cel leaf rm reason"
  using assms
proof (induction n path rule: node_at.induct)
  case (1 n)
  then show ?case
    by (cases n) (auto simp: present_def outcome_def split: cel_out.split)
next
  case (2 ch k ks)
  from "2.prems"(2) obtain n where n: "map_of ch k = Some n" "node_at n ks = Some leaf"
    by (auto split: option.splits)
  have "nodes_ok n"
    using n(1) "2.prems"(1) by (auto dest!: map_of_SomeD)
  note IH = "2.IH" [OF n(1) this n(2) "2.prems"(3)]
  let ?m = "fst (evalCompiledMap cel ch rm reason)"
  have get: "gmap_get ?m k = present (fst (evalCompiledNode cel n rm reason))"
    using "2.prems"(1) n(1) by (simp add: evalCompiledMap_get)
  have "Option.bind (present (fst (evalCompiledNode cel (NodeChildren ch) rm reason)))
          (\<lambda>v. at_path v (k # ks)) = (case gmap_get ?m k of None \<Rightarrow> None | Some v \<Rightarrow> at_path v ks)"
    by (simp add: split_def Let_def present_def)
  then show ?case
    using IH by (simp add: get split: option.splits bind_splits)
qed auto

lemma payload_at_node:
  assumes b: "NewBuilder cel (GMap data) = Inr b" and ok: "maps_ok (GMap data)"
    and at: "at_path (GMap data) path = Some v"
  shows "\<exists>env n. newCELEnv cel = Inr env \<and> compileNode cel env v = Inr n \<and>
     ((\<nexists>ch. n = NodeChildren ch) \<longrightarrow>
        at_path (GMap (fst (BuildPayload cel b r reason))) path =
          leaf_value cel n (payload_resourceToMap r) reason)"
proof -
  from b obtain env where env: "newCELEnv cel = Inr env"
    and c: "compileMap cel env data = Inr (b_compiled b)"
    by (auto simp: NewBuilder_def split: sum.splits)
  then have node: "compileNode cel env (GMap data) = Inr (NodeChildren (b_compiled b))"
    by (simp add: compileNode_map)
  obtain n where n: "node_at (NodeChildren (b_compiled b)) path = Some n" "compileNode cel env v = Inr n"
    using compile_node_at [OF node at] by blast
  let ?m = "fst (evalCompiledMap cel (b_compiled b) (payload_resourceToMap r) reason)"
  have "at_path (GMap ?m) path = leaf_value cel n (payload_resourceToMap r) reason"
    if leaf: "\<nexists>ch. n = NodeChildren ch"
  proof -
    have "path \<noteq> []" using n(1) leaf by auto
    then have nil: "at_path (GMap []) path = None" by (cases path) auto
    show ?thesis
      using eval_node_at [OF compile_nodes_ok(1) [OF c ok] n(1) leaf, of cel "payload_resourceToMap r" reason] nil
      by (cases "?m = []") (auto simp: present_def split_def Let_def)
  qed
  with env n(2) show ?thesis by (auto simp: BuildPayload_def)
qed

text \<open>
  C15: What an event carries at a path of the configured tree depends on that leaf alone. Where
  the configuration has an expression, the payload holds the value to which the expression's
  own program evaluates on the resource and the decision reason, and holds nothing there when
  the evaluation fails or gives nil; no other field is affected by the failure, and the payload
  is built all the same. (Go maps have distinct keys, which \<open>maps_ok\<close> says of the tree.)
\<close>

theorem payload_expression_field:
  assumes "NewBuilder cel (GMap data) = Inr b" and "maps_ok (GMap data)"
    and "at_path (GMap data) path = Some (GStr expr)"
  shows "\<exists>env ast prog. newCELEnv cel = Inr env \<and> cel_Compile cel env expr = Inr ast \<and>
     cel_Program cel env ast = Inr prog \<and>
     at_path (GMap (fst (BuildPayload cel b r reason))) path =
       outcome (cel_Eval cel prog Map.empty (payload_activation r reason))"
proof -
  obtain env n where env: "newCELEnv cel = Inr env" and n: "compileNode cel env (GStr expr) = Inr n"
    and at: "(\<nexists>ch. n = NodeChildren ch) \<longrightarrow>
        at_path (GMap (fst (BuildPayload cel b r reason))) path =
          leaf_value cel n (payload_resourceToMap r) reason"
    using payload_at_node [OF assms] by blast
  from n obtain ast prog where "n = NodeProgram prog" "cel_Compile cel env expr = Inr ast"
    "cel_Program cel env ast = Inr prog"
    by (auto simp: compileNode.simps zero_value_def_def split: sum.splits if_splits)
  with env at show ?thesis by (auto simp: payload_activation_def)
qed

section \<open>The payload as a whole\<close>

text \<open>
  The payload told from the configured tree, without compiling it: each expression is replaced by
  its value, a literal by itself, and what has no value, or is an object left without fields,
  is pruned. \<open>ev\<close> is the value of an expression.
\<close>

fun pruned :: "(string \<Rightarrow> gval option) \<Rightarrow> gval \<Rightarrow> gval option" where
  "pruned ev (GStr e) = ev e"
| "pruned ev (GMap ds) =
     (let m = concat (map (\<lambda>kd. case pruned ev (snd kd) of None \<Rightarrow> [] | Some v \<Rightarrow> [(fst kd, v)]) ds)
      in if m = [] then None else Some (GMap m))"
| "pruned ev GNilMap = None"
| "pruned ev GNil = None"
| "pruned ev v = Some v"

definition pruned_fields :: "(string \<Rightarrow> gval option) \<Rightarrow> gval gmap \<Rightarrow> gval gmap" where
  "pruned_fields ev ds =
     concat (map (\<lambda>kd. case pruned ev (snd kd) of None \<Rightarrow> [] | Some v \<Rightarrow> [(fst kd, v)]) ds)"

lemma pruned_map:
  "pruned ev (GMap ds) = (if pruned_fields ev ds = [] then None else Some (GMap (pruned_fields ev ds)))"
  by (simp add: pruned_fields_def Let_def)

declare pruned.simps(2) [simp del]

lemma pruned_fields_simps [simp]:
  "pruned_fields ev [] = []"
  "pruned_fields ev ((k, d) # ds) =
     (case pruned ev d of None \<Rightarrow> pruned_fields ev ds | Some v \<Rightarrow> (k, v) # pruned_fields ev ds)"
  by (simp_all add: pruned_fields_def split: option.split)

text \<open>The value of an expression on a resource and a reason; an error and a nil are no value.\<close>

definition expression_value ::
    "('env, 'ast, 'prog) cel \<Rightarrow> 'env \<Rightarrow> (string \<rightharpoonup> gval) \<Rightarrow> string \<Rightarrow> gval option" where
  "expression_value cel env act e =
     (case cel_Compile cel env e of
        Inl err \<Rightarrow> None
      | Inr ast \<Rightarrow>
          (case cel_Program cel env ast of
             Inl err \<Rightarrow> None
           | Inr prg \<Rightarrow> (case cel_Eval cel prg Map.empty act of CelVal v \<Rightarrow> if v = GNil then None else Some v | _ \<Rightarrow> None)))"

lemma compile_pruned:
  fixes rm reason
  defines "ev \<equiv> \<lambda>cel env. expression_value cel env [''resource'' \<mapsto> GMap rm, ''reason'' \<mapsto> GStr reason]"
  shows "compileMap cel env m = Inr ns \<Longrightarrow>
      fst (evalCompiledMap cel ns rm reason) = pruned_fields (ev cel env) m"
    and "compileNode cel env v = Inr n \<Longrightarrow>
      present (fst (evalCompiledNode cel n rm reason)) = pruned (ev cel env) v"
proof (induction cel env m and cel env v arbitrary: ns and n rule: compileMap_compileNode.induct)
  case (1 cel env)
  then show ?case by simp
next
  case (2 cel env key rawVal defs)
  from "2.prems"(1) obtain n ns' where c: "compileNode cel env rawVal = Inr n"
    "compileMap cel env defs = Inr ns'" "ns = (key, n) # ns'"
    by (auto split: sum.splits)
  from "2.IH"(1) [OF c(1)] have v: "pruned (ev cel env) rawVal = present (fst (evalCompiledNode cel n rm reason))" ..
  from "2.IH"(2) [OF c(1) c(2)] show ?case
    by (simp add: c(3) v split_def Let_def present_def)
next
  case (3 cel env raw)
  show ?case
  proof (cases raw)
    case (GMap m)
    from "3.prems"(1) obtain ns where c: "compileMap cel env m = Inr ns" "n = NodeChildren ns"
      by (auto simp: GMap compileNode_map)
    have "fst (evalCompiledMap cel ns rm reason) = pruned_fields (ev cel env) m"
      by (rule "3.IH" [of "zero_value_def\<lparr>vd_Children := Some m\<rparr>" m])
        (use c(1) in \<open>simp_all add: GMap zero_value_def_def\<close>)
    then show ?thesis
      by (simp add: GMap pruned_map c(2) split_def Let_def present_def)
  qed (use "3.prems" in \<open>auto simp: compileNode.simps zero_value_def_def present_def ev_def expression_value_def
        split: sum.splits if_splits cel_out.splits\<close>)
qed

lemma payload_pruned:
  assumes "NewBuilder cel (GMap data) = Inr b"
  obtains env where "newCELEnv cel = Inr env" "buildable cel env (GMap data)"
    "fst (BuildPayload cel b r reason) =
       pruned_fields (expression_value cel env (payload_activation r reason)) data"
proof -
  from assms obtain env where env: "newCELEnv cel = Inr env" "compileMap cel env data = Inr (b_compiled b)"
    by (auto simp: NewBuilder_def split: sum.splits)
  with compile_iff(1) [of cel env data] have "buildable cel env (GMap data)" by blast
  with env compile_pruned(1) [OF env(2), of "payload_resourceToMap r" reason] that show ?thesis
    by (simp add: BuildPayload_def payload_activation_def)
qed

text \<open>
  C32: What \<open>BuildPayload\<close> makes of the compiled tree is what the configuration says: the tree
  itself, every expression replaced by its value on the resource and the reason, every literal
  kept, and everything without a value pruned, with the objects that are left empty by it. So
  compiling once at start-up and evaluating for each event computes exactly the configured
  fields, at their places and in their order, and no others.
\<close>

theorem payload_is_pruned_tree:
  assumes "NewBuilder cel (GMap data) = Inr b"
  shows "\<exists>env. newCELEnv cel = Inr env \<and>
     fst (BuildPayload cel b r reason) =
       pruned_fields (expression_value cel env (payload_activation r reason)) data"
  using payload_pruned [OF assms] by metis

text \<open>A value without holes: no nil and no empty object at any depth, and distinct keys.\<close>

fun solid :: "gval \<Rightarrow> bool" where
  "solid GNil = False"
| "solid GNilMap = False"
| "solid (GMap m) = (m \<noteq> [] \<and> distinct (map fst m) \<and> (\<forall>kv \<in> set m. solid (snd kv)))"
| "solid (GList vs) = (\<forall>v \<in> set vs. solid v)"
| "solid _ = True"

lemma pruned_fields_in:
  "kv \<in> set (pruned_fields ev ds) \<Longrightarrow> \<exists>d. (fst kv, d) \<in> set ds \<and> pruned ev d = Some (snd kv)"
proof (induction ds)
  case (Cons c ds)
  obtain k d where c: "c = (k, d)" by force
  show ?case
  proof (cases "kv \<in> set (pruned_fields ev ds)")
    case True
    then show ?thesis using Cons.IH by fastforce
  next
    case False
    with Cons.prems have "pruned ev d = Some (snd kv)" "fst kv = k"
      by (auto simp: c split: option.splits)
    then show ?thesis by (auto simp: c)
  qed
qed simp

lemma pruned_fields_distinct: "distinct (map fst ds) \<Longrightarrow> distinct (map fst (pruned_fields ev ds))"
proof (induction ds)
  case (Cons kd ds)
  obtain k d where kd: "kd = (k, d)" by force
  have "k \<notin> fst ` set (pruned_fields ev ds)"
    using Cons.prems pruned_fields_in [of _ ev ds] by (force simp: kd)
  with Cons show ?case by (simp add: kd split: option.split)
qed simp

lemma pruned_solid:
  "(\<And>e v. e \<in> set (expressions d) \<Longrightarrow> ev e = Some v \<Longrightarrow> solid v) \<Longrightarrow>
   pruned ev d = Some v \<Longrightarrow> maps_ok d \<Longrightarrow> plain_data d \<Longrightarrow> solid v"
proof (induction d arbitrary: v rule: maps_ok.induct)
  case (1 ds)
  let ?m = "pruned_fields ev ds"
  from "1.prems"(2) have v: "v = GMap ?m" "?m \<noteq> []"
    by (auto simp: pruned_map split: if_splits)
  have "solid (snd kv)" if "kv \<in> set ?m" for kv
  proof -
    from pruned_fields_in [OF that] obtain d
      where d: "(fst kv, d) \<in> set ds" "pruned ev d = Some (snd kv)" by blast
    from d(1) "1.prems"(3,4) have ok: "maps_ok d" "plain_data d" by fastforce+
    have "e \<in> set (expressions (GMap ds))" if "e \<in> set (expressions d)" for e
      using that d(1) by force
    with "1.prems"(1) have "\<And>e v. e \<in> set (expressions d) \<Longrightarrow> ev e = Some v \<Longrightarrow> solid v" by blast
    with "1.IH" [OF d(1)] d(2) ok show ?thesis by simp
  qed
  moreover have "distinct (map fst ?m)"
    using "1.prems"(3) by (intro pruned_fields_distinct) (simp add: gmap_ok_def)
  ultimately show ?case using v by simp
qed auto

text \<open>
  C29: A payload has no holes of its own. Whatever fails to evaluate, as long as the values the
  configured expressions do give are without holes themselves, so is the payload: no nil, no nil
  map and no empty object at any depth, and distinct keys in every object. The top level alone
  may be empty, when nothing has a value.
\<close>

theorem payload_has_no_holes:
  assumes "NewBuilder cel (GMap data) = Inr b" and "maps_ok (GMap data)"
    and "\<And>env e v. newCELEnv cel = Inr env \<Longrightarrow> e \<in> set (expressions (GMap data)) \<Longrightarrow>
       expression_value cel env (payload_activation r reason) e = Some v \<Longrightarrow> solid v"
  shows "fst (BuildPayload cel b r reason) = [] \<or> solid (GMap (fst (BuildPayload cel b r reason)))"
proof -
  from assms(1) obtain env where env: "newCELEnv cel = Inr env" "buildable cel env (GMap data)"
    and eq: "fst (BuildPayload cel b r reason) =
       pruned_fields (expression_value cel env (payload_activation r reason)) data" by (rule payload_pruned)
  let ?ev = "expression_value cel env (payload_activation r reason)"
  show ?thesis
  proof (cases "pruned_fields ?ev data = []")
    case False
    then have m: "pruned ?ev (GMap data) = Some (GMap (pruned_fields ?ev data))" by (simp add: pruned_map)
    have "solid (GMap (pruned_fields ?ev data))"
      by (rule pruned_solid [where ev = ?ev, OF _ m assms(2)])
        (use assms(3) [OF env(1)] env(2) in \<open>auto simp: buildable_def simp del: expressions.simps\<close>)
    then show ?thesis unfolding eq by blast
  qed (simp add: eq)
qed

text \<open>The programs of a compiled tree, in the order of evaluation.\<close>

fun node_programs :: "'prog compiled_node \<Rightarrow> 'prog list" where
  "node_programs (NodeProgram p) = [p]"
| "node_programs (NodeLiteral v) = []"
| "node_programs (NodeChildren ch) = concat (map (\<lambda>kn. node_programs (snd kn)) ch)"

definition has_value :: "cel_out \<Rightarrow> bool" where
  "has_value out = (case out of CelVal _ \<Rightarrow> True | _ \<Rightarrow> False)"

definition failed_program :: "('env, 'ast, 'prog) cel \<Rightarrow> (string \<rightharpoonup> gval) \<Rightarrow> 'prog \<Rightarrow> bool" where
  "failed_program cel act p \<longleftrightarrow> \<not> has_value (cel_Eval cel p Map.empty act)"

lemma eval_warnings_map:
  assumes "\<forall>kn \<in> set ns. length (snd (evalCompiledNode cel (snd kn) m reason)) =
      length (filter bad (node_programs (snd kn)))"
  shows "length (snd (evalCompiledMap cel ns m reason)) =
      length (filter bad (concat (map (\<lambda>kn. node_programs (snd kn)) ns)))"
  using assms by (induction ns) (auto simp: split_def Let_def)

lemma eval_warnings_node:
  "length (snd (evalCompiledNode cel n m reason)) =
     length (filter (failed_program cel [''resource'' \<mapsto> GMap m, ''reason'' \<mapsto> GStr reason]) (node_programs n))"
proof (induction n)
  case (NodeProgram p)
  let ?act = "[''resource'' \<mapsto> GMap m, ''reason'' \<mapsto> GStr reason]"
  show ?case
    by (cases "cel_Eval cel p Map.empty ?act")
      (simp_all del: fun_upd_apply add: failed_program_def has_value_def)
next
  case (NodeChildren ch)
  have "\<forall>kn \<in> set ch. length (snd (evalCompiledNode cel (snd kn) m reason)) =
      length (filter (failed_program cel [''resource'' \<mapsto> GMap m, ''reason'' \<mapsto> GStr reason])
        (node_programs (snd kn)))"
    using NodeChildren by (metis prod.collapse snds.intros)
  from eval_warnings_map [OF this] show ?case
    by (simp del: fun_upd_apply add: split_def Let_def)
qed simp

text \<open>
  C36: No failure is silent: building a payload logs exactly one warning for each expression of
  the configured tree that has no value, an error or a nil, and none for the others.
\<close>

theorem payload_warns_once_per_failure:
  "length (snd (BuildPayload cel b r reason)) =
     length (filter (failed_program cel (payload_activation r reason))
       (node_programs (NodeChildren (b_compiled b))))"
  using eval_warnings_node [of cel "NodeChildren (b_compiled b)" "payload_resourceToMap r" reason]
  by (simp del: fun_upd_apply add: BuildPayload_def payload_activation_def split_def Let_def)

section \<open>Instances\<close>

text \<open>A library with two programs: one yields the reason, the other fails.\<close>

definition reason_cel :: "(unit, string, string) cel" where
  "reason_cel =
     \<lparr>cel_NewEnv = \<lambda>_. Inr (), cel_Compile = \<lambda>_ text. Inr text, cel_Program = \<lambda>_ ast. Inr ast,
      cel_Eval = \<lambda>prog fs act. (case act prog of
                    None \<Rightarrow> CelErr (ErrText (''no such attribute: '' @ prog)) | Some v \<Rightarrow> CelVal v)\<rparr>"

definition sample_data :: "gval gmap" where
  "sample_data =
     [(''why'', GStr ''reason''), (''version'', GInt 3),
      (''owner'', GMap [(''id'', GStr ''missing'')])]"

definition sample_builder :: "string builder" where
  "sample_builder =
     \<lparr>b_compiled = [(''why'', NodeProgram ''reason''), (''version'', NodeLiteral (GInt 3)),
        (''owner'', NodeChildren [(''id'', NodeProgram ''missing'')])]\<rparr>"

definition blank_resource :: resource where
  "blank_resource = convert_cluster \<lparr>it_Id = Some ''c1'', it_Href = None, it_Kind = None, it_Generation = 1,
     it_CreatedTime = zero_time, it_UpdatedTime = zero_time, it_Labels = None, it_Conditions = []\<rparr>"

lemma sample_builder_built: "NewBuilder reason_cel (GMap sample_data) = Inr sample_builder"
  by (simp add: NewBuilder_def sample_data_def sample_builder_def reason_cel_def newCELEnv_def
      compileNode.simps zero_value_def_def)

lemma sample_data_ok: "maps_ok (GMap sample_data)"
  by (simp add: sample_data_def gmap_simps)

theorem payload_expression_field_witness:
  "at_path (GMap (fst (BuildPayload reason_cel sample_builder blank_resource ''message decision matched''))) [''why''] =
     Some (GStr ''message decision matched'')"
  using payload_expression_field [OF sample_builder_built sample_data_ok, of "[''why'']" "''reason''" blank_resource
      "''message decision matched''"]
  by (auto simp: sample_data_def gmap_get_Cons reason_cel_def payload_activation_def outcome_def present_def)

theorem payload_is_pruned_tree_witness:
  "fst (BuildPayload reason_cel sample_builder blank_resource ''late'') =
     [(''why'', GStr ''late''), (''version'', GInt 3)]"
  using payload_is_pruned_tree [OF sample_builder_built, of blank_resource "''late''"]
  by (simp add: sample_data_def pruned_map expression_value_def reason_cel_def payload_activation_def)

theorem payload_has_no_holes_witness:
  "solid (GMap (fst (BuildPayload reason_cel sample_builder blank_resource ''late'')))"
proof -
  let ?p = "fst (BuildPayload reason_cel sample_builder blank_resource ''late'')"
  have "?p = [] \<or> solid (GMap ?p)"
    by (rule payload_has_no_holes [OF sample_builder_built sample_data_ok])
      (auto simp: sample_data_def expression_value_def reason_cel_def payload_activation_def)
  moreover have "?p \<noteq> []" by code_simp
  ultimately show ?thesis by blast
qed

end
