(* ===== verification/Sentinel.thy ===== *)
theory Sentinel
  imports Telemetry Engine Payload
begin

text \<open>
  The polling loop (\<open>internal/sentinel/sentinel.go\<close>): one cycle fetches the resources, decides
  for each of them, and publishes an event for those that need one, with the spans, metrics and
  log lines it leaves; the loop repeats cycles until its context is cancelled.
\<close>

section \<open>State and dependencies\<close>

record 'prog sentinel =
  st_lastSuccessfulPoll :: gtime
  st_config :: sentinel_config
  st_decisionEngine :: "'prog decision_engine"
  st_payloadBuilder :: "'prog builder option"

record ('w, 'env, 'ast, 'prog) deps =
  dp_lib :: "'w libs"
  dp_api :: "'w api_client"
  dp_retry :: "(resource list, 'w net) retrier"
  dp_cel :: "('env, 'ast, 'prog) cel"

definition brokerTypeToOTel :: "string \<Rightarrow> string" where
  "brokerTypeToOTel brokerType =
     (case gmap_get [(''googlepubsub'', ''gcp_pubsub'')] brokerType of
        Some v \<Rightarrow> v
      | None \<Rightarrow> brokerType)"

definition NewSentinel ::
    "('env, 'ast, 'prog) cel \<Rightarrow> sentinel_config \<Rightarrow> 'prog decision_engine \<Rightarrow> go_error + 'prog sentinel" where
  "NewSentinel cel cfg decisionEngine =
     (let s = \<lparr>st_lastSuccessfulPoll = zero_time, st_config = cfg,
               st_decisionEngine = decisionEngine, st_payloadBuilder = None\<rparr>
      in case sc_MessageData cfg of
           None \<Rightarrow> Inr s
         | Some data \<Rightarrow>
             (case NewBuilder cel (GMap data) of
                Inl err \<Rightarrow> Inl (ErrWrap ''failed to create payload builder'' err)
              | Inr builder \<Rightarrow> Inr (s\<lparr>st_payloadBuilder := Some builder\<rparr>)))"

definition LastSuccessfulPoll :: "'prog sentinel \<Rightarrow> gtime" where
  "LastSuccessfulPoll s = st_lastSuccessfulPoll s"

section \<open>One resource\<close>

record counters =
  ct_published :: int
  ct_skipped :: int
  ct_pending :: int

text \<open>What a cycle computes once and every resource of it uses.\<close>

record cycle =
  cy_ctx :: context_values
  cy_now :: gtime
  cy_resourceType :: string
  cy_resourceSelector :: string
  cy_topic :: string

definition buildEventData ::
    "('env, 'ast, 'prog) cel \<Rightarrow> 'prog builder option \<Rightarrow> context_values \<Rightarrow> resource \<Rightarrow> decision \<Rightarrow>
     'w world \<Rightarrow> gval gmap \<times> 'w world" where
  "buildEventData cel payloadBuilder ctx resource d w =
     (case payloadBuilder of
        None \<Rightarrow> ([], log_at LevelError ctx
                  (''payload builder not initialized for resource_id='' @ r_ID resource) w)
      | Some b \<Rightarrow>
          (let (payload, warnings) = BuildPayload cel b resource (d_Reason d)
           in (payload, fold (log_at LevelWarn ctx) warnings w)))"

definition event_type :: "string \<Rightarrow> string" where
  "event_type kind = ''com.redhat.hyperfleet.'' @ to_lower kind @ ''.reconcile''"

definition NewEvent :: cloud_event where
  "NewEvent =
     \<lparr>ce_SpecVersion = ''1.0'', ce_Type = [], ce_Source = [], ce_ID = [], ce_DataContentType = [],
      ce_Data = None, ce_Extensions = []\<rparr>"

text \<open>A failed step before publishing: logged, recorded on the span, and the span ended.\<close>

definition fail_event ::
    "context_values \<Rightarrow> span \<Rightarrow> string \<Rightarrow> string \<Rightarrow> string \<Rightarrow> go_error \<Rightarrow> 'w world \<Rightarrow> 'w world" where
  "fail_event eventCtx evalSpan resource_id what status err w =
     (let w = log_at LevelError eventCtx
                (what @ '' resource_id='' @ resource_id @ '' error='' @ error_text err) w;
          w = span_RecordError evalSpan err w;
          w = span_SetStatus evalSpan status w
      in span_End evalSpan w)"

definition send_event ::
    "'w libs \<Rightarrow> cycle \<Rightarrow> context_values \<Rightarrow> span \<Rightarrow> resource \<Rightarrow> decision \<Rightarrow> cloud_event \<Rightarrow>
     counters \<Rightarrow> 'w world \<Rightarrow> (counters \<times> 'w world) option" where
  "send_event lib cy eventCtx evalSpan resource d event cts w =
     (case lib_BrokerType lib of
        None \<Rightarrow> None
      | Some brokerType \<Rightarrow>
     (let topic = cy_topic cy;
          ((publishCtx, publishSpan), w) =
            StartSpan lib eventCtx (topic @ '' publish'')
              [(''messaging.system'', brokerTypeToOTel brokerType),
               (''messaging.operation.type'', ''publish''),
               (''messaging.destination.name'', topic),
               (''messaging.message.id'', ce_ID event)] w;
          event = (if sp_valid (sn_context publishSpan)
                   then the (SetTraceContext (Some event) (Some publishSpan)) else event);
          (err, w) = broker_Publish lib publishCtx topic event w
      in case err of
           Some err \<Rightarrow>
             (let w = span_RecordError publishSpan err w;
                  w = span_SetStatus publishSpan ''publish failed'' w
              in do {
                w \<leftarrow> on_metrics (UpdateBrokerErrorsMetric (cy_resourceType cy) (cy_resourceSelector cy)
                       ''publish_error'') w;
                let w = log_at LevelError publishCtx
                          (''Failed to publish event resource_id='' @ r_ID resource @ '' error='' @ error_text err) w;
                let w = span_End publishSpan w;
                Some (cts, span_End evalSpan w) })
         | None \<Rightarrow>
             (let w = span_End publishSpan w
              in do {
                w \<leftarrow> on_metrics (UpdateEventsPublishedMetric (cy_resourceType cy) (cy_resourceSelector cy)
                       (d_Reason d)) w;
                let w = log_at LevelInfo eventCtx (''Published event resource_id='' @ r_ID resource) w;
                Some (cts\<lparr>ct_published := ct_published cts + 1\<rparr>, span_End evalSpan w) })))"

definition publish_resource ::
    "('w, 'env, 'ast, 'prog) deps \<Rightarrow> 'prog builder option \<Rightarrow> cycle \<Rightarrow> context_values \<Rightarrow> span \<Rightarrow> resource \<Rightarrow>
     decision \<Rightarrow> counters \<Rightarrow> 'w world \<Rightarrow> (counters \<times> 'w world) option" where
  "publish_resource dp payloadBuilder cy evalCtx evalSpan resource d cts w =
     (let cts = cts\<lparr>ct_pending := ct_pending cts + 1\<rparr>;
          eventCtx = WithDecisionReason evalCtx (d_Reason d);
          (eventData, w) = buildEventData (dp_cel dp) payloadBuilder eventCtx resource d w;
          event = NewEvent\<lparr>ce_SpecVersion := ''1.0'', ce_Type := event_type (r_Kind resource),
                           ce_Source := ''hyperfleet-sentinel''\<rparr>;
          (eventID, w) = uuid_NewV7 (dp_lib dp) w
      in case eventID of
           Inl err \<Rightarrow> Some (cts, fail_event eventCtx evalSpan (r_ID resource)
                        ''Failed to generate UUID v7 for event ID'' ''generate event ID failed'' err w)
         | Inr uuid \<Rightarrow>
             (let event = event\<lparr>ce_ID := uuid\<rparr>
              in case lib_Encode (dp_lib dp) eventData of
                   Inl err \<Rightarrow> Some (cts, fail_event eventCtx evalSpan (r_ID resource)
                                ''Failed to set event data'' ''set event data failed'' err w)
                 | Inr data \<Rightarrow>
                     send_event (dp_lib dp) cy eventCtx evalSpan resource d
                       (event\<lparr>ce_DataContentType := ''application/json'', ce_Data := Some data\<rparr>) cts w))"

definition skip_resource ::
    "cycle \<Rightarrow> context_values \<Rightarrow> span \<Rightarrow> resource \<Rightarrow> decision \<Rightarrow> counters \<Rightarrow> 'w world \<Rightarrow>
     (counters \<times> 'w world) option" where
  "skip_resource cy evalCtx evalSpan resource d cts w =
     (let skipCtx = WithDecisionReason evalCtx (d_Reason d)
      in do {
        w \<leftarrow> on_metrics (UpdateResourcesSkippedMetric (cy_resourceType cy) (cy_resourceSelector cy)
               (d_Reason d)) w;
        let w = log_at LevelDebug skipCtx (''Skipped resource resource_id='' @ r_ID resource) w;
        Some (cts\<lparr>ct_skipped := ct_skipped cts + 1\<rparr>, span_End evalSpan w) })"

text \<open>The body of the loop over the fetched resources.\<close>

definition process_resource ::
    "('w, 'env, 'ast, 'prog) deps \<Rightarrow> cycle \<Rightarrow> resource \<Rightarrow> 'prog sentinel \<Rightarrow> counters \<Rightarrow> 'w world \<Rightarrow>
     ('prog sentinel \<times> counters \<times> 'w world) option" where
  "process_resource dp cy resource s cts w =
     (let ((evalCtx, evalSpan), w) =
            StartSpan (dp_lib dp) (cy_ctx cy) ''sentinel.evaluate''
              [(''hyperfleet.resource_type'', sc_ResourceType (st_config s)),
               (''hyperfleet.resource_id'', r_ID resource)] w
      in if r_ID resource = [] then
           (let w = log_at LevelWarn (cy_ctx cy) (''Skipping resource with empty ID kind='' @ r_Kind resource) w
            in Some (s, cts, span_End evalSpan w))
         else do {
           (d, e) \<leftarrow> Evaluate (dp_cel dp) (st_decisionEngine s) (Some resource) (cy_now cy);
           let s = s\<lparr>st_decisionEngine := e\<rparr>;
           let w = span_SetAttributes evalSpan [(''hyperfleet.decision_reason'', d_Reason d)] w;
           (cts, w) \<leftarrow> (if d_ShouldPublish d
                       then publish_resource dp (st_payloadBuilder s) cy evalCtx evalSpan resource d cts w
                       else skip_resource cy evalCtx evalSpan resource d cts w);
           Some (s, cts, w) })"

fun process_resources ::
    "('w, 'env, 'ast, 'prog) deps \<Rightarrow> cycle \<Rightarrow> resource list \<Rightarrow> 'prog sentinel \<Rightarrow> counters \<Rightarrow> 'w world \<Rightarrow>
     ('prog sentinel \<times> counters \<times> 'w world) option" where
  "process_resources dp cy [] s cts w = Some (s, cts, w)"
| "process_resources dp cy (r # rs) s cts w =
     do { (s, cts, w) \<leftarrow> process_resource dp cy r s cts w;
          process_resources dp cy rs s cts w }"

section \<open>One cycle\<close>

definition fetch_in_world ::
    "('w, 'env, 'ast, 'prog) deps \<Rightarrow> context_values \<Rightarrow> string \<Rightarrow> string gmap option \<Rightarrow> 'w world \<Rightarrow>
     (go_error + resource list) option \<times> 'w world" where
  "fetch_in_world dp ctx rt labelSelector w =
     (let (fetched, net) =
            FetchResources (dp_api dp) (dp_retry dp) (Some ctx) rt (entries_of labelSelector) []
              \<lparr>net_calls = wd_calls w, net_debug = [], net_server = wd_rest w\<rparr>
      in (fetched, fold (log_at LevelDebug ctx) (net_debug net)
            (w\<lparr>wd_calls := net_calls net, wd_rest := net_server net\<rparr>)))"

text \<open>Seconds of the Unix epoch, which begins 62135596800 seconds after Go's zero time.\<close>

definition unix_seconds :: "gtime \<Rightarrow> rat" where
  "unix_seconds t = of_int (t_instant t) / 1000000000 - 62135596800"

text \<open>The lines that open and close a completed cycle in the log.\<close>

definition fetched_text :: "resource list \<Rightarrow> label_selector_list \<Rightarrow> string" where
  "fetched_text resources selectors =
     ''Fetched resources count='' @ show_int (int (length resources)) @
     '' label_selectors='' @ show_int (int (length selectors))"

definition completed_text :: "resource list \<Rightarrow> counters \<Rightarrow> rat \<Rightarrow> string" where
  "completed_text resources cts duration =
     ''Trigger cycle completed total='' @ show_int (int (length resources)) @
     '' published='' @ show_int (ct_published cts) @ '' skipped='' @ show_int (ct_skipped cts) @
     '' duration='' @ show_fixed 3 duration @ ''s''"

text \<open>The end of the cycle, after the last resource.\<close>

definition complete_cycle ::
    "'w libs \<Rightarrow> context_values \<Rightarrow> string \<Rightarrow> string \<Rightarrow> gtime \<Rightarrow> resource list \<Rightarrow> counters \<Rightarrow>
     'prog sentinel \<Rightarrow> 'w world \<Rightarrow> ('prog sentinel \<times> 'w world) option" where
  "complete_cycle lib ctx resourceType resourceSelector startTime resources cts s w =
     do {
       w \<leftarrow> on_metrics (UpdatePendingResourcesMetric resourceType resourceSelector (ct_pending cts)) w;
       let (t, w) = time_Now lib w;
       let duration = seconds_of (time_sub t startTime);
       w \<leftarrow> on_metrics (UpdatePollDurationMetric resourceType resourceSelector duration) w;
       let w = log_at LevelInfo ctx (completed_text resources cts duration) w;
       let (t, w) = time_Now lib w;
       let s = s\<lparr>st_lastSuccessfulPoll := t\<rparr>;
       let (t, w) = time_Now lib w;
       w \<leftarrow> on_metrics (\<lambda>m. Some (UpdateLastSuccessfulPollTimestampMetric (unix_seconds t) m)) w;
       Some (s, w) }"

text \<open>The part of the cycle after a fetch that succeeded.\<close>

definition evaluate_cycle ::
    "('w, 'env, 'ast, 'prog) deps \<Rightarrow> context_values \<Rightarrow> string \<Rightarrow> string \<Rightarrow> string \<Rightarrow> gtime \<Rightarrow>
     resource list \<Rightarrow> 'prog sentinel \<Rightarrow> 'w world \<Rightarrow> ('prog sentinel \<times> 'w world) option" where
  "evaluate_cycle dp ctx resourceType resourceSelector topic startTime resources s w =
     (let w = log_at LevelInfo ctx (fetched_text resources (sc_ResourceSelector (st_config s))) w;
          (now, w) = time_Now (dp_lib dp) w;
          cy = \<lparr>cy_ctx = ctx, cy_now = now, cy_resourceType = resourceType,
                cy_resourceSelector = resourceSelector, cy_topic = topic\<rparr>
      in do {
        (s, cts, w) \<leftarrow> process_resources dp cy resources s
                         \<lparr>ct_published = 0, ct_skipped = 0, ct_pending = 0\<rparr> w;
        complete_cycle (dp_lib dp) ctx resourceType resourceSelector startTime resources cts s w })"

definition trigger ::
    "('w, 'env, 'ast, 'prog) deps \<Rightarrow> context_values \<Rightarrow> 'prog sentinel \<Rightarrow> 'w world \<Rightarrow>
     (go_error option \<times> 'prog sentinel \<times> 'w world) option" where
  "trigger dp ctx s w =
     (let cfg = st_config s;
          (startTime, w) = time_Now (dp_lib dp) w;
          ((ctx, pollSpan), w) =
            StartSpan (dp_lib dp) ctx ''sentinel.poll'' [(''hyperfleet.resource_type'', sc_ResourceType cfg)] w;
          resourceType = sc_ResourceType cfg;
          resourceSelector = GetResourceSelectorLabel (sc_ResourceSelector cfg);
          topic = (case cc_Broker (sc_Clients cfg) of None \<Rightarrow> [] | Some b \<Rightarrow> bc_Topic b);
          ctx = WithSubset ctx resourceType;
          ctx = WithTopic ctx topic;
          w = log_at LevelDebug ctx ''Starting trigger cycle'' w;
          labelSelector = ToMap (sc_ResourceSelector cfg);
          (fetched, w) = fetch_in_world dp ctx resourceType labelSelector w
      in case fetched of
           None \<Rightarrow> None
         | Some (Inl err) \<Rightarrow>
             (let w = span_RecordError pollSpan err w;
                  w = span_SetStatus pollSpan ''fetch resources failed'' w
              in do {
                w \<leftarrow> on_metrics (UpdateAPIErrorsMetric resourceType resourceSelector ''fetch_error'') w;
                Some (Some (ErrWrap ''failed to fetch resources'' err), s, span_End pollSpan w) })
         | Some (Inr resources) \<Rightarrow>
             do { (s, w) \<leftarrow> evaluate_cycle dp ctx resourceType resourceSelector topic startTime resources s w;
                  Some (None, s, span_End pollSpan w) })"

section \<open>The loop\<close>

text \<open>
  What the \<open>select\<close> finds ready, in the order of its turns: a tick, or the cancellation with the
  context's error. A run over a finite sequence that holds no cancellation is still running.
\<close>

datatype select_event = Tick | CtxDone go_error

datatype loop_result = Running | Returned go_error

definition run_cycle ::
    "('w, 'env, 'ast, 'prog) deps \<Rightarrow> context_values \<Rightarrow> string \<Rightarrow> 'prog sentinel \<Rightarrow> 'w world \<Rightarrow>
     ('prog sentinel \<times> 'w world) option" where
  "run_cycle dp ctx what s w =
     do { (err, s, w) \<leftarrow> trigger dp ctx s w;
          Some (s, (case err of None \<Rightarrow> w
                    | Some err \<Rightarrow> log_at LevelError ctx (what @ '': '' @ error_text err) w)) }"

fun poll_loop ::
    "('w, 'env, 'ast, 'prog) deps \<Rightarrow> context_values \<Rightarrow> select_event list \<Rightarrow> 'prog sentinel \<Rightarrow> 'w world \<Rightarrow>
     (loop_result \<times> 'prog sentinel \<times> 'w world) option" where
  "poll_loop dp ctx [] s w = Some (Running, s, w)"
| "poll_loop dp ctx (CtxDone err # evs) s w =
     Some (Returned err, s, log_at LevelInfo ctx ''Stopping sentinel due to context cancellation'' w)"
| "poll_loop dp ctx (Tick # evs) s w =
     do { (s, w) \<leftarrow> run_cycle dp ctx ''Trigger failed'' s w;
          poll_loop dp ctx evs s w }"

text \<open>\<open>time.NewTicker\<close> panics on an interval that is not positive.\<close>

definition Start ::
    "('w, 'env, 'ast, 'prog) deps \<Rightarrow> context_values \<Rightarrow> select_event list \<Rightarrow> 'prog sentinel \<Rightarrow> 'w world \<Rightarrow>
     (loop_result \<times> 'prog sentinel \<times> 'w world) option" where
  "Start dp ctx evs s w =
     (let w = log_at LevelInfo ctx (''Starting sentinel resource_type='' @ sc_ResourceType (st_config s) @
                '' poll_interval='' @ duration_string (sc_PollInterval (st_config s))) w
      in if sint (sc_PollInterval (st_config s)) \<le> 0 then None
         else do {
           (s, w) \<leftarrow> run_cycle dp ctx ''Initial trigger failed'' s w;
           poll_loop dp ctx evs s w })"

end
