(* ===== verification/Sentinel_Cycle.thy ===== *)
theory Sentinel_Cycle
  imports Sentinel
begin

text \<open>
  What a polling cycle does: its spans are well nested, every fetched resource meets exactly one
  verdict, and the messages, the counters and the metrics of a cycle are those of its verdicts.
\<close>

section \<open>Spans are well nested\<close>

text \<open>
  The check of a span log against a stack of open spans: a span starts under the innermost open
  one, only the innermost one is written to, and only the innermost one ends.
\<close>

definition top :: "nat list \<Rightarrow> nat option" where
  "top st = (case st of [] \<Rightarrow> None | i # _ \<Rightarrow> Some i)"

fun nest :: "nat list \<Rightarrow> span_event list \<Rightarrow> nat list option" where
  "nest st [] = Some st"
| "nest st (SpanStarted i p n # es) = (if p = top st then nest (i # st) es else None)"
| "nest st (SpanAttributes i as # es) = (if top st = Some i then nest st es else None)"
| "nest st (SpanError i err # es) = (if top st = Some i then nest st es else None)"
| "nest st (SpanStatusError i t # es) = (if top st = Some i then nest st es else None)"
| "nest st (SpanEnded i # es) = (if top st = Some i then nest (tl st) es else None)"

fun started :: "span_event list \<Rightarrow> nat list" where
  "started [] = []"
| "started (SpanStarted i p n # es) = i # started es"
| "started (_ # es) = started es"

lemma nest_append: "nest st (a @ b) = Option.bind (nest st a) (\<lambda>st. nest st b)"
  by (induction st a rule: nest.induct) auto

lemma started_append: "started (a @ b) = started a @ started b"
  by (induction a rule: started.induct) auto

lemma top_Cons [simp]: "top (i # st) = Some i" and top_Nil [simp]: "top [] = None"
  by (simp_all add: top_def)

definition spans_ok :: "nat list \<Rightarrow> nat list \<Rightarrow> 'w world \<Rightarrow> 'w world \<Rightarrow> bool" where
  "spans_ok st st' w w' \<longleftrightarrow>
     (\<exists>es. wd_spans w' = wd_spans w @ es \<and> nest st es = Some st' \<and>
           wd_next_span w \<le> wd_next_span w' \<and> started es = [wd_next_span w..<wd_next_span w'])"

named_theorems span_steps

lemma spans_ok_refl [span_steps]: "spans_ok st st w w"
  by (simp add: spans_ok_def)

lemma spans_ok_frame:
  "spans_ok a b w w1 \<Longrightarrow> wd_spans w2 = wd_spans w1 \<Longrightarrow> wd_next_span w2 = wd_next_span w1 \<Longrightarrow>
     spans_ok a b w w2"
  by (simp add: spans_ok_def)

lemma spans_ok_log [span_steps]: "spans_ok a b w w1 \<Longrightarrow> spans_ok a b w (log_at l c t w1)"
  by (rule spans_ok_frame) auto

lemma spans_ok_logs [span_steps]: "spans_ok a b w w1 \<Longrightarrow> spans_ok a b w (fold (log_at l c) ts w1)"
  by (induction ts arbitrary: w1) (auto intro: spans_ok_log)

lemma spans_ok_metrics [span_steps]: "spans_ok a b w w1 \<Longrightarrow> spans_ok a b w (w1\<lparr>wd_metrics := m\<rparr>)"
  by (rule spans_ok_frame) auto

lemma spans_ok_event:
  "spans_ok a b w w1 \<Longrightarrow> nest b [ev] = Some c \<Longrightarrow> started [ev] = [] \<Longrightarrow>
     spans_ok a c w (span_event ev w1)"
  by (auto simp: spans_ok_def nest_append started_append)

lemma spans_ok_end [span_steps]:
  "spans_ok a (sn_id sn # b) w w1 \<Longrightarrow> spans_ok a b w (span_End sn w1)"
  unfolding span_ops by (erule spans_ok_event) simp_all

lemma spans_ok_attributes [span_steps]:
  "spans_ok a (sn_id sn # b) w w1 \<Longrightarrow> spans_ok a (sn_id sn # b) w (span_SetAttributes sn as w1)"
  unfolding span_ops by (erule spans_ok_event) simp_all

lemma spans_ok_error [span_steps]:
  "spans_ok a (sn_id sn # b) w w1 \<Longrightarrow> spans_ok a (sn_id sn # b) w (span_RecordError sn err w1)"
  unfolding span_ops by (erule spans_ok_event) simp_all

lemma spans_ok_status [span_steps]:
  "spans_ok a (sn_id sn # b) w w1 \<Longrightarrow> spans_ok a (sn_id sn # b) w (span_SetStatus sn t w1)"
  unfolding span_ops by (erule spans_ok_event) simp_all

lemma spans_ok_uuid: "uuid_NewV7 lib w1 = (r, w2) \<Longrightarrow> spans_ok a b w w1 \<Longrightarrow> spans_ok a b w w2"
  by (metis spans_ok_frame uuid_frame)

lemma spans_ok_time: "time_Now lib w1 = (r, w2) \<Longrightarrow> spans_ok a b w w1 \<Longrightarrow> spans_ok a b w w2"
  by (metis spans_ok_frame time_Now_frame)

lemma spans_ok_publish:
  "broker_Publish lib c t ev w1 = (r, w2) \<Longrightarrow> spans_ok a b w w1 \<Longrightarrow> spans_ok a b w w2"
  by (metis spans_ok_frame publish_frame)

lemma spans_ok_trans: "spans_ok a b w w1 \<Longrightarrow> spans_ok b c w1 w2 \<Longrightarrow> spans_ok a c w w2"
  by (auto simp: spans_ok_def nest_append started_append)
    (metis le_trans upt_add_eq_append le_Suc_ex)+

lemma StartSpan_active:
  "StartSpan lib ctx n as w = ((ctx', sn), w') \<Longrightarrow> active_span ctx' = Some (sn_id sn)"
  by (auto simp: StartSpan_def Let_def ctx_WithValue_def split: prod.splits if_splits)

lemma StartSpan_frame:
  "StartSpan lib ctx n as w = ((ctx', sn), w') \<Longrightarrow>
     wd_sent w' = wd_sent w \<and> wd_metrics w' = wd_metrics w \<and> wd_calls w' = wd_calls w"
  by (auto simp: StartSpan_def Let_def span_ops split: prod.splits if_splits)

lemma spans_ok_start:
  assumes "StartSpan lib ctx n as w1 = ((ctx', sn), w2)" and "spans_ok a st w w1"
    and "active_span ctx = top st"
  shows "spans_ok a (sn_id sn # st) w w2"
proof -
  have "spans_ok st (sn_id sn # st) w1 w2"
    using assms(1,3)
    by (auto simp: StartSpan_def Let_def span_ops spans_ok_def split: prod.splits if_splits)
  with assms(2) show ?thesis by (rule spans_ok_trans)
qed

lemma send_event_spans:
  assumes "send_event lib cy ectx sn r d ev cts w = Some (cts', w')"
    and "active_span ectx = Some (sn_id sn)"
  shows "spans_ok (sn_id sn # st) st w w'"
proof -
  from assms(1) obtain bt where bt: "lib_BrokerType lib = Some bt"
    by (auto simp: send_event_def split: option.splits)
  obtain pctx psn w1 where start: "StartSpan lib ectx (cy_topic cy @ '' publish'')
      [(''messaging.system'', brokerTypeToOTel bt),
       (''messaging.operation.type'', ''publish''), (''messaging.destination.name'', cy_topic cy),
       (''messaging.message.id'', ce_ID ev)] w = ((pctx, psn), w1)"
    by (metis surj_pair)
  have s1: "spans_ok (sn_id sn # st) (sn_id psn # sn_id sn # st) w w1"
    using start spans_ok_refl by (rule spans_ok_start) (simp add: assms(2))
  let ?ev = "if sp_valid (sn_context psn) then the (SetTraceContext (Some ev) (Some psn)) else ev"
  obtain err w2 where pub: "broker_Publish lib pctx (cy_topic cy) ?ev w1 = (err, w2)"
    by (metis surj_pair)
  note s2 = spans_ok_publish [OF pub s1]
  show ?thesis
  proof (cases err)
    case None
    with assms(1) s2 show ?thesis
      by (auto simp: send_event_def bt start pub Let_def on_metrics_Some intro!: span_steps split: bind_splits)
  next
    case (Some e)
    with assms(1) s2 show ?thesis
      by (auto simp: send_event_def bt start pub Let_def on_metrics_Some intro!: span_steps split: bind_splits)
  qed
qed

lemma fold_log_frame [simp]:
  "wd_sent (fold (log_at l c) ts w) = wd_sent w" "wd_metrics (fold (log_at l c) ts w) = wd_metrics w"
  "wd_spans (fold (log_at l c) ts w) = wd_spans w" "wd_rest (fold (log_at l c) ts w) = wd_rest w"
  "wd_next_span (fold (log_at l c) ts w) = wd_next_span w"
  by (induction ts arbitrary: w) auto

lemma buildEventData_frame:
  "buildEventData cel b ctx r d w = (data, w') \<Longrightarrow>
     wd_sent w' = wd_sent w \<and> wd_metrics w' = wd_metrics w \<and> wd_spans w' = wd_spans w \<and>
     wd_next_span w' = wd_next_span w \<and> wd_rest w' = wd_rest w"
proof -
  assume "buildEventData cel b ctx r d w = (data, w')"
  then show ?thesis
    by (auto simp: buildEventData_def fold_log_frame split: option.splits prod.splits)
qed

lemma publish_resource_spans:
  assumes "publish_resource dp b cy ectx sn r d cts w = Some (cts', w')"
    and "active_span ectx = Some (sn_id sn)"
  shows "spans_ok (sn_id sn # st) st w w'"
proof -
  let ?ctx = "WithDecisionReason ectx (d_Reason d)"
  obtain data w1 where data: "buildEventData (dp_cel dp) b ?ctx r d w = (data, w1)" by force
  have s1: "spans_ok (sn_id sn # st) (sn_id sn # st) w w1"
    using buildEventData_frame [OF data] by (intro spans_ok_frame [OF spans_ok_refl]) auto
  obtain u w2 where u: "uuid_NewV7 (dp_lib dp) w1 = (u, w2)" by force
  note s2 = spans_ok_uuid [OF u s1]
  show ?thesis
  proof (cases u)
    case (Inl err)
    with assms(1) s2 show ?thesis
      by (auto simp: publish_resource_def data u Let_def fail_event_def intro!: span_steps)
  next
    case (Inr uuid)
    show ?thesis
    proof (cases "lib_Encode (dp_lib dp) data")
      case (Inl err)
      with Inr assms(1) s2 show ?thesis
        by (auto simp: publish_resource_def data u Let_def fail_event_def intro!: span_steps)
    next
      case enc: (Inr json)
      from Inr enc assms(1) have "send_event (dp_lib dp) cy ?ctx sn r d
          (NewEvent\<lparr>ce_SpecVersion := ''1.0'', ce_Type := event_type (r_Kind r),
             ce_Source := ''hyperfleet-sentinel'', ce_ID := uuid,
             ce_DataContentType := ''application/json'', ce_Data := Some json\<rparr>)
          (cts\<lparr>ct_pending := ct_pending cts + 1\<rparr>) w2 = Some (cts', w')"
        by (simp add: publish_resource_def data u Let_def)
      from s2 send_event_spans [OF this, of st] assms(2) show ?thesis
        by (auto intro: spans_ok_trans)
    qed
  qed
qed

lemma process_resource_spans:
  assumes "process_resource dp cy r s cts w = Some (s', cts', w')" and "active_span (cy_ctx cy) = top st"
  shows "spans_ok st st w w'"
proof -
  obtain ectx sn w1 where start: "StartSpan (dp_lib dp) (cy_ctx cy) ''sentinel.evaluate''
      [(''hyperfleet.resource_type'', sc_ResourceType (st_config s)),
       (''hyperfleet.resource_id'', r_ID r)] w = ((ectx, sn), w1)"
    by (metis surj_pair)
  note s1 = spans_ok_start [OF start spans_ok_refl assms(2)]
  show ?thesis
  proof (cases "r_ID r = []")
    case True
    with assms(1) start s1 show ?thesis
      by (auto simp: process_resource_def intro!: span_steps)
  next
    case False
    then obtain d e where ev: "Evaluate (dp_cel dp) (st_decisionEngine s) (Some r) (cy_now cy) = Some (d, e)"
      using assms(1) start by (auto simp: process_resource_def Let_def split: bind_splits)
    let ?w = "span_SetAttributes sn [(''hyperfleet.decision_reason'', d_Reason d)] w1"
    have s2: "spans_ok st (sn_id sn # st) w ?w"
      using s1 by (rule spans_ok_attributes)
    show ?thesis
    proof (cases "d_ShouldPublish d")
      case True
      with False assms(1) start ev obtain cts'' where
        "publish_resource dp (st_payloadBuilder s) cy ectx sn r d cts ?w = Some (cts'', w')"
        by (auto simp: process_resource_def Let_def split: bind_splits)
      from s2 publish_resource_spans [OF this StartSpan_active [OF start]] show ?thesis
        by (rule spans_ok_trans)
    next
      case skip: False
      with False assms(1) start ev s2 show ?thesis
        by (auto simp: process_resource_def skip_resource_def Let_def on_metrics_Some
            intro!: span_steps split: bind_splits)
    qed
  qed
qed

lemma process_resources_spans:
  "process_resources dp cy rs s cts w = Some (s', cts', w') \<Longrightarrow> active_span (cy_ctx cy) = top st \<Longrightarrow>
     spans_ok st st w w'"
proof (induction rs arbitrary: s cts w)
  case Nil
  then show ?case by (simp add: spans_ok_refl)
next
  case (Cons r rs)
  from Cons.prems(1) obtain s1 cts1 w1 where
    "process_resource dp cy r s cts w = Some (s1, cts1, w1)"
    "process_resources dp cy rs s1 cts1 w1 = Some (s', cts', w')"
    by (auto split: bind_splits)
  with Cons.IH Cons.prems(2) process_resource_spans show ?case
    by (blast intro: spans_ok_trans)
qed

text \<open>
  The last three readings of the clock before the state \<open>w'\<close>: a completed cycle reads it when its
  resources are processed, for its time of the last successful poll, and for the metric.
\<close>

definition closing_times :: "'w libs \<Rightarrow> gtime \<Rightarrow> gtime \<Rightarrow> gtime \<Rightarrow> 'w world \<Rightarrow> bool" where
  "closing_times lib ended polled stamp w' \<longleftrightarrow>
     (\<exists>r0 r1 r2. lib_Now lib r0 = (ended, r1) \<and> lib_Now lib r1 = (polled, r2) \<and>
        lib_Now lib r2 = (stamp, wd_rest w'))"

lemma complete_cycle_run:
  assumes "complete_cycle lib ctx rt rs start resources cts s w = Some (s', w')"
  shows "\<exists>ended polled stamp. s' = s\<lparr>st_lastSuccessfulPoll := polled\<rparr> \<and> wd_spans w' = wd_spans w \<and>
     wd_next_span w' = wd_next_span w \<and> wd_sent w' = wd_sent w \<and>
     closing_times lib ended polled stamp w' \<and>
     prom.finish_cycle rt rs (ct_pending cts) (seconds_of (time_sub ended start)) (unix_seconds stamp)
       (wd_metrics w) = Some (wd_metrics w')"
proof -
  obtain m1 where m1: "UpdatePendingResourcesMetric rt rs (ct_pending cts) (wd_metrics w) = Some m1"
    using assms by (auto simp: complete_cycle_def on_metrics_Some split: bind_splits)
  let ?w1 = "w\<lparr>wd_metrics := m1\<rparr>"
  obtain t2 w2 where t2: "time_Now lib ?w1 = (t2, w2)" by force
  let ?d = "seconds_of (time_sub t2 start)"
  have w2: "wd_metrics w2 = m1" "wd_spans w2 = wd_spans w" "wd_next_span w2 = wd_next_span w"
    "wd_sent w2 = wd_sent w"
    using time_Now_frame [OF t2] by auto
  obtain m3 where m3: "UpdatePollDurationMetric rt rs ?d m1 = Some m3"
    using assms by (auto simp: complete_cycle_def on_metrics_def m1 t2 w2 Let_def split: bind_splits)
  let ?w3 = "log_at LevelInfo ctx (completed_text resources cts ?d) (w2\<lparr>wd_metrics := m3\<rparr>)"
  obtain t4 w4 where t4: "time_Now lib ?w3 = (t4, w4)" by force
  obtain t5 w5 where t5: "time_Now lib w4 = (t5, w5)" by force
  have result: "s' = s\<lparr>st_lastSuccessfulPoll := t4\<rparr>"
    "w' = w5\<lparr>wd_metrics := UpdateLastSuccessfulPollTimestampMetric (unix_seconds t5) (wd_metrics w5)\<rparr>"
    using assms by (simp_all add: complete_cycle_def on_metrics_def m1 t2 w2 m3 t4 t5 Let_def)
  have w5: "wd_metrics w5 = m3" "wd_spans w5 = wd_spans w" "wd_next_span w5 = wd_next_span w"
    "wd_sent w5 = wd_sent w"
    using time_Now_frame [OF t4] time_Now_frame [OF t5] w2 by auto
  have "prom.finish_cycle rt rs (ct_pending cts) ?d (unix_seconds t5) (wd_metrics w) = Some (wd_metrics w')"
    by (simp add: prom.finish_cycle_def m1 m3 result w5)
  moreover have "closing_times lib t2 t4 t5 w'"
    using t2 t4 t5 result(2) by (auto simp: closing_times_def time_Now_def split: prod.splits) blast
  ultimately show ?thesis using result w5 by auto
qed

lemma evaluate_cycle_run:
  assumes "evaluate_cycle dp ctx rt rs topic start resources s w = Some (s', w')"
  obtains now w1 s1 cts w2 where
    "time_Now (dp_lib dp) (log_at LevelInfo ctx (fetched_text resources (sc_ResourceSelector (st_config s))) w) = (now, w1)"
    "process_resources dp \<lparr>cy_ctx = ctx, cy_now = now, cy_resourceType = rt,
        cy_resourceSelector = rs, cy_topic = topic\<rparr> resources s
        \<lparr>ct_published = 0, ct_skipped = 0, ct_pending = 0\<rparr> w1 = Some (s1, cts, w2)"
    "complete_cycle (dp_lib dp) ctx rt rs start resources cts s1 w2 = Some (s', w')"
proof -
  let ?w0 = "log_at LevelInfo ctx (fetched_text resources (sc_ResourceSelector (st_config s))) w"
  obtain now w1 where now: "time_Now (dp_lib dp) ?w0 = (now, w1)" by force
  from assms that [OF now] show ?thesis
    by (auto simp: evaluate_cycle_def now split: bind_splits)
qed

lemma evaluate_cycle_spans:
  assumes "evaluate_cycle dp ctx rt rs topic start resources s w = Some (s', w')"
    and "active_span ctx = top st"
  shows "spans_ok st st w w'"
proof -
  obtain now w1 s1 cts w2 where
    now: "time_Now (dp_lib dp) (log_at LevelInfo ctx (fetched_text resources (sc_ResourceSelector (st_config s))) w) = (now, w1)"
    and run: "process_resources dp \<lparr>cy_ctx = ctx, cy_now = now, cy_resourceType = rt,
        cy_resourceSelector = rs, cy_topic = topic\<rparr> resources s
        \<lparr>ct_published = 0, ct_skipped = 0, ct_pending = 0\<rparr> w1 = Some (s1, cts, w2)"
    and fin: "complete_cycle (dp_lib dp) ctx rt rs start resources cts s1 w2 = Some (s', w')"
    using assms(1) by (rule evaluate_cycle_run)
  have "spans_ok st st w w1"
    by (rule spans_ok_time [OF now]) (intro span_steps)
  moreover have "spans_ok st st w1 w2"
    by (rule process_resources_spans [OF run]) (simp add: assms(2))
  ultimately show ?thesis
    using complete_cycle_run [OF fin] by (blast intro: spans_ok_trans spans_ok_frame)
qed

lemma fetch_frame:
  "fetch_in_world dp ctx rt sel w = (r, w') \<Longrightarrow>
     wd_spans w' = wd_spans w \<and> wd_sent w' = wd_sent w \<and> wd_metrics w' = wd_metrics w \<and>
     wd_next_span w' = wd_next_span w"
  by (auto simp: fetch_in_world_def split: prod.splits)

text \<open>The beginning of a cycle, up to the answer of the API.\<close>

definition cycle_topic :: "sentinel_config \<Rightarrow> string" where
  "cycle_topic cfg = (case cc_Broker (sc_Clients cfg) of None \<Rightarrow> [] | Some b \<Rightarrow> bc_Topic b)"

definition cycle_selector :: "sentinel_config \<Rightarrow> string" where
  "cycle_selector cfg = GetResourceSelectorLabel (sc_ResourceSelector cfg)"

lemma trigger_begin:
  obtains start psn ctx2 fetched w1 where
    "spans_ok st (sn_id psn # st) w w1 \<or> active_span ctx \<noteq> top st"
    "active_span ctx2 = Some (sn_id psn)" "wd_sent w1 = wd_sent w" "wd_metrics w1 = wd_metrics w"
    "start = fst (lib_Now (dp_lib dp) (wd_rest w))"
    "\<exists>w0. fetch_in_world dp ctx2 (sc_ResourceType (st_config s)) (ToMap (sc_ResourceSelector (st_config s))) w0 = (fetched, w1)"
    "trigger dp ctx s w =
       (case fetched of
          None \<Rightarrow> None
        | Some (Inl err) \<Rightarrow>
            do { w \<leftarrow> on_metrics (UpdateAPIErrorsMetric (sc_ResourceType (st_config s)) (cycle_selector (st_config s))
                      ''fetch_error'')
                      (span_SetStatus psn ''fetch resources failed'' (span_RecordError psn err w1));
                 Some (Some (ErrWrap ''failed to fetch resources'' err), s, span_End psn w) }
        | Some (Inr resources) \<Rightarrow>
            do { (s, w) \<leftarrow> evaluate_cycle dp ctx2 (sc_ResourceType (st_config s)) (cycle_selector (st_config s))
                      (cycle_topic (st_config s)) start resources s w1;
                 Some (None, s, span_End psn w) })"
proof -
  obtain start w0 where t: "time_Now (dp_lib dp) w = (start, w0)" by force
  obtain ctx1 psn w1 where p: "StartSpan (dp_lib dp) ctx ''sentinel.poll''
      [(''hyperfleet.resource_type'', sc_ResourceType (st_config s))] w0 = ((ctx1, psn), w1)"
    by (metis surj_pair)
  let ?ctx2 = "WithTopic (WithSubset ctx1 (sc_ResourceType (st_config s))) (cycle_topic (st_config s))"
  let ?w1 = "log_at LevelDebug ?ctx2 ''Starting trigger cycle'' w1"
  obtain fetched w2 where f: "fetch_in_world dp ?ctx2 (sc_ResourceType (st_config s))
      (ToMap (sc_ResourceSelector (st_config s))) ?w1 = (fetched, w2)" by force
  have spans: "spans_ok st (sn_id psn # st) w w2 \<or> active_span ctx \<noteq> top st"
  proof (cases "active_span ctx = top st")
    case True
    have "spans_ok st (sn_id psn # st) w w1"
      by (rule spans_ok_start [OF p spans_ok_time [OF t spans_ok_refl] True])
    then have "spans_ok st (sn_id psn # st) w ?w1" by (rule spans_ok_log)
    then show ?thesis using fetch_frame [OF f] by (auto intro: spans_ok_frame)
  qed simp
  show ?thesis
  proof (rule that [where start = start, OF spans])
    show "active_span ?ctx2 = Some (sn_id psn)"
      using StartSpan_active [OF p] by simp
    show "wd_sent w2 = wd_sent w" "wd_metrics w2 = wd_metrics w"
      using fetch_frame [OF f] StartSpan_frame [OF p] time_Now_frame [OF t] by auto
    show "start = fst (lib_Now (dp_lib dp) (wd_rest w))"
      using t by (auto simp: time_Now_def split: prod.splits)
    show "\<exists>w0. fetch_in_world dp ?ctx2 (sc_ResourceType (st_config s))
        (ToMap (sc_ResourceSelector (st_config s))) w0 = (fetched, w2)"
      using f by blast
  qed (simp add: trigger_def t p f Let_def cycle_topic_def [symmetric] cycle_selector_def [symmetric]
        split: option.split sum.split)
qed

text \<open>
  C17: On every path through a cycle, the failed fetch, a resource without ID, a failed UUID,
  encoding or publication, and success, the spans come out well nested: each span the cycle
  starts is a child of the innermost open one (publish under evaluate under poll), is ended
  exactly once, after all its children, and is never touched after its end.
\<close>

theorem cycle_spans_nested:
  assumes "trigger dp ctx s w = Some (err, s', w')" and "active_span ctx = None"
  shows "\<exists>es. wd_spans w' = wd_spans w @ es \<and> nest [] es = Some [] \<and>
     started es = [wd_next_span w..<wd_next_span w']"
proof -
  have "spans_ok [] [] w w'"
  proof (rule trigger_begin [where st = "[]" and w = w and ctx = ctx and dp = dp and s = s])
    fix start psn ctx2 fetched w1
    assume spans: "spans_ok [] (sn_id psn # []) w w1 \<or> active_span ctx \<noteq> top []"
      and act: "active_span ctx2 = Some (sn_id psn)"
      and eq: "trigger dp ctx s w =
       (case fetched of
          None \<Rightarrow> None
        | Some (Inl err) \<Rightarrow>
            do { w \<leftarrow> on_metrics (UpdateAPIErrorsMetric (sc_ResourceType (st_config s)) (cycle_selector (st_config s))
                      ''fetch_error'')
                      (span_SetStatus psn ''fetch resources failed'' (span_RecordError psn err w1));
                 Some (Some (ErrWrap ''failed to fetch resources'' err), s, span_End psn w) }
        | Some (Inr resources) \<Rightarrow>
            do { (s, w) \<leftarrow> evaluate_cycle dp ctx2 (sc_ResourceType (st_config s)) (cycle_selector (st_config s))
                      (cycle_topic (st_config s)) start resources s w1;
                 Some (None, s, span_End psn w) })"
    from spans assms(2) have s1: "spans_ok [] [sn_id psn] w w1" by simp
    show ?thesis
    proof (cases "\<exists>resources. fetched = Some (Inr resources)")
      case True
      then obtain w2 where e: "evaluate_cycle dp ctx2 (sc_ResourceType (st_config s)) (cycle_selector (st_config s))
          (cycle_topic (st_config s)) start (projr (the fetched)) s w1 = Some (s', w2)" "w' = span_End psn w2"
        using assms(1) eq by (auto split: bind_splits)
      have "spans_ok [sn_id psn] [sn_id psn] w1 w2"
        by (rule evaluate_cycle_spans [OF e(1)]) (simp add: act)
      with s1 show ?thesis
        unfolding e(2) by (intro spans_ok_end) (rule spans_ok_trans)
    next
      case False
      with assms(1) eq s1 show ?thesis
        by (auto simp: on_metrics_Some intro!: span_steps split: option.splits sum.splits bind_splits)
    qed
  qed
  then show ?thesis by (auto simp: spans_ok_def)
qed

end
