(* ===== verification/Sentinel_Account.thy ===== *)
theory Sentinel_Account
  imports Sentinel_Cycle
begin

text \<open>
  The accounts of a polling cycle. Every fetched resource meets exactly one verdict, a function
  of the resource and of the libraries' answers; the messages handed to the broker, the counters
  and the metrics after a cycle are those of the verdicts in the order of the resources.
\<close>

section \<open>Verdicts\<close>

datatype verdict =
    NoID
  | Skipped decision
  | Unsent go_error
  | Sent publication

definition event_data :: "('env, 'ast, 'prog) cel \<Rightarrow> 'prog builder option \<Rightarrow> resource \<Rightarrow> gval gmap" where
  "event_data cel b r =
     (case b of None \<Rightarrow> [] | Some b \<Rightarrow> fst (BuildPayload cel b r (d_Reason publish_decision)))"

text \<open>A message that says what it must about a resource.\<close>

definition is_event_of ::
    "('w, 'env, 'ast, 'prog) deps \<Rightarrow> 'prog builder option \<Rightarrow> string \<Rightarrow> resource \<Rightarrow> publication \<Rightarrow> bool" where
  "is_event_of dp b topic r p \<longleftrightarrow>
     pb_topic p = topic \<and> ce_Type (pb_event p) = event_type (r_Kind r) \<and>
     ce_Source (pb_event p) = ''hyperfleet-sentinel'' \<and> ce_SpecVersion (pb_event p) = ''1.0'' \<and>
     ce_DataContentType (pb_event p) = ''application/json'' \<and>
     (\<exists>data. lib_Encode (dp_lib dp) (event_data (dp_cel dp) b r) = Inr data \<and>
        ce_Data (pb_event p) = Some data)"

definition uuid_error :: "'w libs \<Rightarrow> go_error \<Rightarrow> bool" where
  "uuid_error lib err \<longleftrightarrow> (\<exists>w. fst (lib_NewV7 lib w) = Inl err)"

inductive verdict_of ::
    "('w, 'env, 'ast, 'prog) deps \<Rightarrow> 'prog decision_engine \<Rightarrow> 'prog builder option \<Rightarrow> string \<Rightarrow> gtime \<Rightarrow>
     resource \<Rightarrow> verdict \<Rightarrow> bool"
  for dp e b topic now where
  no_id: "r_ID r = [] \<Longrightarrow> verdict_of dp e b topic now r NoID"
| skipped: "r_ID r \<noteq> [] \<Longrightarrow> decides (dp_cel dp) e (Some r, now) = Some d \<Longrightarrow> \<not> d_ShouldPublish d \<Longrightarrow>
     verdict_of dp e b topic now r (Skipped d)"
| unsent: "r_ID r \<noteq> [] \<Longrightarrow> decides (dp_cel dp) e (Some r, now) = Some publish_decision \<Longrightarrow>
     uuid_error (dp_lib dp) err \<or> lib_Encode (dp_lib dp) (event_data (dp_cel dp) b r) = Inl err \<Longrightarrow>
     verdict_of dp e b topic now r (Unsent err)"
| sent: "r_ID r \<noteq> [] \<Longrightarrow> decides (dp_cel dp) e (Some r, now) = Some publish_decision \<Longrightarrow>
     is_event_of dp b topic r p \<Longrightarrow> verdict_of dp e b topic now r (Sent p)"

inductive_cases verdict_cases:
  "verdict_of dp e b topic now r NoID" "verdict_of dp e b topic now r (Skipped d)"
  "verdict_of dp e b topic now r (Unsent err)" "verdict_of dp e b topic now r (Sent p)"

lemma verdict_of_lookup_free:
  "verdict_of dp (e\<lparr>de_conditionsLookup := l\<rparr>) b topic now r v \<longleftrightarrow> verdict_of dp e b topic now r v"
  by (simp add: verdict_of.simps decides_lookup_free)

section \<open>Books\<close>

text \<open>The metrics without the three counters that the resources of a cycle move.\<close>

definition besides_counters :: "metrics \<Rightarrow> metrics" where
  "besides_counters m =
     m\<lparr>eventsPublishedCounter := None, resourcesSkippedCounter := None, brokerErrorsCounter := None\<rparr>"

text \<open>Every series of the three counters, and all the rest.\<close>

record tally =
  ty_sent :: "publication list"
  ty_published :: int
  ty_skipped :: int
  ty_pending :: int
  ty_events :: "labels \<Rightarrow> nat"
  ty_skips :: "labels \<Rightarrow> nat"
  ty_broker_errors :: "labels \<Rightarrow> nat"
  ty_besides :: metrics

definition tally_of :: "counters \<Rightarrow> 'w world \<Rightarrow> tally" where
  "tally_of cts w =
     \<lparr>ty_sent = wd_sent w, ty_published = ct_published cts, ty_skipped = ct_skipped cts,
      ty_pending = ct_pending cts,
      ty_events = counter_value (eventsPublishedCounter (wd_metrics w)),
      ty_skips = counter_value (resourcesSkippedCounter (wd_metrics w)),
      ty_broker_errors = counter_value (brokerErrorsCounter (wd_metrics w)),
      ty_besides = besides_counters (wd_metrics w)\<rparr>"

definition raise_at :: "labels \<Rightarrow> (labels \<Rightarrow> nat) \<Rightarrow> labels \<Rightarrow> nat" where
  "raise_at ls f = f(ls := Suc (f ls))"

fun book :: "string \<Rightarrow> string \<Rightarrow> verdict \<Rightarrow> tally \<Rightarrow> tally" where
  "book rt rs NoID t = t"
| "book rt rs (Skipped d) t =
     t\<lparr>ty_skipped := ty_skipped t + 1, ty_skips := raise_at (reason_labels rt rs (d_Reason d)) (ty_skips t)\<rparr>"
| "book rt rs (Unsent err) t = t\<lparr>ty_pending := ty_pending t + 1\<rparr>"
| "book rt rs (Sent p) t =
     (let t = t\<lparr>ty_pending := ty_pending t + 1, ty_sent := ty_sent t @ [p]\<rparr>
      in if pb_error p = None
         then t\<lparr>ty_published := ty_published t + 1,
                ty_events := raise_at (reason_labels rt rs (d_Reason publish_decision)) (ty_events t)\<rparr>
         else t\<lparr>ty_broker_errors := raise_at (error_labels rt rs ''publish_error'') (ty_broker_errors t)\<rparr>)"

lemmas tally_defs = tally_of_def besides_counters_def raise_at_def

lemma tally_of_frame:
  "wd_sent w' = wd_sent w \<Longrightarrow> wd_metrics w' = wd_metrics w \<Longrightarrow> tally_of cts w' = tally_of cts w"
  by (simp add: tally_of_def)

lemma tally_frame [simp]:
  "tally_of cts (log_at l c t w) = tally_of cts w"
  "tally_of cts (span_event ev w) = tally_of cts w"
  by (simp_all add: tally_of_def)

lemma reason_labels_inj [simp]: "reason_labels rt rs a = reason_labels rt rs b \<longleftrightarrow> a = b"
  by (simp add: reason_labels_def)

lemma publish_reason: "d_Reason publish_decision = ''message decision matched''" "d_ShouldPublish publish_decision"
  by (simp_all add: publish_decision_def)

lemma send_event_books:
  assumes ready: "metrics_ready (wd_metrics w)" and rt: "cy_resourceType cy \<noteq> []"
    and rs: "cy_resourceSelector cy \<noteq> []" and broker: "lib_BrokerType lib \<noteq> None"
  shows "\<exists>p cts' w'. send_event lib cy ectx sn r publish_decision ev cts w = Some (cts', w') \<and>
     metrics_ready (wd_metrics w') \<and> pb_topic p = cy_topic cy \<and>
     (pb_event p)\<lparr>ce_Extensions := ce_Extensions ev\<rparr> = ev \<and>
     tally_of cts' w' =
       (book (cy_resourceType cy) (cy_resourceSelector cy) (Sent p) (tally_of
          (cts\<lparr>ct_pending := ct_pending cts - 1\<rparr>) w))"
proof -
  from broker obtain bt where bt: "lib_BrokerType lib = Some bt" by blast
  obtain pctx psn w1 where start: "StartSpan lib ectx (cy_topic cy @ '' publish'')
      [(''messaging.system'', brokerTypeToOTel bt),
       (''messaging.operation.type'', ''publish''), (''messaging.destination.name'', cy_topic cy),
       (''messaging.message.id'', ce_ID ev)] w = ((pctx, psn), w1)"
    by (metis surj_pair)
  note w1 = StartSpan_frame [OF start]
  let ?ev = "if sp_valid (sn_context psn) then the (SetTraceContext (Some ev) (Some psn)) else ev"
  have ev: "?ev\<lparr>ce_Extensions := ce_Extensions ev\<rparr> = ev"
    by (simp add: SetTraceContext_def)
  obtain err w2 where pub: "broker_Publish lib pctx (cy_topic cy) ?ev w1 = (err, w2)"
    by (metis surj_pair)
  let ?p = "\<lparr>pb_topic = cy_topic cy, pb_event = ?ev, pb_error = err\<rparr>"
  have w2: "wd_sent w2 = wd_sent w @ [?p]" "wd_metrics w2 = wd_metrics w"
    using publish_frame [OF pub] w1 by auto
  show ?thesis
  proof (cases err)
    case None
    from ready rt rs have "\<exists>m. UpdateEventsPublishedMetric (cy_resourceType cy) (cy_resourceSelector cy)
          (d_Reason publish_decision) (wd_metrics w) = Some m \<and> metrics_ready m"
      by (intro prom.events_ready)
    then obtain m where m: "UpdateEventsPublishedMetric (cy_resourceType cy) (cy_resourceSelector cy)
          (d_Reason publish_decision) (wd_metrics w) = Some m" "metrics_ready m" by blast
    from None m ev w2 rt rs ready show ?thesis
      by (intro exI [of _ ?p])
        (auto simp: send_event_def bt start pub Let_def on_metrics_def span_ops tally_defs publish_reason
          metrics_updates counter_value_def count_of_inc fun_eq_iff metrics_ready_def)
  next
    case (Some e)
    from ready rt rs have "\<exists>m. UpdateBrokerErrorsMetric (cy_resourceType cy) (cy_resourceSelector cy)
          ''publish_error'' (wd_metrics w) = Some m \<and> metrics_ready m"
      by (intro prom.broker_errors_ready)
    then obtain m where m: "UpdateBrokerErrorsMetric (cy_resourceType cy) (cy_resourceSelector cy)
          ''publish_error'' (wd_metrics w) = Some m" "metrics_ready m" by blast
    from Some m ev w2 rt rs ready show ?thesis
      by (intro exI [of _ ?p])
        (auto simp: send_event_def bt start pub Let_def on_metrics_def span_ops tally_defs publish_reason
          metrics_updates counter_value_def count_of_inc fun_eq_iff metrics_ready_def)
  qed
qed

lemma publish_resource_books:
  assumes ready: "metrics_ready (wd_metrics w)" and rt: "cy_resourceType cy \<noteq> []"
    and rs: "cy_resourceSelector cy \<noteq> []" and id: "r_ID r \<noteq> []"
    and broker: "lib_BrokerType (dp_lib dp) \<noteq> None"
    and wants: "decides (dp_cel dp) e (Some r, now) = Some publish_decision"
  shows "\<exists>v cts' w'. publish_resource dp b cy ectx sn r publish_decision cts w = Some (cts', w') \<and>
     metrics_ready (wd_metrics w') \<and> verdict_of dp e b (cy_topic cy) now r v \<and>
     tally_of cts' w' =
       book (cy_resourceType cy) (cy_resourceSelector cy) v (tally_of cts w)"
proof -
  let ?ctx = "WithDecisionReason ectx (d_Reason publish_decision)"
  let ?cts = "cts\<lparr>ct_pending := ct_pending cts + 1\<rparr>"
  let ?t = "tally_of"
  obtain data w1 where data: "buildEventData (dp_cel dp) b ?ctx r publish_decision w = (data, w1)" by force
  have d: "data = event_data (dp_cel dp) b r"
    using data by (auto simp: buildEventData_def event_data_def split: option.splits prod.splits)
  obtain u w2 where u: "uuid_NewV7 (dp_lib dp) w1 = (u, w2)" by force
  have w2: "wd_sent w2 = wd_sent w" "wd_metrics w2 = wd_metrics w"
    using uuid_frame [OF u] buildEventData_frame [OF data] by auto
  have fail: "\<exists>v cts' w'. publish_resource dp b cy ectx sn r publish_decision cts w = Some (cts', w') \<and>
     metrics_ready (wd_metrics w') \<and> verdict_of dp e b (cy_topic cy) now r v \<and> ?t cts' w' = book (cy_resourceType cy) (cy_resourceSelector cy) v (?t cts w)"
    if "publish_resource dp b cy ectx sn r publish_decision cts w =
          Some (?cts, fail_event ?ctx sn (r_ID r) what status err w2)"
      and "uuid_error (dp_lib dp) err \<or> lib_Encode (dp_lib dp) (event_data (dp_cel dp) b r) = Inl err"
    for what status err
    using that ready w2 unsent [OF id wants that(2), of "cy_topic cy"]
    by (intro exI [of _ "Unsent err"] exI) (auto simp: fail_event_def span_ops tally_of_def)
  show ?thesis
  proof (cases u)
    case (Inl err)
    have "uuid_error (dp_lib dp) err"
      using u Inl by (auto simp: uuid_error_def uuid_NewV7_def split: prod.splits) (metis fst_conv)
    then show ?thesis
      using Inl by (intro fail) (auto simp: publish_resource_def data u Let_def)
  next
    case (Inr uuid)
    show ?thesis
    proof (cases "lib_Encode (dp_lib dp) data")
      case (Inl err)
      with Inr show ?thesis
        by (intro fail) (auto simp: publish_resource_def data u Let_def d)
    next
      case enc: (Inr json)
      let ?ev = "NewEvent\<lparr>ce_SpecVersion := ''1.0'', ce_Type := event_type (r_Kind r),
             ce_Source := ''hyperfleet-sentinel'', ce_ID := uuid,
             ce_DataContentType := ''application/json'', ce_Data := Some json\<rparr>"
      have "metrics_ready (wd_metrics w2)" using w2 ready by simp
      then obtain p cts' w' where p: "send_event (dp_lib dp) cy ?ctx sn r publish_decision ?ev ?cts w2 = Some (cts', w')"
        "metrics_ready (wd_metrics w')" "pb_topic p = cy_topic cy"
        "(pb_event p)\<lparr>ce_Extensions := ce_Extensions ?ev\<rparr> = ?ev"
        "?t cts' w' = book (cy_resourceType cy) (cy_resourceSelector cy) (Sent p) (?t (?cts\<lparr>ct_pending := ct_pending ?cts - 1\<rparr>) w2)"
        using send_event_books [OF _ rt rs broker, of w2 ?ctx sn r ?ev ?cts] by blast
      have "is_event_of dp b (cy_topic cy) r p"
        using p(3,4) enc d by (cases "pb_event p") (auto simp: is_event_of_def NewEvent_def)
      with id wants have "verdict_of dp e b (cy_topic cy) now r (Sent p)" by (rule sent)
      moreover have "?t (?cts\<lparr>ct_pending := ct_pending ?cts - 1\<rparr>) w2 = ?t cts w"
        using w2 by (simp add: tally_of_def)
      ultimately show ?thesis
        using p Inr enc by (intro exI [of _ "Sent p"]) (auto simp: publish_resource_def data u Let_def)
    qed
  qed
qed

lemma process_resource_books:
  fixes cy :: cycle
  defines "t \<equiv> tally_of :: counters \<Rightarrow> 'w world \<Rightarrow> tally"
  assumes ready: "metrics_ready (wd_metrics w)" and rt: "cy_resourceType cy \<noteq> []"
    and rs: "cy_resourceSelector cy \<noteq> []" and cel: "cel_never_nil (dp_cel dp)"
    and broker: "lib_BrokerType (dp_lib dp) \<noteq> None"
  shows "\<exists>v l cts' w'. process_resource dp cy r s cts w =
       Some (s\<lparr>st_decisionEngine := (st_decisionEngine s)\<lparr>de_conditionsLookup := l\<rparr>\<rparr>, cts', w') \<and>
     metrics_ready (wd_metrics w') \<and>
     verdict_of dp (st_decisionEngine s) (st_payloadBuilder s) (cy_topic cy) (cy_now cy) r v \<and>
     t cts' w' = book (cy_resourceType cy) (cy_resourceSelector cy) v (t cts w)"
proof -
  obtain ectx sn w1 where start: "StartSpan (dp_lib dp) (cy_ctx cy) ''sentinel.evaluate''
      [(''hyperfleet.resource_type'', sc_ResourceType (st_config s)),
       (''hyperfleet.resource_id'', r_ID r)] w = ((ectx, sn), w1)"
    by (metis surj_pair)
  note w1 = StartSpan_frame [OF start]
  show ?thesis
  proof (cases "r_ID r = []")
    case True
    have "s = s\<lparr>st_decisionEngine := (st_decisionEngine s)\<lparr>de_conditionsLookup := de_conditionsLookup (st_decisionEngine s)\<rparr>\<rparr>"
      by simp
    with True start w1 ready no_id show ?thesis
      by (intro exI [of _ NoID] exI [of _ "de_conditionsLookup (st_decisionEngine s)"])
        (auto simp: process_resource_def t_def span_ops tally_of_def)
  next
    case False
    obtain d e where ev: "Evaluate (dp_cel dp) (st_decisionEngine s) (Some r) (cy_now cy) = Some (d, e)"
      using Evaluate_total [OF cel] by (metis not_None_eq surj_pair)
    then obtain l where e: "e = (st_decisionEngine s)\<lparr>de_conditionsLookup := l\<rparr>"
      using Evaluate_engine by blast
    have dec: "decides (dp_cel dp) (st_decisionEngine s) (Some r, cy_now cy) = Some d"
      using ev by (simp add: decides_def)
    let ?w = "span_SetAttributes sn [(''hyperfleet.decision_reason'', d_Reason d)] w1"
    have w: "metrics_ready (wd_metrics ?w)" "t cts ?w = t cts w"
      using w1 ready by (auto simp: span_ops tally_of_def t_def)
    show ?thesis
    proof (cases "d_ShouldPublish d")
      case True
      then have d: "d = publish_decision"
        using Evaluate_reason [OF ev] by auto
      obtain v cts' w' where "publish_resource dp (st_payloadBuilder s) cy ectx sn r d cts ?w = Some (cts', w')"
        "metrics_ready (wd_metrics w')"
        "verdict_of dp (st_decisionEngine s) (st_payloadBuilder s) (cy_topic cy) (cy_now cy) r v"
        "t cts' w' = book (cy_resourceType cy) (cy_resourceSelector cy) v (t cts ?w)"
        using publish_resource_books [OF w(1) rt rs False broker, of "st_decisionEngine s" "cy_now cy"] dec d
        unfolding t_def by blast
      with False True start ev w e show ?thesis
        by (intro exI [of _ v] exI [of _ l]) (auto simp: process_resource_def)
    next
      case skip: False
      from prom.skips_ready [OF w(1)] obtain m where
        m: "UpdateResourcesSkippedMetric (cy_resourceType cy) (cy_resourceSelector cy) (d_Reason d) (wd_metrics ?w) = Some m"
        "metrics_ready m" by blast
      have "d_Reason d \<noteq> []"
        using Evaluate_reason [OF ev] skip skip_reason_not_match by (auto simp: publish_decision_def)
      with m skip False start ev w1 e rt rs ready skipped [OF False dec skip] show ?thesis
        by (intro exI [of _ "Skipped d"] exI [of _ l])
          (auto simp: process_resource_def skip_resource_def Let_def on_metrics_def span_ops t_def
            tally_defs metrics_updates counter_value_def count_of_inc fun_eq_iff metrics_ready_def)
    qed
  qed
qed

lemma process_resources_books:
  fixes cy :: cycle
  defines "t \<equiv> tally_of :: counters \<Rightarrow> 'w world \<Rightarrow> tally"
  assumes ready: "metrics_ready (wd_metrics w)" and rt: "cy_resourceType cy \<noteq> []"
    and rs: "cy_resourceSelector cy \<noteq> []" and cel: "cel_never_nil (dp_cel dp)"
    and broker: "lib_BrokerType (dp_lib dp) \<noteq> None"
  shows "\<exists>vs l cts' w'. process_resources dp cy resources s cts w =
       Some (s\<lparr>st_decisionEngine := (st_decisionEngine s)\<lparr>de_conditionsLookup := l\<rparr>\<rparr>, cts', w') \<and>
     metrics_ready (wd_metrics w') \<and>
     list_all2 (verdict_of dp (st_decisionEngine s) (st_payloadBuilder s) (cy_topic cy) (cy_now cy)) resources vs \<and>
     t cts' w' = fold (book (cy_resourceType cy) (cy_resourceSelector cy)) vs (t cts w)"
  using ready
proof (induction resources arbitrary: s cts w)
  case Nil
  have "s = s\<lparr>st_decisionEngine := (st_decisionEngine s)\<lparr>de_conditionsLookup := de_conditionsLookup (st_decisionEngine s)\<rparr>\<rparr>"
    by simp
  with Nil show ?case
    by (intro exI [of _ "[]"] exI [of _ "de_conditionsLookup (st_decisionEngine s)"]) auto
next
  case (Cons r resources)
  obtain v l cts1 w1 where one: "process_resource dp cy r s cts w =
       Some (s\<lparr>st_decisionEngine := (st_decisionEngine s)\<lparr>de_conditionsLookup := l\<rparr>\<rparr>, cts1, w1)"
    "metrics_ready (wd_metrics w1)"
    "verdict_of dp (st_decisionEngine s) (st_payloadBuilder s) (cy_topic cy) (cy_now cy) r v"
    "t cts1 w1 = book (cy_resourceType cy) (cy_resourceSelector cy) v (t cts w)"
    using process_resource_books [OF Cons.prems rt rs cel broker] unfolding t_def by blast
  from Cons.IH [OF one(2), of "s\<lparr>st_decisionEngine := (st_decisionEngine s)\<lparr>de_conditionsLookup := l\<rparr>\<rparr>" cts1]
  obtain vs l' cts' w' where
    "process_resources dp cy resources (s\<lparr>st_decisionEngine := (st_decisionEngine s)\<lparr>de_conditionsLookup := l\<rparr>\<rparr>) cts1 w1 =
       Some (s\<lparr>st_decisionEngine := (st_decisionEngine s)\<lparr>de_conditionsLookup := l'\<rparr>\<rparr>, cts', w')"
    "metrics_ready (wd_metrics w')"
    "list_all2 (verdict_of dp (st_decisionEngine s) (st_payloadBuilder s) (cy_topic cy) (cy_now cy)) resources vs"
    "t cts' w' = fold (book (cy_resourceType cy) (cy_resourceSelector cy)) vs (t cts1 w1)"
    by (auto simp: verdict_of_lookup_free)
  with one show ?case
    by (intro exI [of _ "v # vs"] exI [of _ l']) auto
qed

text \<open>What the books hold after a list of verdicts.\<close>

fun sent_messages :: "verdict list \<Rightarrow> publication list" where
  "sent_messages [] = []"
| "sent_messages (Sent p # vs) = p # sent_messages vs"
| "sent_messages (_ # vs) = sent_messages vs"

definition delivered :: "publication list \<Rightarrow> nat" where
  "delivered ps = length (filter (\<lambda>p. pb_error p = None) ps)"

definition refused :: "publication list \<Rightarrow> nat" where
  "refused ps = length (filter (\<lambda>p. pb_error p \<noteq> None) ps)"

fun is_pending :: "verdict \<Rightarrow> bool" where
  "is_pending (Sent p) = True"
| "is_pending (Unsent err) = True"
| "is_pending _ = False"

fun skipped_at :: "string \<Rightarrow> string \<Rightarrow> labels \<Rightarrow> verdict \<Rightarrow> bool" where
  "skipped_at rt rs ls (Skipped d) = (ls = reason_labels rt rs (d_Reason d))"
| "skipped_at rt rs ls _ = False"

lemma fold_book:
  "ty_sent (fold (book rt rs) vs t) = ty_sent t @ sent_messages vs"
  "ty_published (fold (book rt rs) vs t) = ty_published t + int (delivered (sent_messages vs))"
  "ty_pending (fold (book rt rs) vs t) = ty_pending t + int (length (filter is_pending vs))"
  "ty_events (fold (book rt rs) vs t) ls = ty_events t ls +
     (if ls = reason_labels rt rs (d_Reason publish_decision) then delivered (sent_messages vs) else 0)"
  "ty_skips (fold (book rt rs) vs t) ls = ty_skips t ls + length (filter (skipped_at rt rs ls) vs)"
  "ty_broker_errors (fold (book rt rs) vs t) ls = ty_broker_errors t ls +
     (if ls = error_labels rt rs ''publish_error'' then refused (sent_messages vs) else 0)"
  "ty_besides (fold (book rt rs) vs t) = ty_besides t"
proof (induction vs arbitrary: t)
  case Nil
  { case 1 show ?case by simp next case 2 show ?case by (simp add: delivered_def)
    next case 3 show ?case by simp next case 4 show ?case by (simp add: delivered_def)
    next case 5 show ?case by simp next case 6 show ?case by (simp add: refused_def)
    next case 7 show ?case by simp }
next
  case (Cons v vs)
  { case 1 show ?case by (cases v) (simp_all add: Cons Let_def)
    next case 2 show ?case by (cases v) (simp_all add: Cons Let_def delivered_def)
    next case 3 show ?case by (cases v) (simp_all add: Cons Let_def)
    next case 4 show ?case by (cases v) (simp_all add: Cons Let_def delivered_def raise_at_def)
    next case 5 show ?case by (cases v) (simp_all add: Cons Let_def raise_at_def)
    next case 6 show ?case by (cases v) (simp_all add: Cons Let_def refused_def raise_at_def)
    next case 7 show ?case by (cases v) (simp_all add: Cons Let_def) }
qed

text \<open>The tail of a cycle: what it sets, and that it leaves everything else.\<close>

definition closing_metrics :: "string \<Rightarrow> string \<Rightarrow> int \<Rightarrow> rat \<Rightarrow> rat \<Rightarrow> metrics \<Rightarrow> metrics" where
  "closing_metrics rt rs pending seconds stamp m =
     m\<lparr>pendingResourcesGauge := map_option (\<lambda>v. v(common_labels rt rs \<mapsto> pending)) (pendingResourcesGauge m),
       pollDurationHistogram :=
         (if seconds < 0 then pollDurationHistogram m
          else map_option (\<lambda>v. v(common_labels rt rs \<mapsto>
                 (case v (common_labels rt rs) of None \<Rightarrow> [] | Some xs \<Rightarrow> xs) @ [seconds]))
               (pollDurationHistogram m)),
       lastSuccessfulPollTimestampGauge := Some stamp,
       mt_warnings := mt_warnings m @
         (if seconds < 0
          then [''Attempted to update poll_duration metric with negative duration: '' @ show_fixed 6 seconds]
          else [])\<rparr>"

lemma closing_counters:
  "eventsPublishedCounter (closing_metrics rt rs n d u m) = eventsPublishedCounter m"
  "resourcesSkippedCounter (closing_metrics rt rs n d u m) = resourcesSkippedCounter m"
  "brokerErrorsCounter (closing_metrics rt rs n d u m) = brokerErrorsCounter m"
  by (simp_all add: closing_metrics_def)

lemma finish_cycle_closes:
  assumes "prom.finish_cycle rt rs n d u m = Some m'" and "metrics_ready m" and "rt \<noteq> []" and "rs \<noteq> []"
  shows "m' = closing_metrics rt rs (max 0 n) d u m"
  using assms
  by (auto simp: prom.finish_cycle_def metrics_updates UpdateLastSuccessfulPollTimestampMetric_def
      metrics_ready_def metrics_warn_def vec_observe_def closing_metrics_def Let_def split: bind_splits if_splits)

text \<open>
  Every Prometheus series after a completed cycle, from those before it: the published, skipped
  and refused resources are added to their own series of the three counters and to no other, and
  what is not these counters is as before but for the closing of the cycle.
\<close>

definition metrics_after ::
    "string \<Rightarrow> string \<Rightarrow> verdict list \<Rightarrow> rat \<Rightarrow> rat \<Rightarrow> metrics \<Rightarrow> metrics \<Rightarrow> bool" where
  "metrics_after rt rs vs seconds stamp old new \<longleftrightarrow>
     (\<forall>ls. counter_value (eventsPublishedCounter new) ls = counter_value (eventsPublishedCounter old) ls +
        (if ls = reason_labels rt rs (d_Reason publish_decision) then delivered (sent_messages vs) else 0)) \<and>
     (\<forall>ls. counter_value (resourcesSkippedCounter new) ls = counter_value (resourcesSkippedCounter old) ls +
        length (filter (skipped_at rt rs ls) vs)) \<and>
     (\<forall>ls. counter_value (brokerErrorsCounter new) ls = counter_value (brokerErrorsCounter old) ls +
        (if ls = error_labels rt rs ''publish_error'' then refused (sent_messages vs) else 0)) \<and>
     besides_counters new =
       besides_counters (closing_metrics rt rs (int (length (filter is_pending vs))) seconds stamp old)"

section \<open>A cycle's accounts\<close>

lemma cycle_selector_nonempty [simp]: "cycle_selector cfg \<noteq> []"
  by (simp add: cycle_selector_def)

lemma complete_cycle_total:
  assumes "metrics_ready (wd_metrics w)"
  shows "\<exists>s' w'. complete_cycle lib ctx rt rs start resources cts s w = Some (s', w')"
proof -
  from prom.pending_ready [OF assms] obtain m3 where
    m3: "UpdatePendingResourcesMetric rt rs (ct_pending cts) (wd_metrics w) = Some m3" "metrics_ready m3" by blast
  obtain t4 w4 where t4: "time_Now lib (w\<lparr>wd_metrics := m3\<rparr>) = (t4, w4)" by force
  have m4: "wd_metrics w4 = m3" using time_Now_frame [OF t4] by simp
  from prom.poll_seconds_ready [OF m3(2)] obtain m5 where
    m5: "UpdatePollDurationMetric rt rs (seconds_of (time_sub t4 start)) m3 = Some m5" by blast
  let ?w5 = "log_at LevelInfo ctx (completed_text resources cts (seconds_of (time_sub t4 start)))
      (w4\<lparr>wd_metrics := m5\<rparr>)"
  obtain t6 w6 where t6: "time_Now lib ?w5 = (t6, w6)" by force
  obtain t7 w7 where t7: "time_Now lib w6 = (t7, w7)" by force
  show ?thesis
    by (simp add: complete_cycle_def on_metrics_def m3(1) t4 m4 m5 Let_def t6 t7)
qed

text \<open>A time that a reading of the clock can give.\<close>

definition clock_says :: "'w libs \<Rightarrow> gtime \<Rightarrow> bool" where
  "clock_says lib now \<longleftrightarrow> (\<exists>rest. fst (lib_Now lib rest) = now)"

lemma tally_series:
  assumes "tally_of cts' w' = fold (book rt rs) vs (tally_of cts w)"
  shows "counter_value (eventsPublishedCounter (wd_metrics w')) ls =
      counter_value (eventsPublishedCounter (wd_metrics w)) ls +
      (if ls = reason_labels rt rs (d_Reason publish_decision) then delivered (sent_messages vs) else 0)"
    and "counter_value (resourcesSkippedCounter (wd_metrics w')) ls =
      counter_value (resourcesSkippedCounter (wd_metrics w)) ls + length (filter (skipped_at rt rs ls) vs)"
    and "counter_value (brokerErrorsCounter (wd_metrics w')) ls =
      counter_value (brokerErrorsCounter (wd_metrics w)) ls +
      (if ls = error_labels rt rs ''publish_error'' then refused (sent_messages vs) else 0)"
    and "besides_counters (wd_metrics w') = besides_counters (wd_metrics w)"
proof -
  show "counter_value (eventsPublishedCounter (wd_metrics w')) ls =
      counter_value (eventsPublishedCounter (wd_metrics w)) ls +
      (if ls = reason_labels rt rs (d_Reason publish_decision) then delivered (sent_messages vs) else 0)"
    using fun_cong [OF arg_cong [OF assms, of ty_events], of ls] by (simp only: fold_book) (simp add: tally_of_def)
  show "counter_value (resourcesSkippedCounter (wd_metrics w')) ls =
      counter_value (resourcesSkippedCounter (wd_metrics w)) ls + length (filter (skipped_at rt rs ls) vs)"
    using fun_cong [OF arg_cong [OF assms, of ty_skips], of ls] by (simp only: fold_book) (simp add: tally_of_def)
  show "counter_value (brokerErrorsCounter (wd_metrics w')) ls =
      counter_value (brokerErrorsCounter (wd_metrics w)) ls +
      (if ls = error_labels rt rs ''publish_error'' then refused (sent_messages vs) else 0)"
    using fun_cong [OF arg_cong [OF assms, of ty_broker_errors], of ls]
    by (simp only: fold_book) (simp add: tally_of_def)
  show "besides_counters (wd_metrics w') = besides_counters (wd_metrics w)"
    using arg_cong [OF assms, of ty_besides] by (simp only: fold_book) (simp add: tally_of_def)
qed

lemma closing_besides:
  assumes "besides_counters m' = besides_counters m"
  shows "besides_counters (closing_metrics rt rs n d u m') = besides_counters (closing_metrics rt rs n d u m)"
proof -
  have "besides_counters (closing_metrics rt rs n d u m) = besides_counters (closing_metrics rt rs n d u (besides_counters m))" for m
    by (simp add: besides_counters_def closing_metrics_def)
  with assms show ?thesis by metis
qed

lemma evaluate_cycle_books:
  assumes ready: "metrics_ready (wd_metrics w)" and rt: "rt \<noteq> []" and rs: "rs \<noteq> []"
    and cel: "cel_never_nil (dp_cel dp)"
    and broker: "lib_BrokerType (dp_lib dp) \<noteq> None"
  shows "\<exists>now vs l t w'. evaluate_cycle dp ctx rt rs topic start resources s w =
       Some (s\<lparr>st_decisionEngine := (st_decisionEngine s)\<lparr>de_conditionsLookup := l\<rparr>,
              st_lastSuccessfulPoll := t\<rparr>, w') \<and>
     clock_says (dp_lib dp) now \<and> metrics_ready (wd_metrics w') \<and>
     list_all2 (verdict_of dp (st_decisionEngine s) (st_payloadBuilder s) topic now) resources vs \<and>
     wd_sent w' = wd_sent w @ sent_messages vs \<and>
     (\<exists>ended stamp. closing_times (dp_lib dp) ended t stamp w' \<and>
        metrics_after rt rs vs (seconds_of (time_sub ended start)) (unix_seconds stamp)
          (wd_metrics w) (wd_metrics w'))"
proof -
  let ?w0 = "log_at LevelInfo ctx (fetched_text resources (sc_ResourceSelector (st_config s))) w"
  let ?zero = "\<lparr>ct_published = 0, ct_skipped = 0, ct_pending = 0\<rparr>"
  obtain now w1 where now: "time_Now (dp_lib dp) ?w0 = (now, w1)" by force
  have says: "clock_says (dp_lib dp) now"
    using now by (auto simp: clock_says_def time_Now_def split: prod.splits) (metis fst_conv)
  have w1: "wd_sent w1 = wd_sent w" "wd_metrics w1 = wd_metrics w"
    using time_Now_frame [OF now] by auto
  let ?cy = "\<lparr>cy_ctx = ctx, cy_now = now, cy_resourceType = rt, cy_resourceSelector = rs, cy_topic = topic\<rparr>"
  obtain vs l cts w2 where run: "process_resources dp ?cy resources s ?zero w1 =
      Some (s\<lparr>st_decisionEngine := (st_decisionEngine s)\<lparr>de_conditionsLookup := l\<rparr>\<rparr>, cts, w2)"
    and r2: "metrics_ready (wd_metrics w2)"
    and vs: "list_all2 (verdict_of dp (st_decisionEngine s) (st_payloadBuilder s) topic now) resources vs"
    and books: "tally_of cts w2 = fold (book rt rs) vs (tally_of ?zero w1)"
    using process_resources_books [of w1 ?cy dp resources s ?zero] ready rt rs cel broker w1 by auto
  let ?s1 = "s\<lparr>st_decisionEngine := (st_decisionEngine s)\<lparr>de_conditionsLookup := l\<rparr>\<rparr>"
  obtain s' w' where fin: "complete_cycle (dp_lib dp) ctx rt rs start resources cts ?s1 w2 = Some (s', w')"
    using complete_cycle_total [OF r2] by blast
  from complete_cycle_run [OF fin] obtain ended t stamp where
    s': "s' = ?s1\<lparr>st_lastSuccessfulPoll := t\<rparr>" and sent: "wd_sent w' = wd_sent w2"
    and times: "closing_times (dp_lib dp) ended t stamp w'"
    and m': "prom.finish_cycle rt rs (ct_pending cts) (seconds_of (time_sub ended start)) (unix_seconds stamp)
        (wd_metrics w2) = Some (wd_metrics w')" by blast
  have ready': "metrics_ready (wd_metrics w')"
    using prom.finish_cycle_ready [OF r2] m' by (metis option.inject)
  have pending: "ct_pending cts = int (length (filter is_pending vs))"
    using arg_cong [OF books, of ty_pending] by (simp only: fold_book) (simp add: tally_of_def)
  note closes = finish_cycle_closes [OF m' r2 rt rs]
  have "wd_sent w' = wd_sent w @ sent_messages vs"
    using arg_cong [OF books, of ty_sent] by (simp only: fold_book) (simp add: tally_of_def w1 sent)
  moreover have "metrics_after rt rs vs (seconds_of (time_sub ended start)) (unix_seconds stamp)
      (wd_metrics w) (wd_metrics w')"
    unfolding metrics_after_def closes closing_counters closing_besides [OF tally_series(4) [OF books]]
    by (simp add: tally_series(1-3) [OF books] w1 pending)
  moreover have "evaluate_cycle dp ctx rt rs topic start resources s w = Some (s', w')"
    using fin by (simp add: evaluate_cycle_def now Let_def run)
  ultimately show ?thesis
    using vs says ready' times unfolding s'
    by (intro exI [of _ now] exI [of _ vs] exI [of _ l] exI [of _ t] exI [of _ w'] conjI
        exI [of _ ended] exI [of _ stamp]) simp_all
qed

text \<open>What the API is asked for: the resources of the configured type that match the selector.\<close>

definition cycle_fetch ::
    "('w, 'env, 'ast, 'prog) deps \<Rightarrow> sentinel_config \<Rightarrow> (go_error + resource list) option \<Rightarrow> bool" where
  "cycle_fetch dp cfg answer \<longleftrightarrow>
     (\<exists>ctx net. fst (FetchResources (dp_api dp) (dp_retry dp) (Some ctx) (sc_ResourceType cfg)
        (entries_of (ToMap (sc_ResourceSelector cfg))) [] net) = answer)"

text \<open>The changes a completed cycle makes, in terms of its resources and their verdicts.\<close>

definition cycle_books ::
    "('w, 'env, 'ast, 'prog) deps \<Rightarrow> 'prog sentinel \<Rightarrow> gtime \<Rightarrow> resource list \<Rightarrow> verdict list \<Rightarrow>
     'w world \<Rightarrow> 'prog sentinel \<Rightarrow> 'w world \<Rightarrow> bool" where
  "cycle_books dp s now resources vs w s' w' \<longleftrightarrow> clock_says (dp_lib dp) now \<and>
     (let cfg = st_config s; begun = fst (lib_Now (dp_lib dp) (wd_rest w)) in
      list_all2 (verdict_of dp (st_decisionEngine s) (st_payloadBuilder s) (cycle_topic cfg) now) resources vs \<and>
      wd_sent w' = wd_sent w @ sent_messages vs \<and>
      (\<exists>ended stamp. closing_times (dp_lib dp) ended (st_lastSuccessfulPoll s') stamp w' \<and>
         metrics_after (sc_ResourceType cfg) (cycle_selector cfg) vs (seconds_of (time_sub ended begun))
           (unix_seconds stamp) (wd_metrics w) (wd_metrics w')))"

lemma cycle_fetchI:
  assumes "\<exists>w0. fetch_in_world dp ctx (sc_ResourceType cfg) (ToMap (sc_ResourceSelector cfg)) w0 = (fetched, w1)"
  shows "cycle_fetch dp cfg fetched"
proof -
  from assms obtain w0 where "fetch_in_world dp ctx (sc_ResourceType cfg) (ToMap (sc_ResourceSelector cfg)) w0 = (fetched, w1)" ..
  then have "fst (FetchResources (dp_api dp) (dp_retry dp) (Some ctx) (sc_ResourceType cfg)
      (entries_of (ToMap (sc_ResourceSelector cfg))) [] \<lparr>net_calls = wd_calls w0, net_debug = [], net_server = wd_rest w0\<rparr>) = fetched"
    by (auto simp: fetch_in_world_def split: prod.splits)
  then show ?thesis unfolding cycle_fetch_def by blast
qed

text \<open>The libraries keep what they document.\<close>

definition deps_sound :: "('w, 'env, 'ast, 'prog) deps \<Rightarrow> bool" where
  "deps_sound dp \<longleftrightarrow>
     cel_never_nil (dp_cel dp) \<and> retry_contract (dp_retry dp) \<and> never_nil_reply (dp_api dp) \<and>
     lib_BrokerType (dp_lib dp) \<noteq> None"

lemma deps_sound_fetch: "deps_sound dp \<Longrightarrow> \<not> cycle_fetch dp cfg None"
  unfolding deps_sound_def cycle_fetch_def using fetch_never_panics [of "dp_retry dp" "dp_api dp"] by blast

text \<open>What a cycle never changes of the sentinel.\<close>

definition same_sentinel :: "'prog sentinel \<Rightarrow> 'prog sentinel \<Rightarrow> bool" where
  "same_sentinel s s' \<longleftrightarrow>
     st_config s' = st_config s \<and> st_payloadBuilder s' = st_payloadBuilder s \<and>
     (\<exists>l. st_decisionEngine s' = (st_decisionEngine s)\<lparr>de_conditionsLookup := l\<rparr>)"

lemma same_sentinel_refl: "same_sentinel s s"
  unfolding same_sentinel_def by (auto intro: exI [of _ "de_conditionsLookup (st_decisionEngine s)"])

lemma same_sentinel_trans: "same_sentinel a b \<Longrightarrow> same_sentinel b c \<Longrightarrow> same_sentinel a c"
  by (auto simp: same_sentinel_def)

text \<open>The two ways in which a cycle returns.\<close>

definition cycle_outcome ::
    "('w, 'env, 'ast, 'prog) deps \<Rightarrow> 'prog sentinel \<Rightarrow> 'w world \<Rightarrow> go_error option \<Rightarrow> 'prog sentinel \<Rightarrow>
     'w world \<Rightarrow> bool" where
  "cycle_outcome dp s w err s' w' \<longleftrightarrow>
     metrics_ready (wd_metrics w') \<and> same_sentinel s s' \<and>
     (case err of
        Some e \<Rightarrow>
          s' = s \<and> wd_sent w' = wd_sent w \<and>
          (\<exists>e'. e = ErrWrap ''failed to fetch resources'' e' \<and> cycle_fetch dp (st_config s) (Some (Inl e'))) \<and>
          (\<forall>ls. counter_value (apiErrorsCounter (wd_metrics w')) ls =
             counter_value (apiErrorsCounter (wd_metrics w)) ls +
             (if ls = error_labels (sc_ResourceType (st_config s)) (cycle_selector (st_config s)) ''fetch_error''
              then 1 else 0)) \<and>
          (wd_metrics w')\<lparr>apiErrorsCounter := apiErrorsCounter (wd_metrics w)\<rparr> = wd_metrics w
      | None \<Rightarrow>
          \<exists>resources now vs. cycle_fetch dp (st_config s) (Some (Inr resources)) \<and>
            cycle_books dp s now resources vs w s' w')"

lemma trigger_outcome:
  assumes "metrics_ready (wd_metrics w)" and "sc_ResourceType (st_config s) \<noteq> []"
    and "deps_sound dp"
  shows "\<exists>err s' w'. trigger dp ctx s w = Some (err, s', w') \<and> cycle_outcome dp s w err s' w'"
proof (rule trigger_begin [where st = "[]" and w = w and ctx = ctx and dp = dp and s = s])
  let ?rt = "sc_ResourceType (st_config s)" and ?rs = "cycle_selector (st_config s)"
  fix start psn ctx2 fetched w1
  assume w1: "wd_sent w1 = wd_sent w" "wd_metrics w1 = wd_metrics w"
    and begun: "start = fst (lib_Now (dp_lib dp) (wd_rest w))"
    and fetch: "\<exists>w0. fetch_in_world dp ctx2 ?rt (ToMap (sc_ResourceSelector (st_config s))) w0 = (fetched, w1)"
    and eq: "trigger dp ctx s w =
       (case fetched of
          None \<Rightarrow> None
        | Some (Inl err) \<Rightarrow>
            do { w \<leftarrow> on_metrics (UpdateAPIErrorsMetric ?rt ?rs ''fetch_error'')
                      (span_SetStatus psn ''fetch resources failed'' (span_RecordError psn err w1));
                 Some (Some (ErrWrap ''failed to fetch resources'' err), s, span_End psn w) }
        | Some (Inr resources) \<Rightarrow>
            do { (s, w) \<leftarrow> evaluate_cycle dp ctx2 ?rt ?rs (cycle_topic (st_config s)) start resources s w1;
                 Some (None, s, span_End psn w) })"
  note answer = cycle_fetchI [OF fetch]
  show ?thesis
  proof (cases fetched)
    case None
    with answer deps_sound_fetch [OF assms(3)] show ?thesis by simp
  next
    case (Some out)
    show ?thesis
    proof (cases out)
      case (Inl err)
      from prom.api_errors_ready [OF assms(1)] obtain m where
        m: "UpdateAPIErrorsMetric ?rt ?rs ''fetch_error'' (wd_metrics w) = Some m" "metrics_ready m" by blast
      then have "(\<forall>ls. counter_value (apiErrorsCounter m) ls = counter_value (apiErrorsCounter (wd_metrics w)) ls +
            (if ls = error_labels ?rt ?rs ''fetch_error'' then 1 else 0)) \<and>
          m\<lparr>apiErrorsCounter := apiErrorsCounter (wd_metrics w)\<rparr> = wd_metrics w"
        using assms(1,2) by (auto simp: metrics_updates counter_value_def count_of_inc metrics_ready_def)
      with m eq Some Inl answer w1 show ?thesis
        by (auto simp: cycle_outcome_def on_metrics_def span_ops same_sentinel_refl)
    next
      case (Inr resources)
      have cel: "cel_never_nil (dp_cel dp)" and broker: "lib_BrokerType (dp_lib dp) \<noteq> None"
        using assms(3) by (simp_all add: deps_sound_def)
      have "metrics_ready (wd_metrics w1)" using w1 assms(1) by simp
      from evaluate_cycle_books [OF this assms(2) cycle_selector_nonempty [of "st_config s"] cel broker,
          of ctx2 "cycle_topic (st_config s)" start resources s]
      show ?thesis
        using eq Some Inr answer w1 begun
        by (force simp: cycle_outcome_def cycle_books_def Let_def span_ops same_sentinel_def closing_times_def)
    qed
  qed
qed

text \<open>
  C1: The main theorem of the cycle. With the metrics made, a configured resource type and
  libraries that keep what they document, a cycle returns, in one of two ways.
  Either the fetch failed: then its error is returned, nothing is sent, the sentinel, its
  time of the last successful poll included, is unchanged, and of all the metrics only the
  \<open>fetch_error\<close> series of \<open>api_errors\<close> is one higher.
  Or it completes: there is one verdict for each fetched resource, in order, that follows from
  the decision on it alone; one message to the broker for each resource whose verdict is sent,
  in that order, a refused message never stopping the later ones; \<open>events_published\<close> rises by the
  messages the broker took and \<open>broker_errors\<close> by those it refused, \<open>resources_skipped\<close> rises for
  each reason by the resources skipped for it, each in its own series and in no other, and
  \<open>pending_resources\<close> is the number of resources an event was due for. The time between the first
  reading of the clock and the one after the resources is observed once in \<open>poll_duration\<close> (a
  warning stands for it when it is negative), the last two readings are the sentinel's time of the
  last successful poll and the gauge's, and no other series, registration or warning changes.
  All resources are judged at one reading of the clock.
\<close>

theorem cycle_accounts:
  assumes "metrics_ready (wd_metrics w)" and "sc_ResourceType (st_config s) \<noteq> []"
    and "deps_sound dp"
  shows "\<exists>err s' w'. trigger dp ctx s w = Some (err, s', w') \<and> metrics_ready (wd_metrics w') \<and>
     same_sentinel s s' \<and>
     (case err of
        Some e \<Rightarrow>
          s' = s \<and> wd_sent w' = wd_sent w \<and>
          (\<exists>e'. e = ErrWrap ''failed to fetch resources'' e' \<and> cycle_fetch dp (st_config s) (Some (Inl e'))) \<and>
          (\<forall>ls. counter_value (apiErrorsCounter (wd_metrics w')) ls =
             counter_value (apiErrorsCounter (wd_metrics w)) ls +
             (if ls = error_labels (sc_ResourceType (st_config s)) (cycle_selector (st_config s)) ''fetch_error''
              then 1 else 0)) \<and>
          (wd_metrics w')\<lparr>apiErrorsCounter := apiErrorsCounter (wd_metrics w)\<rparr> = wd_metrics w
      | None \<Rightarrow>
          \<exists>resources now vs. cycle_fetch dp (st_config s) (Some (Inr resources)) \<and>
            cycle_books dp s now resources vs w s' w')"
  using trigger_outcome [OF assms] unfolding cycle_outcome_def .

section \<open>One message for each resource that is due\<close>

definition event_due :: "('w, 'env, 'ast, 'prog) deps \<Rightarrow> 'prog sentinel \<Rightarrow> gtime \<Rightarrow> resource \<Rightarrow> bool" where
  "event_due dp s now r \<longleftrightarrow>
     r_ID r \<noteq> [] \<and> decides (dp_cel dp) (st_decisionEngine s) (Some r, now) = Some publish_decision"

text \<open>The two steps before publishing do not fail for these resources.\<close>

definition events_buildable :: "('w, 'env, 'ast, 'prog) deps \<Rightarrow> 'prog sentinel \<Rightarrow> resource list \<Rightarrow> bool" where
  "events_buildable dp s resources \<longleftrightarrow>
     (\<nexists>err. uuid_error (dp_lib dp) err) \<and>
     (\<forall>r \<in> set resources. \<not> isl (lib_Encode (dp_lib dp) (event_data (dp_cel dp) (st_payloadBuilder s) r)))"

lemma verdicts_sent:
  assumes "list_all2 (verdict_of dp (st_decisionEngine s) (st_payloadBuilder s) topic now) resources vs"
    and "events_buildable dp s resources"
  shows "list_all2 (is_event_of dp (st_payloadBuilder s) topic) (filter (event_due dp s now) resources)
           (sent_messages vs)"
  using assms
proof (induction resources vs rule: list_all2_induct)
  case Nil
  then show ?case by simp
next
  case (Cons r rs v vs)
  then have IH: "list_all2 (is_event_of dp (st_payloadBuilder s) topic) (filter (event_due dp s now) rs) (sent_messages vs)"
    by (simp add: events_buildable_def)
  from Cons.hyps(1) show ?case
  proof cases
    case no_id
    then have "\<not> event_due dp s now r" by (simp add: event_due_def)
    with IH no_id show ?thesis by simp
  next
    case (skipped d)
    then have "\<not> event_due dp s now r" by (auto simp: event_due_def publish_decision_def)
    with IH skipped show ?thesis by simp
  next
    case (unsent err)
    with Cons.prems show ?thesis by (auto simp: events_buildable_def)
  next
    case (sent p)
    then have "event_due dp s now r" by (simp add: event_due_def)
    with IH sent show ?thesis by simp
  qed
qed

lemma trigger_sends_due:
  assumes "metrics_ready (wd_metrics w)" and "sc_ResourceType (st_config s) \<noteq> []"
    and "deps_sound dp"
    and "trigger dp ctx s w = Some (None, s', w')"
    and "\<And>resources. cycle_fetch dp (st_config s) (Some (Inr resources)) \<Longrightarrow> events_buildable dp s resources"
  shows "\<exists>resources now messages. cycle_fetch dp (st_config s) (Some (Inr resources)) \<and> clock_says (dp_lib dp) now \<and>
     wd_sent w' = wd_sent w @ messages \<and>
     list_all2 (is_event_of dp (st_payloadBuilder s) (cycle_topic (st_config s)))
       (filter (event_due dp s now) resources) messages"
proof -
  from trigger_outcome [OF assms(1-3), of ctx] assms(4) have "cycle_outcome dp s w None s' w'" by auto
  then obtain resources now vs where
    f: "cycle_fetch dp (st_config s) (Some (Inr resources))" and b: "cycle_books dp s now resources vs w s' w'"
    by (auto simp: cycle_outcome_def)
  from b have "list_all2 (verdict_of dp (st_decisionEngine s) (st_payloadBuilder s) (cycle_topic (st_config s)) now) resources vs"
    and says: "clock_says (dp_lib dp) now"
    and sent: "wd_sent w' = wd_sent w @ sent_messages vs"
    by (simp_all add: cycle_books_def Let_def)
  from verdicts_sent [OF this(1) assms(5) [OF f]] f sent says show ?thesis by blast
qed

text \<open>
  C6: A completed cycle hands the broker exactly one message for each fetched resource that has an
  ID and for which the decision says to publish, in the order of the API's answer and whatever
  the broker answers to each; each message goes to the configured topic and carries the
  resource's own payload, type and source. No other message is sent. (The UUID generator
  and the encoder do not fail on these resources.)
\<close>

theorem one_message_per_due_resource:
  assumes "metrics_ready (wd_metrics w)" and "sc_ResourceType (st_config s) \<noteq> []"
    and "deps_sound dp"
    and "trigger dp ctx s w = Some (None, s', w')"
    and "\<And>resources. cycle_fetch dp (st_config s) (Some (Inr resources)) \<Longrightarrow> events_buildable dp s resources"
  shows "\<exists>resources now messages. cycle_fetch dp (st_config s) (Some (Inr resources)) \<and> clock_says (dp_lib dp) now \<and>
     wd_sent w' = wd_sent w @ messages \<and>
     list_all2 (is_event_of dp (st_payloadBuilder s) (cycle_topic (st_config s)))
       (filter (event_due dp s now) resources) messages"
  using assms by (rule trigger_sends_due)

section \<open>The loop\<close>

fun loop_end :: "select_event list \<Rightarrow> loop_result" where
  "loop_end [] = Running"
| "loop_end (Tick # evs) = loop_end evs"
| "loop_end (CtxDone err # evs) = Returned err"

inductive cycles ::
    "('w, 'env, 'ast, 'prog) deps \<Rightarrow> context_values \<Rightarrow> nat \<Rightarrow> 'prog sentinel \<Rightarrow> 'w world \<Rightarrow>
     'prog sentinel \<Rightarrow> 'w world \<Rightarrow> bool"
  for dp ctx where
  none: "cycles dp ctx 0 s w s w"
| another: "run_cycle dp ctx what s w = Some (s1, w1) \<Longrightarrow> cycles dp ctx n s1 w1 s' w' \<Longrightarrow>
     cycles dp ctx (Suc n) s w s' w'"

definition loop_ready :: "('w, 'env, 'ast, 'prog) deps \<Rightarrow> 'prog sentinel \<Rightarrow> 'w world \<Rightarrow> bool" where
  "loop_ready dp s w \<longleftrightarrow>
     metrics_ready (wd_metrics w) \<and> sc_ResourceType (st_config s) \<noteq> [] \<and> deps_sound dp"

lemma run_cycle_ready:
  assumes "loop_ready dp s w"
  shows "\<exists>s' w'. run_cycle dp ctx what s w = Some (s', w') \<and> loop_ready dp s' w' \<and> same_sentinel s s'"
proof -
  from assms trigger_outcome [of w s dp ctx] obtain err s' w' where
    t: "trigger dp ctx s w = Some (err, s', w')" "metrics_ready (wd_metrics w')" "same_sentinel s s'"
    unfolding loop_ready_def cycle_outcome_def by blast
  let ?w = "case err of None \<Rightarrow> w' | Some err \<Rightarrow> log_at LevelError ctx (what @ '': '' @ error_text err) w'"
  have "run_cycle dp ctx what s w = Some (s', ?w)"
    by (simp add: run_cycle_def t)
  moreover have "loop_ready dp s' ?w"
    using assms t by (auto simp: loop_ready_def same_sentinel_def split: option.split)
  ultimately show ?thesis using t(3) by blast
qed

lemma poll_loop_runs:
  "loop_ready dp s w \<Longrightarrow>
     \<exists>s' w1 w'. poll_loop dp ctx evs s w = Some (loop_end evs, s', w') \<and> same_sentinel s s' \<and>
       cycles dp ctx (length (takeWhile ((=) Tick) evs)) s w s' w1 \<and> wd_sent w' = wd_sent w1"
proof (induction evs arbitrary: s w)
  case Nil
  then show ?case by (auto intro: none same_sentinel_refl)
next
  case (Cons ev evs)
  show ?case
  proof (cases ev)
    case Tick
    from run_cycle_ready [OF Cons.prems] obtain s1 w1 where
      r: "run_cycle dp ctx ''Trigger failed'' s w = Some (s1, w1)" "loop_ready dp s1 w1" "same_sentinel s s1"
      by blast
    from Cons.IH [OF r(2)] r show ?thesis
      by (auto simp: Tick intro: another same_sentinel_trans)
  next
    case (CtxDone err)
    then show ?thesis by (auto intro!: exI [of _ w] intro: none same_sentinel_refl)
  qed
qed

lemma Start_runs:
  assumes "loop_ready dp s w" and "0 < sint (sc_PollInterval (st_config s))"
  shows "\<exists>s' w0 w1 w'. Start dp ctx evs s w = Some (loop_end evs, s', w') \<and> same_sentinel s s' \<and>
     cycles dp ctx (Suc (length (takeWhile ((=) Tick) evs))) s w0 s' w1 \<and>
     wd_sent w0 = wd_sent w \<and> wd_sent w' = wd_sent w1"
proof -
  let ?w0 = "log_at LevelInfo ctx (''Starting sentinel resource_type='' @ sc_ResourceType (st_config s) @
                '' poll_interval='' @ duration_string (sc_PollInterval (st_config s))) w"
  have "loop_ready dp s ?w0" using assms(1) by (simp add: loop_ready_def)
  then obtain s1 w1 where first: "run_cycle dp ctx ''Initial trigger failed'' s ?w0 = Some (s1, w1)"
    "loop_ready dp s1 w1" "same_sentinel s s1"
    using run_cycle_ready by blast
  from poll_loop_runs [OF first(2), of ctx evs] obtain s' w2 w' where
    rest: "poll_loop dp ctx evs s1 w1 = Some (loop_end evs, s', w')" "same_sentinel s1 s'"
    "cycles dp ctx (length (takeWhile ((=) Tick) evs)) s1 w1 s' w2" "wd_sent w' = wd_sent w2"
    by blast
  have "Start dp ctx evs s w = Some (loop_end evs, s', w')"
    using assms(2) first(1) rest(1) by (simp add: Start_def Let_def del: append.simps)
  with first rest show ?thesis
    by (intro exI [of _ s'] exI [of _ ?w0] exI [of _ w2] exI [of _ w'])
      (auto intro: another same_sentinel_trans)
qed

text \<open>
  C7: The loop polls until it is cancelled and not a cycle less. From a valid interval it runs one
  cycle at once and one more for every tick that comes before the cancellation; it returns
  only when its context is done, with the context's error, and never because a cycle failed
  or panicked; and all the time it keeps its configuration, programs and payload builder.
\<close>

theorem start_runs_until_cancelled:
  assumes "loop_ready dp s w" and "0 < sint (sc_PollInterval (st_config s))"
  shows "\<exists>s' w0 w1 w'. Start dp ctx evs s w = Some (loop_end evs, s', w') \<and> same_sentinel s s' \<and>
     cycles dp ctx (Suc (length (takeWhile ((=) Tick) evs))) s w0 s' w1 \<and>
     wd_sent w0 = wd_sent w \<and> wd_sent w' = wd_sent w1"
  using assms by (rule Start_runs)

section \<open>Instances\<close>

text \<open>
  A world whose state is a step counter: a clock that advances a second a reading, a tracer that
  is off, a broker that refuses on odd steps.
\<close>

definition sample_libs :: "nat libs" where
  "sample_libs =
     \<lparr>lib_Now = \<lambda>n. (sample_time\<lparr>t_instant := t_instant sample_time + int n * 1000000000\<rparr>, n + 1),
      lib_Start = \<lambda>ctx name n.
        (\<lparr>sp_valid = False, sp_traceID = [], sp_spanID = [], sp_flags = 0\<rparr>, n),
      lib_NewV7 = \<lambda>n. (Inr ''0190-7000'', n + 1),
      lib_Encode = \<lambda>m. Inr ''{}'',
      lib_Publish = \<lambda>ctx topic ev n. (if even n then None else Some (ErrText ''refused''), n + 1),
      lib_BrokerType = Some ''rabbitmq''\<rparr>"

definition sample_deps :: "(nat, unit, string, string) deps" where
  "sample_deps =
     \<lparr>dp_lib = sample_libs, dp_api = sample_api 503, dp_retry = \<lambda>_. retry_attempts 3,
      dp_cel = literal_cel\<rparr>"

definition sample_sentinel :: "string sentinel" where
  "sample_sentinel =
     \<lparr>st_lastSuccessfulPoll = zero_time, st_config = NewSentinelConfig\<lparr>sc_ResourceType := ''clusters''\<rparr>,
      st_decisionEngine = literal_engine ''true'' ''true'', st_payloadBuilder = Some sample_builder\<rparr>"

definition sample_world :: "nat world" where
  "sample_world =
     \<lparr>wd_logs = [], wd_calls = [], wd_spans = [], wd_next_span = 0, wd_sent = [],
      wd_metrics = sample_metrics, wd_rest = 1\<rparr>"

lemma sample_deps_sound: "deps_sound sample_deps"
  using literal_cel_never_nil retry_attempts_contract
  by (simp add: deps_sound_def sample_deps_def never_nil_reply_def sample_api_def sample_libs_def)

lemma sample_world_ready: "metrics_ready (wd_metrics sample_world)"
  by (simp add: sample_world_def sample_metrics_ready)

lemma sample_type: "sc_ResourceType (st_config sample_sentinel) \<noteq> []"
  by (simp add: sample_sentinel_def)

theorem cycle_accounts_witness:
  "\<exists>err s' w'. trigger sample_deps [] sample_sentinel sample_world = Some (err, s', w') \<and>
     metrics_ready (wd_metrics w') \<and> same_sentinel sample_sentinel s'"
  using cycle_accounts [OF sample_world_ready sample_type sample_deps_sound, of "[]"] by blast

lemma sample_trigger_ok:
  "\<exists>s' w'. trigger sample_deps [] sample_sentinel sample_world = Some (None, s', w')"
proof -
  have "map_option (\<lambda>(err, _). err) (trigger sample_deps [] sample_sentinel sample_world) = Some None"
    by code_simp
  then show ?thesis by auto
qed

lemma sample_buildable: "events_buildable sample_deps sample_sentinel resources"
  by (simp add: events_buildable_def uuid_error_def sample_deps_def sample_libs_def)

theorem one_message_per_due_resource_witness:
  "\<exists>s' w' resources now messages. trigger sample_deps [] sample_sentinel sample_world = Some (None, s', w') \<and>
     wd_sent w' = messages \<and>
     list_all2 (is_event_of sample_deps (st_payloadBuilder sample_sentinel) [])
       (filter (event_due sample_deps sample_sentinel now) resources) messages"
proof -
  obtain s' w' where t: "trigger sample_deps [] sample_sentinel sample_world = Some (None, s', w')"
    using sample_trigger_ok by blast
  have "cycle_topic (st_config sample_sentinel) = []"
    by (simp add: cycle_topic_def sample_sentinel_def NewSentinelConfig_def)
  with t one_message_per_due_resource [OF sample_world_ready sample_type sample_deps_sound t sample_buildable]
  show ?thesis by (auto simp: sample_world_def)
qed

lemma sample_loop_ready: "loop_ready sample_deps sample_sentinel sample_world"
  by (simp add: loop_ready_def sample_world_ready sample_type sample_deps_sound)

theorem start_runs_until_cancelled_witness:
  "\<exists>s' w'. Start sample_deps [] [Tick, Tick, CtxDone (ErrText ''context canceled'')] sample_sentinel sample_world =
     Some (Returned (ErrText ''context canceled''), s', w')"
proof -
  have "0 < sint (sc_PollInterval (st_config sample_sentinel))"
    by code_simp
  from start_runs_until_cancelled [OF sample_loop_ready this,
      of "[]" "[Tick, Tick, CtxDone (ErrText ''context canceled'')]"]
  show ?thesis by auto
qed

theorem cycle_spans_nested_witness:
  "\<exists>s' w' es. trigger sample_deps [] sample_sentinel sample_world = Some (None, s', w') \<and>
     wd_spans w' = es \<and> nest [] es = Some []"
proof -
  obtain s' w' where t: "trigger sample_deps [] sample_sentinel sample_world = Some (None, s', w')"
    using sample_trigger_ok by blast
  from cycle_spans_nested [OF t] t show ?thesis by (auto simp: sample_world_def)
qed

end
