(* ===== verification/Health.thy ===== *)
theory Health
  imports World
begin

text \<open>
  The health endpoints (\<open>internal/health/health.go\<close>): the readiness checker with its flag and
  its named checks, and the handlers of \<open>/healthz\<close> and \<open>/readyz\<close> as functions from the state of
  the program to a response. A check reads the outside world and may change it; the encoder of
  the response body may fail, which is only logged.
\<close>

section \<open>State and responses\<close>

type_synonym 'w check_func = "'w \<Rightarrow> go_error option \<times> 'w"

record 'w readiness =
  rd_ready :: bool
  rd_checks :: "'w check_func gmap"

definition NewReadinessChecker :: "'w readiness" where
  "NewReadinessChecker = \<lparr>rd_ready = False, rd_checks = []\<rparr>"

definition AddCheck :: "string \<Rightarrow> 'w check_func \<Rightarrow> 'w readiness \<Rightarrow> 'w readiness" where
  "AddCheck name fn r = r\<lparr>rd_checks := gmap_put name fn (rd_checks r)\<rparr>"

definition SetReady :: "bool \<Rightarrow> 'w readiness \<Rightarrow> 'w readiness" where
  "SetReady ready r = r\<lparr>rd_ready := ready\<rparr>"

definition IsReady :: "'w readiness \<Rightarrow> bool" where
  "IsReady r = rd_ready r"

datatype health_body =
    HealthResponse string
  | ReadyResponse "string gmap" string

record http_response =
  hr_contentType :: string
  hr_status :: int
  hr_body :: health_body

definition StatusServiceUnavailable :: int where "StatusServiceUnavailable = 503"
definition StatusInternalServerError :: int where "StatusInternalServerError = 500"

definition writeJSON ::
    "(health_body \<Rightarrow> go_error option) \<Rightarrow> int \<Rightarrow> health_body \<Rightarrow> 'w world \<Rightarrow> http_response \<times> 'w world" where
  "writeJSON encode statusCode v w =
     (\<lparr>hr_contentType = ''application/json'', hr_status = statusCode, hr_body = v\<rparr>,
      case encode v of
        None \<Rightarrow> w
      | Some err \<Rightarrow> log_at LevelError [] (''Failed to encode health JSON response: '' @ error_text err) w)"

section \<open>Liveness\<close>

text \<open>\<open>Duration.Round\<close>: half away from zero, clamped to the range of the type.\<close>

definition duration_Round :: "duration \<Rightarrow> duration \<Rightarrow> duration" where
  "duration_Round d m =
     (let i = sint d; k = sint m in
      if k \<le> 0 then d
      else
        let r = \<bar>i\<bar> mod k; down = \<bar>i\<bar> - r; up = down + k;
            q = (if r + r < k then down else up)
        in word_of_int (sat_int64 (if i < 0 then - q else q)))"

definition HealthzHandler ::
    "'w libs \<Rightarrow> (health_body \<Rightarrow> go_error option) \<Rightarrow> ('w world \<Rightarrow> gtime) option \<Rightarrow> duration \<Rightarrow>
     context_values \<Rightarrow> 'w world \<Rightarrow> http_response \<times> 'w world" where
  "HealthzHandler lib encode lastPollFn threshold ctx w =
     (if lastPollFn = None \<or> sint threshold \<le> 0 then
        (let w = log_extra LevelError
                   [(''lastPollFnSet'', GBool (lastPollFn \<noteq> None)), (''threshold'', GStr (duration_string threshold))]
                   ctx ''Healthz check called with invalid configuration'' w
         in writeJSON encode StatusInternalServerError (HealthResponse ''invalid health configuration'') w)
      else
        let lastPoll = the lastPollFn w in
        if IsZero lastPoll then writeJSON encode StatusOK (HealthResponse ''ok'') w
        else
          let (now, w) = time_Now lib w;
              staleness = time_sub now lastPoll
          in if sint staleness > sint threshold then
               (let w = log_extra LevelWarn
                          [(''staleness'', GStr (duration_string (duration_Round staleness second))),
                           (''threshold'', GStr (duration_string threshold))]
                          ctx ''Healthz check failed: poll stale'' w
                in writeJSON encode StatusServiceUnavailable (HealthResponse ''poll stale'') w)
             else writeJSON encode StatusOK (HealthResponse ''ok'') w)"

section \<open>Readiness\<close>

fun run_checks :: "'w check_func gmap \<Rightarrow> 'w \<Rightarrow> string gmap \<times> 'w" where
  "run_checks [] w = ([], w)"
| "run_checks ((name, fn) # checks) w =
     (let (err, w) = fn w;
          text = (case err of Some err \<Rightarrow> error_text err | None \<Rightarrow> ''ok'');
          (results, w) = run_checks checks w
      in ((name, text) # results, w))"

definition runChecks :: "'w readiness \<Rightarrow> 'w world \<Rightarrow> string gmap \<times> 'w world" where
  "runChecks r w =
     (let (results, rest) = run_checks (rd_checks r) (wd_rest w) in (results, w\<lparr>wd_rest := rest\<rparr>))"

definition allChecksStatus :: "string \<Rightarrow> 'w readiness \<Rightarrow> string gmap" where
  "allChecksStatus status r = map (\<lambda>(name, fn). (name, status)) (rd_checks r)"

fun all_ok :: "string gmap \<Rightarrow> bool" where
  "all_ok [] = True"
| "all_ok ((name, v) # checks) = (if v \<noteq> ''ok'' then False else all_ok checks)"

definition ReadyzHandler ::
    "(health_body \<Rightarrow> go_error option) \<Rightarrow> 'w readiness \<Rightarrow> context_values \<Rightarrow> 'w world \<Rightarrow>
     http_response \<times> 'w world" where
  "ReadyzHandler encode r ctx w =
     (if \<not> IsReady r then
        writeJSON encode StatusServiceUnavailable (ReadyResponse (allChecksStatus ''unavailable'' r) ''error'') w
      else
        let (checks, w) = runChecks r w;
            allOK = all_ok checks
        in if allOK then writeJSON encode StatusOK (ReadyResponse checks ''ok'') w
           else
             (let w = log_extra LevelWarn [(''checks'', GMap (map (\<lambda>(n, v). (n, GStr v)) checks))] ctx
                        ''Readyz check failed'' w
              in writeJSON encode StatusServiceUnavailable (ReadyResponse checks ''error'') w))"

section \<open>Facts\<close>

lemma writeJSON_response [simp]:
  "fst (writeJSON encode code v w) = \<lparr>hr_contentType = ''application/json'', hr_status = code, hr_body = v\<rparr>"
  "wd_rest (snd (writeJSON encode code v w)) = wd_rest w"
  by (simp_all add: writeJSON_def split: option.split)

lemma all_ok_iff: "all_ok checks \<longleftrightarrow> (\<forall>kv \<in> set checks. snd kv = ''ok'')"
  by (induction checks rule: all_ok.induct) auto

text \<open>What a check says in a given state of the world.\<close>

fun passes :: "go_error option \<Rightarrow> bool" where
  "passes None = True"
| "passes (Some err) = (error_text err = ''ok'')"

text \<open>The states the checks run in, one after the other.\<close>

fun check_outcomes :: "'w check_func gmap \<Rightarrow> 'w \<Rightarrow> go_error option list" where
  "check_outcomes [] w = []"
| "check_outcomes ((name, fn) # checks) w = fst (fn w) # check_outcomes checks (snd (fn w))"

lemma run_checks_spec:
  "fst (run_checks checks w) =
     map2 (\<lambda>(name, fn) err. (name, case err of Some err \<Rightarrow> error_text err | None \<Rightarrow> ''ok'')) checks
       (check_outcomes checks w)"
  by (induction checks arbitrary: w) (auto simp: Let_def split_def)

lemma length_outcomes [simp]: "length (check_outcomes checks w) = length checks"
  by (induction checks w rule: check_outcomes.induct) auto

lemma run_checks_names: "map fst (fst (run_checks checks w)) = map fst checks"
  by (induction checks arbitrary: w) (auto simp: Let_def split_def)

lemma passes_iff: "(case e of None \<Rightarrow> ''ok'' | Some err \<Rightarrow> error_text err) = ''ok'' \<longleftrightarrow> passes e"
  by (cases e) simp_all

lemma all_ok_run: "all_ok (fst (run_checks checks w)) \<longleftrightarrow> list_all passes (check_outcomes checks w)"
  by (induction checks arbitrary: w) (simp_all add: Let_def split_def passes_iff split_paired_all)

lemma healthz_answer:
  "hr_status (fst (HealthzHandler lib encode lastPollFn threshold ctx w)) =
     (case lastPollFn of
        None \<Rightarrow> 500
      | Some f \<Rightarrow>
          if sint threshold \<le> 0 then 500
          else if IsZero (f w) then 200
          else if sat_int64 (t_instant (fst (time_Now lib w)) - t_instant (f w)) > sint threshold then 503
          else 200)"
  by (auto simp: HealthzHandler_def Let_def StatusOK_def StatusServiceUnavailable_def
      StatusInternalServerError_def writeJSON_def sint_time_sub split_def
      split: option.splits if_splits)

lemma readyz_answer:
  "hr_status (fst (ReadyzHandler encode r ctx w)) =
     (if rd_ready r \<and> list_all passes (check_outcomes (rd_checks r) (wd_rest w)) then 200 else 503)"
  unfolding all_ok_run [symmetric]
  by (simp add: ReadyzHandler_def IsReady_def runChecks_def split_def Let_def StatusOK_def
      StatusServiceUnavailable_def)

text \<open>
  C22: The liveness answer, in every case. Without a poll function or with a threshold that is not
  positive it is 500; before the first completed cycle it is 200; afterwards it is 503 exactly
  when the last completed cycle lies further back than the threshold (counted in nanoseconds,
  saturating at 292 years) and 200 otherwise. Only the stale and the misconfigured answer are
  logged, once each, besides a failed encoding.
\<close>

theorem healthz_status:
  assumes "HealthzHandler lib encode lastPollFn threshold ctx w = (resp, w')"
  shows "hr_status resp =
     (case lastPollFn of
        None \<Rightarrow> 500
      | Some f \<Rightarrow>
          if sint threshold \<le> 0 then 500
          else if IsZero (f w) then 200
          else if sat_int64 (t_instant (fst (time_Now lib w)) - t_instant (f w)) > sint threshold then 503
          else 200)"
  using healthz_answer [of lib encode lastPollFn threshold ctx w] assms by simp

text \<open>
  C21: The readiness answer. It is 200 exactly when the program has been set ready and every
  registered check passes in the state in which it runs; all checks are run in turn, even after
  a failure, and the answer lists each of them once under its name, with \<open>ok\<close> or the text of
  its error. (A check fails by its text: an error that reads \<open>ok\<close> passes.) While the flag is
  off, the answer is 503, every check is listed as unavailable and none of them is run.
\<close>

theorem readyz_status:
  assumes "ReadyzHandler encode r ctx w = (resp, w')"
  shows "(hr_status resp = 200 \<longleftrightarrow>
            rd_ready r \<and> list_all passes (check_outcomes (rd_checks r) (wd_rest w))) \<and>
     hr_status resp \<in> {200, 503} \<and>
     (\<exists>checks status. hr_body resp = ReadyResponse checks status \<and>
        map fst checks = map fst (rd_checks r) \<and> (status = ''ok'' \<longleftrightarrow> hr_status resp = 200)) \<and>
     wd_rest w' = (if rd_ready r then snd (run_checks (rd_checks r) (wd_rest w)) else wd_rest w)"
proof (cases "rd_ready r")
  case False
  have resp: "resp = fst (ReadyzHandler encode r ctx w)" "w' = snd (ReadyzHandler encode r ctx w)"
    using assms by simp_all
  from False show ?thesis
    unfolding resp
    by (simp add: ReadyzHandler_def IsReady_def StatusServiceUnavailable_def allChecksStatus_def split_def)
next
  case True
  have resp: "resp = fst (ReadyzHandler encode r ctx w)" "w' = snd (ReadyzHandler encode r ctx w)"
    using assms by simp_all
  obtain checks rest where run: "run_checks (rd_checks r) (wd_rest w) = (checks, rest)" by force
  have names: "map fst checks = map fst (rd_checks r)"
    using run_checks_names [of "rd_checks r" "wd_rest w"] run by simp
  have ok: "all_ok checks \<longleftrightarrow> list_all passes (check_outcomes (rd_checks r) (wd_rest w))"
    using all_ok_run [of "rd_checks r" "wd_rest w"] run by simp
  show ?thesis
    unfolding resp using True names
    by (simp add: ReadyzHandler_def IsReady_def runChecks_def run ok StatusServiceUnavailable_def
        StatusOK_def)
qed

text \<open>The threshold the server configures: three poll intervals, in wrapping arithmetic.\<close>

definition health_threshold :: "duration \<Rightarrow> duration" where
  "health_threshold pollInterval = 3 * pollInterval"

lemma health_threshold_exact:
  assumes "0 < sint poll" and "sint poll \<le> 3074457345618258602"
  shows "sint (health_threshold poll) = 3 * sint poll"
proof -
  have "health_threshold poll = word_of_int (3 * sint poll)" by (simp add: health_threshold_def)
  also have "sint (word_of_int (3 * sint poll) :: duration) = 3 * sint poll"
    using assms by (intro sint_word_of_int_64) (simp_all add: min_int64_def max_int64_def)
  finally show ?thesis .
qed

text \<open>Beyond that the product wraps around once, whatever the interval.\<close>

lemma health_threshold_wraps:
  assumes "3074457345618258602 < sint poll"
  shows "sint (health_threshold poll) = 3 * sint poll - 18446744073709551616"
proof -
  have "health_threshold poll = word_of_int (3 * sint poll)" by (simp add: health_threshold_def)
  also have "\<dots> = word_of_int (3 * sint poll - 18446744073709551616)"
    by (rule word_of_int_eq_iff [THEN iffD2]) (simp add: take_bit_eq_mod mod_diff_right_eq [symmetric])
  finally have word: "health_threshold poll = word_of_int (3 * sint poll - 18446744073709551616)" .
  have "sint poll < 9223372036854775808"
    using sint_range_size [of poll] by (simp add: word_size)
  with assms have "sint (word_of_int (3 * sint poll - 18446744073709551616) :: duration) =
      3 * sint poll - 18446744073709551616"
    by (intro sint_word_of_int_64) (simp_all add: min_int64_def max_int64_def)
  then show ?thesis by (simp only: word)
qed

section \<open>Instances\<close>

definition sample_check :: "nat check_func" where
  "sample_check n = (if n < 3 then Some (ErrText ''down'') else None, n + 1)"

definition sample_readiness :: "nat readiness" where
  "sample_readiness = SetReady True (AddCheck ''broker'' sample_check NewReadinessChecker)"

definition health_world :: "nat \<Rightarrow> nat world" where
  "health_world n =
     \<lparr>wd_logs = [], wd_calls = [], wd_spans = [], wd_next_span = 0, wd_sent = [],
      wd_metrics = sample_metrics, wd_rest = n\<rparr>"

definition tick_libs :: "nat libs" where
  "tick_libs =
     \<lparr>lib_Now = \<lambda>n. (\<lparr>t_instant = 63871322400000000000 + int n * 1000000000, t_offset = 0\<rparr>, n + 1),
      lib_Start = \<lambda>ctx name n. (\<lparr>sp_valid = False, sp_traceID = [], sp_spanID = [], sp_flags = 0\<rparr>, n),
      lib_NewV7 = \<lambda>n. (Inr ''id'', n), lib_Encode = \<lambda>m. Inr ''{}'',
      lib_Publish = \<lambda>ctx topic ev n. (None, n), lib_BrokerType = Some ''mock''\<rparr>"

lemma sample_readyz:
  "ReadyzHandler (\<lambda>_. None) sample_readiness [] (health_world 5) =
     (\<lparr>hr_contentType = ''application/json'', hr_status = 200,
       hr_body = ReadyResponse [(''broker'', ''ok'')] ''ok''\<rparr>, health_world 6)"
  by (simp add: ReadyzHandler_def sample_readiness_def SetReady_def AddCheck_def NewReadinessChecker_def
      IsReady_def runChecks_def health_world_def sample_check_def gmap_simps writeJSON_def StatusOK_def)

theorem readyz_status_witness:
  "rd_ready sample_readiness \<and> list_all passes (check_outcomes (rd_checks sample_readiness) 5)"
  using readyz_status [OF sample_readyz] by (simp add: health_world_def)

theorem healthz_status_witness:
  "hr_status (fst (HealthzHandler tick_libs (\<lambda>_. None)
      (Some (\<lambda>w. \<lparr>t_instant = 63871322400000000000, t_offset = 0\<rparr>)) (health_threshold (5 * second)) []
      (health_world 16))) = 503"
proof -
  let ?run = "HealthzHandler tick_libs (\<lambda>_. None)
      (Some (\<lambda>w. \<lparr>t_instant = 63871322400000000000, t_offset = 0\<rparr>)) (health_threshold (5 * second)) []
      (health_world 16)"
  have "?run = (fst ?run, snd ?run)" by simp
  moreover have "sint (health_threshold (5 * second)) = 15000000000" by code_simp
  ultimately show ?thesis
    using healthz_status [of tick_libs _ _ _ _ _ "fst ?run" "snd ?run"]
    by (simp add: IsZero_def tick_libs_def time_Now_def health_world_def sat_int64_def min_int64_def max_int64_def)
qed

end
