(* ===== verification/Logger.thy ===== *)
theory Logger
  imports World
begin

text \<open>
  The structured logger (\<open>pkg/logger/logger.go\<close>): its configuration and the parsing of its
  settings, the entry built from a message, the logger's extra fields and the context, the text
  format, the stack trace of errors, the level filter, verbosity and the silent logger, and the
  capturing logger of the tests. What the runtime supplies (host name, clock, call frames,
  value formatting, JSON encoding and the writers' errors) are parameters.
\<close>

section \<open>Configuration\<close>

datatype log_format = FormatText | FormatJSON

datatype writer = Stdout | Stderr

record logger_config =
  lg_Output :: "writer option"
  lg_Component :: string
  lg_Version :: string
  lg_Hostname :: string
  lg_Level :: log_level
  lg_Format :: log_format
  lg_OTelEnabled :: bool

record frame =
  fr_Function :: string
  fr_FilePath :: string
  fr_Line :: int

record log_entry_data =
  en_Extra :: "gval gmap option"
  en_TraceID :: string
  en_Timestamp :: string
  en_Component :: string
  en_Version :: string
  en_Hostname :: string
  en_Error :: string
  en_Message :: string
  en_Level :: string
  en_Subset :: string
  en_OpID :: string
  en_SpanID :: string
  en_DecisionReason :: string
  en_Topic :: string
  en_StackTrace :: "string list"
  en_TxID :: "64 word"

record log_runtime =
  rt_Hostname :: "go_error + string"
  rt_Now :: gtime
  rt_Callers :: "frame list"
  rt_ShowValue :: "gval \<Rightarrow> string"
  rt_Sprintf :: "string \<Rightarrow> gval list \<Rightarrow> string"
  rt_Marshal :: "log_entry_data \<Rightarrow> go_error + string"
  rt_Write :: "writer \<Rightarrow> string \<Rightarrow> go_error option"

text \<open>The package's state and what it does outside: lines written, and the exit of the process.\<close>

record log_state =
  ls_global :: "logger_config option"
  ls_written :: "(writer \<times> string) list"
  ls_exit :: "int option"

definition DefaultConfig :: "log_runtime \<Rightarrow> logger_config" where
  "DefaultConfig rt =
     \<lparr>lg_Output = Some Stdout, lg_Component = ''sentinel'', lg_Version = ''dev'',
      lg_Hostname = (case rt_Hostname rt of Inl err \<Rightarrow> ''unknown'' | Inr hostname \<Rightarrow> hostname),
      lg_Level = LevelInfo, lg_Format = FormatJSON, lg_OTelEnabled = True\<rparr>"

definition SetGlobalConfig :: "logger_config option \<Rightarrow> log_state \<Rightarrow> log_state" where
  "SetGlobalConfig cfg st = st\<lparr>ls_global := cfg\<rparr>"

definition GetGlobalConfig :: "log_runtime \<Rightarrow> log_state \<Rightarrow> logger_config" where
  "GetGlobalConfig rt st = (case ls_global st of None \<Rightarrow> DefaultConfig rt | Some cfg \<Rightarrow> cfg)"

definition normalised :: "string \<Rightarrow> string" where
  "normalised s = to_lower (trim_space s)"

definition ParseLogLevel :: "string \<Rightarrow> go_error + log_level" where
  "ParseLogLevel level =
     (let l = normalised level in
      if l = ''debug'' then Inr LevelDebug
      else if l = ''info'' then Inr LevelInfo
      else if l = ''warn'' \<or> l = ''warning'' then Inr LevelWarn
      else if l = ''error'' then Inr LevelError
      else Inl (ErrText (''unknown log level: '' @ level @ '' (valid: debug, info, warn, error)'')))"

definition ParseLogFormat :: "string \<Rightarrow> go_error + log_format" where
  "ParseLogFormat format =
     (let f = normalised format in
      if f = ''text'' then Inr FormatText
      else if f = ''json'' then Inr FormatJSON
      else Inl (ErrText (''unknown log format: '' @ format @ '' (valid: text, json)'')))"

definition ParseLogOutput :: "string \<Rightarrow> go_error + writer" where
  "ParseLogOutput output =
     (let w = normalised output in
      if w = ''stdout'' \<or> w = [] then Inr Stdout
      else if w = ''stderr'' then Inr Stderr
      else Inl (ErrText (''unknown log output: '' @ output @ '' (valid: stdout, stderr)'')))"

fun LogLevel_String :: "log_level \<Rightarrow> string" where
  "LogLevel_String LevelDebug = ''debug''"
| "LogLevel_String LevelInfo = ''info''"
| "LogLevel_String LevelWarn = ''warn''"
| "LogLevel_String LevelError = ''error''"

fun LogFormat_String :: "log_format \<Rightarrow> string" where
  "LogFormat_String FormatJSON = ''json''"
| "LogFormat_String FormatText = ''text''"

section \<open>Loggers\<close>

datatype hf_logger =
    HFLogger logger_config "gval gmap" "32 word"
  | NoopLogger

definition NewHyperFleetLoggerWithConfig :: "log_runtime \<Rightarrow> logger_config option \<Rightarrow> hf_logger" where
  "NewHyperFleetLoggerWithConfig rt cfg_ptr =
     (let cfg = (case cfg_ptr of None \<Rightarrow> DefaultConfig rt | Some cfg \<Rightarrow> cfg)
      in HFLogger cfg [] 0)"

definition NewHyperFleetLogger :: "log_runtime \<Rightarrow> log_state \<Rightarrow> hf_logger" where
  "NewHyperFleetLogger rt st = NewHyperFleetLoggerWithConfig rt (Some (GetGlobalConfig rt st))"

definition level_number :: "log_level \<Rightarrow> nat" where
  "level_number l =
     (case l of LevelDebug \<Rightarrow> 0 | LevelInfo \<Rightarrow> 1 | LevelWarn \<Rightarrow> 2 | LevelError \<Rightarrow> 3)"

definition shouldLog :: "logger_config \<Rightarrow> log_level \<Rightarrow> bool" where
  "shouldLog cfg level \<longleftrightarrow> level_number level \<ge> level_number (lg_Level cfg)"

definition copy_extra :: "gval gmap \<Rightarrow> gval gmap" where
  "copy_extra ex = gmap_copy (\<lambda>v. v) ex"

section \<open>Entries\<close>

definition ctx_string :: "context_values \<Rightarrow> ctx_key \<Rightarrow> string" where
  "ctx_string ctx k = (case ctx_Value ctx k of GStr s \<Rightarrow> s | _ \<Rightarrow> [])"

definition buildEntry ::
    "log_runtime \<Rightarrow> logger_config \<Rightarrow> gval gmap \<Rightarrow> context_values option \<Rightarrow> log_level \<Rightarrow> string \<Rightarrow> log_entry_data" where
  "buildEntry rt cfg ex ctx_ptr level message =
     (let entry = \<lparr>en_Extra = None, en_TraceID = [],
                   en_Timestamp = format_rfc3339nano ((rt_Now rt)\<lparr>t_offset := 0\<rparr>),
                   en_Component = lg_Component cfg, en_Version = lg_Version cfg,
                   en_Hostname = lg_Hostname cfg, en_Error = [], en_Message = message,
                   en_Level = LogLevel_String level, en_Subset = [], en_OpID = [], en_SpanID = [],
                   en_DecisionReason = [], en_Topic = [], en_StackTrace = [], en_TxID = 0\<rparr>;
          entry = (case ctx_ptr of
                     None \<Rightarrow> entry
                   | Some ctx \<Rightarrow>
                       (let entry = entry\<lparr>en_OpID := ctx_string ctx OpIDKey,
                                          en_TxID := (case ctx_Value ctx TxIDKey of GInt64 i \<Rightarrow> i | _ \<Rightarrow> 0)\<rparr>;
                            entry = (if lg_OTelEnabled cfg
                                     then entry\<lparr>en_TraceID := ctx_string ctx TraceIDCtxKey,
                                                en_SpanID := ctx_string ctx SpanIDCtxKey\<rparr>
                                     else entry)
                        in entry\<lparr>en_DecisionReason := ctx_string ctx DecisionReasonCtxKey,
                                 en_Topic := ctx_string ctx TopicCtxKey,
                                 en_Subset := ctx_string ctx SubsetCtxKey\<rparr>))
      in if length ex > 0 then entry\<lparr>en_Extra := Some (copy_extra ex)\<rparr> else entry)"

definition text_field :: "string \<Rightarrow> string \<Rightarrow> string" where
  "text_field name v = (if v \<noteq> [] then '' '' @ name @ ''='' @ v else [])"

definition formatText :: "log_runtime \<Rightarrow> log_entry_data \<Rightarrow> string" where
  "formatText rt entry =
     en_Timestamp entry @ '' '' @ to_upper (en_Level entry) @ '' ['' @ en_Component entry @ ''] ['' @
     en_Version entry @ ''] ['' @ en_Hostname entry @ ''] '' @ en_Message entry @
     text_field ''trace_id'' (en_TraceID entry) @ text_field ''span_id'' (en_SpanID entry) @
     text_field ''op_id'' (en_OpID entry) @
     (if en_TxID entry \<noteq> 0 then '' tx_id='' @ show_int (sint (en_TxID entry)) else []) @
     text_field ''decision_reason'' (en_DecisionReason entry) @
     text_field ''topic'' (en_Topic entry) @ text_field ''subset'' (en_Subset entry) @
     concat (map (\<lambda>(k, v). '' '' @ k @ ''='' @ rt_ShowValue rt v) (entries_of (en_Extra entry))) @
     (if en_Error entry \<noteq> [] \<and> en_Error entry \<noteq> en_Message entry
      then '' error='' @ [CHR 0x22] @ en_Error entry @ [CHR 0x22] else []) @
     newline @
     (if length (en_StackTrace entry) > 0
      then concat (map (\<lambda>frame. ''    '' @ frame @ newline) (en_StackTrace entry)) else [])"

definition formatJSON :: "log_runtime \<Rightarrow> log_entry_data \<Rightarrow> string" where
  "formatJSON rt entry =
     (case rt_Marshal rt entry of
        Inl err \<Rightarrow> ''{'' @ [CHR 0x22] @ ''error'' @ [CHR 0x22] @ '':'' @ [CHR 0x22] @
                  ''failed to marshal log entry: '' @ error_text err @ [CHR 0x22] @ ''}'' @ newline
      | Inr data \<Rightarrow> data @ newline)"

section \<open>Stack traces\<close>

definition maxStackFrames :: nat where "maxStackFrames = 15"
definition skipFrames :: nat where "skipFrames = 4"

text \<open>
  \<open>runtime.Callers\<close> writes at most as many counters as its buffer holds, one for each call on the
  stack after the skipped ones; the stack begins with the call of \<open>Callers\<close> itself.
\<close>

definition runtime_Callers :: "log_runtime \<Rightarrow> nat \<Rightarrow> nat \<Rightarrow> frame list" where
  "runtime_Callers rt skip buffer = take buffer (drop skip (rt_Callers rt))"

fun has_infix :: "string \<Rightarrow> string \<Rightarrow> bool" where
  "has_infix p [] = (p = [])"
| "has_infix p (c # s) = (take (length p) (c # s) = p \<or> has_infix p s)"

text \<open>What follows the last slash, if there is one.\<close>

definition after_slash :: "string \<Rightarrow> string" where
  "after_slash s = rev (takeWhile (\<lambda>c. c \<noteq> CHR ''/'') (rev s))"

definition internal_frame :: "frame \<Rightarrow> bool" where
  "internal_frame f \<longleftrightarrow> has_infix ''runtime.'' (fr_Function f) \<or> has_infix ''testing.'' (fr_Function f)"

definition frame_text :: "frame \<Rightarrow> string" where
  "frame_text f = after_slash (fr_Function f) @ ''() '' @ after_slash (fr_FilePath f) @ '':'' @ show_int (fr_Line f)"

text \<open>The loop over the call frames; \<open>acc\<close> is the trace so far.\<close>

fun collect_frames :: "string list \<Rightarrow> frame list \<Rightarrow> string list" where
  "collect_frames acc [] = acc"
| "collect_frames acc (f # fs) =
     (if internal_frame f then collect_frames acc fs
      else
        let acc = acc @ [frame_text f]
        in if fs = [] \<or> length acc \<ge> maxStackFrames then acc else collect_frames acc fs)"

definition getStackTrace :: "log_runtime \<Rightarrow> nat \<Rightarrow> string list" where
  "getStackTrace rt skip =
     (let pcs = runtime_Callers rt skip maxStackFrames
      in if length pcs = 0 then [] else collect_frames [] pcs)"

section \<open>Logging\<close>

definition write_line :: "log_runtime \<Rightarrow> writer \<Rightarrow> string \<Rightarrow> log_state \<Rightarrow> log_state" where
  "write_line rt w output st =
     (case rt_Write rt w output of
        None \<Rightarrow> st\<lparr>ls_written := ls_written st @ [(w, output)]\<rparr>
      | Some err \<Rightarrow>
          st\<lparr>ls_written := ls_written st @ [(Stderr, ''logger: write failed: '' @ error_text err @ newline)]\<rparr>)"

definition logWithError ::
    "log_runtime \<Rightarrow> logger_config \<Rightarrow> gval gmap \<Rightarrow> context_values option \<Rightarrow> log_level \<Rightarrow> string \<Rightarrow> string \<Rightarrow>
     log_state \<Rightarrow> log_state" where
  "logWithError rt cfg ex ctx level message errorMsg st =
     (if \<not> shouldLog cfg level then st
      else
        let entry = buildEntry rt cfg ex ctx level message;
            entry = (if level = LevelError
                     then entry\<lparr>en_Error := (if errorMsg \<noteq> [] then errorMsg else message),
                                en_StackTrace := getStackTrace rt skipFrames\<rparr>
                     else entry);
            output = (case lg_Format cfg of
                        FormatJSON \<Rightarrow> formatJSON rt entry
                      | FormatText \<Rightarrow> formatText rt entry);
            w = (case lg_Output cfg of None \<Rightarrow> Stderr | Some w \<Rightarrow> w)
        in write_line rt w output st)"

text \<open>The level methods of \<open>noopLogger\<close> have empty bodies.\<close>

definition noop_log :: "context_values option \<Rightarrow> log_level \<Rightarrow> string \<Rightarrow> log_state \<Rightarrow> log_state" where
  "noop_log ctx level message st = st"

definition logger_log ::
    "log_runtime \<Rightarrow> hf_logger \<Rightarrow> context_values option \<Rightarrow> log_level \<Rightarrow> string \<Rightarrow> log_state \<Rightarrow> log_state" where
  "logger_log rt l ctx level message st =
     (case l of
        HFLogger cfg ex v \<Rightarrow> logWithError rt cfg ex ctx level message [] st
      | NoopLogger \<Rightarrow> noop_log ctx level message st)"

definition Debug :: "log_runtime \<Rightarrow> hf_logger \<Rightarrow> context_values option \<Rightarrow> string \<Rightarrow> log_state \<Rightarrow> log_state" where
  "Debug rt l ctx message = logger_log rt l ctx LevelDebug message"

definition Debugf ::
    "log_runtime \<Rightarrow> hf_logger \<Rightarrow> context_values option \<Rightarrow> string \<Rightarrow> gval list \<Rightarrow> log_state \<Rightarrow> log_state" where
  "Debugf rt l ctx format args = logger_log rt l ctx LevelDebug (rt_Sprintf rt format args)"

definition Info :: "log_runtime \<Rightarrow> hf_logger \<Rightarrow> context_values option \<Rightarrow> string \<Rightarrow> log_state \<Rightarrow> log_state" where
  "Info rt l ctx message = logger_log rt l ctx LevelInfo message"

definition Infof ::
    "log_runtime \<Rightarrow> hf_logger \<Rightarrow> context_values option \<Rightarrow> string \<Rightarrow> gval list \<Rightarrow> log_state \<Rightarrow> log_state" where
  "Infof rt l ctx format args = logger_log rt l ctx LevelInfo (rt_Sprintf rt format args)"

definition Warn :: "log_runtime \<Rightarrow> hf_logger \<Rightarrow> context_values option \<Rightarrow> string \<Rightarrow> log_state \<Rightarrow> log_state" where
  "Warn rt l ctx message = logger_log rt l ctx LevelWarn message"

definition Warnf ::
    "log_runtime \<Rightarrow> hf_logger \<Rightarrow> context_values option \<Rightarrow> string \<Rightarrow> gval list \<Rightarrow> log_state \<Rightarrow> log_state" where
  "Warnf rt l ctx format args = logger_log rt l ctx LevelWarn (rt_Sprintf rt format args)"

definition Error :: "log_runtime \<Rightarrow> hf_logger \<Rightarrow> context_values option \<Rightarrow> string \<Rightarrow> log_state \<Rightarrow> log_state" where
  "Error rt l ctx message = logger_log rt l ctx LevelError message"

definition Errorf ::
    "log_runtime \<Rightarrow> hf_logger \<Rightarrow> context_values option \<Rightarrow> string \<Rightarrow> gval list \<Rightarrow> log_state \<Rightarrow> log_state" where
  "Errorf rt l ctx format args = logger_log rt l ctx LevelError (rt_Sprintf rt format args)"

text \<open>\<open>os.Exit\<close> ends the process: the state keeps its code.\<close>

definition os_Exit :: "int \<Rightarrow> log_state \<Rightarrow> log_state" where
  "os_Exit code st = st\<lparr>ls_exit := Some code\<rparr>"

definition print_stderr :: "string \<Rightarrow> log_state \<Rightarrow> log_state" where
  "print_stderr line st = st\<lparr>ls_written := ls_written st @ [(Stderr, line @ newline)]\<rparr>"

definition noop_Fatal :: "context_values option \<Rightarrow> string \<Rightarrow> log_state \<Rightarrow> log_state" where
  "noop_Fatal ctx message st = os_Exit 1 (print_stderr (''FATAL: '' @ message) st)"

definition noop_Fatalf ::
    "log_runtime \<Rightarrow> context_values option \<Rightarrow> string \<Rightarrow> gval list \<Rightarrow> log_state \<Rightarrow> log_state" where
  "noop_Fatalf rt ctx format args st =
     os_Exit 1 (print_stderr (''FATAL: '' @ rt_Sprintf rt format args) st)"

definition Fatal :: "log_runtime \<Rightarrow> hf_logger \<Rightarrow> context_values option \<Rightarrow> string \<Rightarrow> log_state \<Rightarrow> log_state" where
  "Fatal rt l ctx message st =
     (case l of
        HFLogger cfg ex v \<Rightarrow> os_Exit 1 (logger_log rt l ctx LevelError (''FATAL: '' @ message) st)
      | NoopLogger \<Rightarrow> noop_Fatal ctx message st)"

definition Fatalf ::
    "log_runtime \<Rightarrow> hf_logger \<Rightarrow> context_values option \<Rightarrow> string \<Rightarrow> gval list \<Rightarrow> log_state \<Rightarrow> log_state" where
  "Fatalf rt l ctx format args st =
     (case l of
        HFLogger cfg ex v \<Rightarrow>
          os_Exit 1 (logger_log rt l ctx LevelError (''FATAL: '' @ rt_Sprintf rt format args) st)
      | NoopLogger \<Rightarrow> noop_Fatalf rt ctx format args st)"

definition V :: "hf_logger \<Rightarrow> 32 word \<Rightarrow> hf_logger" where
  "V l level =
     (case l of
        HFLogger cfg ex v \<Rightarrow>
          if sint level > 0 \<and> level_number (lg_Level cfg) > level_number LevelDebug then NoopLogger
          else HFLogger cfg (copy_extra ex) level
      | NoopLogger \<Rightarrow> NoopLogger)"

definition Extra :: "hf_logger \<Rightarrow> string \<Rightarrow> gval \<Rightarrow> hf_logger" where
  "Extra l key val =
     (case l of
        HFLogger cfg ex v \<Rightarrow> HFLogger cfg (gmap_put key val (copy_extra ex)) v
      | NoopLogger \<Rightarrow> NoopLogger)"

section \<open>The adapter for the broker library\<close>

text \<open>\<open>pkg/logger/broker_adapter.go\<close>: every method passes its call on.\<close>

record broker_adapter =
  ba_log :: hf_logger

definition NewBrokerLoggerAdapter :: "hf_logger \<Rightarrow> broker_adapter" where
  "NewBrokerLoggerAdapter l = \<lparr>ba_log = l\<rparr>"

definition adapter_Debug where "adapter_Debug rt a ctx message = Debug rt (ba_log a) ctx message"
definition adapter_Debugf where "adapter_Debugf rt a ctx format args = Debugf rt (ba_log a) ctx format args"
definition adapter_Info where "adapter_Info rt a ctx message = Info rt (ba_log a) ctx message"
definition adapter_Infof where "adapter_Infof rt a ctx format args = Infof rt (ba_log a) ctx format args"
definition adapter_Warn where "adapter_Warn rt a ctx message = Warn rt (ba_log a) ctx message"
definition adapter_Warnf where "adapter_Warnf rt a ctx format args = Warnf rt (ba_log a) ctx format args"
definition adapter_Error where "adapter_Error rt a ctx message = Error rt (ba_log a) ctx message"
definition adapter_Errorf where "adapter_Errorf rt a ctx format args = Errorf rt (ba_log a) ctx format args"

section \<open>The capturing logger\<close>

text \<open>Nil pointers to the two lists are \<open>None\<close>; \<open>mk_process\<close> is the rest of the state.\<close>

record mock_logger =
  mk_CapturedLogs :: "string list option"
  mk_CapturedContexts :: "context_values option list option"
  mk_process :: log_state

definition NewMockLogger :: "log_state \<Rightarrow> mock_logger" where
  "NewMockLogger st = \<lparr>mk_CapturedLogs = Some [], mk_CapturedContexts = Some [], mk_process = st\<rparr>"

definition capture :: "context_values option \<Rightarrow> string \<Rightarrow> mock_logger \<Rightarrow> mock_logger" where
  "capture ctx msg m =
     (let m = (if mk_CapturedLogs m = None then m\<lparr>mk_CapturedLogs := Some []\<rparr> else m);
          m = (if mk_CapturedContexts m = None then m\<lparr>mk_CapturedContexts := Some []\<rparr> else m)
      in m\<lparr>mk_CapturedLogs := Some (the (mk_CapturedLogs m) @ [msg]),
           mk_CapturedContexts := Some (the (mk_CapturedContexts m) @ [ctx])\<rparr>)"

text \<open>The level methods, which do not look at the level, and the two fatal ones.\<close>

definition mock_log :: "context_values option \<Rightarrow> log_level \<Rightarrow> string \<Rightarrow> mock_logger \<Rightarrow> mock_logger" where
  "mock_log ctx level message m = capture ctx message m"

definition mock_logf ::
    "log_runtime \<Rightarrow> context_values option \<Rightarrow> log_level \<Rightarrow> string \<Rightarrow> gval list \<Rightarrow> mock_logger \<Rightarrow> mock_logger" where
  "mock_logf rt ctx level format args m = capture ctx (rt_Sprintf rt format args) m"

definition mock_Fatal :: "context_values option \<Rightarrow> string \<Rightarrow> mock_logger \<Rightarrow> mock_logger" where
  "mock_Fatal ctx message m =
     (let m = capture ctx message m
      in m\<lparr>mk_process := os_Exit 1 (print_stderr (''FATAL: '' @ message) (mk_process m))\<rparr>)"

definition mock_Fatalf :: "log_runtime \<Rightarrow> context_values option \<Rightarrow> string \<Rightarrow> gval list \<Rightarrow> mock_logger \<Rightarrow> mock_logger" where
  "mock_Fatalf rt ctx format args m =
     (let m = capture ctx (rt_Sprintf rt format args) m
      in m\<lparr>mk_process := print_stderr (''FATAL: '' @ rt_Sprintf rt format args) (mk_process m)\<rparr>)"

definition mock_V :: "32 word \<Rightarrow> mock_logger \<Rightarrow> mock_logger" where
  "mock_V level m = m"

definition mock_Extra :: "string \<Rightarrow> gval \<Rightarrow> mock_logger \<Rightarrow> mock_logger" where
  "mock_Extra key value m = m"

section \<open>What every logger does with a message\<close>

text \<open>
  The contract of a logger: a message of an enabled level is one more line, which carries it, a
  message of another level changes nothing.
\<close>

locale log_sink =
  fixes emit :: "log_level \<Rightarrow> string \<Rightarrow> 's \<Rightarrow> 's"
    and lines :: "'s \<Rightarrow> 'l list"
    and enabled :: "log_level \<Rightarrow> bool"
    and carries :: "log_level \<Rightarrow> string \<Rightarrow> 'l \<Rightarrow> bool"
  assumes emit_on: "enabled level \<Longrightarrow>
      \<exists>line. lines (emit level message s) = lines s @ [line] \<and> carries level message line"
    and emit_off: "\<not> enabled level \<Longrightarrow> emit level message s = s"
begin

lemma emit_all:
  "\<exists>new. lines (fold (\<lambda>(level, message). emit level message) ms s) = lines s @ new \<and>
     list_all2 (\<lambda>m line. carries (fst m) (snd m) line) (filter (\<lambda>m. enabled (fst m)) ms) new"
proof (induction ms arbitrary: s)
  case Nil
  show ?case by simp
next
  case (Cons m ms)
  obtain level message where m: "m = (level, message)" by force
  show ?case
  proof (cases "enabled level")
    case True
    then obtain line where line: "lines (emit level message s) = lines s @ [line]" "carries level message line"
      using emit_on by blast
    from Cons.IH [of "emit level message s"] obtain new where
      "lines (fold (\<lambda>(level, message). emit level message) ms (emit level message s)) = lines s @ line # new"
      "list_all2 (\<lambda>m line. carries (fst m) (snd m) line) (filter (\<lambda>m. enabled (fst m)) ms) new"
      by (auto simp: line(1))
    with True line(2) show ?thesis by (intro exI [of _ "line # new"]) (simp add: m)
  next
    case False
    with Cons.IH [of s] show ?thesis by (simp add: m emit_off)
  qed
qed

end

definition accepts :: "hf_logger \<Rightarrow> log_level \<Rightarrow> bool" where
  "accepts l level = (case l of HFLogger cfg ex v \<Rightarrow> shouldLog cfg level | NoopLogger \<Rightarrow> False)"

text \<open>
  What a reader of the log expects, told without the logger's own functions: the levels from a
  threshold upwards, and the line a message becomes.
\<close>

definition at_least :: "log_level \<Rightarrow> log_level \<Rightarrow> bool" where
  "at_least threshold level \<longleftrightarrow>
     level \<in> set (dropWhile (\<lambda>l. l \<noteq> threshold) [LevelDebug, LevelInfo, LevelWarn, LevelError])"

fun level_label :: "log_level \<Rightarrow> string" where
  "level_label LevelDebug = ''DEBUG''"
| "level_label LevelInfo = ''INFO''"
| "level_label LevelWarn = ''WARN''"
| "level_label LevelError = ''ERROR''"

definition text_says :: "log_runtime \<Rightarrow> logger_config \<Rightarrow> log_level \<Rightarrow> string \<Rightarrow> string \<Rightarrow> bool" where
  "text_says rt cfg level message line \<longleftrightarrow>
     (case lg_Format cfg of
        FormatText \<Rightarrow>
          \<exists>fields. line = format_rfc3339nano ((rt_Now rt)\<lparr>t_offset := 0\<rparr>) @ '' '' @ level_label level @
            '' ['' @ lg_Component cfg @ ''] ['' @ lg_Version cfg @ ''] ['' @ lg_Hostname cfg @ ''] '' @
            message @ fields
      | FormatJSON \<Rightarrow>
          \<exists>entry. en_Message entry = message \<and> to_upper (en_Level entry) = level_label level \<and>
            en_Component entry = lg_Component cfg \<and> en_Version entry = lg_Version cfg \<and>
            en_Hostname entry = lg_Hostname cfg \<and>
            en_Error entry = (if level = LevelError then message else []) \<and>
            line =
              (case rt_Marshal rt entry of
                 Inr data \<Rightarrow> data @ newline
               | Inl err \<Rightarrow> ''{'' @ [CHR 0x22] @ ''error'' @ [CHR 0x22] @ '':'' @ [CHR 0x22] @
                   ''failed to marshal log entry: '' @ error_text err @ [CHR 0x22] @ ''}'' @ newline))"

text \<open>Where the line goes: to the configured output, or the failure to write it to the error output.\<close>

definition line_for ::
    "log_runtime \<Rightarrow> logger_config \<Rightarrow> log_level \<Rightarrow> string \<Rightarrow> writer \<times> string \<Rightarrow> bool" where
  "line_for rt cfg level message written \<longleftrightarrow>
     (\<exists>line. text_says rt cfg level message line \<and>
        (let out = (if lg_Output cfg = None then Stderr else the (lg_Output cfg)) in
         written =
           (case rt_Write rt out line of
              None \<Rightarrow> (out, line)
            | Some err \<Rightarrow> (Stderr, ''logger: write failed: '' @ error_text err @ newline))))"

lemma shouldLog_at_least: "shouldLog cfg level \<longleftrightarrow> at_least (lg_Level cfg) level"
  by (cases level; cases "lg_Level cfg") (simp_all add: shouldLog_def level_number_def at_least_def)

lemma level_label_upper: "to_upper (LogLevel_String level) = level_label level"
  by (cases level; simp only: LogLevel_String.simps level_label.simps; code_simp)

lemma buildEntry_fields:
  "en_Message (buildEntry rt cfg ex ctx level message) = message"
  "en_Level (buildEntry rt cfg ex ctx level message) = LogLevel_String level"
  "en_Component (buildEntry rt cfg ex ctx level message) = lg_Component cfg"
  "en_Version (buildEntry rt cfg ex ctx level message) = lg_Version cfg"
  "en_Hostname (buildEntry rt cfg ex ctx level message) = lg_Hostname cfg"
  "en_Error (buildEntry rt cfg ex ctx level message) = []"
  "en_Timestamp (buildEntry rt cfg ex ctx level message) = format_rfc3339nano ((rt_Now rt)\<lparr>t_offset := 0\<rparr>)"
  by (simp_all add: buildEntry_def Let_def split: option.split)

lemma entry_says:
  assumes "en_Message entry = message" and "en_Level entry = LogLevel_String level"
    and "en_Component entry = lg_Component cfg" and "en_Version entry = lg_Version cfg"
    and "en_Hostname entry = lg_Hostname cfg" and "en_Error entry = (if level = LevelError then message else [])"
    and "en_Timestamp entry = format_rfc3339nano ((rt_Now rt)\<lparr>t_offset := 0\<rparr>)"
  shows "text_says rt cfg level message
     (case lg_Format cfg of FormatJSON \<Rightarrow> formatJSON rt entry | FormatText \<Rightarrow> formatText rt entry)"
proof (cases "lg_Format cfg")
  case FormatText
  with assms show ?thesis by (simp add: text_says_def formatText_def level_label_upper)
next
  case FormatJSON
  have "en_Message entry = message \<and> to_upper (en_Level entry) = level_label level \<and>
      en_Component entry = lg_Component cfg \<and> en_Version entry = lg_Version cfg \<and>
      en_Hostname entry = lg_Hostname cfg \<and> en_Error entry = (if level = LevelError then message else [])"
    using assms by (simp add: level_label_upper)
  then show ?thesis
    unfolding text_says_def FormatJSON log_format.case formatJSON_def by blast
qed

lemma write_line_for:
  assumes "text_says rt cfg level message line"
  shows "\<exists>written. ls_written (write_line rt (case lg_Output cfg of None \<Rightarrow> Stderr | Some w \<Rightarrow> w) line st) =
      ls_written st @ [written] \<and> line_for rt cfg level message written"
  using assms unfolding line_for_def write_line_def
  by (cases "lg_Output cfg") (auto simp: Let_def split: option.splits)

lemma logWithError_line:
  assumes "at_least (lg_Level cfg) level"
  shows "\<exists>written. ls_written (logWithError rt cfg ex ctx level message [] st) = ls_written st @ [written] \<and>
     line_for rt cfg level message written"
proof -
  let ?base = "buildEntry rt cfg ex ctx level message"
  let ?entry = "if level = LevelError
      then ?base\<lparr>en_Error := message, en_StackTrace := getStackTrace rt skipFrames\<rparr> else ?base"
  let ?line = "case lg_Format cfg of FormatJSON \<Rightarrow> formatJSON rt ?entry | FormatText \<Rightarrow> formatText rt ?entry"
  have "text_says rt cfg level message ?line"
    by (rule entry_says) (simp_all add: buildEntry_fields)
  moreover have "logWithError rt cfg ex ctx level message [] st =
      write_line rt (case lg_Output cfg of None \<Rightarrow> Stderr | Some w \<Rightarrow> w) ?line st"
    using assms by (simp add: logWithError_def shouldLog_at_least Let_def)
  ultimately show ?thesis using write_line_for by metis
qed

interpretation hf: log_sink "logger_log rt l ctx" ls_written "accepts l"
    "\<lambda>level message written. case l of HFLogger cfg ex v \<Rightarrow> line_for rt cfg level message written | NoopLogger \<Rightarrow> True"
  for rt l ctx
proof unfold_locales
  fix level message and s :: log_state
  assume on: "accepts l level"
  then obtain cfg ex v where l: "l = HFLogger cfg ex v" and lv: "at_least (lg_Level cfg) level"
    by (cases l) (auto simp: accepts_def shouldLog_at_least)
  show "\<exists>line. ls_written (logger_log rt l ctx level message s) = ls_written s @ [line] \<and>
      (case l of HFLogger cfg ex v \<Rightarrow> line_for rt cfg level message line | NoopLogger \<Rightarrow> True)"
    unfolding l logger_log_def hf_logger.case by (rule logWithError_line [OF lv])
next
  fix level message and s :: log_state
  assume "\<not> accepts l level"
  then show "logger_log rt l ctx level message s = s"
    by (auto simp: accepts_def logger_log_def noop_log_def logWithError_def split: hf_logger.splits)
qed

interpretation mock: log_sink "mock_log ctx" "\<lambda>m. case mk_CapturedLogs m of None \<Rightarrow> [] | Some ls \<Rightarrow> ls" "\<lambda>_. True"
    "\<lambda>level message line. line = message"
  for ctx
  by unfold_locales (auto simp: mock_log_def capture_def Let_def split: option.split)

text \<open>The adapter's method of a level, and its contract.\<close>

definition adapter_log ::
    "log_runtime \<Rightarrow> broker_adapter \<Rightarrow> context_values option \<Rightarrow> log_level \<Rightarrow> string \<Rightarrow> log_state \<Rightarrow> log_state" where
  "adapter_log rt a ctx level message =
     (case level of
        LevelDebug \<Rightarrow> adapter_Debug rt a ctx message | LevelInfo \<Rightarrow> adapter_Info rt a ctx message
      | LevelWarn \<Rightarrow> adapter_Warn rt a ctx message | LevelError \<Rightarrow> adapter_Error rt a ctx message)"

lemma adapter_log_eq: "adapter_log rt (NewBrokerLoggerAdapter l) ctx = logger_log rt l ctx"
  by (auto simp: fun_eq_iff adapter_log_def NewBrokerLoggerAdapter_def adapter_Debug_def adapter_Info_def
      adapter_Warn_def adapter_Error_def Debug_def Info_def Warn_def Error_def split: log_level.split)

interpretation adapter: log_sink "adapter_log rt (NewBrokerLoggerAdapter l) ctx" ls_written "accepts l"
    "\<lambda>level message written. case l of HFLogger cfg ex v \<Rightarrow> line_for rt cfg level message written | NoopLogger \<Rightarrow> True"
  for rt l ctx
  unfolding adapter_log_eq by unfold_locales

text \<open>
  C37: A sequence of messages leaves exactly one line for each message at or above the configured
  level (debug, info, warn, error, in this order), in their order, and none for the others. The
  line goes to the configured output, or to the error output when there is none, and says the
  message, its level and who logged it, at fixed places of the text format or as fields of the
  JSON object; when the writer fails, the line on the error output says so instead. The broker
  library's calls through the adapter leave the very same, and the silent logger changes nothing.
\<close>

theorem log_lines_exact:
  "(\<exists>new. ls_written (fold (\<lambda>(level, message). logger_log rt (HFLogger cfg ex v) ctx level message) ms st) =
        ls_written st @ new \<and>
      list_all2 (\<lambda>m written. line_for rt cfg (fst m) (snd m) written)
        (filter (\<lambda>m. at_least (lg_Level cfg) (fst m)) ms) new) \<and>
   fold (\<lambda>(level, message). adapter_log rt (NewBrokerLoggerAdapter (HFLogger cfg ex v)) ctx level message) ms st =
     fold (\<lambda>(level, message). logger_log rt (HFLogger cfg ex v) ctx level message) ms st \<and>
   fold (\<lambda>(level, message). logger_log rt NoopLogger ctx level message) ms st = st"
proof -
  have "fold (\<lambda>(level, message). logger_log rt NoopLogger ctx level message) ms st = st"
    by (induction ms) (auto simp: logger_log_def noop_log_def)
  then show ?thesis
    using hf.emit_all [where l = "HFLogger cfg ex v"] by (simp add: adapter_log_eq accepts_def shouldLog_at_least)
qed

section \<open>Derived loggers\<close>

lemma copy_extra_get: "gmap_ok ex \<Longrightarrow> gmap_get (copy_extra ex) k = gmap_get ex k"
  by (simp add: copy_extra_def gmap_get_copy option.map_ident)

fun extras :: "hf_logger \<Rightarrow> gval gmap" where
  "extras (HFLogger cfg ex v) = ex"
| "extras NoopLogger = []"

fun logger_ok :: "hf_logger \<Rightarrow> bool" where
  "logger_ok (HFLogger cfg ex v) = gmap_ok ex"
| "logger_ok NoopLogger = True"

lemma derived_ok: "logger_ok (Extra l k v)" "logger_ok (V l n)"
  by (auto simp: Extra_def V_def copy_extra_def gm.ok_put gmap_copy_ok split: hf_logger.split)

text \<open>
  What a derived logger accepts and carries. \<open>Extra\<close> changes no level and adds one field,
  replacing an earlier one of the same key and keeping the others; \<open>V(n)\<close> keeps the level and
  the fields, except that for a positive \<open>n\<close> above the debug level it is the silent logger,
  which accepts nothing, errors included.
\<close>

theorem derived_loggers:
  assumes "logger_ok l"
  shows "accepts (Extra l k v) level = accepts l level \<and>
    gmap_get (extras (Extra l k v)) k' =
      (if l = NoopLogger then None else if k' = k then Some v else gmap_get (extras l) k') \<and>
    accepts (V l n) level =
      (accepts l level \<and> (sint n \<le> 0 \<or> accepts l LevelDebug)) \<and>
    (V l n \<noteq> NoopLogger \<longrightarrow> gmap_get (extras (V l n)) k' = gmap_get (extras l) k')"
  using assms
  by (cases l)
    (auto simp: accepts_def Extra_def V_def copy_extra_get gm.get_put shouldLog_def level_number_def
      split: log_level.splits if_splits)

section \<open>Settings\<close>

lemma parse_level_iff:
  "ParseLogLevel s = Inr l \<longleftrightarrow>
     normalised s = LogLevel_String l \<or> (l = LevelWarn \<and> normalised s = ''warning'')"
  by (cases l) (auto simp: ParseLogLevel_def Let_def)

lemma normalised_ident:
  "normalised (LogLevel_String l) = LogLevel_String l"
  by (cases l) (simp only: LogLevel_String.simps; code_simp)+

lemma normalised_ident_format:
  "normalised (LogFormat_String f) = LogFormat_String f"
  by (cases f) (simp only: LogFormat_String.simps; code_simp)+

lemma parse_format_iff: "ParseLogFormat s = Inr f \<longleftrightarrow> normalised s = LogFormat_String f"
  by (cases f) (auto simp: ParseLogFormat_def Let_def)

text \<open>
  How a setting may be written: the name in any letter case, between any number of blanks (tab,
  line feed, vertical tab, form feed, carriage return, space).
\<close>

definition letter_pairs :: "(char \<times> char) list" where
  "letter_pairs = zip ''abcdefghijklmnopqrstuvwxyz'' ''ABCDEFGHIJKLMNOPQRSTUVWXYZ''"

definition spells :: "string \<Rightarrow> string \<Rightarrow> bool" where
  "spells name word \<longleftrightarrow> list_all2 (\<lambda>d c. c = d \<or> (d, c) \<in> set letter_pairs) name word"

definition blanks :: "string \<Rightarrow> bool" where
  "blanks s \<longleftrightarrow> set s \<subseteq> {CHR 0x09, CHR 0x0A, CHR 0x0B, CHR 0x0C, CHR 0x0D, CHR 0x20}"

definition written_as :: "string \<Rightarrow> string \<Rightarrow> bool" where
  "written_as name s \<longleftrightarrow>
     (\<exists>before word after. s = before @ word @ after \<and> blanks before \<and> blanks after \<and> spells name word)"

lemma blanks_is_space: "blanks s \<longleftrightarrow> list_all is_space s"
  by (auto simp: blanks_def is_space_def list_all_iff subset_iff)

lemma trim_parts: "\<exists>before after. s = before @ trim_space s @ after \<and> blanks before \<and> blanks after"
proof -
  let ?t = "dropWhile is_space s"
  have "s = takeWhile is_space s @ ?t" by simp
  moreover have "?t = rev (dropWhile is_space (rev ?t)) @ rev (takeWhile is_space (rev ?t))"
    by (metis rev_append rev_rev_ident takeWhile_dropWhile_id)
  ultimately have "s = takeWhile is_space s @ trim_space s @ rev (takeWhile is_space (rev ?t))"
    unfolding trim_space_def by simp
  moreover have "blanks (takeWhile is_space s)" "blanks (rev (takeWhile is_space (rev ?t)))"
    by (auto simp: blanks_is_space list_all_iff dest: set_takeWhileD)
  ultimately show ?thesis by blast
qed

lemma dropWhile_all: "list_all P xs \<Longrightarrow> dropWhile P (xs @ ys) = dropWhile P ys"
  by (induction xs) auto

lemma trim_between:
  assumes "blanks before" and "blanks after" and "\<forall>c \<in> set word. \<not> is_space c"
  shows "trim_space (before @ word @ after) = word"
proof (cases "word = []")
  case True
  have "\<forall>c \<in> set (before @ after). is_space c"
    using assms by (auto simp: blanks_is_space list_all_iff)
  then have "dropWhile is_space (before @ after) = []" by (simp only: dropWhile_eq_Nil_conv)
  with True show ?thesis by (simp only: trim_space_def append_Nil rev.simps dropWhile.simps)
next
  case False
  then have "dropWhile is_space (word @ after) = word @ after"
    using assms(3) by (cases word) auto
  moreover have "dropWhile is_space (rev word) = rev word"
    using False assms(3) by (cases word rule: rev_cases) auto
  moreover have "list_all is_space (rev after)" "list_all is_space before"
    using assms(1,2) by (simp_all add: blanks_is_space list_all_iff)
  ultimately show ?thesis
    by (simp add: trim_space_def dropWhile_all)
qed

lemma lower_char_letter:
  assumes "d \<in> set ''abcdefghijklmnopqrstuvwxyz''"
  shows "lower_char c = d \<longleftrightarrow> c = d \<or> (d, c) \<in> set letter_pairs"
proof (cases "c \<in> set upper_letters")
  case True
  have "list_all (\<lambda>c. list_all (\<lambda>d. (lower_char c = d) = (c = d \<or> (d, c) \<in> set letter_pairs))
      ''abcdefghijklmnopqrstuvwxyz'') upper_letters"
    by code_simp
  with True assms show ?thesis by (simp only: list_all_iff)
next
  case False
  then have "map_of (zip upper_letters lower_letters) c = None"
    by (auto simp: map_of_eq_None_iff dest: set_zip_leftD)
  then have "lower_char c = c" by (simp add: lower_char_def)
  moreover have "(d, c) \<notin> set letter_pairs"
    using False by (auto simp: letter_pairs_def upper_letters_def dest: set_zip_rightD)
  ultimately show ?thesis by auto
qed

lemma lower_is:
  assumes "set name \<subseteq> set ''abcdefghijklmnopqrstuvwxyz''"
  shows "to_lower word = name \<longleftrightarrow> spells name word"
  using assms
proof (induction name arbitrary: word)
  case Nil
  then show ?case by (cases word) (simp_all add: to_lower_def spells_def)
next
  case (Cons d name)
  show ?case
  proof (cases word)
    case (Cons c rest)
    then show ?thesis
      using Cons.IH [of rest] Cons.prems lower_char_letter [of d c] by (simp add: to_lower_def spells_def)
  qed (simp add: to_lower_def spells_def)
qed

lemma spelled_no_blank:
  assumes "set name \<subseteq> set ''abcdefghijklmnopqrstuvwxyz''" and "spells name word"
  shows "\<forall>c \<in> set word. \<not> is_space c"
proof
  fix c assume "c \<in> set word"
  then obtain i where "i < length word" "c = word ! i" by (auto simp: in_set_conv_nth)
  with assms(2) have "name ! i \<in> set name" "c = name ! i \<or> (name ! i, c) \<in> set letter_pairs"
    by (auto simp: spells_def list_all2_conv_all_nth)
  then have "c \<in> set ''abcdefghijklmnopqrstuvwxyz'' \<or> c \<in> set ''ABCDEFGHIJKLMNOPQRSTUVWXYZ''"
    using assms(1) by (auto simp: letter_pairs_def dest: set_zip_rightD)
  then show "\<not> is_space c" by (auto simp: is_space_def)
qed

lemma normalised_written:
  assumes "set name \<subseteq> set ''abcdefghijklmnopqrstuvwxyz''"
  shows "normalised s = name \<longleftrightarrow> written_as name s"
proof
  assume "normalised s = name"
  then have "spells name (trim_space s)"
    using lower_is [OF assms] by (simp add: normalised_def)
  with trim_parts [of s] show "written_as name s" unfolding written_as_def by blast
next
  assume "written_as name s"
  then obtain before word after where s: "s = before @ word @ after" "blanks before" "blanks after" "spells name word"
    unfolding written_as_def by blast
  then have "trim_space s = word"
    using trim_between [OF s(2,3) spelled_no_blank [OF assms s(4)]] by simp
  then show "normalised s = name"
    using lower_is [OF assms] s(4) by (simp add: normalised_def)
qed

lemma setting_names:
  shows level_names: "set (LogLevel_String l) \<subseteq> set ''abcdefghijklmnopqrstuvwxyz''"
    and format_names: "set (LogFormat_String f) \<subseteq> set ''abcdefghijklmnopqrstuvwxyz''"
  by (cases l, simp_all) (cases f, simp_all)

lemmas setting_written =
  normalised_written [OF level_names] normalised_written [OF format_names]

lemma warning_written: "normalised s = ''warning'' \<longleftrightarrow> written_as ''warning'' s"
  by (rule normalised_written) simp

text \<open>
  C38: Settings round-trip. A text is read as a level exactly when it is the level's printed name,
  or \<open>warning\<close> for the warn level, in any letter case and between any blanks; and as a format
  exactly when it is the format's printed name, likewise. So what a level or format prints as is
  read back as it, and no other text is accepted. (Texts are ASCII: Go also folds a few letters
  and blanks beyond it, which the model of \<open>ToLower\<close> and \<open>TrimSpace\<close> leaves as they are.)
\<close>

theorem log_settings_roundtrip:
  "(ParseLogLevel s = Inr l \<longleftrightarrow>
      written_as (LogLevel_String l) s \<or> (l = LevelWarn \<and> written_as ''warning'' s)) \<and>
   (ParseLogFormat s = Inr f \<longleftrightarrow> written_as (LogFormat_String f) s) \<and>
   ParseLogLevel (LogLevel_String l) = Inr l \<and> ParseLogFormat (LogFormat_String f) = Inr f"
  using normalised_ident [of l] normalised_ident_format [of f]
  by (simp add: parse_level_iff parse_format_iff setting_written warning_written)

section \<open>Entries and traces\<close>

text \<open>
  An entry carries the context it was logged under: the operation, transaction, decision
  reason, topic and subset always, the trace and span identifiers exactly when tracing is on; a
  nil context and an absent value give the empty field.
\<close>

theorem entry_carries_context:
  "let entry = buildEntry rt cfg ex (Some ctx) level message in
     en_Message entry = message \<and> en_Level entry = LogLevel_String level \<and>
     en_DecisionReason entry = ctx_string ctx DecisionReasonCtxKey \<and>
     en_Topic entry = ctx_string ctx TopicCtxKey \<and> en_Subset entry = ctx_string ctx SubsetCtxKey \<and>
     en_OpID entry = ctx_string ctx OpIDKey \<and>
     en_TraceID entry = (if lg_OTelEnabled cfg then ctx_string ctx TraceIDCtxKey else []) \<and>
     en_SpanID entry = (if lg_OTelEnabled cfg then ctx_string ctx SpanIDCtxKey else []) \<and>
     en_Extra entry = (if ex = [] then None else Some (copy_extra ex))"
  by (simp add: buildEntry_def Let_def)

lemma collect_frames_take:
  "length acc < maxStackFrames \<Longrightarrow>
     collect_frames acc fs = take maxStackFrames (acc @ map frame_text (filter (\<lambda>f. \<not> internal_frame f) fs))"
proof (induction fs arbitrary: acc)
  case Nil
  then show ?case by simp
next
  case (Cons f fs)
  show ?case
  proof (cases "internal_frame f")
    case True
    with Cons show ?thesis by simp
  next
    case False
    show ?thesis
    proof (cases "length (acc @ [frame_text f]) < maxStackFrames")
      case True
      with Cons.IH [OF True] False show ?thesis by (auto simp: Let_def)
    next
      case full: False
      from full Cons.prems have room: "maxStackFrames - length acc = Suc 0" by simp
      with full False show ?thesis by (simp add: Let_def)
    qed
  qed
qed

text \<open>
  C39: The loop that collects a stack trace computes, of the first 15 calls on the stack after
  the skipped ones, those outside the runtime and the test harness, in order. The bound counts
  before the internal calls are left out, so a trace may be shorter than 15 although the stack
  holds more calls of the program.
\<close>

theorem stack_trace_equiv:
  "getStackTrace rt skip =
     map frame_text (filter (\<lambda>f. \<not> internal_frame f) (take 15 (drop skip (rt_Callers rt))))"
proof -
  let ?pcs = "take 15 (drop skip (rt_Callers rt))"
  have "length (map frame_text (filter (\<lambda>f. \<not> internal_frame f) ?pcs)) \<le> 15"
    by (metis length_filter_le length_map length_take min.cobounded1 min.commute order_trans)
  moreover have "collect_frames [] ?pcs = take 15 (map frame_text (filter (\<lambda>f. \<not> internal_frame f) ?pcs))"
    by (subst collect_frames_take) (simp_all add: maxStackFrames_def)
  ultimately show ?thesis
    by (simp add: getStackTrace_def runtime_Callers_def maxStackFrames_def Let_def)
qed

section \<open>Instances\<close>

definition sample_logger :: hf_logger where
  "sample_logger =
     HFLogger \<lparr>lg_Output = Some Stdout, lg_Component = ''sentinel'', lg_Version = ''dev'',
       lg_Hostname = ''h'', lg_Level = LevelInfo, lg_Format = FormatText, lg_OTelEnabled = True\<rparr>
       [(''commit'', GStr ''abc'')] 0"

theorem derived_loggers_witness:
  "accepts (V sample_logger 1) LevelError = False \<and>
   gmap_get (extras (Extra sample_logger ''n'' (GBool True))) ''commit'' = Some (GStr ''abc'')"
proof -
  have ok: "logger_ok sample_logger"
    by (simp add: sample_logger_def gmap_simps)
  show ?thesis
    using derived_loggers [OF ok, of "''n''" "GBool True" LevelError "''commit''" 1]
    by (simp add: sample_logger_def accepts_def shouldLog_def level_number_def gmap_get_Cons)
qed

end
