(* ===== verification/Config_Load.thy ===== *)
theory Config_Load
  imports Config
begin

text \<open>
  Loading the configuration (\<open>LoadConfig\<close> of \<open>internal/config/config.go\<close>): the choice of the
  file, the environment variables and command-line flags bound over it, decoding over the
  built-in defaults, the raw check of \<open>message_data\<close>, the default decision and validation. The
  viper library is a parameter; the model keeps what the code told it, and
  \<open>viper_documented\<close> says what viper documents about the values it then answers.
\<close>

section \<open>Tables\<close>

definition defaultConfigFile :: string where
  "defaultConfigFile = ''/etc/hyperfleet/config.yaml''"

definition EnvPrefix :: string where
  "EnvPrefix = ''HYPERFLEET''"

definition viperKeyMappings :: "string gmap" where
  "viperKeyMappings =
    [(''debug_config'', ''DEBUG_CONFIG''),
     (''sentinel::name'', ''SENTINEL_NAME''),
     (''log::level'', ''LOG_LEVEL''),
     (''log::format'', ''LOG_FORMAT''),
     (''log::output'', ''LOG_OUTPUT''),
     (''clients::hyperfleet_api::base_url'', ''API_BASE_URL''),
     (''clients::hyperfleet_api::version'', ''API_VERSION''),
     (''clients::hyperfleet_api::timeout'', ''API_TIMEOUT''),
     (''clients::broker::topic'', ''BROKER_TOPIC''),
     (''resource_type'', ''RESOURCE_TYPE''),
     (''poll_interval'', ''POLL_INTERVAL''),
     (''tracing_enabled'', ''TRACING_ENABLED'')]"

definition cliFlags :: "string gmap" where
  "cliFlags =
    [(''debug-config'', ''debug_config''),
     (''name'', ''sentinel::name''),
     (''hyperfleet-api-base-url'', ''clients::hyperfleet_api::base_url''),
     (''hyperfleet-api-version'', ''clients::hyperfleet_api::version''),
     (''hyperfleet-api-timeout'', ''clients::hyperfleet_api::timeout''),
     (''broker-topic'', ''clients::broker::topic''),
     (''resource-type'', ''resource_type''),
     (''poll-interval'', ''poll_interval''),
     (''log-level'', ''log::level''),
     (''log-format'', ''log::format''),
     (''log-output'', ''log::output''),
     (''tracing-enabled'', ''tracing_enabled'')]"

section \<open>Viper and the flags\<close>

text \<open>
  What the code has given a viper instance: the file read, the variable bound to each path and
  the value set for it. The contents of a file are of an arbitrary type.
\<close>

record 'file viper =
  vp_config :: "'file option"
  vp_env :: "string gmap"
  vp_override :: "string gmap"

record 'file config_libs =
  cl_Getenv :: "string \<Rightarrow> string"
  cl_ReadInConfig :: "string \<Rightarrow> go_error + 'file"
  cl_BindEnv :: "string \<Rightarrow> string \<Rightarrow> go_error option"
  cl_Find :: "'file \<Rightarrow> string \<Rightarrow> gval"
  cl_Get :: "'file viper \<Rightarrow> string \<Rightarrow> gval"
  cl_UnmarshalExact :: "'file viper \<Rightarrow> sentinel_config \<Rightarrow> go_error + sentinel_config"

record cli_flag =
  fl_Changed :: bool
  fl_Value :: string

definition env_name :: "string \<Rightarrow> string" where
  "env_name envSuffix = EnvPrefix @ ''_'' @ envSuffix"

text \<open>The loop that binds the environment variables, in one order of the map.\<close>

fun bind_env :: "'file config_libs \<Rightarrow> string gmap \<Rightarrow> 'file viper \<Rightarrow> go_error + 'file viper" where
  "bind_env lib [] v = Inr v"
| "bind_env lib ((configPath, envSuffix) # mappings) v =
     (case cl_BindEnv lib configPath (env_name envSuffix) of
        Some err \<Rightarrow> Inl (ErrWrap (''failed to bind env var '' @ env_name envSuffix) err)
      | None \<Rightarrow>
          bind_env lib mappings
            (v\<lparr>vp_env := gmap_put configPath (env_name envSuffix) (vp_env v)\<rparr>))"

text \<open>The loop that sets the changed flags.\<close>

fun set_flags :: "cli_flag gmap \<Rightarrow> string gmap \<Rightarrow> 'file viper \<Rightarrow> 'file viper" where
  "set_flags flags [] v = v"
| "set_flags flags ((flagName, configPath) # mappings) v =
     set_flags flags mappings
       (case gmap_get flags flagName of
          Some flag \<Rightarrow>
            if fl_Changed flag then v\<lparr>vp_override := gmap_put configPath (fl_Value flag) (vp_override v)\<rparr>
            else v
        | None \<Rightarrow> v)"

section \<open>Loading\<close>

definition config_path :: "'file config_libs \<Rightarrow> string \<Rightarrow> string" where
  "config_path lib configFile =
     (if configFile = [] then
        let env = cl_Getenv lib ''HYPERFLEET_CONFIG''
        in if env \<noteq> [] then env else defaultConfigFile
      else configFile)"

definition raw_message_data_error :: "gval \<Rightarrow> go_error option" where
  "raw_message_data_error raw =
     (case raw of
        GMap rawMD \<Rightarrow> validateMessageDataLeaves rawMD ''message_data''
      | _ \<Rightarrow> None)"

definition loaded_text :: "sentinel_config \<Rightarrow> string" where
  "loaded_text cfg =
     ''Configuration loaded successfully: name='' @ si_Name (sc_Sentinel cfg) @
     '' resource_type='' @ sc_ResourceType cfg"

text \<open>The result, and the lines logged at the info level.\<close>

definition LoadConfig ::
    "'file config_libs \<Rightarrow> string \<Rightarrow> cli_flag gmap option \<Rightarrow> (go_error + sentinel_config) \<times> string list" where
  "LoadConfig lib configFile_arg flags =
     (let cfg = NewSentinelConfig;
          configFile = config_path lib configFile_arg;
          logs = [''Loading configuration from '' @ configFile];
          v = \<lparr>vp_config = None, vp_env = [], vp_override = []\<rparr>
      in case cl_ReadInConfig lib configFile of
           Inl err \<Rightarrow> (Inl (ErrWrap ''failed to read config file'' err), logs)
         | Inr content \<Rightarrow>
             (case bind_env lib viperKeyMappings (v\<lparr>vp_config := Some content\<rparr>) of
                Inl err \<Rightarrow> (Inl err, logs)
              | Inr v \<Rightarrow>
                  (let v = (case flags of None \<Rightarrow> v | Some flags \<Rightarrow> set_flags flags cliFlags v)
                   in case cl_UnmarshalExact lib v cfg of
                        Inl err \<Rightarrow> (Inl (ErrWrap ''failed to unmarshal config'' err), logs)
                      | Inr cfg \<Rightarrow>
                          (case raw_message_data_error (cl_Get lib v ''message_data'') of
                             Some err \<Rightarrow> (Inl (ErrWrap ''invalid config'' err), logs)
                           | None \<Rightarrow>
                               (let cfg = (if sc_MessageDecision cfg = None
                                           then cfg\<lparr>sc_MessageDecision := Some DefaultMessageDecision\<rparr>
                                           else cfg)
                                in case Validate cfg of
                                     Some err \<Rightarrow> (Inl (ErrWrap ''invalid config'' err), logs)
                                   | None \<Rightarrow> (Inr cfg, logs @ [loaded_text cfg]))))))"

section \<open>What viper documents\<close>

text \<open>The value viper answers for a path: an explicit setting, then a variable that is set, then the file.\<close>

definition effective :: "'file config_libs \<Rightarrow> 'file viper \<Rightarrow> string \<Rightarrow> gval" where
  "effective lib v path =
     (let in_file = (case vp_config v of None \<Rightarrow> GNil | Some content \<Rightarrow> cl_Find lib content path)
      in case gmap_get (vp_override v) path of
           Some s \<Rightarrow> GStr s
         | None \<Rightarrow>
             (case gmap_get (vp_env v) path of
                Some name \<Rightarrow> if cl_Getenv lib name \<noteq> [] then GStr (cl_Getenv lib name) else in_file
              | None \<Rightarrow> in_file))"

text \<open>The scalar settings and where the configuration keeps them.\<close>

definition api_field :: "(api_config \<Rightarrow> gval) \<Rightarrow> sentinel_config \<Rightarrow> gval" where
  "api_field f cfg = (case cc_HyperFleetAPI (sc_Clients cfg) of None \<Rightarrow> GNil | Some api \<Rightarrow> f api)"

definition config_fields :: "(string \<times> (sentinel_config \<Rightarrow> gval)) list" where
  "config_fields =
    [(''debug_config'', \<lambda>c. GBool (sc_DebugConfig c)),
     (''sentinel::name'', \<lambda>c. GStr (si_Name (sc_Sentinel c))),
     (''log::level'', \<lambda>c. GStr (lc_Level (sc_Log c))),
     (''log::format'', \<lambda>c. GStr (lc_Format (sc_Log c))),
     (''log::output'', \<lambda>c. GStr (lc_Output (sc_Log c))),
     (''resource_type'', \<lambda>c. GStr (sc_ResourceType c)),
     (''poll_interval'', \<lambda>c. GDuration (sc_PollInterval c)),
     (''tracing_enabled'', \<lambda>c. GBool (sc_TracingEnabled c)),
     (''clients::hyperfleet_api::base_url'', api_field (\<lambda>a. GStr (ac_BaseURL a))),
     (''clients::hyperfleet_api::version'', api_field (\<lambda>a. GStr (ac_Version a))),
     (''clients::hyperfleet_api::timeout'', api_field (\<lambda>a. GDuration (ac_Timeout a))),
     (''clients::broker::topic'',
      \<lambda>c. case cc_Broker (sc_Clients c) of None \<Rightarrow> GNil | Some b \<Rightarrow> GStr (bc_Topic b))]"

definition string_paths :: "string list" where
  "string_paths =
    [''sentinel::name'', ''log::level'', ''log::format'', ''log::output'', ''resource_type'',
     ''clients::hyperfleet_api::base_url'', ''clients::hyperfleet_api::version'', ''clients::broker::topic'']"

text \<open>
  What the documentation of viper and mapstructure says of the calls the code makes: \<open>Get\<close>
  answers by precedence; a successful decoding stores the decoded value of every setting
  that has one and leaves a setting without a value as it was; the sections that hold
  pointers may be emptied by the file and are only claimed when their setting has a
  value. \<open>decode\<close> is how a raw value of a path is decoded; text is text.
\<close>

definition viper_documented :: "(string \<Rightarrow> gval \<Rightarrow> gval) \<Rightarrow> 'file config_libs \<Rightarrow> bool" where
  "viper_documented decode lib \<longleftrightarrow>
     (\<forall>v path. cl_Get lib v path = effective lib v path) \<and>
     (\<forall>path \<in> set string_paths. \<forall>s. decode path (GStr s) = GStr s) \<and>
     (\<forall>v cfg cfg'. cl_UnmarshalExact lib v cfg = Inr cfg' \<longrightarrow>
        (\<forall>(path, field) \<in> set config_fields.
           (effective lib v path \<noteq> GNil \<longrightarrow> field cfg' = decode path (effective lib v path)) \<and>
           (effective lib v path = GNil \<and> take 9 path \<noteq> ''clients::'' \<longrightarrow> field cfg' = field cfg)))"

text \<open>
  The three settings that are not scalars, decoded by the \<open>mapstructure\<close> tags of their structs:
  \<open>LabelSelector\<close>, \<open>Param\<close> and \<open>MessageDecisionConfig\<close>. A key that is missing leaves the zero value.
\<close>

definition section_paths :: "string list" where
  "section_paths = [''message_data'', ''message_decision'', ''resource_selector'']"

definition text_at :: "gval \<Rightarrow> string \<Rightarrow> string" where
  "text_at v key =
     (case v of GMap m \<Rightarrow> (case gmap_get m key of Some (GStr s) \<Rightarrow> s | _ \<Rightarrow> []) | _ \<Rightarrow> [])"

definition items_at :: "gval \<Rightarrow> string \<Rightarrow> gval list" where
  "items_at v key =
     (case v of GMap m \<Rightarrow> (case gmap_get m key of Some (GList vs) \<Rightarrow> vs | _ \<Rightarrow> []) | _ \<Rightarrow> [])"

definition read_selector :: "gval \<Rightarrow> label_selector" where
  "read_selector v = \<lparr>ls_Label = text_at v ''label'', ls_Value = text_at v ''value''\<rparr>"

definition read_param :: "gval \<Rightarrow> param" where
  "read_param v = \<lparr>p_Name = text_at v ''name'', p_Expr = text_at v ''expr''\<rparr>"

definition read_decision :: "gval \<Rightarrow> message_decision_config" where
  "read_decision v = \<lparr>md_Result = text_at v ''result'', md_Params = map read_param (items_at v ''params'')\<rparr>"

text \<open>A map from the given keys to texts.\<close>

definition has_texts :: "string list \<Rightarrow> gval \<Rightarrow> bool" where
  "has_texts keys v \<longleftrightarrow>
     (\<exists>m. v = GMap m \<and> (\<forall>kv \<in> set m. fst kv \<in> set keys \<and> (\<exists>s. snd kv = GStr s)))"

definition has_decision :: "gval \<Rightarrow> bool" where
  "has_decision v \<longleftrightarrow>
     (\<exists>m. v = GMap m \<and> (\<forall>kv \<in> set m.
        fst kv = ''result'' \<and> (\<exists>s. snd kv = GStr s) \<or>
        fst kv = ''params'' \<and> (\<exists>ps. snd kv = GList ps \<and> list_all (has_texts [''name'', ''expr'']) ps)))"

text \<open>
  What mapstructure documents of these: a section without a value keeps the field; a list of maps
  becomes the list of structs; a map becomes the struct behind a new pointer; and a tree without
  blank leaves, decoded into a map of \<open>interface{}\<close> values, is itself.
\<close>

definition sections_documented :: "'file config_libs \<Rightarrow> bool" where
  "sections_documented lib \<longleftrightarrow>
     (\<forall>v cfg cfg'. cl_UnmarshalExact lib v cfg = Inr cfg' \<longrightarrow>
        (effective lib v ''resource_selector'' = GNil \<longrightarrow> sc_ResourceSelector cfg' = sc_ResourceSelector cfg) \<and>
        (\<forall>vs. effective lib v ''resource_selector'' = GList vs \<and> list_all (has_texts [''label'', ''value'']) vs \<longrightarrow>
           sc_ResourceSelector cfg' = map read_selector vs) \<and>
        (has_decision (effective lib v ''message_decision'') \<longrightarrow>
           sc_MessageDecision cfg' = Some (read_decision (effective lib v ''message_decision''))) \<and>
        (\<forall>m. effective lib v ''message_data'' = GMap m \<and> leaf_ok (GMap m) \<longrightarrow> sc_MessageData cfg' = Some m) \<and>
        (effective lib v ''message_data'' = GNil \<longrightarrow> sc_MessageData cfg' = sc_MessageData cfg))"

section \<open>What the two loops leave in viper\<close>

lemma bind_env_Inr:
  "bind_env lib ms v = Inr v' \<Longrightarrow>
     v' = v\<lparr>vp_env := foldl (\<lambda>m kv. gmap_put (fst kv) (env_name (snd kv)) m) (vp_env v) ms\<rparr>"
proof (induction ms arbitrary: v)
  case Nil
  then show ?case by simp
next
  case (Cons m ms)
  obtain path suffix where m: "m = (path, suffix)" by force
  from Cons.prems have "bind_env lib ms (v\<lparr>vp_env := gmap_put path (env_name suffix) (vp_env v)\<rparr>) = Inr v'"
    by (simp add: m split: option.splits)
  from Cons.IH [OF this] show ?case by (simp add: m)
qed

lemma set_flags_frame:
  "vp_config (set_flags flags ms v) = vp_config v" "vp_env (set_flags flags ms v) = vp_env v"
  by (induction flags ms v rule: set_flags.induct) (auto split: option.split)

definition changed_value :: "cli_flag gmap \<Rightarrow> string \<Rightarrow> string option" where
  "changed_value flags name =
     (case gmap_get flags name of Some flag \<Rightarrow> if fl_Changed flag then Some (fl_Value flag) else None | None \<Rightarrow> None)"

lemma set_flags_other:
  "path \<notin> snd ` set ms \<Longrightarrow> gmap_get (vp_override (set_flags flags ms v)) path = gmap_get (vp_override v) path"
  by (induction flags ms v rule: set_flags.induct) (auto simp: gm.get_put split: option.split)

lemma set_flags_get:
  assumes "distinct (map snd ms)" and "(name, path) \<in> set ms"
  shows "gmap_get (vp_override (set_flags flags ms v)) path =
     (case changed_value flags name of Some s \<Rightarrow> Some s | None \<Rightarrow> gmap_get (vp_override v) path)"
  using assms
proof (induction flags ms v rule: set_flags.induct)
  case (1 flags v)
  then show ?case by simp
next
  case (2 flags name' path' ms v)
  show ?case
  proof (cases "path' = path")
    case True
    with "2.prems" have new: "path \<notin> snd ` set ms" by simp
    moreover have "(name, path) \<notin> set ms"
      using new by (metis image_eqI snd_conv)
    ultimately have "name' = name" using "2.prems" by simp
    with True new show ?thesis
      by (simp add: set_flags_other changed_value_def gm.get_put split: option.split)
  next
    case False
    with "2.prems" have "(name, path) \<in> set ms" "distinct (map snd ms)" by auto
    from "2.IH" [OF this(2,1)] False show ?thesis
      by (simp add: gm.get_put split: option.split)
  qed
qed

section \<open>Precedence\<close>

text \<open>The settings as they are documented to users: flag, variable and path in the file.\<close>

definition documented_settings :: "(string \<times> string \<times> string) list" where
  "documented_settings =
    [(''debug-config'', ''HYPERFLEET_DEBUG_CONFIG'', ''debug_config''),
     (''name'', ''HYPERFLEET_SENTINEL_NAME'', ''sentinel::name''),
     (''log-level'', ''HYPERFLEET_LOG_LEVEL'', ''log::level''),
     (''log-format'', ''HYPERFLEET_LOG_FORMAT'', ''log::format''),
     (''log-output'', ''HYPERFLEET_LOG_OUTPUT'', ''log::output''),
     (''hyperfleet-api-base-url'', ''HYPERFLEET_API_BASE_URL'', ''clients::hyperfleet_api::base_url''),
     (''hyperfleet-api-version'', ''HYPERFLEET_API_VERSION'', ''clients::hyperfleet_api::version''),
     (''hyperfleet-api-timeout'', ''HYPERFLEET_API_TIMEOUT'', ''clients::hyperfleet_api::timeout''),
     (''broker-topic'', ''HYPERFLEET_BROKER_TOPIC'', ''clients::broker::topic''),
     (''resource-type'', ''HYPERFLEET_RESOURCE_TYPE'', ''resource_type''),
     (''poll-interval'', ''HYPERFLEET_POLL_INTERVAL'', ''poll_interval''),
     (''tracing-enabled'', ''HYPERFLEET_TRACING_ENABLED'', ''tracing_enabled'')]"

definition flag_value :: "cli_flag gmap option \<Rightarrow> string \<Rightarrow> string option" where
  "flag_value flags name = (case flags of None \<Rightarrow> None | Some flags \<Rightarrow> changed_value flags name)"

text \<open>Flag, then variable, then file; \<open>GNil\<close> when none of them says anything.\<close>

definition wanted_value ::
    "'file config_libs \<Rightarrow> 'file \<Rightarrow> cli_flag gmap option \<Rightarrow> string \<times> string \<times> string \<Rightarrow> gval" where
  "wanted_value lib content flags setting =
     (let (name, env, path) = setting in
      case flag_value flags name of
        Some s \<Rightarrow> GStr s
      | None \<Rightarrow> if cl_Getenv lib env \<noteq> [] then GStr (cl_Getenv lib env) else cl_Find lib content path)"

lemma tables_agree:
  "list_all (\<lambda>(name, env, path). (name, path) \<in> set cliFlags \<and>
     find (\<lambda>kv. fst kv = path) (rev viperKeyMappings) =
       Some (path, drop 11 env) \<and>
     env_name (drop 11 env) = env) documented_settings"
  by code_simp

lemma cliFlags_distinct: "distinct (map snd cliFlags)"
  by code_simp

text \<open>What viper holds when the configuration is decoded, and what follows of a load that succeeds.\<close>

definition bound_env :: "string gmap" where
  "bound_env = foldl (\<lambda>m kv. gmap_put (fst kv) (env_name (snd kv)) m) [] viperKeyMappings"

definition loaded_viper :: "'file \<Rightarrow> cli_flag gmap option \<Rightarrow> 'file viper" where
  "loaded_viper content flags =
     (let v = \<lparr>vp_config = Some content,
               vp_env = bound_env,
               vp_override = []\<rparr>
      in case flags of None \<Rightarrow> v | Some flags \<Rightarrow> set_flags flags cliFlags v)"

lemma LoadConfig_Inr:
  assumes "LoadConfig lib file flags = (Inr cfg, logs)"
  obtains content cfg0 where
    "cl_ReadInConfig lib (config_path lib file) = Inr content"
    "cl_UnmarshalExact lib (loaded_viper content flags) NewSentinelConfig = Inr cfg0"
    "raw_message_data_error (cl_Get lib (loaded_viper content flags) ''message_data'') = None"
    "cfg = (if sc_MessageDecision cfg0 = None then cfg0\<lparr>sc_MessageDecision := Some DefaultMessageDecision\<rparr> else cfg0)"
    "Validate cfg = None"
proof -
  from assms obtain content v where
    read: "cl_ReadInConfig lib (config_path lib file) = Inr content" and
    bind: "bind_env lib viperKeyMappings \<lparr>vp_config = Some content, vp_env = [], vp_override = []\<rparr> = Inr v"
    by (auto simp: LoadConfig_def Let_def split: sum.splits)
  from bind_env_Inr [OF bind] have
    v: "(case flags of None \<Rightarrow> v | Some flags \<Rightarrow> set_flags flags cliFlags v) = loaded_viper content flags"
    by (cases flags) (simp_all add: loaded_viper_def bound_env_def Let_def)
  from assms read bind obtain cfg0 where
    "cl_UnmarshalExact lib (loaded_viper content flags) NewSentinelConfig = Inr cfg0"
    "raw_message_data_error (cl_Get lib (loaded_viper content flags) ''message_data'') = None"
    "cfg = (if sc_MessageDecision cfg0 = None then cfg0\<lparr>sc_MessageDecision := Some DefaultMessageDecision\<rparr> else cfg0)"
    "Validate cfg = None"
    by (auto simp: LoadConfig_def Let_def v split: sum.splits option.splits if_splits)
  with read that show ?thesis by blast
qed

lemma effective_wanted:
  assumes "setting \<in> set documented_settings"
  shows "effective lib (loaded_viper content flags) (snd (snd setting)) = wanted_value lib content flags setting"
proof -
  obtain name env path where st: "setting = (name, env, path)" by (cases setting)
  have t: "(name, path) \<in> set cliFlags"
    "find (\<lambda>kv. fst kv = path) (rev viperKeyMappings) = Some (path, drop 11 env)"
    "env_name (drop 11 env) = env"
    using tables_agree assms unfolding st list_all_iff by blast+
  have e: "gmap_get bound_env path = Some env"
    unfolding bound_env_def gm.get_fold_put t(2) using t(3) by simp
  show ?thesis
  proof (cases flags)
    case None
    then show ?thesis
      by (simp add: effective_def loaded_viper_def wanted_value_def flag_value_def st e Let_def)
  next
    case (Some fs)
    show ?thesis
      unfolding effective_def loaded_viper_def wanted_value_def flag_value_def st Some
      by (simp add: set_flags_get [OF cliFlags_distinct t(1)] set_flags_frame e Let_def split: option.split)
  qed
qed

lemma section_unbound:
  "list_all (\<lambda>path. gmap_get bound_env path = None \<and> path \<notin> set (map snd cliFlags)) section_paths"
  by code_simp

lemma effective_section:
  assumes "path \<in> set section_paths"
  shows "effective lib (loaded_viper content flags) path = cl_Find lib content path"
proof -
  from section_unbound assms have free: "gmap_get bound_env path = None" "path \<notin> snd ` set cliFlags"
    by (auto simp: list_all_iff)
  have "gmap_get (vp_override (loaded_viper content flags)) path = None"
    using free(2) by (cases flags) (simp_all add: loaded_viper_def set_flags_other Let_def)
  moreover have "gmap_get (vp_env (loaded_viper content flags)) path = None"
    using free(1) by (cases flags) (simp_all add: loaded_viper_def set_flags_frame Let_def)
  moreover have "vp_config (loaded_viper content flags) = Some content"
    by (simp add: loaded_viper_def set_flags_frame Let_def split: option.split)
  ultimately show ?thesis by (simp add: effective_def)
qed

lemma field_decision_free:
  "(path, field) \<in> set config_fields \<Longrightarrow> field (cfg\<lparr>sc_MessageDecision := md\<rparr>) = field cfg"
  by (auto simp: config_fields_def api_field_def)

lemma loaded_setting:
  assumes "viper_documented decode lib"
    and "LoadConfig lib file flags = (Inr cfg, logs)"
    and "setting \<in> set documented_settings" and "(snd (snd setting), field) \<in> set config_fields"
  shows "\<exists>content. cl_ReadInConfig lib (config_path lib file) = Inr content \<and>
     (wanted_value lib content flags setting \<noteq> GNil \<longrightarrow>
        field cfg = decode (snd (snd setting)) (wanted_value lib content flags setting)) \<and>
     (wanted_value lib content flags setting = GNil \<and> take 9 (snd (snd setting)) \<noteq> ''clients::'' \<longrightarrow>
        field cfg = field NewSentinelConfig)"
proof -
  from assms(2) obtain content cfg0 where
    l: "cl_ReadInConfig lib (config_path lib file) = Inr content"
       "cl_UnmarshalExact lib (loaded_viper content flags) NewSentinelConfig = Inr cfg0"
       "cfg = (if sc_MessageDecision cfg0 = None then cfg0\<lparr>sc_MessageDecision := Some DefaultMessageDecision\<rparr> else cfg0)"
    by (rule LoadConfig_Inr)
  have "field cfg = field cfg0"
    using l(3) field_decision_free [OF assms(4)] by simp
  with assms(1,4) l(1,2) effective_wanted [OF assms(3), of lib content flags] show ?thesis
    unfolding viper_documented_def by fastforce
qed

text \<open>
  C8: Settings follow the documented precedence. For each of the twelve documented settings, a
  configuration that loads has the decoded value of the command-line flag when the flag was
  given; else of the environment variable when it is not empty; else of the file when the
  file has the setting; else the built-in default. So no flag and no variable is bound to the
  wrong setting. (The default is claimed outside the sections a file can empty.)
\<close>

theorem settings_precedence:
  assumes "viper_documented decode lib"
    and "LoadConfig lib file flags = (Inr cfg, logs)"
    and "setting \<in> set documented_settings" and "(snd (snd setting), field) \<in> set config_fields"
  shows "\<exists>content. cl_ReadInConfig lib (config_path lib file) = Inr content \<and>
     (wanted_value lib content flags setting \<noteq> GNil \<longrightarrow>
        field cfg = decode (snd (snd setting)) (wanted_value lib content flags setting)) \<and>
     (wanted_value lib content flags setting = GNil \<and> take 9 (snd (snd setting)) \<noteq> ''clients::'' \<longrightarrow>
        field cfg = field NewSentinelConfig)"
  using assms by (rule loaded_setting)

section \<open>What a loaded configuration guarantees\<close>

text \<open>
  C18: A configuration that loads is valid, whatever viper does: it has a name, a known resource
  type, an API address, a positive poll interval, and a message decision whose parameters are
  named, non-empty and distinct (the built-in one when none is configured), and a
  \<open>message_data\<close> tree without empty leaves.
\<close>

theorem loaded_config_valid:
  assumes "LoadConfig lib file flags = (Inr cfg, logs)"
  shows "config_ok cfg"
  using assms by (elim LoadConfig_Inr) (simp add: validate_iff_config_ok)

text \<open>
  C25: A blank field is never lost. When the raw \<open>message_data\<close> of the file has a nil or an empty
  leaf at any depth, loading fails, even though the decoded tree may have dropped the leaf.
\<close>

theorem blank_leaf_refused:
  assumes "viper_documented decode lib"
    and "cl_ReadInConfig lib (config_path lib file) = Inr content"
    and "cl_Find lib content ''message_data'' = GMap raw" and "\<not> leaf_ok (GMap raw)"
  shows "isl (fst (LoadConfig lib file flags))"
proof (rule ccontr)
  assume "\<not> isl (fst (LoadConfig lib file flags))"
  then obtain cfg logs where "LoadConfig lib file flags = (Inr cfg, logs)"
    by (metis prod.collapse sum.collapse(2))
  then obtain content' where c: "cl_ReadInConfig lib (config_path lib file) = Inr content'"
    "raw_message_data_error (cl_Get lib (loaded_viper content' flags) ''message_data'') = None"
    by (rule LoadConfig_Inr)
  have "effective lib (loaded_viper content flags) ''message_data'' = GMap raw"
    using assms(3) by (simp add: effective_section section_paths_def)
  with assms(1,2) c have "raw_message_data_error (GMap raw) = None"
    by (simp add: viper_documented_def)
  with assms(4) show False
    by (simp add: raw_message_data_error_def validateMessageDataLeaves_iff del: leaf_ok.simps)
qed

section \<open>Instances\<close>

text \<open>A library whose files are their settings; durations read as ten seconds when they say so, else as five.\<close>

definition text_of :: "gval \<Rightarrow> string" where
  "text_of v = (case v of GStr s \<Rightarrow> s | _ \<Rightarrow> ''0'')"

definition sample_decode :: "string \<Rightarrow> gval \<Rightarrow> gval" where
  "sample_decode path raw =
     (if path = ''debug_config'' \<or> path = ''tracing_enabled'' then GBool (raw \<in> {GStr ''true'', GBool True})
      else if path = ''poll_interval'' \<or> path = ''clients::hyperfleet_api::timeout''
      then GDuration (if raw = GStr ''10s'' then 10 * second else 5 * second)
      else GStr (text_of raw))"

definition text_or :: "gval \<Rightarrow> string \<Rightarrow> string" where
  "text_or v old = (if v = GNil then old else text_of v)"

definition duration_or :: "gval \<Rightarrow> duration \<Rightarrow> duration" where
  "duration_or v old = (if v = GNil then old else if v = GStr ''10s'' then 10 * second else 5 * second)"

definition bool_or :: "gval \<Rightarrow> bool \<Rightarrow> bool" where
  "bool_or v old = (if v = GNil then old else v \<in> {GStr ''true'', GBool True})"

definition sample_unmarshal :: "(string \<Rightarrow> gval) \<Rightarrow> sentinel_config \<Rightarrow> sentinel_config" where
  "sample_unmarshal value c =
     (let api = (case cc_HyperFleetAPI (sc_Clients c) of Some a \<Rightarrow> a
                 | None \<Rightarrow> \<lparr>ac_BaseURL = [], ac_Version = [], ac_Timeout = 0\<rparr>);
          broker = (case cc_Broker (sc_Clients c) of Some b \<Rightarrow> b | None \<Rightarrow> \<lparr>bc_Topic = []\<rparr>)
      in c\<lparr>sc_DebugConfig := bool_or (value ''debug_config'') (sc_DebugConfig c),
           sc_TracingEnabled := bool_or (value ''tracing_enabled'') (sc_TracingEnabled c),
           sc_Sentinel := \<lparr>si_Name = text_or (value ''sentinel::name'') (si_Name (sc_Sentinel c))\<rparr>,
           sc_Log := \<lparr>lc_Level = text_or (value ''log::level'') (lc_Level (sc_Log c)),
                      lc_Format = text_or (value ''log::format'') (lc_Format (sc_Log c)),
                      lc_Output = text_or (value ''log::output'') (lc_Output (sc_Log c))\<rparr>,
           sc_ResourceType := text_or (value ''resource_type'') (sc_ResourceType c),
           sc_PollInterval := duration_or (value ''poll_interval'') (sc_PollInterval c),
           sc_Clients :=
             \<lparr>cc_HyperFleetAPI =
                Some \<lparr>ac_BaseURL = text_or (value ''clients::hyperfleet_api::base_url'') (ac_BaseURL api),
                      ac_Version = text_or (value ''clients::hyperfleet_api::version'') (ac_Version api),
                      ac_Timeout = duration_or (value ''clients::hyperfleet_api::timeout'') (ac_Timeout api)\<rparr>,
              cc_Broker = Some \<lparr>bc_Topic = text_or (value ''clients::broker::topic'') (bc_Topic broker)\<rparr>\<rparr>,
           sc_MessageData := (case value ''message_data'' of GMap m \<Rightarrow> Some m | _ \<Rightarrow> sc_MessageData c),
           sc_MessageDecision :=
             (case value ''message_decision'' of GMap m \<Rightarrow> Some (read_decision (GMap m)) | _ \<Rightarrow> sc_MessageDecision c),
           sc_ResourceSelector :=
             (case value ''resource_selector'' of GList vs \<Rightarrow> map read_selector vs | _ \<Rightarrow> sc_ResourceSelector c)\<rparr>)"

definition sample_base :: "gval gmap \<Rightarrow> gval gmap config_libs" where
  "sample_base content =
     \<lparr>cl_Getenv = \<lambda>n. if n = ''HYPERFLEET_RESOURCE_TYPE'' then ''nodepools''
                      else if n = ''HYPERFLEET_LOG_LEVEL'' then ''warn'' else [],
      cl_ReadInConfig = \<lambda>_. Inr content, cl_BindEnv = \<lambda>_ _. None,
      cl_Find = \<lambda>content path. (case gmap_get content path of None \<Rightarrow> GNil | Some v \<Rightarrow> v),
      cl_Get = \<lambda>_ _. GNil, cl_UnmarshalExact = \<lambda>_ _. Inl (ErrText [])\<rparr>"

definition libs_over :: "gval gmap config_libs \<Rightarrow> gval gmap config_libs" where
  "libs_over base =
     base\<lparr>cl_Get := effective base,
          cl_UnmarshalExact := \<lambda>v cfg. Inr (sample_unmarshal (effective base v) cfg)\<rparr>"

definition sample_config_libs :: "gval gmap \<Rightarrow> gval gmap config_libs" where
  "sample_config_libs content = libs_over (sample_base content)"

lemma effective_over: "effective (libs_over base) = effective base"
proof -
  have "cl_Find (libs_over base) = cl_Find base" "cl_Getenv (libs_over base) = cl_Getenv base"
    by (simp_all add: libs_over_def)
  then show ?thesis by (intro ext) (simp only: effective_def)
qed

lemma sample_unmarshal_fields:
  assumes "(path, field) \<in> set config_fields"
  shows "(value path \<noteq> GNil \<longrightarrow> field (sample_unmarshal value c) = sample_decode path (value path)) \<and>
    (value path = GNil \<and> take 9 path \<noteq> ''clients::'' \<longrightarrow> field (sample_unmarshal value c) = field c)"
  using assms unfolding config_fields_def list.set insert_iff empty_iff prod.inject
  by (elim disjE conjE FalseE; hypsubst;
      simp add: sample_unmarshal_def Let_def sample_decode_def api_field_def text_or_def duration_or_def bool_or_def)

lemma over_documented: "viper_documented sample_decode (libs_over base)"
proof -
  have "cl_Get (libs_over base) v path = effective (libs_over base) v path" for v path
    unfolding effective_over by (simp add: libs_over_def)
  moreover have "sample_decode path (GStr s) = GStr s" if "path \<in> set string_paths" for path s
    using that by (auto simp: string_paths_def sample_decode_def text_of_def)
  moreover have "\<forall>(path, field) \<in> set config_fields.
      (effective (libs_over base) v path \<noteq> GNil \<longrightarrow>
         field cfg' = sample_decode path (effective (libs_over base) v path)) \<and>
      (effective (libs_over base) v path = GNil \<and> take 9 path \<noteq> ''clients::'' \<longrightarrow> field cfg' = field cfg)"
    if "cl_UnmarshalExact (libs_over base) v cfg = Inr cfg'" for v cfg cfg'
  proof -
    from that have "cfg' = sample_unmarshal (effective (libs_over base) v) cfg"
      unfolding effective_over by (simp add: libs_over_def)
    then show ?thesis
      by (simp only: case_prod_unfold) (intro ballI sample_unmarshal_fields, simp)
  qed
  ultimately show ?thesis
    unfolding viper_documented_def by (simp only:) blast
qed

lemma over_sections: "sections_documented (libs_over base)"
proof -
  have "cfg' = sample_unmarshal (effective (libs_over base) v) cfg"
    if "cl_UnmarshalExact (libs_over base) v cfg = Inr cfg'" for v cfg cfg'
    using that unfolding effective_over by (simp add: libs_over_def)
  then show ?thesis
    unfolding sections_documented_def has_decision_def
    by (intro allI impI conjI) (fastforce simp: sample_unmarshal_def Let_def)+
qed

lemma sample_documented: "viper_documented sample_decode (sample_config_libs content)"
  by (simp add: sample_config_libs_def over_documented)

definition sample_file :: "gval gmap" where
  "sample_file =
     [(''resource_type'', GStr ''pods''), (''log::level'', GStr ''error''),
      (''clients::hyperfleet_api::base_url'', GStr ''http://api''),
      (''resource_selector'', GList [GMap [(''label'', GStr ''shard''), (''value'', GStr ''1'')]]),
      (''message_data'', GMap [(''id'', GStr ''resource.id'')])]"

definition sample_flags :: "cli_flag gmap" where
  "sample_flags =
     [(''log-level'', \<lparr>fl_Changed = True, fl_Value = ''debug''\<rparr>),
      (''log-format'', \<lparr>fl_Changed = False, fl_Value = ''text''\<rparr>)]"

definition sample_loaded :: sentinel_config where
  "sample_loaded =
     (sample_unmarshal (effective (sample_base sample_file) (loaded_viper sample_file (Some sample_flags)))
        NewSentinelConfig)\<lparr>sc_MessageDecision := Some DefaultMessageDecision\<rparr>"

lemma sample_load:
  "LoadConfig (sample_config_libs sample_file) [] (Some sample_flags) =
     (Inr sample_loaded, [''Loading configuration from /etc/hyperfleet/config.yaml'', loaded_text sample_loaded])"
  by code_simp

theorem settings_precedence_witness:
  "sc_ResourceType sample_loaded = ''nodepools'' \<and> lc_Level (sc_Log sample_loaded) = ''debug'' \<and>
   lc_Format (sc_Log sample_loaded) = ''json''"
proof -
  let ?goal = "\<lambda>setting field. \<exists>content. cl_ReadInConfig (sample_config_libs sample_file) (config_path (sample_config_libs sample_file) []) = Inr content \<and>
     (wanted_value (sample_config_libs sample_file) content (Some sample_flags) setting \<noteq> GNil \<longrightarrow>
        field sample_loaded = sample_decode (snd (snd setting)) (wanted_value (sample_config_libs sample_file) content (Some sample_flags) setting)) \<and>
     (wanted_value (sample_config_libs sample_file) content (Some sample_flags) setting = GNil \<and> take 9 (snd (snd setting)) \<noteq> ''clients::'' \<longrightarrow>
        field sample_loaded = field NewSentinelConfig)"
  have g: "?goal setting field"
    if "setting \<in> set documented_settings" "(snd (snd setting), field) \<in> set config_fields" for setting field
    by (rule settings_precedence [OF sample_documented sample_load that])
  have "cl_ReadInConfig (sample_config_libs sample_file) x = Inr sample_file" for x
    by (simp add: sample_config_libs_def libs_over_def sample_base_def)
  moreover have
    "wanted_value (sample_config_libs sample_file) sample_file (Some sample_flags) (''resource-type'', ''HYPERFLEET_RESOURCE_TYPE'', ''resource_type'') = GStr ''nodepools''"
    "wanted_value (sample_config_libs sample_file) sample_file (Some sample_flags) (''log-level'', ''HYPERFLEET_LOG_LEVEL'', ''log::level'') = GStr ''debug''"
    "wanted_value (sample_config_libs sample_file) sample_file (Some sample_flags) (''log-format'', ''HYPERFLEET_LOG_FORMAT'', ''log::format'') = GNil"
    by code_simp+
  ultimately show ?thesis
    using g [of "(''resource-type'', ''HYPERFLEET_RESOURCE_TYPE'', ''resource_type'')" "\<lambda>c. GStr (sc_ResourceType c)"]
      g [of "(''log-level'', ''HYPERFLEET_LOG_LEVEL'', ''log::level'')" "\<lambda>c. GStr (lc_Level (sc_Log c))"]
      g [of "(''log-format'', ''HYPERFLEET_LOG_FORMAT'', ''log::format'')" "\<lambda>c. GStr (lc_Format (sc_Log c))"]
    by (simp add: documented_settings_def config_fields_def sample_decode_def text_of_def NewSentinelConfig_def)
qed

theorem loaded_config_valid_witness: "config_ok sample_loaded"
  by (rule loaded_config_valid [OF sample_load])

theorem blank_leaf_refused_witness:
  "isl (fst (LoadConfig (sample_config_libs [(''message_data'', GMap [(''id'', GNil)])]) ''f'' None))"
  by (rule blank_leaf_refused [OF sample_documented, where content = "[(''message_data'', GMap [(''id'', GNil)])]"
        and raw = "[(''id'', GNil)]"])
    (simp_all add: sample_config_libs_def libs_over_def sample_base_def gmap_get_Cons)

end
