(* ===== verification/Publisher.thy ===== *)
theory Publisher
  imports World
begin

text \<open>
  The publisher of the development set-up (\<open>internal/publisher/publisher.go\<close>), which prints every
  event instead of sending it, and the contract it shares with the broker of the polling
  loop: a call that succeeds has delivered the event, once; a call that fails has not.
\<close>

section \<open>The mock publisher\<close>

record mock_publisher =
  mp_brokerType :: string

definition NewMockPublisher :: mock_publisher where
  "NewMockPublisher = \<lparr>mp_brokerType = ''mock''\<rparr>"

definition mock_line :: "string \<Rightarrow> string \<Rightarrow> string" where
  "mock_line topic data = ''[MOCK PUBLISH] topic='' @ topic @ '' event='' @ data @ [CHR 0x0A]"

text \<open>\<open>marshal\<close> is \<open>json.MarshalIndent\<close> of an event; the state is what was printed, line by line.\<close>

definition mock_Publish ::
    "(cloud_event \<Rightarrow> go_error + string) \<Rightarrow> mock_publisher \<Rightarrow> context_values \<Rightarrow> string \<Rightarrow> cloud_event \<Rightarrow>
     string list \<Rightarrow> go_error option \<times> string list" where
  "mock_Publish marshal p ctx topic event printed =
     (case marshal event of
        Inl err \<Rightarrow> (Some (ErrWrap ''failed to marshal event'' err), printed)
      | Inr data \<Rightarrow> (None, printed @ [mock_line topic data]))"

definition mock_Close :: "mock_publisher \<Rightarrow> go_error option" where
  "mock_Close p = None"

definition mock_Health :: "mock_publisher \<Rightarrow> context_values \<Rightarrow> go_error option" where
  "mock_Health p ctx = None"

definition mock_BrokerType :: "mock_publisher \<Rightarrow> string" where
  "mock_BrokerType p = mp_brokerType p"

section \<open>What every publisher does with an event\<close>

locale event_sink =
  fixes publish :: "string \<Rightarrow> 'e \<Rightarrow> 's \<Rightarrow> go_error option \<times> 's"
    and delivered_to :: "'s \<Rightarrow> 'm list"
    and as_message :: "string \<Rightarrow> 'e \<Rightarrow> 'm"
  assumes publish_ok:
      "publish topic e s = (None, s') \<Longrightarrow> delivered_to s' = delivered_to s @ [as_message topic e]"
    and publish_failed: "publish topic e s = (Some err, s') \<Longrightarrow> delivered_to s' = delivered_to s"
begin

text \<open>Publishing one event after the other, failures or not, and the answers.\<close>

fun publish_all :: "string \<Rightarrow> 'e list \<Rightarrow> 's \<Rightarrow> go_error option list \<times> 's" where
  "publish_all topic [] s = ([], s)"
| "publish_all topic (e # es) s =
     (let (err, s) = publish topic e s; (errs, s) = publish_all topic es s in (err # errs, s))"

lemma publish_all_delivers:
  "publish_all topic es s = (errs, s') \<Longrightarrow>
     length errs = length es \<and>
     delivered_to s' =
       delivered_to s @ map (\<lambda>(e, err). as_message topic e) (filter (\<lambda>(e, err). err = None) (zip es errs))"
proof (induction es arbitrary: s errs s')
  case Nil
  then show ?case by simp
next
  case (Cons e es)
  obtain err s1 where one: "publish topic e s = (err, s1)" by force
  obtain errs1 s2 where rest: "publish_all topic es s1 = (errs1, s2)" by force
  from Cons.prems one rest have eq: "errs = err # errs1" "s' = s2" by (simp_all add: Let_def)
  from Cons.IH [OF rest] one show ?case
    by (cases err) (auto simp: eq dest: publish_ok publish_failed)
qed

end

definition event_text :: "(cloud_event \<Rightarrow> go_error + string) \<Rightarrow> cloud_event \<Rightarrow> string" where
  "event_text marshal event = (case marshal event of Inl err \<Rightarrow> [] | Inr data \<Rightarrow> data)"

interpretation mock_sink: event_sink "mock_Publish marshal p ctx" "\<lambda>printed. printed"
    "\<lambda>topic event. mock_line topic (event_text marshal event)" for marshal p ctx
  by unfold_locales (auto simp: mock_Publish_def event_text_def split: sum.splits)

text \<open>The broker of the loop: what it has taken is what it answered without an error.\<close>

definition taken :: "'w world \<Rightarrow> (string \<times> cloud_event) list" where
  "taken w = map (\<lambda>p. (pb_topic p, pb_event p)) (filter (\<lambda>p. pb_error p = None) (wd_sent w))"

interpretation broker_sink: event_sink "broker_Publish lib ctx" taken Pair for lib ctx
  by unfold_locales (auto simp: broker_Publish_def taken_def split: prod.splits)

text \<open>A run of calls of the mock publisher.\<close>

fun mock_run ::
    "(cloud_event \<Rightarrow> go_error + string) \<Rightarrow> mock_publisher \<Rightarrow> context_values \<Rightarrow> string \<Rightarrow> cloud_event list \<Rightarrow>
     string list \<Rightarrow> go_error option list \<times> string list" where
  "mock_run marshal p ctx topic [] printed = ([], printed)"
| "mock_run marshal p ctx topic (e # es) printed =
     (let (err, printed) = mock_Publish marshal p ctx topic e printed;
          (errs, printed) = mock_run marshal p ctx topic es printed
      in (err # errs, printed))"

lemma mock_run_all: "mock_run marshal p ctx topic es = mock_sink.publish_all marshal p ctx topic es"
  by (rule ext, induction es) (simp_all add: mock_sink.publish_all.simps)

text \<open>The same run against the broker of the loop.\<close>

fun broker_run ::
    "'w libs \<Rightarrow> context_values \<Rightarrow> string \<Rightarrow> cloud_event list \<Rightarrow> 'w world \<Rightarrow> go_error option list \<times> 'w world" where
  "broker_run lib ctx topic [] w = ([], w)"
| "broker_run lib ctx topic (e # es) w =
     (let (err, w) = broker_Publish lib ctx topic e w; (errs, w) = broker_run lib ctx topic es w
      in (err # errs, w))"

lemma broker_run_all: "broker_run lib ctx topic es = broker_sink.publish_all lib ctx topic es"
  by (rule ext, induction es) (simp_all add: broker_sink.publish_all.simps)

lemma mock_run_answers:
  "fst (mock_run marshal p ctx topic es printed) =
     map (\<lambda>e. case marshal e of Inl err \<Rightarrow> Some (ErrWrap ''failed to marshal event'' err) | Inr _ \<Rightarrow> None) es"
  by (induction es arbitrary: printed) (auto simp: mock_Publish_def Let_def split_beta split: sum.split)

lemma same_failures:
  "map (\<lambda>err. err = None) xs = map (\<lambda>err. err = None) ys \<Longrightarrow>
     map (\<lambda>(e, err). g e) (filter (\<lambda>(e, err). err = None) (zip es xs)) =
     map (\<lambda>(e, err). g e) (filter (\<lambda>(e, err). err = None) (zip es ys))"
proof (induction es arbitrary: xs ys)
  case Nil
  then show ?case by simp
next
  case (Cons e es)
  then show ?case by (cases xs; cases ys) auto
qed

text \<open>
  The mock publisher stands in for the broker. In a run of calls it answers an error for
  exactly the events that cannot be encoded, a failure not stopping the next call; and when the
  broker gives the same answers to the same calls, the lines the mock prints are those of
  the messages the broker takes, each once and in order.
\<close>

theorem mock_stands_in_for_broker:
  assumes "mock_run marshal p ctx topic es printed = (errs, printed')"
  shows "map (\<lambda>err. err = None) errs = map (\<lambda>e. \<not> isl (marshal e)) es \<and>
    (\<forall>answers w'. broker_run lib ctx topic es w = (answers, w') \<and>
        map (\<lambda>err. err = None) answers = map (\<lambda>err. err = None) errs \<longrightarrow>
       (\<exists>new. taken w' = taken w @ new \<and>
          printed' = printed @ map (\<lambda>(t, e). mock_line t (event_text marshal e)) new))"
proof -
  have errs: "errs = map (\<lambda>e. case marshal e of Inl err \<Rightarrow> Some (ErrWrap ''failed to marshal event'' err) | Inr _ \<Rightarrow> None) es"
    using assms mock_run_answers [of marshal p ctx topic es printed] by simp
  then have first: "map (\<lambda>err. err = None) errs = map (\<lambda>e. \<not> isl (marshal e)) es"
    by (auto split: sum.split)
  have prints: "printed' = printed @ map (\<lambda>(e, err). mock_line topic (event_text marshal e))
      (filter (\<lambda>(e, err). err = None) (zip es errs))"
    using mock_sink.publish_all_delivers [OF assms [unfolded mock_run_all]] by simp
  have "taken w' = taken w @ map (\<lambda>(e, err). (topic, e)) (filter (\<lambda>(e, err). err = None) (zip es errs))"
    if "broker_run lib ctx topic es w = (answers, w')"
      "map (\<lambda>err. err = None) answers = map (\<lambda>err. err = None) errs" for answers w'
    using broker_sink.publish_all_delivers [OF that(1) [unfolded broker_run_all]]
      same_failures [OF that(2), of "\<lambda>e. (topic, e)" es] by simp
  with first prints show ?thesis
    by (auto simp: split_beta o_def)
qed

text \<open>One event that encodes and one that does not.\<close>

definition sample_marshal :: "cloud_event \<Rightarrow> go_error + string" where
  "sample_marshal ev = (if ce_Data ev = None then Inl (ErrText ''no data'') else Inr (ce_ID ev))"

definition sample_event :: "string \<Rightarrow> string option \<Rightarrow> cloud_event" where
  "sample_event ident data =
     \<lparr>ce_SpecVersion = ''1.0'', ce_Type = ''t'', ce_Source = ''s'', ce_ID = ident, ce_DataContentType = [],
      ce_Data = data, ce_Extensions = []\<rparr>"

theorem mock_stands_in_for_broker_witness:
  "map (\<lambda>err. err = None)
     (fst (mock_run sample_marshal NewMockPublisher [] ''topic''
        [sample_event ''1'' None, sample_event ''2'' (Some ''x'')] [])) = [False, True]"
proof -
  let ?es = "[sample_event ''1'' None, sample_event ''2'' (Some ''x'')]"
  have "map (\<lambda>err. err = None) (fst (mock_run sample_marshal NewMockPublisher [] ''topic'' ?es [])) =
      map (\<lambda>e. \<not> isl (sample_marshal e)) ?es"
    by (rule mock_stands_in_for_broker [OF surjective_pairing, THEN conjunct1])
  then show ?thesis by (simp add: sample_marshal_def sample_event_def)
qed

end
