(* ===== verification/Serve.thy ===== *)
theory Serve
  imports Sentinel_Account Health Logger Config_Load Publisher
begin

text \<open>
  The program itself (\<open>cmd/sentinel/main.go\<close>): the flags, the initialisation of logging, the
  \<open>serve\<close> command from the loaded configuration to the end of the polling loop with its early
  returns and deferred clean-ups, the readiness checks it registers, the \<open>config-dump\<close> and
  \<open>version\<close> commands and the exit of the process. The HTTP servers and the goroutine that
  waits for signals run beside it and are the subject of another theory.
\<close>

section \<open>Flags\<close>

record flag_def =
  fd_name :: string
  fd_short :: string
  fd_default :: string
  fd_usage :: string

definition fd :: "string \<Rightarrow> string \<Rightarrow> string \<Rightarrow> string \<Rightarrow> flag_def" where
  "fd name short init usage = \<lparr>fd_name = name, fd_short = short, fd_default = init, fd_usage = usage\<rparr>"

definition addConfigOverrideFlags :: "flag_def list \<Rightarrow> flag_def list" where
  "addConfigOverrideFlags flags = flags @
    [fd ''debug-config'' [] ''false'' ''Log the full merged configuration after load. Env: HYPERFLEET_DEBUG_CONFIG'',
     fd ''name'' ''n'' [] ''Sentinel component name. Env: HYPERFLEET_SENTINEL_NAME'',
     fd ''log-level'' ''l'' [] ''Log level: debug, info, warn, error. Env: HYPERFLEET_LOG_LEVEL'',
     fd ''log-format'' ''f'' [] ''Log format: text, json. Env: HYPERFLEET_LOG_FORMAT'',
     fd ''log-output'' [] [] ''Log output: stdout, stderr. Env: HYPERFLEET_LOG_OUTPUT'',
     fd ''hyperfleet-api-base-url'' [] [] ''HyperFleet API base URL. Env: HYPERFLEET_API_BASE_URL'',
     fd ''hyperfleet-api-version'' [] [] ''HyperFleet API version. Env: HYPERFLEET_API_VERSION'',
     fd ''hyperfleet-api-timeout'' [] [] ''HyperFleet API timeout (e.g., 10s). Env: HYPERFLEET_API_TIMEOUT'',
     fd ''broker-topic'' [] [] ''Broker topic. Env: HYPERFLEET_BROKER_TOPIC'',
     fd ''resource-type'' [] [] ''Resource type to watch (clusters, nodepools). Env: HYPERFLEET_RESOURCE_TYPE'',
     fd ''poll-interval'' [] [] ''Poll interval (e.g., 5s). Env: HYPERFLEET_POLL_INTERVAL'',
     fd ''tracing-enabled'' [] ''true'' ''Enable OpenTelemetry tracing. Env: HYPERFLEET_TRACING_ENABLED'']"

text \<open>The flags of the two commands, in the order they are defined in.\<close>

definition newServeCommand :: "flag_def list" where
  "newServeCommand = addConfigOverrideFlags
    [fd ''config'' ''c'' [] ''Path to configuration file (YAML)'',
     fd ''health-server-bindaddress'' [] '':8080'' ''Health server bind address'',
     fd ''metrics-server-bindaddress'' [] '':9090'' ''Metrics server bind address'']"

definition newConfigDumpCommand :: "flag_def list" where
  "newConfigDumpCommand = addConfigOverrideFlags
    [fd ''config'' ''c'' [] ''Path to configuration file (YAML)'']"

section \<open>Logging\<close>

definition initLogging ::
    "log_runtime \<Rightarrow> string \<Rightarrow> log_config \<Rightarrow> bool \<Rightarrow> log_state \<Rightarrow> (go_error + logger_config) \<times> log_state" where
  "initLogging rt version logCfg tracingEnabled st =
     (let cfg = (DefaultConfig rt)\<lparr>lg_Version := version, lg_Component := ''sentinel''\<rparr>
      in case (if lc_Level logCfg \<noteq> [] then ParseLogLevel (lc_Level logCfg) else Inr (lg_Level cfg)) of
           Inl err \<Rightarrow> (Inl err, st)
         | Inr level \<Rightarrow>
             (let cfg = cfg\<lparr>lg_Level := level\<rparr>
              in case (if lc_Format logCfg \<noteq> [] then ParseLogFormat (lc_Format logCfg) else Inr (lg_Format cfg)) of
                   Inl err \<Rightarrow> (Inl err, st)
                 | Inr format \<Rightarrow>
                     (let cfg = cfg\<lparr>lg_Format := format\<rparr>
                      in case (if lc_Output logCfg \<noteq> []
                               then map_sum id Some (ParseLogOutput (lc_Output logCfg)) else Inr (lg_Output cfg)) of
                           Inl err \<Rightarrow> (Inl err, st)
                         | Inr output \<Rightarrow>
                             (let cfg = cfg\<lparr>lg_Output := output, lg_OTelEnabled := tracingEnabled\<rparr>
                              in (Inr cfg, SetGlobalConfig (Some cfg) st)))))"

section \<open>The client\<close>

record hyperfleet_client =
  hc_endpoint :: string
  hc_timeout :: duration
  hc_userAgent :: string

text \<open>\<open>new_client\<close> is the generated client's constructor: the error it refuses an endpoint with.\<close>

definition NewHyperFleetClient ::
    "(string \<Rightarrow> go_error option) \<Rightarrow> string \<Rightarrow> duration \<Rightarrow> string \<Rightarrow> string \<Rightarrow> go_error + hyperfleet_client" where
  "NewHyperFleetClient new_client endpoint timeout sentinelName version =
     (let userAgent = ''hyperfleet-sentinel/'' @ version @ '' ('' @ sentinelName @ '')''
      in case new_client endpoint of
           Some err \<Rightarrow> Inl (ErrText (''failed to create OpenAPI client: '' @ error_text err))
         | None \<Rightarrow> Inr \<lparr>hc_endpoint = endpoint, hc_timeout = timeout, hc_userAgent = userAgent\<rparr>)"

section \<open>Libraries and state\<close>

text \<open>
  \<open>sv_NewMetricsRecorder\<close> makes the broker library's metrics recorder, from a component name, a
  version and the registry; the publisher made after it reports to it. \<open>sv_NewPublisher\<close> is the
  broker library's constructor: an error, or the broker type of the
  publisher, \<open>None\<close> when the publisher is nil.
\<close>

record ('w, 'env, 'ast, 'prog) serve_libs =
  sv_lib :: "'w libs"
  sv_api :: "hyperfleet_client \<Rightarrow> 'w api_client"
  sv_retry :: "(resource list, 'w net) retrier"
  sv_cel :: "('env, 'ast, 'prog) cel"
  sv_otel :: otel_libs
  sv_Marshal :: "sentinel_config \<Rightarrow> go_error + string"
  sv_NewClient :: "string \<Rightarrow> go_error option"
  sv_NewMetricsRecorder :: "string \<Rightarrow> string \<Rightarrow> registry \<Rightarrow> 'w \<Rightarrow> 'w"
  sv_NewPublisher :: "'w \<Rightarrow> (go_error + string option) \<times> 'w"
  sv_ClosePublisher :: "'w \<Rightarrow> go_error option \<times> 'w"
  sv_PublisherHealth :: "'w check_func"

text \<open>What is acquired and released on the way, in order.\<close>

datatype release_event = TracerStarted | PublisherOpened | PublisherClosed | TracerShutDown

record 'w serve_state =
  ss_world :: "'w world"
  ss_otel :: otel_state
  ss_held :: "release_event list"

datatype serve_outcome = Failed go_error | Stopped | StillRunning | Panicked

definition canceled :: go_error where
  "canceled = ErrText ''context canceled''"

definition on_world :: "('w world \<Rightarrow> 'w world) \<Rightarrow> 'w serve_state \<Rightarrow> 'w serve_state" where
  "on_world f st = st\<lparr>ss_world := f (ss_world st)\<rparr>"

definition held :: "release_event \<Rightarrow> 'w serve_state \<Rightarrow> 'w serve_state" where
  "held ev st = st\<lparr>ss_held := ss_held st @ [ev]\<rparr>"

definition serve_error :: "string \<Rightarrow> string \<Rightarrow> go_error \<Rightarrow> 'w serve_state \<Rightarrow> serve_outcome \<times> 'w serve_state" where
  "serve_error logged wrapped err st =
     (Failed (ErrWrap wrapped err), on_world (log_at LevelError [] (logged @ '': '' @ error_text err)) st)"

section \<open>The serve command\<close>

definition serviceName :: "otel_libs \<Rightarrow> string" where
  "serviceName lib =
     (let envServiceName = ol_Getenv lib ''OTEL_SERVICE_NAME''
      in if envServiceName \<noteq> [] then envServiceName else ''hyperfleet-sentinel'')"

text \<open>Tracing: the provider if it is enabled and could be made, whose shutdown is then deferred.\<close>

definition setup_tracing ::
    "('w, 'env, 'ast, 'prog) serve_libs \<Rightarrow> string \<Rightarrow> logger_config \<Rightarrow> 'w serve_state \<Rightarrow>
     tracer_provider option \<times> 'w serve_state" where
  "setup_tracing lib version logCfg st =
     (if lg_OTelEnabled logCfg then
        (case InitTraceProvider (sv_otel lib) (serviceName (sv_otel lib)) version (ss_otel st) of
           (Inl err, otel) \<Rightarrow>
             (None, on_world (log_extra LevelWarn [(''error'', GStr (error_text err))] []
                       ''Failed to initialize OpenTelemetry'') (st\<lparr>ss_otel := otel\<rparr>))
         | (Inr traceProvider, otel) \<Rightarrow> (Some traceProvider, held TracerStarted (st\<lparr>ss_otel := otel\<rparr>)))
      else (None, on_world (log_extra LevelInfo [(''tracing_enabled'', GBool False)] []
                     ''OpenTelemetry disabled'') st))"

definition shutdown_tracing ::
    "('w, 'env, 'ast, 'prog) serve_libs \<Rightarrow> tracer_provider option \<Rightarrow> 'w serve_state \<Rightarrow> 'w serve_state" where
  "shutdown_tracing lib tp st =
     (case tp of
        None \<Rightarrow> st
      | Some _ \<Rightarrow>
          (let err = Shutdown (sv_otel lib) tp; st = held TracerShutDown st
           in case err of
                None \<Rightarrow> st
              | Some err \<Rightarrow> on_world (log_extra LevelError [(''error'', GStr (error_text err))] []
                              ''Failed to shutdown OpenTelemetry'') st))"

text \<open>The deferred closing of the publisher.\<close>

definition close_publisher ::
    "('w, 'env, 'ast, 'prog) serve_libs \<Rightarrow> string option \<Rightarrow> 'w serve_state \<Rightarrow> 'w serve_state" where
  "close_publisher lib pub st =
     (case pub of
        None \<Rightarrow> st
      | Some _ \<Rightarrow>
          (let w = ss_world st; (closeErr, rest) = sv_ClosePublisher lib (wd_rest w);
               st = held PublisherClosed (st\<lparr>ss_world := w\<lparr>wd_rest := rest\<rparr>\<rparr>)
           in case closeErr of
                None \<Rightarrow> st
              | Some err \<Rightarrow> on_world (log_at LevelError [] (''Error closing publisher: '' @ error_text err)) st))"

definition log_debug_config ::
    "('w, 'env, 'ast, 'prog) serve_libs \<Rightarrow> sentinel_config \<Rightarrow> 'w serve_state \<Rightarrow> 'w serve_state" where
  "log_debug_config lib cfg st =
     (if sc_DebugConfig cfg then
        (case sv_Marshal lib (redacted cfg) of
           Inl err \<Rightarrow> on_world (log_at LevelWarn []
                         (''Failed to marshal config for debug logging: '' @ error_text err)) st
         | Inr data \<Rightarrow> on_world (log_at LevelInfo []
                         (''Debug config enabled - merged configuration:'' @ newline @ data)) st)
      else st)"

text \<open>The readiness checks, which read the sentinel and the publisher when they are run.\<close>

definition broker_check ::
    "('w, 'env, 'ast, 'prog) serve_libs \<Rightarrow> string option \<Rightarrow> 'w check_func" where
  "broker_check lib pub w =
     (if pub = None then (Some (ErrText ''broker publisher not initialized''), w)
      else sv_PublisherHealth lib w)"

definition sentinel_poll_check :: "'prog sentinel \<Rightarrow> 'w check_func" where
  "sentinel_poll_check s w =
     (if IsZero (LastSuccessfulPoll s) then (Some (ErrText ''no successful poll completed yet''), w)
      else (None, w))"

definition serve_readiness ::
    "('w, 'env, 'ast, 'prog) serve_libs \<Rightarrow> string option \<Rightarrow> 'prog sentinel \<Rightarrow> 'w readiness" where
  "serve_readiness lib pub s =
     AddCheck ''sentinel_poll'' (sentinel_poll_check s)
       (SetReady True (AddCheck ''broker'' (broker_check lib pub) NewReadinessChecker))"

text \<open>The handlers of the health server by their path.\<close>

definition healthMux ::
    "('w, 'env, 'ast, 'prog) serve_libs \<Rightarrow> sentinel_config \<Rightarrow> (health_body \<Rightarrow> go_error option) \<Rightarrow>
     'w readiness \<Rightarrow> 'prog sentinel \<Rightarrow>
     (context_values \<Rightarrow> 'w world \<Rightarrow> http_response \<times> 'w world) gmap" where
  "healthMux lib cfg encode readiness s =
     [(''/healthz'', HealthzHandler (sv_lib lib) encode (Some (\<lambda>_. LastSuccessfulPoll s))
                     (health_threshold (sc_PollInterval cfg))),
      (''/readyz'', ReadyzHandler encode readiness)]"

text \<open>
  The two HTTP servers. The metrics page, a status and a text, is what the Prometheus handler
  makes of the registry; serving it changes nothing.
\<close>

record ('resp, 'w) http_server =
  hs_Addr :: string
  hs_Handler :: "(context_values \<Rightarrow> 'w world \<Rightarrow> 'resp \<times> 'w world) gmap"
  hs_ReadTimeout :: duration
  hs_WriteTimeout :: duration
  hs_IdleTimeout :: duration

definition healthServer ::
    "string \<Rightarrow> (context_values \<Rightarrow> 'w world \<Rightarrow> http_response \<times> 'w world) gmap \<Rightarrow> (http_response, 'w) http_server" where
  "healthServer healthBindAddress mux =
     \<lparr>hs_Addr = healthBindAddress, hs_Handler = mux, hs_ReadTimeout = 5 * second,
      hs_WriteTimeout = 30 * second, hs_IdleTimeout = 120 * second\<rparr>"

definition metricsMux ::
    "(metrics \<Rightarrow> int \<times> string) \<Rightarrow> (context_values \<Rightarrow> 'w world \<Rightarrow> (int \<times> string) \<times> 'w world) gmap" where
  "metricsMux page = [(''/metrics'', \<lambda>ctx w. (page (wd_metrics w), w))]"

definition metricsServer ::
    "string \<Rightarrow> (metrics \<Rightarrow> int \<times> string) \<Rightarrow> (int \<times> string, 'w) http_server" where
  "metricsServer metricsBindAddress page =
     \<lparr>hs_Addr = metricsBindAddress, hs_Handler = metricsMux page, hs_ReadTimeout = 5 * second,
      hs_WriteTimeout = 30 * second, hs_IdleTimeout = 120 * second\<rparr>"

definition run_deps ::
    "('w, 'env, 'ast, 'prog) serve_libs \<Rightarrow> hyperfleet_client \<Rightarrow> string option \<Rightarrow> ('w, 'env, 'ast, 'prog) deps" where
  "run_deps lib client pub =
     \<lparr>dp_lib = (sv_lib lib)\<lparr>lib_BrokerType := pub\<rparr>, dp_api = sv_api lib client,
      dp_retry = sv_retry lib, dp_cel = sv_cel lib\<rparr>"

text \<open>From the created publisher to the end of the loop.\<close>

definition serve_loop ::
    "('w, 'env, 'ast, 'prog) serve_libs \<Rightarrow> sentinel_config \<Rightarrow> hyperfleet_client \<Rightarrow> 'prog decision_engine \<Rightarrow>
     string option \<Rightarrow> select_event list \<Rightarrow> 'w serve_state \<Rightarrow> serve_outcome \<times> 'w serve_state" where
  "serve_loop lib cfg client decisionEngine pub evs st =
     (let st = on_world (log_at LevelInfo [] ''Initialized broker publisher'') st
      in case NewSentinel (sv_cel lib) cfg decisionEngine of
           Inl err \<Rightarrow> (Failed (ErrWrap ''failed to initialize sentinel'' err), st)
         | Inr s \<Rightarrow>
             (let st = on_world (log_at LevelInfo [] ''Starting sentinel loop'') st
              in case Start (run_deps lib client pub) [] evs s (ss_world st) of
                   None \<Rightarrow> (Panicked, st)
                 | Some (Running, s, w) \<Rightarrow> (StillRunning, st\<lparr>ss_world := w\<rparr>)
                 | Some (Returned err, s, w) \<Rightarrow>
                     (if err \<noteq> canceled then (Failed (ErrWrap ''sentinel failed'' err), st\<lparr>ss_world := w\<rparr>)
                      else (Stopped, on_world (log_at LevelInfo [] ''Sentinel stopped gracefully'')
                                       (st\<lparr>ss_world := w\<rparr>)))))"

text \<open>From the verified client to the end; the deferred closing runs however the rest ends.\<close>

definition serve_publisher ::
    "('w, 'env, 'ast, 'prog) serve_libs \<Rightarrow> string \<Rightarrow> nat \<Rightarrow> sentinel_config \<Rightarrow> hyperfleet_client \<Rightarrow>
     select_event list \<Rightarrow> 'w serve_state \<Rightarrow> serve_outcome \<times> 'w serve_state" where
  "serve_publisher lib version registry cfg client evs st =
     (case NewDecisionEngine (sv_cel lib) (sc_MessageDecision cfg) of
        Inl err \<Rightarrow> serve_error ''Failed to create decision engine'' ''failed to create decision engine'' err st
      | Inr decisionEngine \<Rightarrow>
          (let w = ss_world st;
               rest = sv_NewMetricsRecorder lib ''sentinel'' version (Registry registry) (wd_rest w);
               (made, rest) = sv_NewPublisher lib rest;
               st = st\<lparr>ss_world := w\<lparr>wd_rest := rest\<rparr>\<rparr>
           in case made of
                Inl err \<Rightarrow>
                  serve_error ''Failed to initialize broker publisher'' ''failed to initialize broker publisher'' err st
              | Inr pub \<Rightarrow>
                  (let st = (if pub \<noteq> None then held PublisherOpened st else st);
                       (outcome, st) = serve_loop lib cfg client decisionEngine pub evs st
                   in (outcome, if outcome = StillRunning then st else close_publisher lib pub st))))"

definition verify_in_world ::
    "'w api_client \<Rightarrow> 'w serve_state \<Rightarrow> go_error option \<times> 'w serve_state" where
  "verify_in_world api st =
     (let w = ss_world st;
          (err, net) = VerifyConnectivity api \<lparr>net_calls = wd_calls w, net_debug = [], net_server = wd_rest w\<rparr>
      in (err, st\<lparr>ss_world := w\<lparr>wd_calls := net_calls net, wd_rest := net_server net\<rparr>\<rparr>))"

text \<open>
  The body, below the tracing that is shut down after it. The metrics registry is a new one,
  which the model knows by the number \<open>registry\<close>; the API section is dereferenced, and a nil
  one panics.
\<close>

definition serve_body ::
    "('w, 'env, 'ast, 'prog) serve_libs \<Rightarrow> string \<Rightarrow> string \<Rightarrow> nat \<Rightarrow> sentinel_config \<Rightarrow> logger_config \<Rightarrow>
     select_event list \<Rightarrow> 'w serve_state \<Rightarrow> serve_outcome \<times> 'w serve_state" where
  "serve_body lib version commit registry cfg logCfg evs st =
     (let st = on_world (log_extra LevelInfo
                 [(''commit'', GStr commit), (''log_level'', GStr (LogLevel_String (lg_Level logCfg))),
                  (''log_format'', GStr (LogFormat_String (lg_Format logCfg)))] []
                 ''Starting HyperFleet Sentinel'') st;
          st = log_debug_config lib cfg st
      in case NewSentinelMetrics (Some (Registry registry)) version (wd_metrics (ss_world st)) of
           None \<Rightarrow> (Panicked, st)
         | Some (inst, m) \<Rightarrow>
             (let st = on_world (\<lambda>w. w\<lparr>wd_metrics := m\<rparr>) st
              in case cc_HyperFleetAPI (sc_Clients cfg) of
                   None \<Rightarrow> (Panicked, st)
                 | Some api \<Rightarrow>
                     (case NewHyperFleetClient (sv_NewClient lib) (ac_BaseURL api) (ac_Timeout api)
                             (si_Name (sc_Sentinel cfg)) version of
                        Inl err \<Rightarrow>
                          serve_error ''Failed to initialize OpenAPI client'' ''failed to initialize OpenAPI client'' err st
                      | Inr client \<Rightarrow>
                          (let (err, st) = verify_in_world (sv_api lib client) st
                           in case err of
                                Some err \<Rightarrow>
                                  serve_error ''Failed to verify HyperFleet client connectivity''
                                    ''failed to verify HyperFleet client connectivity'' err st
                              | None \<Rightarrow>
                                  serve_publisher lib version registry cfg client evs
                                    (on_world (log_at LevelInfo [] ''Initialized HyperFleet client'') st)))))"

definition runServe ::
    "('w, 'env, 'ast, 'prog) serve_libs \<Rightarrow> string \<Rightarrow> string \<Rightarrow> nat \<Rightarrow> sentinel_config \<Rightarrow> logger_config \<Rightarrow>
     select_event list \<Rightarrow> 'w serve_state \<Rightarrow> serve_outcome \<times> 'w serve_state" where
  "runServe lib version commit registry cfg logCfg evs st =
     (let (tp, st) = setup_tracing lib version logCfg st;
          (outcome, st) = serve_body lib version commit registry cfg logCfg evs st
      in (outcome, if outcome = StillRunning then st else shutdown_tracing lib tp st))"

section \<open>The commands and the exit\<close>

text \<open>\<open>newServeCommand\<close>'s run, with the lines and the logging state of its first steps.\<close>

definition serve_RunE ::
    "('w, 'env, 'ast, 'prog) serve_libs \<Rightarrow> 'file config_libs \<Rightarrow> log_runtime \<Rightarrow> string \<Rightarrow> string \<Rightarrow> nat \<Rightarrow> string \<Rightarrow>
     cli_flag gmap \<Rightarrow> select_event list \<Rightarrow> log_state \<Rightarrow> 'w serve_state \<Rightarrow>
     serve_outcome \<times> log_state \<times> 'w serve_state" where
  "serve_RunE lib clib rt version commit registry configFile flags evs lst st =
     (case LoadConfig clib configFile (Some flags) of
        (Inl err, logs) \<Rightarrow> (Failed err, lst, st)
      | (Inr cfg, logs) \<Rightarrow>
          (case initLogging rt version (sc_Log cfg) (sc_TracingEnabled cfg) lst of
             (Inl err, lst) \<Rightarrow> (Failed (ErrWrap ''failed to initialize logging'' err), lst, st)
           | (Inr logCfg, lst) \<Rightarrow>
               (let (outcome, st) = runServe lib version commit registry cfg logCfg evs st
                in (outcome, lst, st))))"

definition runConfigDump ::
    "'file config_libs \<Rightarrow> (sentinel_config \<Rightarrow> go_error + string) \<Rightarrow> string \<Rightarrow> cli_flag gmap option \<Rightarrow>
     go_error + string" where
  "runConfigDump clib marshal configFile flags =
     (case LoadConfig clib configFile flags of
        (Inl err, logs) \<Rightarrow> Inl err
      | (Inr cfg, logs) \<Rightarrow>
          (case marshal (redacted cfg) of
             Inl err \<Rightarrow> Inl (ErrWrap ''failed to marshal config'' err)
           | Inr data \<Rightarrow> Inr data))"

definition version_text :: "string \<Rightarrow> string \<Rightarrow> string \<Rightarrow> string" where
  "version_text version commit date =
     ''Version:    '' @ version @ newline @ ''Commit:     '' @ commit @ newline @
     ''Build Date: '' @ date @ newline"

text \<open>What \<open>main\<close> does with the result of the chosen command: the line on the error output and the code.\<close>

definition main_exit :: "string list \<Rightarrow> go_error option \<Rightarrow> (string \<times> int) option" where
  "main_exit args result =
     (case result of
        None \<Rightarrow> None
      | Some err \<Rightarrow>
          (let cmd = join '' '' args; cmd = (if cmd = [] then ''(no command)'' else cmd)
           in Some (''Error executing command '' @ quoted1 (''sentinel '' @ cmd) @ '': '' @ error_text err @ newline, 1)))"

section \<open>Flags and settings agree\<close>

text \<open>The variable a usage text names.\<close>

definition usage_env :: "string \<Rightarrow> string" where
  "usage_env usage = rev (takeWhile (\<lambda>c. c \<noteq> CHR '' '') (rev usage))"

text \<open>
  Every override flag the commands offer is one of the documented settings, under the
  variable its usage text names, and is bound to that setting's path when it is changed; no
  documented setting is without its flag, and no binding is without its flag, so no flag is
  accepted on the command line and then ignored. Within either command no two flags share a
  name or a shorthand, where the flag library panics on a second definition.
\<close>

theorem override_flags_documented:
  "map (\<lambda>f. (fd_name f, usage_env (fd_usage f))) (addConfigOverrideFlags []) =
     map (\<lambda>(name, env, path). (name, env))
       (map (\<lambda>f. the (find (\<lambda>d. fst d = fd_name f) documented_settings)) (addConfigOverrideFlags [])) \<and>
   fd_name ` set (addConfigOverrideFlags []) = fst ` set documented_settings \<and>
   set (map (\<lambda>(name, env, path). (name, path)) documented_settings) = set cliFlags \<and>
   (\<lambda>(name, env, path). (path, env)) ` set documented_settings =
     (\<lambda>(path, suffix). (path, env_name suffix)) ` set viperKeyMappings \<and>
   distinct (map fd_name newServeCommand) \<and> distinct (map fd_name newConfigDumpCommand) \<and>
   distinct (filter (\<lambda>short. short \<noteq> []) (map fd_short newServeCommand)) \<and>
   distinct (filter (\<lambda>short. short \<noteq> []) (map fd_short newConfigDumpCommand))"
  by (intro conjI; code_simp)

section \<open>Logging is set up from the settings\<close>

text \<open>
  Logging is initialised exactly from settings that parse. Each of the three settings counts
  when it is not empty and the default otherwise; when one of them does not parse, the first
  such error is returned and the global configuration is untouched; otherwise the
  configuration returned carries the parsed values and the tracing switch and becomes the
  global one, which every logger made afterwards uses.
\<close>

theorem init_logging_exact:
  "case initLogging rt version c tracing st of
     (Inl err, st') \<Rightarrow> st' = st \<and>
       (lc_Level c \<noteq> [] \<and> ParseLogLevel (lc_Level c) = Inl err \<or>
        lc_Format c \<noteq> [] \<and> ParseLogFormat (lc_Format c) = Inl err \<or>
        lc_Output c \<noteq> [] \<and> ParseLogOutput (lc_Output c) = Inl err)
   | (Inr cfg, st') \<Rightarrow>
       (if lc_Level c = [] then lg_Level cfg = LevelInfo else ParseLogLevel (lc_Level c) = Inr (lg_Level cfg)) \<and>
       (if lc_Format c = [] then lg_Format cfg = FormatJSON else ParseLogFormat (lc_Format c) = Inr (lg_Format cfg)) \<and>
       (if lc_Output c = [] then lg_Output cfg = Some Stdout
        else \<exists>w. lg_Output cfg = Some w \<and> ParseLogOutput (lc_Output c) = Inr w) \<and>
       lg_OTelEnabled cfg = tracing \<and> lg_Version cfg = version \<and>
       NewHyperFleetLogger rt st' = HFLogger cfg [] 0"
  by (cases "ParseLogOutput (lc_Output c)")
    (auto simp: initLogging_def Let_def DefaultConfig_def SetGlobalConfig_def GetGlobalConfig_def
      NewHyperFleetLogger_def NewHyperFleetLoggerWithConfig_def split: sum.splits if_splits)

section \<open>What is acquired is released\<close>

lemma on_world_frame [simp]:
  "ss_held (on_world f st) = ss_held st" "ss_otel (on_world f st) = ss_otel st"
  "ss_world (on_world f st) = f (ss_world st)"
  by (simp_all add: on_world_def)

lemma held_frame [simp]:
  "ss_held (held ev st) = ss_held st @ [ev]" "ss_world (held ev st) = ss_world st"
  by (simp_all add: held_def)

lemma serve_error_simps [simp]:
  "fst (serve_error a b err st) = Failed (ErrWrap b err)"
  "ss_held (snd (serve_error a b err st)) = ss_held st"
  "wd_sent (ss_world (snd (serve_error a b err st))) = wd_sent (ss_world st)"
  by (simp_all add: serve_error_def)

lemma log_debug_config_frame [simp]:
  "ss_held (log_debug_config lib cfg st) = ss_held st"
  "wd_sent (ss_world (log_debug_config lib cfg st)) = wd_sent (ss_world st)"
  "wd_metrics (ss_world (log_debug_config lib cfg st)) = wd_metrics (ss_world st)"
  by (simp_all add: log_debug_config_def split: sum.split)

lemma setup_tracing_held:
  "setup_tracing lib version logCfg st = (tp, st') \<Longrightarrow>
     ss_held st' = ss_held st @ (if tp = None then [] else [TracerStarted]) \<and>
     wd_sent (ss_world st') = wd_sent (ss_world st) \<and> wd_metrics (ss_world st') = wd_metrics (ss_world st)"
  by (auto simp: setup_tracing_def log_extra_def split: if_splits prod.splits sum.splits)

lemma shutdown_tracing_held:
  "ss_held (shutdown_tracing lib tp st) = ss_held st @ (if tp = None then [] else [TracerShutDown])"
  "wd_sent (ss_world (shutdown_tracing lib tp st)) = wd_sent (ss_world st)"
  by (auto simp: shutdown_tracing_def Let_def split: option.split)

lemma close_publisher_held:
  "ss_held (close_publisher lib pub st) = ss_held st @ (if pub = None then [] else [PublisherClosed])"
  "wd_sent (ss_world (close_publisher lib pub st)) = wd_sent (ss_world st)"
  by (auto simp: close_publisher_def Let_def split: option.split prod.split)

lemma serve_loop_held: "ss_held (snd (serve_loop lib cfg client e pub evs st)) = ss_held st"
  by (auto simp: serve_loop_def Let_def split: sum.split option.split prod.split loop_result.split)

definition kept :: "bool \<Rightarrow> release_event \<Rightarrow> release_event list" where
  "kept b ev = (if b then [ev] else [])"

text \<open>The middle part fails before there is a publisher, or runs the loop with one and then closes it.\<close>

lemma serve_publisher_cases:
  assumes "serve_publisher lib version registry cfg client evs st = (result, st')"
  obtains (failed) err where "result = Failed err" "ss_held st' = ss_held st"
      "wd_sent (ss_world st') = wd_sent (ss_world st)"
    | (loop) e pub st1 st2 where "serve_loop lib cfg client e pub evs st1 = (result, st2)"
      "st' = (if result = StillRunning then st2 else close_publisher lib pub st2)"
      "ss_held st1 = ss_held st @ kept (pub \<noteq> None) PublisherOpened"
      "wd_sent (ss_world st1) = wd_sent (ss_world st)"
proof (cases "NewDecisionEngine (sv_cel lib) (sc_MessageDecision cfg)")
  case (Inl err)
  with assms show ?thesis by (intro failed) (auto simp: serve_publisher_def serve_error_def)
next
  case (Inr e)
  obtain made rest where made: "sv_NewPublisher lib
      (sv_NewMetricsRecorder lib ''sentinel'' version (Registry registry) (wd_rest (ss_world st))) = (made, rest)" by force
  let ?st = "st\<lparr>ss_world := (ss_world st)\<lparr>wd_rest := rest\<rparr>\<rparr>"
  show ?thesis
  proof (cases made)
    case (Inl err)
    with Inr made assms show ?thesis by (intro failed) (auto simp: serve_publisher_def serve_error_def)
  next
    case pub: (Inr pub)
    let ?st1 = "if pub \<noteq> None then held PublisherOpened ?st else ?st"
    obtain out st2 where "serve_loop lib cfg client e pub evs ?st1 = (out, st2)" by force
    with Inr made pub assms show ?thesis
      by (intro loop [of e pub ?st1 st2]) (auto simp: serve_publisher_def Let_def kept_def split: if_splits)
  qed
qed

lemma serve_publisher_held:
  assumes "serve_publisher lib version registry cfg client evs st = (result, st')"
  shows "\<exists>opened. ss_held st' = ss_held st @ kept opened PublisherOpened @
     kept (opened \<and> result \<noteq> StillRunning) PublisherClosed"
  using assms
proof (cases rule: serve_publisher_cases)
  case failed
  then show ?thesis by (intro exI [of _ False]) (simp add: kept_def)
next
  case (loop e pub st1 st2)
  have "ss_held st2 = ss_held st1"
    using serve_loop_held [of lib cfg client e pub evs st1] loop(1) by simp
  with loop(2,3) show ?thesis
    by (intro exI [of _ "pub \<noteq> None"]) (auto simp: kept_def close_publisher_held)
qed

text \<open>The body either ends on its way to the publisher, with nothing acquired or sent, or gets there.\<close>

lemma serve_body_cases:
  assumes "serve_body lib version commit registry cfg logCfg evs st = (result, st')"
  shows "(result \<notin> {StillRunning, Stopped} \<and> ss_held st' = ss_held st \<and> wd_sent (ss_world st') = wd_sent (ss_world st)) \<or>
    (\<exists>client st1. serve_publisher lib version registry cfg client evs st1 = (result, st') \<and> ss_held st1 = ss_held st \<and>
       wd_sent (ss_world st1) = wd_sent (ss_world st))"
proof -
  let ?st0 = "log_debug_config lib cfg (on_world (log_extra LevelInfo
      [(''commit'', GStr commit), (''log_level'', GStr (LogLevel_String (lg_Level logCfg))),
       (''log_format'', GStr (LogFormat_String (lg_Format logCfg)))] []
      ''Starting HyperFleet Sentinel'') st)"
  have frame: "ss_held ?st0 = ss_held st" "wd_sent (ss_world ?st0) = wd_sent (ss_world st)" by simp_all
  show ?thesis
  proof (cases "NewSentinelMetrics (Some (Registry registry)) version (wd_metrics (ss_world ?st0))")
    case None
    with assms frame show ?thesis by (intro disjI1) (auto simp: serve_body_def Let_def)
  next
    case (Some im)
    let ?st1 = "on_world (\<lambda>w. w\<lparr>wd_metrics := snd im\<rparr>) ?st0"
    show ?thesis
    proof (cases "cc_HyperFleetAPI (sc_Clients cfg)")
      case None
      with assms frame Some show ?thesis by (cases im) (auto simp: serve_body_def Let_def)
    next
      case api: (Some api)
      show ?thesis
      proof (cases "NewHyperFleetClient (sv_NewClient lib) (ac_BaseURL api) (ac_Timeout api)
          (si_Name (sc_Sentinel cfg)) version")
        case (Inl err)
        with assms frame Some api show ?thesis by (cases im) (auto simp: serve_body_def Let_def serve_error_def)
      next
        case (Inr client)
        obtain err st2 where v: "verify_in_world (sv_api lib client) ?st1 = (err, st2)" by force
        then have f2: "ss_held st2 = ss_held st" "wd_sent (ss_world st2) = wd_sent (ss_world st)"
          using frame by (auto simp: verify_in_world_def Let_def split: prod.splits)
        show ?thesis
        proof (cases err)
          case (Some e)
          with assms f2 \<open>NewSentinelMetrics _ _ _ = Some im\<close> api Inr v show ?thesis
            by (cases im) (auto simp: serve_body_def Let_def serve_error_def)
        next
          case None
          with assms f2 Some api Inr v show ?thesis
            by (cases im) (intro disjI2 exI [of _ client]
              exI [of _ "on_world (log_at LevelInfo [] ''Initialized HyperFleet client'') st2"],
              auto simp: serve_body_def Let_def)
        qed
      qed
    qed
  qed
qed

lemma serve_body_held:
  assumes "serve_body lib version commit registry cfg logCfg evs st = (result, st')"
  shows "\<exists>opened. ss_held st' = ss_held st @ kept opened PublisherOpened @
     kept (opened \<and> result \<noteq> StillRunning) PublisherClosed"
  using serve_body_cases [OF assms]
proof
  assume "result \<notin> {StillRunning, Stopped} \<and> ss_held st' = ss_held st \<and> wd_sent (ss_world st') = wd_sent (ss_world st)"
  then show ?thesis by (intro exI [of _ False]) (simp add: kept_def)
next
  assume "\<exists>client st1. serve_publisher lib version registry cfg client evs st1 = (result, st') \<and> ss_held st1 = ss_held st \<and>
       wd_sent (ss_world st1) = wd_sent (ss_world st)"
  then show ?thesis using serve_publisher_held by metis
qed

lemma runServe_held:
  assumes "runServe lib version commit registry cfg logCfg evs st = (result, st')"
  shows "\<exists>traced opened. ss_held st' = ss_held st @ kept traced TracerStarted @ kept opened PublisherOpened @
     kept (opened \<and> result \<noteq> StillRunning) PublisherClosed @ kept (traced \<and> result \<noteq> StillRunning) TracerShutDown"
proof -
  obtain tp st1 where tr: "setup_tracing lib version logCfg st = (tp, st1)" by force
  obtain out st2 where body: "serve_body lib version commit registry cfg logCfg evs st1 = (out, st2)" by force
  from assms tr body have out: "result = out"
    and st': "st' = (if out = StillRunning then st2 else shutdown_tracing lib tp st2)"
    by (auto simp: runServe_def)
  from serve_body_held [OF body] obtain opened where
    "ss_held st2 = ss_held st1 @ kept opened PublisherOpened @ kept (opened \<and> out \<noteq> StillRunning) PublisherClosed" ..
  with setup_tracing_held [OF tr] show ?thesis
    unfolding out st'
    by (intro exI [of _ "tp \<noteq> None"] exI [of _ opened]) (auto simp: kept_def shutdown_tracing_held)
qed

text \<open>
  C11: What the process acquires it releases. However \<open>runServe\<close> ends, by an error of any step, by a
  panic or by a stop, every publisher it opened has been closed and every tracer it started has
  been shut down, each exactly once, the publisher before the tracer; while the loop runs
  neither is released.
\<close>

theorem serve_releases:
  assumes "runServe lib version commit registry cfg logCfg evs st = (result, st')"
  shows "\<exists>traced opened. ss_held st' = ss_held st @ kept traced TracerStarted @ kept opened PublisherOpened @
     kept (opened \<and> result \<noteq> StillRunning) PublisherClosed @ kept (traced \<and> result \<noteq> StillRunning) TracerShutDown"
  using assms by (rule runServe_held)

section \<open>Nothing is sent before everything is in place\<close>

lemma serve_loop_sent:
  "serve_loop lib cfg client e pub evs st = (Failed err, st') \<Longrightarrow> \<nexists>e. err = ErrWrap ''sentinel failed'' e \<Longrightarrow>
     wd_sent (ss_world st') = wd_sent (ss_world st)"
  by (auto simp: serve_loop_def Let_def split: sum.splits option.splits prod.splits loop_result.splits if_splits)

lemma serve_publisher_sent:
  assumes "serve_publisher lib version registry cfg client evs st = (Failed err, st')" and "\<nexists>e. err = ErrWrap ''sentinel failed'' e"
  shows "wd_sent (ss_world st') = wd_sent (ss_world st)"
  using assms(1)
proof (cases rule: serve_publisher_cases)
  case (loop e pub st1 st2)
  with serve_loop_sent [OF loop(1) assms(2)] show ?thesis by (simp add: close_publisher_held)
qed simp

text \<open>
  No event leaves a process that could not start. When \<open>runServe\<close> returns any error other than
  one of the polling loop itself (the API client, its connectivity, the decision
  engine, the publisher or the payload builder failed), no message has been handed to the
  broker.
\<close>

theorem failed_start_sends_nothing:
  assumes "runServe lib version commit registry cfg logCfg evs st = (Failed err, st')"
    and "\<nexists>e. err = ErrWrap ''sentinel failed'' e"
  shows "wd_sent (ss_world st') = wd_sent (ss_world st)"
proof -
  obtain tp st1 where tr: "setup_tracing lib version logCfg st = (tp, st1)" by force
  from assms(1) tr obtain st2 where body: "serve_body lib version commit registry cfg logCfg evs st1 = (Failed err, st2)"
    and st': "st' = shutdown_tracing lib tp st2"
    by (auto simp: runServe_def split: prod.splits if_splits)
  have "wd_sent (ss_world st2) = wd_sent (ss_world st1)"
    using serve_body_cases [OF body] serve_publisher_sent [OF _ assms(2)] by metis
  with setup_tracing_held [OF tr] show ?thesis
    by (simp add: st' shutdown_tracing_held)
qed

section \<open>A process whose parts can be made serves\<close>

lemma metrics_at_start:
  "\<exists>inst m. NewSentinelMetrics (Some r) version metrics_start = Some (inst, m) \<and> metrics_ready m"
  using metrics_start_ready by blast

text \<open>
  What the process needs of its surroundings: a fresh metrics state, an API that accepts the
  address and answers, a CEL library that compiles the configured expressions, and a broker
  that can be reached.
\<close>

definition surroundings_ok ::
    "('w, 'env, 'ast, 'prog) serve_libs \<Rightarrow> sentinel_config \<Rightarrow> 'w serve_state \<Rightarrow> bool" where
  "surroundings_ok lib cfg st \<longleftrightarrow>
     wd_metrics (ss_world st) = metrics_start \<and>
     (\<forall>url. sv_NewClient lib url = None) \<and>
     (\<forall>client net. fst (VerifyConnectivity (sv_api lib client) net) = None) \<and>
     (\<exists>e. NewDecisionEngine (sv_cel lib) (sc_MessageDecision cfg) = Inr e) \<and>
     (\<forall>data. sc_MessageData cfg = Some data \<longrightarrow> (\<exists>b. NewBuilder (sv_cel lib) (GMap data) = Inr b)) \<and>
     (\<forall>rest. \<exists>brokerType. fst (sv_NewPublisher lib rest) = Inr (Some brokerType)) \<and>
     cel_never_nil (sv_cel lib) \<and> retry_contract (sv_retry lib) \<and>
     (\<forall>client. never_nil_reply (sv_api lib client))"

definition expected_outcome :: "select_event list \<Rightarrow> serve_outcome" where
  "expected_outcome evs =
     (case loop_end evs of
        Running \<Rightarrow> StillRunning
      | Returned err \<Rightarrow> if err = canceled then Stopped else Failed (ErrWrap ''sentinel failed'' err))"

lemma NewSentinel_made:
  assumes "\<forall>data. sc_MessageData cfg = Some data \<longrightarrow> (\<exists>b. NewBuilder cel (GMap data) = Inr b)"
  shows "\<exists>s. NewSentinel cel cfg e = Inr s \<and> st_config s = cfg"
proof (cases "sc_MessageData cfg")
  case None
  then show ?thesis by (simp add: NewSentinel_def)
next
  case (Some data)
  with assms obtain b where "NewBuilder cel (GMap data) = Inr b" by blast
  with Some show ?thesis by (simp add: NewSentinel_def)
qed

lemma serve_loop_outcome:
  assumes "surroundings_ok lib cfg st0" and "config_ok cfg"
    and "metrics_ready (wd_metrics (ss_world st))"
  shows "fst (serve_loop lib cfg client e (Some bt) evs st) = expected_outcome evs"
proof -
  from assms(1) NewSentinel_made [of cfg "sv_cel lib" e] obtain s where
    s: "NewSentinel (sv_cel lib) cfg e = Inr s" "st_config s = cfg"
    unfolding surroundings_ok_def by blast
  let ?w = "log_at LevelInfo [] ''Starting sentinel loop'' (log_at LevelInfo [] ''Initialized broker publisher'' (ss_world st))"
  have "deps_sound (run_deps lib client (Some bt))"
    using assms(1) by (simp add: deps_sound_def run_deps_def surroundings_ok_def)
  moreover have "sc_ResourceType cfg \<noteq> []"
    using assms(2) by (auto simp: config_ok_def dest: validResourceTypes_nonempty)
  ultimately have "loop_ready (run_deps lib client (Some bt)) s ?w"
    using assms(3) s(2) by (simp add: loop_ready_def)
  moreover have "0 < sint (sc_PollInterval (st_config s))"
    using assms(2) s(2) by (simp add: config_ok_def)
  ultimately obtain s' w' where
    "Start (run_deps lib client (Some bt)) [] evs s ?w = Some (loop_end evs, s', w')"
    using Start_runs by blast
  then show ?thesis
    by (cases "loop_end evs") (simp_all add: serve_loop_def s expected_outcome_def)
qed

lemma serve_publisher_outcome:
  assumes "surroundings_ok lib cfg st0" and "config_ok cfg"
    and "metrics_ready (wd_metrics (ss_world st))"
  shows "fst (serve_publisher lib version registry cfg client evs st) = expected_outcome evs"
proof -
  obtain made rest where made: "sv_NewPublisher lib
      (sv_NewMetricsRecorder lib ''sentinel'' version (Registry registry) (wd_rest (ss_world st))) = (made, rest)" by force
  with assms(1) obtain bt where bt: "made = Inr (Some bt)"
    unfolding surroundings_ok_def by (metis fst_conv)
  from assms(1) obtain e where e: "NewDecisionEngine (sv_cel lib) (sc_MessageDecision cfg) = Inr e"
    unfolding surroundings_ok_def by blast
  let ?st = "held PublisherOpened (st\<lparr>ss_world := (ss_world st)\<lparr>wd_rest := rest\<rparr>\<rparr>)"
  have "metrics_ready (wd_metrics (ss_world ?st))" using assms(3) by simp
  from serve_loop_outcome [OF assms(1,2) this, of client e bt evs] show ?thesis
    by (simp add: serve_publisher_def e made bt split_def Let_def)
qed

lemma serve_body_outcome:
  assumes "surroundings_ok lib cfg st" and "config_ok cfg"
  shows "fst (serve_body lib version commit registry cfg logCfg evs st) = expected_outcome evs"
proof -
  let ?st0 = "log_debug_config lib cfg (on_world (log_extra LevelInfo
      [(''commit'', GStr commit), (''log_level'', GStr (LogLevel_String (lg_Level logCfg))),
       (''log_format'', GStr (LogFormat_String (lg_Format logCfg)))] []
      ''Starting HyperFleet Sentinel'') st)"
  have start: "wd_metrics (ss_world st) = metrics_start"
    using assms(1) by (simp add: surroundings_ok_def)
  from metrics_at_start [of "Registry registry" version] obtain inst m where
    m: "NewSentinelMetrics (Some (Registry registry)) version metrics_start = Some (inst, m)" "metrics_ready m"
    by auto
  from assms(2) obtain api where api: "cc_HyperFleetAPI (sc_Clients cfg) = Some api"
    by (auto simp: config_ok_def)
  have none: "sv_NewClient lib url = None" for url
    using assms(1) by (simp add: surroundings_ok_def)
  obtain client where client: "NewHyperFleetClient (sv_NewClient lib) (ac_BaseURL api) (ac_Timeout api)
      (si_Name (sc_Sentinel cfg)) version = Inr client"
    by (simp add: NewHyperFleetClient_def none)
  let ?st1 = "on_world (\<lambda>w. w\<lparr>wd_metrics := m\<rparr>) ?st0"
  obtain err st2 where v: "verify_in_world (sv_api lib client) ?st1 = (err, st2)" by force
  have "fst (VerifyConnectivity (sv_api lib client) net) = None" for net
    using assms(1) by (simp add: surroundings_ok_def)
  with v m(2) have v2: "err = None" "metrics_ready (wd_metrics (ss_world st2))"
    by (auto simp: verify_in_world_def Let_def split: prod.splits) (metis fst_conv option.distinct(1))
  let ?st3 = "on_world (log_at LevelInfo [] ''Initialized HyperFleet client'') st2"
  have "metrics_ready (wd_metrics (ss_world ?st3))" using v2(2) by simp
  from serve_publisher_outcome [OF assms this] show ?thesis
    by (simp add: serve_body_def Let_def start m(1) api client v v2(1))
qed

lemma runServe_outcome:
  assumes "surroundings_ok lib cfg st" and "config_ok cfg"
  shows "fst (runServe lib version commit registry cfg logCfg evs st) = expected_outcome evs"
proof -
  obtain tp st1 where tr: "setup_tracing lib version logCfg st = (tp, st1)" by force
  have "surroundings_ok lib cfg st1"
    using assms(1) setup_tracing_held [OF tr] by (simp add: surroundings_ok_def)
  from serve_body_outcome [OF this assms(2)] show ?thesis
    by (simp add: runServe_def tr split_def Let_def)
qed

section \<open>The probes of the running program\<close>

lemma serve_readiness_passes:
  "list_all passes (check_outcomes (rd_checks (serve_readiness lib pub s)) rest) \<longleftrightarrow>
     pub \<noteq> None \<and> passes (fst (sv_PublisherHealth lib rest)) \<and> \<not> IsZero (LastSuccessfulPoll s)"
  by (auto simp: serve_readiness_def AddCheck_def SetReady_def NewReadinessChecker_def gmap_simps
      broker_check_def sentinel_poll_check_def)

lemma serve_readiness_ready [simp]: "rd_ready (serve_readiness lib pub s)"
  by (simp add: serve_readiness_def AddCheck_def SetReady_def)

lemma NewSentinel_not_polled: "NewSentinel cel cfg e = Inr s \<Longrightarrow> IsZero (LastSuccessfulPoll s)"
  by (auto simp: NewSentinel_def Let_def LastSuccessfulPoll_def IsZero_def zero_time_def
      split: option.splits sum.splits)

text \<open>
  C20: The probes of the running program. \<open>/readyz\<close> answers 200 exactly when there is a publisher, the
  publisher reports itself healthy and at least one cycle has completed, and 503 in every other
  case, so it is never ready before its first completed cycle. \<open>/healthz\<close> answers 200 until the
  first completed cycle and then 503 exactly when the last one lies further back than three
  poll intervals, as long as three poll intervals fit a duration. No other path is served.
\<close>

theorem program_probes:
  "(\<exists>readyz. gmap_get (healthMux lib cfg encode (serve_readiness lib pub s) s) ''/readyz'' = Some readyz \<and>
      hr_status (fst (readyz ctx w)) =
        (if pub \<noteq> None \<and> passes (fst (sv_PublisherHealth lib (wd_rest w))) \<and> \<not> IsZero (LastSuccessfulPoll s)
         then 200 else 503)) \<and>
   (0 < sint (sc_PollInterval cfg) \<and> sint (sc_PollInterval cfg) \<le> 3074457345618258602 \<longrightarrow>
      (\<exists>healthz. gmap_get (healthMux lib cfg encode (serve_readiness lib pub s) s) ''/healthz'' = Some healthz \<and>
        (hr_status (fst (healthz ctx w)) =
          (if \<not> IsZero (LastSuccessfulPoll s) \<and>
              3 * sint (sc_PollInterval cfg) <
                sat_int64 (t_instant (fst (time_Now (sv_lib lib) w)) - t_instant (LastSuccessfulPoll s))
           then 503 else 200)))) \<and>
   (path \<notin> {''/readyz'', ''/healthz''} \<longrightarrow>
      gmap_get (healthMux lib cfg encode (serve_readiness lib pub s) s) path = None) \<and>
   (NewSentinel cel cfg e = Inr s \<longrightarrow> IsZero (LastSuccessfulPoll s))"
proof (intro conjI impI)
  show "\<exists>readyz. gmap_get (healthMux lib cfg encode (serve_readiness lib pub s) s) ''/readyz'' = Some readyz \<and>
      hr_status (fst (readyz ctx w)) =
        (if pub \<noteq> None \<and> passes (fst (sv_PublisherHealth lib (wd_rest w))) \<and> \<not> IsZero (LastSuccessfulPoll s)
         then 200 else 503)"
    by (simp add: healthMux_def gmap_simps readyz_answer serve_readiness_passes)
next
  assume "0 < sint (sc_PollInterval cfg) \<and> sint (sc_PollInterval cfg) \<le> 3074457345618258602"
  then have "sint (health_threshold (sc_PollInterval cfg)) = 3 * sint (sc_PollInterval cfg)"
    by (simp add: health_threshold_exact)
  then show "\<exists>healthz. gmap_get (healthMux lib cfg encode (serve_readiness lib pub s) s) ''/healthz'' = Some healthz \<and>
        (hr_status (fst (healthz ctx w)) =
          (if \<not> IsZero (LastSuccessfulPoll s) \<and>
              3 * sint (sc_PollInterval cfg) <
                sat_int64 (t_instant (fst (time_Now (sv_lib lib) w)) - t_instant (LastSuccessfulPoll s))
           then 503 else 200))"
    using \<open>0 < sint (sc_PollInterval cfg) \<and> sint (sc_PollInterval cfg) \<le> 3074457345618258602\<close>
    by (simp add: healthMux_def gmap_simps healthz_answer)
qed (auto simp: healthMux_def gmap_simps dest: NewSentinel_not_polled)

text \<open>
  C40: The liveness probe over every poll interval that the configuration accepts, the longest ones
  included. The threshold is three intervals, computed in 64 bits: exact up to 97 years
  (3074457345618258602 ns). From there to 195 years it wraps around to a negative number, and
  \<open>/healthz\<close> answers 500 whatever the sentinel does. Beyond, it wraps around to less than one
  interval: the answer is 503 already when the last cycle lies one interval back, so that a
  sentinel which polls exactly on time is reported stale.
\<close>

theorem health_threshold_bounds:
  fixes cfg :: sentinel_config
  defines "p \<equiv> sint (sc_PollInterval cfg)"
  assumes "0 < p" and "gmap_get (healthMux lib cfg encode r s) ''/healthz'' = Some healthz"
  shows "hr_status (fst (healthz ctx w)) =
     (let age = sat_int64 (t_instant (fst (time_Now (sv_lib lib) w)) - t_instant (LastSuccessfulPoll s));
          stale = (\<lambda>limit. if \<not> IsZero (LastSuccessfulPoll s) \<and> limit < age then 503 else 200)
      in if p \<le> 3074457345618258602 then stale (3 * p)
         else if p \<le> 6148914691236517205 then 500
         else stale (3 * p - 18446744073709551616)) \<and>
     (6148914691236517205 < p \<and> \<not> IsZero (LastSuccessfulPoll s) \<and>
      t_instant (fst (time_Now (sv_lib lib) w)) = t_instant (LastSuccessfulPoll s) + p \<longrightarrow>
        hr_status (fst (healthz ctx w)) = 503)"
proof -
  let ?t = "sint (health_threshold (sc_PollInterval cfg))"
  have upper: "p < 9223372036854775808"
    unfolding p_def using sint_less [of "sc_PollInterval cfg"] by simp
  have t: "?t = (if p \<le> 3074457345618258602 then 3 * p else 3 * p - 18446744073709551616)"
    using assms(2) health_threshold_exact [of "sc_PollInterval cfg"] health_threshold_wraps [of "sc_PollInterval cfg"]
    by (simp add: p_def)
  have healthz: "hr_status (fst (healthz ctx w)) =
     (if ?t \<le> 0 then 500 else if IsZero (LastSuccessfulPoll s) then 200
      else if sat_int64 (t_instant (fst (time_Now (sv_lib lib) w)) - t_instant (LastSuccessfulPoll s)) > ?t then 503
      else 200)"
    using assms(3) by (auto simp: healthMux_def gmap_simps healthz_answer)
  have "sat_int64 p = p" using assms(2) upper by (simp add: sat_int64_def min_int64_def max_int64_def)
  then show ?thesis
    using assms(2) upper unfolding healthz t Let_def by auto
qed

section \<open>Instances\<close>

definition sample_serve_libs :: "(nat, unit, string, string) serve_libs" where
  "sample_serve_libs =
     \<lparr>sv_lib = sample_libs, sv_api = \<lambda>_. sample_api 200, sv_retry = \<lambda>_. retry_attempts 3, sv_cel = literal_cel,
      sv_otel = sample_otel [], sv_Marshal = \<lambda>_. Inr [], sv_NewClient = \<lambda>_. None,
      sv_NewMetricsRecorder = \<lambda>_ _ _ n. n, sv_NewPublisher = \<lambda>n. (Inr (Some ''rabbitmq''), n + 1), sv_ClosePublisher = \<lambda>n. (None, n + 1),
      sv_PublisherHealth = \<lambda>n. (None, n)\<rparr>"

definition sample_serve_config :: sentinel_config where
  "sample_serve_config =
     NewSentinelConfig\<lparr>sc_ResourceType := ''clusters'',
       sc_Clients := \<lparr>cc_HyperFleetAPI = Some \<lparr>ac_BaseURL = ''http://api'', ac_Version = ''v1'', ac_Timeout = 10 * second\<rparr>,
                      cc_Broker = Some \<lparr>bc_Topic = ''t''\<rparr>\<rparr>,
       sc_MessageData := Some [(''why'', GStr ''true'')],
       sc_MessageDecision := Some \<lparr>md_Result = ''true'', md_Params = []\<rparr>\<rparr>"

definition sample_logger_config :: logger_config where
  "sample_logger_config =
     \<lparr>lg_Output = Some Stdout, lg_Component = ''sentinel'', lg_Version = ''dev'', lg_Hostname = ''h'',
      lg_Level = LevelInfo, lg_Format = FormatText, lg_OTelEnabled = True\<rparr>"

definition sample_serve_state :: "nat serve_state" where
  "sample_serve_state =
     \<lparr>ss_world = \<lparr>wd_logs = [], wd_calls = [], wd_spans = [], wd_next_span = 0, wd_sent = [],
                   wd_metrics = metrics_start, wd_rest = 0\<rparr>,
      ss_otel = otel_start, ss_held = []\<rparr>"

lemma sample_config_ok: "config_ok sample_serve_config"
  by (simp add: config_ok_def sample_serve_config_def NewSentinelConfig_def validResourceTypes_def
      decision_ok_def second_def)

lemma sample_surroundings: "surroundings_ok sample_serve_libs sample_serve_config sample_serve_state"
proof -
  have "fst (VerifyConnectivity (sample_api 200) net) = None" for net
    by (simp add: VerifyConnectivity_def GetClustersWithResponse_def sample_api_def Let_def StatusOK_def split_def)
  moreover have "NewDecisionEngine literal_cel (sc_MessageDecision sample_serve_config) =
      Inr \<lparr>de_resultProg = ''true'', de_conditionsLookup = [], de_params = []\<rparr>"
    by code_simp
  moreover have "NewBuilder literal_cel (GMap [(''why'', GStr ''true'')]) =
      Inr \<lparr>b_compiled = [(''why'', NodeProgram ''true'')]\<rparr>"
    by (simp add: NewBuilder_def literal_cel_def newCELEnv_def compileNode.simps zero_value_def_def)
  moreover have "never_nil_reply (sample_api 200)"
    by (simp add: never_nil_reply_def sample_api_def)
  ultimately show ?thesis
    using literal_cel_never_nil retry_attempts_contract
    by (simp add: surroundings_ok_def sample_serve_libs_def sample_serve_state_def) (simp add: sample_serve_config_def)
qed

lemma sample_stop:
  "fst (runServe sample_serve_libs ''dev'' ''abc'' 0 sample_serve_config sample_logger_config
     [Tick, CtxDone canceled] sample_serve_state) = Stopped"
  using runServe_outcome [OF sample_surroundings sample_config_ok]
  by (simp add: expected_outcome_def)

theorem serve_releases_witness:
  "\<exists>traced opened. ss_held (snd (runServe sample_serve_libs ''dev'' ''abc'' 0 sample_serve_config sample_logger_config
     [Tick, CtxDone canceled] sample_serve_state)) =
     kept traced TracerStarted @ kept opened PublisherOpened @ kept opened PublisherClosed @ kept traced TracerShutDown"
proof -
  let ?run = "runServe sample_serve_libs ''dev'' ''abc'' 0 sample_serve_config sample_logger_config
     [Tick, CtxDone canceled] sample_serve_state"
  have "?run = (Stopped, snd ?run)" using sample_stop by (metis prod.collapse)
  from serve_releases [OF this] show ?thesis by (simp add: sample_serve_state_def)
qed

theorem program_probes_witness:
  "\<exists>readyz healthz.
     gmap_get (healthMux sample_serve_libs sample_serve_config (\<lambda>_. None)
       (serve_readiness sample_serve_libs (Some ''rabbitmq'') sample_sentinel) sample_sentinel) ''/readyz'' = Some readyz \<and>
     gmap_get (healthMux sample_serve_libs sample_serve_config (\<lambda>_. None)
       (serve_readiness sample_serve_libs (Some ''rabbitmq'') sample_sentinel) sample_sentinel) ''/healthz'' = Some healthz \<and>
     hr_status (fst (readyz [] sample_world)) = 503 \<and> hr_status (fst (healthz [] sample_world)) = 200"
proof -
  have zero: "IsZero (LastSuccessfulPoll sample_sentinel)"
    by (simp add: LastSuccessfulPoll_def sample_sentinel_def IsZero_def zero_time_def)
  have "sint (sc_PollInterval sample_serve_config) = 5000000000" by code_simp
  with zero show ?thesis
    using program_probes [of sample_serve_libs sample_serve_config "\<lambda>_. None" "Some ''rabbitmq''" sample_sentinel
        "[]" sample_world "[]"]
    by auto
qed

theorem health_threshold_bounds_witness:
  "\<exists>healthz.
     gmap_get (healthMux sample_serve_libs (sample_serve_config\<lparr>sc_PollInterval := 4000000000000000000\<rparr>) (\<lambda>_. None)
       (serve_readiness sample_serve_libs (Some ''rabbitmq'') sample_sentinel) sample_sentinel) ''/healthz'' = Some healthz \<and>
     hr_status (fst (healthz [] sample_world)) = 500"
proof -
  let ?cfg = "sample_serve_config\<lparr>sc_PollInterval := 4000000000000000000\<rparr>"
  let ?mux = "healthMux sample_serve_libs ?cfg (\<lambda>_. None)
       (serve_readiness sample_serve_libs (Some ''rabbitmq'') sample_sentinel) sample_sentinel"
  have p: "sint (sc_PollInterval ?cfg) = 4000000000000000000" by code_simp
  obtain healthz where h: "gmap_get ?mux ''/healthz'' = Some healthz"
    by (simp add: healthMux_def gmap_simps)
  from health_threshold_bounds [of ?cfg, OF _ h, of "[]" sample_world] p h show ?thesis by auto
qed

text \<open>An API that cannot be verified: the start fails and sends nothing.\<close>

lemma sample_unverified:
  "\<exists>err. fst (runServe (sample_serve_libs\<lparr>sv_NewClient := \<lambda>_. Some (ErrText ''bad url'')\<rparr>) ''dev'' ''abc'' 0
       sample_serve_config (sample_logger_config\<lparr>lg_OTelEnabled := False\<rparr>) [] sample_serve_state) =
     Failed (ErrWrap ''failed to initialize OpenAPI client'' err)"
proof -
  obtain inst m where m: "NewSentinelMetrics (Some (Registry 0)) ''dev'' metrics_start = Some (inst, m)"
    using metrics_at_start by blast
  show ?thesis
    by (simp add: runServe_def setup_tracing_def sample_logger_config_def serve_body_def Let_def
        sample_serve_state_def m sample_serve_config_def NewHyperFleetClient_def split_def
        shutdown_tracing_def)
qed

theorem failed_start_sends_nothing_witness:
  "wd_sent (ss_world (snd (runServe (sample_serve_libs\<lparr>sv_NewClient := \<lambda>_. Some (ErrText ''bad url'')\<rparr>) ''dev'' ''abc'' 0
       sample_serve_config (sample_logger_config\<lparr>lg_OTelEnabled := False\<rparr>) [] sample_serve_state))) = []"
proof -
  let ?run = "runServe (sample_serve_libs\<lparr>sv_NewClient := \<lambda>_. Some (ErrText ''bad url'')\<rparr>) ''dev'' ''abc'' 0
       sample_serve_config (sample_logger_config\<lparr>lg_OTelEnabled := False\<rparr>) [] sample_serve_state"
  obtain err where "fst ?run = Failed (ErrWrap ''failed to initialize OpenAPI client'' err)"
    using sample_unverified by blast
  then have run: "?run = (Failed (ErrWrap ''failed to initialize OpenAPI client'' err), snd ?run)"
    by (metis prod.collapse)
  have "\<nexists>e. ErrWrap ''failed to initialize OpenAPI client'' err = ErrWrap ''sentinel failed'' e" by simp
  from failed_start_sends_nothing [OF run this] show ?thesis by (simp add: sample_serve_state_def)
qed

end
