(* ===== verification/Shutdown.thy ===== *)
theory Shutdown
  imports Serve
begin

text \<open>
  The goroutines of \<open>runServe\<close> (\<open>cmd/sentinel/main.go\<close>) as a step relation: the main goroutine in the
  polling loop, the one that waits for a signal and then shuts down, and the two HTTP servers.
  A step is one atomic action of one of them, in any interleaving; when the main goroutine has
  returned the process is over and nothing steps any more.
\<close>

section \<open>States and steps\<close>

datatype signal_pc = AwaitingSignal | GotSignal | SetUnready | CalledCancel | HealthDown | SignalDone

datatype main_pc = InLoop | LeftLoop | Exited

record 'w process =
  pr_readiness :: "'w readiness"
  pr_cancelled :: bool
  pr_signal :: signal_pc
  pr_main :: main_pc
  pr_cycles :: nat
  pr_health_up :: bool
  pr_metrics_up :: bool

definition process_start :: "'w readiness \<Rightarrow> 'w process" where
  "process_start r =
     \<lparr>pr_readiness = SetReady True r, pr_cancelled = False, pr_signal = AwaitingSignal, pr_main = InLoop,
      pr_cycles = 0, pr_health_up = True, pr_metrics_up = True\<rparr>"

text \<open>
  The signal goroutine in the order of its statements; the loop may take another tick even when
  its context is done already, since a \<open>select\<close> with two ready cases takes either; a server may
  also fail on its own.
\<close>

inductive process_step :: "'w process \<Rightarrow> 'w process \<Rightarrow> bool" where
  tick: "pr_main p = InLoop \<Longrightarrow> process_step p (p\<lparr>pr_cycles := Suc (pr_cycles p)\<rparr>)"
| arrive: "pr_main p \<noteq> Exited \<Longrightarrow> pr_signal p = AwaitingSignal \<Longrightarrow>
     process_step p (p\<lparr>pr_signal := GotSignal\<rparr>)"
| unready: "pr_main p \<noteq> Exited \<Longrightarrow> pr_signal p = GotSignal \<Longrightarrow>
     process_step p (p\<lparr>pr_readiness := SetReady False (pr_readiness p), pr_signal := SetUnready\<rparr>)"
| cancel: "pr_main p \<noteq> Exited \<Longrightarrow> pr_signal p = SetUnready \<Longrightarrow>
     process_step p (p\<lparr>pr_cancelled := True, pr_signal := CalledCancel\<rparr>)"
| health_shutdown: "pr_main p \<noteq> Exited \<Longrightarrow> pr_signal p = CalledCancel \<Longrightarrow>
     process_step p (p\<lparr>pr_health_up := False, pr_signal := HealthDown\<rparr>)"
| metrics_shutdown: "pr_main p \<noteq> Exited \<Longrightarrow> pr_signal p = HealthDown \<Longrightarrow>
     process_step p (p\<lparr>pr_metrics_up := False, pr_signal := SignalDone\<rparr>)"
| leave: "pr_main p = InLoop \<Longrightarrow> pr_cancelled p \<Longrightarrow> process_step p (p\<lparr>pr_main := LeftLoop\<rparr>)"
| exit: "pr_main p = LeftLoop \<Longrightarrow> process_step p (p\<lparr>pr_main := Exited\<rparr>)"
| health_fails: "pr_main p \<noteq> Exited \<Longrightarrow> process_step p (p\<lparr>pr_health_up := False\<rparr>)"
| metrics_fails: "pr_main p \<noteq> Exited \<Longrightarrow> process_step p (p\<lparr>pr_metrics_up := False\<rparr>)"

inductive reachable :: "'w readiness \<Rightarrow> 'w process \<Rightarrow> bool" for r where
  initial: "reachable r (process_start r)"
| more: "reachable r p \<Longrightarrow> process_step p q \<Longrightarrow> reachable r q"

inductive_cases exited_step: "process_step p q"

section \<open>The order of a shutdown\<close>

fun signal_rank :: "signal_pc \<Rightarrow> nat" where
  "signal_rank AwaitingSignal = 0"
| "signal_rank GotSignal = 1"
| "signal_rank SetUnready = 2"
| "signal_rank CalledCancel = 3"
| "signal_rank HealthDown = 4"
| "signal_rank SignalDone = 5"

definition process_inv :: "'w readiness \<Rightarrow> 'w process \<Rightarrow> bool" where
  "process_inv r p \<longleftrightarrow>
     (rd_ready (pr_readiness p) \<longleftrightarrow> signal_rank (pr_signal p) < 2) \<and>
     (pr_cancelled p \<longleftrightarrow> 3 \<le> signal_rank (pr_signal p)) \<and>
     (pr_main p \<noteq> InLoop \<longrightarrow> pr_cancelled p) \<and>
     rd_checks (pr_readiness p) = rd_checks r \<and>
     (pr_signal p \<in> {HealthDown, SignalDone} \<longrightarrow> \<not> pr_health_up p) \<and>
     (pr_signal p = SignalDone \<longrightarrow> \<not> pr_metrics_up p)"

lemma process_inv_step:
  assumes "process_step p q" and "process_inv r p"
  shows "process_inv r q"
  using assms by (cases rule: process_step.cases) (auto simp: process_inv_def SetReady_def)

lemma reachable_inv: "reachable r p \<Longrightarrow> process_inv r p"
proof (induction rule: reachable.induct)
  case initial
  show ?case by (simp add: process_inv_def process_start_def SetReady_def)
next
  case (more p q)
  then show ?case by (blast intro: process_inv_step)
qed

text \<open>
  A shutdown goes in the right order, however the goroutines interleave. Before a signal the
  program is ready and its context is not cancelled; once the context is cancelled, and so
  whenever the polling loop has been left, \<open>/readyz\<close> answers 503 and runs no check, so no traffic
  is routed to a process that no longer polls; the loop is left only on cancellation; and the
  registered checks stay the same all along.
\<close>

theorem shutdown_order:
  assumes "reachable r p"
  shows "(pr_signal p = AwaitingSignal \<longrightarrow> IsReady (pr_readiness p) \<and> \<not> pr_cancelled p) \<and>
     (pr_main p \<noteq> InLoop \<longrightarrow> pr_cancelled p) \<and>
     (pr_cancelled p \<longrightarrow>
        hr_status (fst (ReadyzHandler encode (pr_readiness p) ctx w)) = 503 \<and>
        wd_rest (snd (ReadyzHandler encode (pr_readiness p) ctx w)) = wd_rest w) \<and>
     rd_checks (pr_readiness p) = rd_checks r"
  using reachable_inv [OF assms]
  by (auto simp: process_inv_def IsReady_def ReadyzHandler_def StatusServiceUnavailable_def)

section \<open>The end of the process\<close>

lemma exited_stuck: "pr_main p = Exited \<Longrightarrow> \<not> process_step p q"
  by (auto elim: exited_step)

lemma steps_reachable: "process_step\<^sup>*\<^sup>* p q \<Longrightarrow> reachable r p \<Longrightarrow> reachable r q"
  by (induction rule: rtranclp_induct) (auto intro: more)

text \<open>What is still to do of a shutdown, and that it can always be done.\<close>

definition remaining :: "'w process \<Rightarrow> nat" where
  "remaining p = (3 - signal_rank (pr_signal p)) + (case pr_main p of InLoop \<Rightarrow> 2 | LeftLoop \<Rightarrow> 1 | Exited \<Rightarrow> 0)"

lemma shutdown_progress:
  assumes "process_inv r p" and "pr_signal p \<noteq> AwaitingSignal" and "pr_main p \<noteq> Exited"
  shows "\<exists>q. process_step p q \<and> process_inv r q \<and> pr_signal q \<noteq> AwaitingSignal \<and> remaining q < remaining p"
proof -
  have step: ?thesis if "process_step p q" "pr_signal q \<noteq> AwaitingSignal" "remaining q < remaining p" for q
    using that process_inv_step [OF that(1) assms(1)] by blast
  show ?thesis
  proof (cases "pr_main p")
    case LeftLoop
    then show ?thesis
      using assms(2) by (intro step [of "p\<lparr>pr_main := Exited\<rparr>"]) (auto intro: exit simp: remaining_def)
  next
    case InLoop
    show ?thesis
    proof (cases "pr_cancelled p")
      case True
      with InLoop show ?thesis
        using assms(2) by (intro step [of "p\<lparr>pr_main := LeftLoop\<rparr>"]) (auto intro: leave simp: remaining_def)
    next
      case False
      with assms(1,2) have "pr_signal p = GotSignal \<or> pr_signal p = SetUnready"
        by (cases "pr_signal p") (auto simp: process_inv_def)
      then show ?thesis
      proof
        assume "pr_signal p = GotSignal"
        with InLoop show ?thesis
          by (intro step [of "p\<lparr>pr_readiness := SetReady False (pr_readiness p), pr_signal := SetUnready\<rparr>"])
            (auto intro: unready simp: remaining_def)
      next
        assume "pr_signal p = SetUnready"
        with InLoop show ?thesis
          by (intro step [of "p\<lparr>pr_cancelled := True, pr_signal := CalledCancel\<rparr>"])
            (auto intro: cancel simp: remaining_def)
      qed
    qed
  next
    case Exited
    with assms(3) show ?thesis by simp
  qed
qed

lemma shutdown_can_exit:
  "process_inv r p \<Longrightarrow> pr_signal p \<noteq> AwaitingSignal \<Longrightarrow>
     \<exists>q n. (process_step ^^ n) p q \<and> pr_main q = Exited \<and> n \<le> remaining p"
proof (induction "remaining p" arbitrary: p rule: less_induct)
  case less
  show ?case
  proof (cases "pr_main p = Exited")
    case True
    then show ?thesis by (intro exI [of _ p] exI [of _ 0]) simp
  next
    case False
    from shutdown_progress [OF less.prems False] obtain q where
      q: "process_step p q" "process_inv r q" "pr_signal q \<noteq> AwaitingSignal" "remaining q < remaining p" by blast
    from less.hyps [OF q(4,2,3)] obtain x n where
      x: "(process_step ^^ n) q x" "pr_main x = Exited" "n \<le> remaining q" by blast
    have "(process_step ^^ Suc n) p x" using q(1) x(1) by (rule relpowp_Suc_I2)
    moreover have "Suc n \<le> remaining p" using x(3) q(4) by simp
    ultimately show ?thesis using x(2) by blast
  qed
qed

text \<open>
  C24: A signal ends the process, but nobody waits for the HTTP servers. From every reachable state
  after a signal the process can exit within four steps, and an exited process does nothing
  more; while no signal has come it never exits. Yet it can exit with both servers still up
  and the graceful shutdown of neither begun, because the main goroutine returns as soon as the
  loop has been left, and requests being answered are then cut off.
\<close>

theorem shutdown_exits_without_waiting:
  "(\<forall>p. reachable r p \<and> pr_signal p \<noteq> AwaitingSignal \<longrightarrow>
      (\<exists>q n. (process_step ^^ n) p q \<and> pr_main q = Exited \<and> n \<le> 4)) \<and>
   (\<forall>p. reachable r p \<and> pr_main p = Exited \<longrightarrow>
      pr_signal p \<noteq> AwaitingSignal \<and> (\<forall>q. \<not> process_step p q)) \<and>
   (\<exists>p. reachable r p \<and> pr_main p = Exited \<and> pr_health_up p \<and> pr_metrics_up p)"
proof (intro conjI allI impI)
  fix p assume p: "reachable r p \<and> pr_signal p \<noteq> AwaitingSignal"
  then obtain q n where "(process_step ^^ n) p q" "pr_main q = Exited" "n \<le> remaining p"
    using shutdown_can_exit [OF reachable_inv] by blast
  moreover have "remaining p \<le> 4"
    using p by (cases "pr_signal p") (auto simp: remaining_def split: main_pc.split)
  ultimately show "\<exists>q n. (process_step ^^ n) p q \<and> pr_main q = Exited \<and> n \<le> 4"
    by (meson le_trans)
next
  fix p assume p: "reachable r p \<and> pr_main p = Exited"
  with reachable_inv have "process_inv r p" by blast
  with p have "3 \<le> signal_rank (pr_signal p)" by (auto simp: process_inv_def)
  then show "pr_signal p \<noteq> AwaitingSignal" by auto
next
  fix p q assume "reachable r p \<and> pr_main p = Exited"
  then show "\<not> process_step p q" using exited_stuck by blast
next
  let ?p0 = "process_start r"
  let ?p1 = "?p0\<lparr>pr_signal := GotSignal\<rparr>"
  let ?p2 = "?p1\<lparr>pr_readiness := SetReady False (pr_readiness ?p1), pr_signal := SetUnready\<rparr>"
  let ?p3 = "?p2\<lparr>pr_cancelled := True, pr_signal := CalledCancel\<rparr>"
  let ?p4 = "?p3\<lparr>pr_main := LeftLoop\<rparr>"
  let ?p5 = "?p4\<lparr>pr_main := Exited\<rparr>"
  have "reachable r ?p0" by (rule initial)
  then have "reachable r ?p1" by (rule more) (rule arrive, simp_all add: process_start_def)
  then have "reachable r ?p2" by (rule more) (rule unready, simp_all add: process_start_def)
  then have "reachable r ?p3" by (rule more) (rule cancel, simp_all add: process_start_def)
  then have "reachable r ?p4" by (rule more) (rule leave, simp_all add: process_start_def)
  then have "reachable r ?p5" by (rule more) (rule exit, simp_all add: process_start_def)
  then show "\<exists>p. reachable r p \<and> pr_main p = Exited \<and> pr_health_up p \<and> pr_metrics_up p"
    by (intro exI [of _ ?p5]) (simp add: process_start_def)
qed

section \<open>Instances\<close>

theorem shutdown_order_witness:
  "IsReady (pr_readiness (process_start sample_readiness))"
  using shutdown_order [OF initial, of sample_readiness] by (simp add: process_start_def)

text \<open>The theorem on exits, at the readiness of the sample program.\<close>

theorem shutdown_exits_without_waiting_witness:
  "\<exists>p. reachable sample_readiness p \<and> pr_main p = Exited \<and> pr_health_up p \<and> pr_metrics_up p"
  using shutdown_exits_without_waiting [of sample_readiness] by blast

end
