(* ===== verification/Process.thy ===== *)
theory Process
  imports Shutdown
begin

text \<open>
  The running process with its real parts (\<open>cmd/sentinel/main.go\<close>): where \<open>Shutdown\<close> keeps of each
  goroutine only where it stands, a state here holds the sentinel and the world, a turn of the
  main goroutine runs the polling loop on them, a probe runs the handler registered for its path,
  and the return of the main goroutine runs the deferred clean-ups. The process is related in
  both directions: it refines the abstract shutdown, and without probes between its turns it
  computes what the \<open>serve\<close> command computes as a sequential function. A cycle and a request are one
  step each. The lines of the goroutines that run beside the loop are kept apart from the lines
  of the loop, since their order among those is free.
\<close>

section \<open>States and steps\<close>

text \<open>What \<open>runServe\<close> has made before its goroutines start, and never changes afterwards.\<close>

record ('w, 'env, 'ast, 'prog) program_env =
  pe_lib :: "('w, 'env, 'ast, 'prog) serve_libs"
  pe_cfg :: sentinel_config
  pe_client :: hyperfleet_client
  pe_pub :: "string option"
  pe_tracer :: "tracer_provider option"
  pe_encode :: "health_body \<Rightarrow> go_error option"
  pe_page :: "metrics \<Rightarrow> int \<times> string"
  pe_health_address :: string
  pe_metrics_address :: string

datatype program_pc = BeforeLoop | Selecting | AfterLoop | Ended | Crashed

text \<open>Where the goroutine of a server is: not run yet, in \<open>ListenAndServe\<close>, or returned from it.\<close>

datatype server_pc = NotServing | Serving | ServerReturned

record ('w, 'prog) program =
  pg_state :: "'w serve_state"
  pg_sentinel :: "'prog sentinel"
  pg_ready :: bool
  pg_cancelled :: bool
  pg_signal :: signal_pc
  pg_main :: program_pc
  pg_cycles :: nat
  pg_health :: server_pc
  pg_health_up :: bool
  pg_metrics :: server_pc
  pg_metrics_up :: bool
  pg_lines :: "(log_level \<times> string) list"

definition env_deps :: "('w, 'env, 'ast, 'prog) program_env \<Rightarrow> ('w, 'env, 'ast, 'prog) deps" where
  "env_deps env = run_deps (pe_lib env) (pe_client env) (pe_pub env)"

text \<open>The checker of the readiness endpoint as it is now: its checks read the current sentinel.\<close>

definition program_readiness ::
    "('w, 'env, 'ast, 'prog) program_env \<Rightarrow> ('w, 'prog) program \<Rightarrow> 'w readiness" where
  "program_readiness env p =
     SetReady (pg_ready p) (serve_readiness (pe_lib env) (pe_pub env) (pg_sentinel p))"

definition program_mux ::
    "('w, 'env, 'ast, 'prog) program_env \<Rightarrow> ('w, 'prog) program \<Rightarrow>
     (context_values \<Rightarrow> 'w world \<Rightarrow> http_response \<times> 'w world) gmap" where
  "program_mux env p =
     healthMux (pe_lib env) (pe_cfg env) (pe_encode env) (program_readiness env p) (pg_sentinel p)"

definition health_server ::
    "('w, 'env, 'ast, 'prog) program_env \<Rightarrow> ('w, 'prog) program \<Rightarrow> (http_response, 'w) http_server" where
  "health_server env p = healthServer (pe_health_address env) (program_mux env p)"

definition metrics_server ::
    "('w, 'env, 'ast, 'prog) program_env \<Rightarrow> (int \<times> string, 'w) http_server" where
  "metrics_server env = metricsServer (pe_metrics_address env) (pe_page env)"

definition in_world :: "'w world \<Rightarrow> ('w, 'prog) program \<Rightarrow> ('w, 'prog) program" where
  "in_world w p = p\<lparr>pg_state := (pg_state p)\<lparr>ss_world := w\<rparr>\<rparr>"

definition in_lines :: "log_level \<Rightarrow> string \<Rightarrow> ('w, 'prog) program \<Rightarrow> ('w, 'prog) program" where
  "in_lines level line p = p\<lparr>pg_lines := pg_lines p @ [(level, line)]\<rparr>"

text \<open>What the goroutines log of an error, if there is one.\<close>

definition log_failure :: "string \<Rightarrow> go_error option \<Rightarrow> ('w, 'prog) program \<Rightarrow> ('w, 'prog) program" where
  "log_failure what err p =
     (case err of None \<Rightarrow> p | Some err \<Rightarrow> in_lines LevelError (what @ '': '' @ error_text err) p)"

definition ErrServerClosed :: go_error where
  "ErrServerClosed = ErrText ''http: Server closed''"

text \<open>\<open>ListenAndServe\<close> has returned an error: \<open>ErrServerClosed\<close> after a shutdown, another one otherwise.\<close>

definition serve_returned :: "string \<Rightarrow> go_error \<Rightarrow> ('w, 'prog) program \<Rightarrow> ('w, 'prog) program" where
  "serve_returned what err p = (if err \<noteq> ErrServerClosed then log_failure what (Some err) p else p)"

abbreviation world_of :: "('w, 'prog) program \<Rightarrow> 'w world" where
  "world_of p \<equiv> ss_world (pg_state p)"

text \<open>The process as the goroutines start, the sentinel having been made.\<close>

definition program_start :: "'prog sentinel \<Rightarrow> 'w serve_state \<Rightarrow> ('w, 'prog) program" where
  "program_start s st =
     \<lparr>pg_state = on_world (log_at LevelInfo [] ''Starting sentinel loop'')
                   (on_world (log_at LevelInfo [] ''Initialized broker publisher'') st),
      pg_sentinel = s, pg_ready = True, pg_cancelled = False, pg_signal = AwaitingSignal,
      pg_main = BeforeLoop, pg_cycles = 0, pg_health = NotServing, pg_health_up = True,
      pg_metrics = NotServing, pg_metrics_up = True, pg_lines = []\<rparr>"

datatype program_label =
    LoopTurn
  | LoopLeft
  | Deferred
  | Panic
  | SignalStep
  | Probe string int
  | Scrape string int
  | ServerTurn

inductive program_step ::
    "('w, 'env, 'ast, 'prog) program_env \<Rightarrow> ('w, 'prog) program \<Rightarrow> program_label \<Rightarrow>
     ('w, 'prog) program \<Rightarrow> bool"
  for env where
  first_turn: "pg_main p = BeforeLoop \<Longrightarrow>
     Start (env_deps env) [] [] (pg_sentinel p) (world_of p) = Some (Running, s, w) \<Longrightarrow>
     program_step env p LoopTurn
       (in_world w p\<lparr>pg_sentinel := s, pg_main := Selecting, pg_cycles := Suc (pg_cycles p)\<rparr>)"
| next_turn: "pg_main p = Selecting \<Longrightarrow>
     poll_loop (env_deps env) [] [Tick] (pg_sentinel p) (world_of p) = Some (Running, s, w) \<Longrightarrow>
     program_step env p LoopTurn (in_world w p\<lparr>pg_sentinel := s, pg_cycles := Suc (pg_cycles p)\<rparr>)"
| first_panic: "pg_main p = BeforeLoop \<Longrightarrow>
     Start (env_deps env) [] [] (pg_sentinel p) (world_of p) = None \<Longrightarrow>
     program_step env p Panic (p\<lparr>pg_main := Crashed\<rparr>)"
| next_panic: "pg_main p = Selecting \<Longrightarrow>
     poll_loop (env_deps env) [] [Tick] (pg_sentinel p) (world_of p) = None \<Longrightarrow>
     program_step env p Panic (p\<lparr>pg_main := Crashed\<rparr>)"
| leave_loop: "pg_main p = Selecting \<Longrightarrow> pg_cancelled p \<Longrightarrow>
     poll_loop (env_deps env) [] [CtxDone canceled] (pg_sentinel p) (world_of p) = Some (Returned canceled, s, w) \<Longrightarrow>
     program_step env p LoopLeft
       (in_world (log_at LevelInfo [] ''Sentinel stopped gracefully'' w) p\<lparr>pg_sentinel := s, pg_main := AfterLoop\<rparr>)"
| run_deferred: "pg_main p = AfterLoop \<Longrightarrow>
     program_step env p Deferred
       (p\<lparr>pg_state := shutdown_tracing (pe_lib env) (pe_tracer env)
                       (close_publisher (pe_lib env) (pe_pub env) (pg_state p)), pg_main := Ended\<rparr>)"
| signal_arrives: "pg_main p \<notin> {Ended, Crashed} \<Longrightarrow> pg_signal p = AwaitingSignal \<Longrightarrow>
     program_step env p SignalStep (in_lines LevelInfo ''Received shutdown signal'' p\<lparr>pg_signal := GotSignal\<rparr>)"
| signal_unready: "pg_main p \<notin> {Ended, Crashed} \<Longrightarrow> pg_signal p = GotSignal \<Longrightarrow>
     program_step env p SignalStep (p\<lparr>pg_ready := False, pg_signal := SetUnready\<rparr>)"
| signal_cancel: "pg_main p \<notin> {Ended, Crashed} \<Longrightarrow> pg_signal p = SetUnready \<Longrightarrow>
     program_step env p SignalStep (p\<lparr>pg_cancelled := True, pg_signal := CalledCancel\<rparr>)"
| signal_health: "pg_main p \<notin> {Ended, Crashed} \<Longrightarrow> pg_signal p = CalledCancel \<Longrightarrow>
     program_step env p SignalStep
       (log_failure ''Health server shutdown error'' err p\<lparr>pg_health_up := False, pg_signal := HealthDown\<rparr>)"
| signal_metrics: "pg_main p \<notin> {Ended, Crashed} \<Longrightarrow> pg_signal p = HealthDown \<Longrightarrow>
     program_step env p SignalStep
       (log_failure ''Metrics server shutdown error'' err p\<lparr>pg_metrics_up := False, pg_signal := SignalDone\<rparr>)"
| probe: "pg_main p \<notin> {Ended, Crashed} \<Longrightarrow> pg_health p = Serving \<Longrightarrow> pg_health_up p \<Longrightarrow>
     gmap_get (hs_Handler (health_server env p)) path = Some handler \<Longrightarrow> handler ctx (world_of p) = (resp, w) \<Longrightarrow>
     program_step env p (Probe path (hr_status resp)) (in_world w p)"
| scrape: "pg_main p \<notin> {Ended, Crashed} \<Longrightarrow> pg_metrics p = Serving \<Longrightarrow> pg_metrics_up p \<Longrightarrow>
     gmap_get (hs_Handler (metrics_server env)) path = Some handler \<Longrightarrow> handler ctx (world_of p) = (resp, w) \<Longrightarrow>
     program_step env p (Scrape path (fst resp)) (in_world w p)"
| health_serves: "pg_main p \<notin> {Ended, Crashed} \<Longrightarrow> pg_health p = NotServing \<Longrightarrow>
     program_step env p ServerTurn
       (in_lines LevelInfo (''Starting health server on '' @ pe_health_address env) p\<lparr>pg_health := Serving\<rparr>)"
| metrics_serves: "pg_main p \<notin> {Ended, Crashed} \<Longrightarrow> pg_metrics p = NotServing \<Longrightarrow>
     program_step env p ServerTurn
       (in_lines LevelInfo (''Starting metrics server on '' @ pe_metrics_address env) p\<lparr>pg_metrics := Serving\<rparr>)"
| health_returns: "pg_main p \<notin> {Ended, Crashed} \<Longrightarrow> pg_health p = Serving \<Longrightarrow>
     err = ErrServerClosed \<longleftrightarrow> \<not> pg_health_up p \<Longrightarrow>
     program_step env p ServerTurn
       (serve_returned ''Health server error'' err p\<lparr>pg_health := ServerReturned, pg_health_up := False\<rparr>)"
| metrics_returns: "pg_main p \<notin> {Ended, Crashed} \<Longrightarrow> pg_metrics p = Serving \<Longrightarrow>
     err = ErrServerClosed \<longleftrightarrow> \<not> pg_metrics_up p \<Longrightarrow>
     program_step env p ServerTurn
       (serve_returned ''Metrics server error'' err p\<lparr>pg_metrics := ServerReturned, pg_metrics_up := False\<rparr>)"

text \<open>A run and the labels of its steps, in order.\<close>

inductive program_run ::
    "('w, 'env, 'ast, 'prog) program_env \<Rightarrow> ('w, 'prog) program \<Rightarrow> program_label list \<Rightarrow>
     ('w, 'prog) program \<Rightarrow> bool"
  for env p0 where
  no_step: "program_run env p0 [] p0"
| one_more: "program_run env p0 ls p \<Longrightarrow> program_step env p l q \<Longrightarrow> program_run env p0 (ls @ [l]) q"

inductive_cases program_stepE: "program_step env p l q"

lemma in_world_simps [simp]:
  "pg_state (in_world w p) = (pg_state p)\<lparr>ss_world := w\<rparr>" "pg_sentinel (in_world w p) = pg_sentinel p"
  "pg_ready (in_world w p) = pg_ready p" "pg_cancelled (in_world w p) = pg_cancelled p"
  "pg_signal (in_world w p) = pg_signal p" "pg_main (in_world w p) = pg_main p"
  "pg_cycles (in_world w p) = pg_cycles p" "pg_health_up (in_world w p) = pg_health_up p"
  "pg_metrics_up (in_world w p) = pg_metrics_up p"
  "pg_health (in_world w p) = pg_health p" "pg_metrics (in_world w p) = pg_metrics p"
  "pg_lines (in_world w p) = pg_lines p" "in_world (world_of p) p = p"
  by (simp_all add: in_world_def)

text \<open>Logging changes nothing but the lines.\<close>

lemma in_lines_simps [simp]:
  "pg_state (in_lines level line p) = pg_state p" "pg_sentinel (in_lines level line p) = pg_sentinel p"
  "pg_ready (in_lines level line p) = pg_ready p" "pg_cancelled (in_lines level line p) = pg_cancelled p"
  "pg_signal (in_lines level line p) = pg_signal p" "pg_main (in_lines level line p) = pg_main p"
  "pg_cycles (in_lines level line p) = pg_cycles p" "pg_health_up (in_lines level line p) = pg_health_up p"
  "pg_metrics_up (in_lines level line p) = pg_metrics_up p" "pg_health (in_lines level line p) = pg_health p"
  "pg_metrics (in_lines level line p) = pg_metrics p"
  "pg_lines (in_lines level line p) = pg_lines p @ [(level, line)]"
  by (simp_all add: in_lines_def)

lemma log_failure_simps [simp]:
  "pg_state (log_failure what err p) = pg_state p" "pg_sentinel (log_failure what err p) = pg_sentinel p"
  "pg_ready (log_failure what err p) = pg_ready p" "pg_cancelled (log_failure what err p) = pg_cancelled p"
  "pg_signal (log_failure what err p) = pg_signal p" "pg_main (log_failure what err p) = pg_main p"
  "pg_cycles (log_failure what err p) = pg_cycles p" "pg_health_up (log_failure what err p) = pg_health_up p"
  "pg_metrics_up (log_failure what err p) = pg_metrics_up p" "pg_health (log_failure what err p) = pg_health p"
  "pg_metrics (log_failure what err p) = pg_metrics p"
  by (simp_all add: log_failure_def split: option.split)

lemma serve_returned_simps [simp]:
  "pg_state (serve_returned what err p) = pg_state p" "pg_sentinel (serve_returned what err p) = pg_sentinel p"
  "pg_ready (serve_returned what err p) = pg_ready p" "pg_cancelled (serve_returned what err p) = pg_cancelled p"
  "pg_signal (serve_returned what err p) = pg_signal p" "pg_main (serve_returned what err p) = pg_main p"
  "pg_cycles (serve_returned what err p) = pg_cycles p" "pg_health_up (serve_returned what err p) = pg_health_up p"
  "pg_metrics_up (serve_returned what err p) = pg_metrics_up p" "pg_health (serve_returned what err p) = pg_health p"
  "pg_metrics (serve_returned what err p) = pg_metrics p"
  by (simp_all add: serve_returned_def)

text \<open>A scrape changes nothing.\<close>

lemma scrape_frame:
  assumes "gmap_get (hs_Handler (metrics_server env)) path = Some handler" and "handler ctx w = (resp, w')"
  shows "w' = w"
  using assms by (auto simp: metrics_server_def metricsServer_def metricsMux_def gmap_simps split: if_splits)

section \<open>The process refines the abstract shutdown\<close>

fun abs_main :: "program_pc \<Rightarrow> main_pc" where
  "abs_main BeforeLoop = InLoop"
| "abs_main Selecting = InLoop"
| "abs_main AfterLoop = LeftLoop"
| "abs_main Ended = Exited"
| "abs_main Crashed = Exited"

definition abs_process :: "'w readiness \<Rightarrow> ('w, 'prog) program \<Rightarrow> 'w process" where
  "abs_process r p =
     \<lparr>pr_readiness = SetReady (pg_ready p) r, pr_cancelled = pg_cancelled p, pr_signal = pg_signal p,
      pr_main = abs_main (pg_main p), pr_cycles = pg_cycles p,
      pr_health_up = pg_health_up p, pr_metrics_up = pg_metrics_up p\<rparr>"

lemma SetReady_twice [simp]: "SetReady a (SetReady b r) = SetReady a r"
  by (simp add: SetReady_def)

lemma abs_main_exited [simp]: "abs_main m = Exited \<longleftrightarrow> m \<in> {Ended, Crashed}"
  by (cases m) simp_all

lemma abs_step:
  assumes "program_step env p l q" and "l \<noteq> Panic"
  shows "abs_process r q = abs_process r p \<or> process_step (abs_process r p) (abs_process r q)"
  using assms
proof (cases rule: program_step.cases)
  case first_turn
  then show ?thesis using process_step.tick [of "abs_process r p"] by (simp add: abs_process_def)
next
  case next_turn
  then show ?thesis using process_step.tick [of "abs_process r p"] by (simp add: abs_process_def)
next
  case leave_loop
  then show ?thesis using process_step.leave [of "abs_process r p"] by (simp add: abs_process_def)
next
  case run_deferred
  then show ?thesis using process_step.exit [of "abs_process r p"] by (simp add: abs_process_def)
next
  case signal_arrives
  then show ?thesis using process_step.arrive [of "abs_process r p"] by (simp add: abs_process_def)
next
  case signal_unready
  then show ?thesis using process_step.unready [of "abs_process r p"] by (simp add: abs_process_def)
next
  case signal_cancel
  then show ?thesis using process_step.cancel [of "abs_process r p"] by (simp add: abs_process_def)
next
  case signal_health
  then show ?thesis using process_step.health_shutdown [of "abs_process r p"] by (simp add: abs_process_def)
next
  case signal_metrics
  then show ?thesis using process_step.metrics_shutdown [of "abs_process r p"] by (simp add: abs_process_def)
next
  case probe
  then show ?thesis by (simp add: abs_process_def)
next
  case scrape
  then show ?thesis by (simp add: abs_process_def)
next
  case health_serves
  then show ?thesis by (simp add: abs_process_def)
next
  case metrics_serves
  then show ?thesis by (simp add: abs_process_def)
next
  case health_returns
  then show ?thesis using process_step.health_fails [of "abs_process r p"] by (simp add: abs_process_def)
next
  case metrics_returns
  then show ?thesis using process_step.metrics_fails [of "abs_process r p"] by (simp add: abs_process_def)
qed simp_all

lemma abs_start: "abs_process r (program_start s st) = process_start r"
  by (simp add: abs_process_def program_start_def process_start_def)

lemma run_reachable:
  "program_run env (program_start s st) ls p \<Longrightarrow> Panic \<notin> set ls \<Longrightarrow> reachable r (abs_process r p)"
proof (induction rule: program_run.induct)
  case no_step
  show ?case by (simp add: abs_start initial)
next
  case (one_more ls p l q)
  then have "reachable r (abs_process r p)" "l \<noteq> Panic" by auto
  with abs_step [OF one_more.hyps(2)] show ?case by (metis reachable.more)
qed

section \<open>No panic, and the answers of the probes\<close>

lemma poll_loop_append:
  "poll_loop dp ctx evs s w = Some (Running, s1, w1) \<Longrightarrow>
     poll_loop dp ctx (evs @ later) s w = poll_loop dp ctx later s1 w1"
proof (induction evs arbitrary: s w)
  case (Cons ev evs)
  show ?case
  proof (cases ev)
    case Tick
    with Cons.prems obtain s2 w2 where
      "run_cycle dp ctx ''Trigger failed'' s w = Some (s2, w2)" "poll_loop dp ctx evs s2 w2 = Some (Running, s1, w1)"
      by (auto split: bind_split_asm)
    with Cons.IH Tick show ?thesis by simp
  next
    case (CtxDone err)
    with Cons.prems show ?thesis by simp
  qed
qed simp

lemma Start_append:
  assumes "Start dp ctx evs s w = Some (Running, s1, w1)"
  shows "Start dp ctx (evs @ later) s w = poll_loop dp ctx later s1 w1"
  using assms by (auto simp: Start_def Let_def poll_loop_append split: if_splits bind_split_asm)

lemma writeJSON_frame [simp]:
  "wd_sent (snd (writeJSON encode code v w)) = wd_sent w"
  "wd_metrics (snd (writeJSON encode code v w)) = wd_metrics w"
  "wd_spans (snd (writeJSON encode code v w)) = wd_spans w"
  by (simp_all add: writeJSON_def split: option.split)

lemma Healthz_frame [simp]:
  "wd_sent (snd (HealthzHandler lib encode f t ctx w)) = wd_sent w"
  "wd_metrics (snd (HealthzHandler lib encode f t ctx w)) = wd_metrics w"
  "wd_spans (snd (HealthzHandler lib encode f t ctx w)) = wd_spans w"
  by (simp_all add: HealthzHandler_def Let_def time_Now_def split_def)

lemma Readyz_frame [simp]:
  "wd_sent (snd (ReadyzHandler encode r ctx w)) = wd_sent w"
  "wd_metrics (snd (ReadyzHandler encode r ctx w)) = wd_metrics w"
  "wd_spans (snd (ReadyzHandler encode r ctx w)) = wd_spans w"
  by (simp_all add: ReadyzHandler_def runChecks_def Let_def split_def)

lemma mux_frame:
  assumes "gmap_get (hs_Handler (health_server env p)) path = Some handler" and "handler ctx w = (resp, w')"
  shows "wd_sent w' = wd_sent w \<and> wd_metrics w' = wd_metrics w \<and> wd_spans w' = wd_spans w"
proof -
  have "w' = snd (handler ctx w)" using assms(2) by simp
  with assms(1) show ?thesis
    by (auto simp: health_server_def healthServer_def program_mux_def healthMux_def gmap_simps split: if_splits)
qed

text \<open>What every state of a run keeps: the loop can go on from it.\<close>

definition program_ok ::
    "('w, 'env, 'ast, 'prog) program_env \<Rightarrow> ('w, 'prog) program \<Rightarrow> bool" where
  "program_ok env p \<longleftrightarrow>
     pg_main p \<noteq> Crashed \<and>
     (pg_main p \<in> {BeforeLoop, Selecting} \<longrightarrow>
        loop_ready (env_deps env) (pg_sentinel p) (world_of p) \<and>
        0 < sint (sc_PollInterval (st_config (pg_sentinel p))))"

lemma turn_ok:
  assumes "loop_ready dp s w"
  shows "\<exists>s' w'. poll_loop dp ctx [Tick] s w = Some (Running, s', w') \<and> loop_ready dp s' w' \<and> same_sentinel s s'"
  using run_cycle_ready [OF assms, of ctx "''Trigger failed''"] by auto

lemma first_ok:
  assumes "loop_ready dp s w" and "0 < sint (sc_PollInterval (st_config s))"
  shows "\<exists>s' w'. Start dp ctx [] s w = Some (Running, s', w') \<and> loop_ready dp s' w' \<and> same_sentinel s s'"
proof -
  let ?w0 = "log_at LevelInfo ctx (''Starting sentinel resource_type='' @ sc_ResourceType (st_config s) @
                '' poll_interval='' @ duration_string (sc_PollInterval (st_config s))) w"
  have "loop_ready dp s ?w0" using assms(1) by (simp add: loop_ready_def)
  from run_cycle_ready [OF this, of ctx "''Initial trigger failed''"] assms(2) show ?thesis
    by (auto simp: Start_def Let_def simp del: append.simps)
qed

lemma same_config: "same_sentinel s s' \<Longrightarrow> st_config s' = st_config s"
  by (simp add: same_sentinel_def)

lemma program_ok_step:
  assumes "program_step env p l q" and "program_ok env p"
  shows "l \<noteq> Panic \<and> program_ok env q"
  using assms(1)
proof (cases rule: program_step.cases)
  case (first_turn s w)
  with assms(2) first_ok [of "env_deps env" "pg_sentinel p" "world_of p" "[]"] show ?thesis
    by (auto simp: program_ok_def same_config)
next
  case (next_turn s w)
  with assms(2) turn_ok [of "env_deps env" "pg_sentinel p" "world_of p" "[]"] show ?thesis
    by (auto simp: program_ok_def same_config)
next
  case first_panic
  with assms(2) first_ok [of "env_deps env" "pg_sentinel p" "world_of p" "[]"] show ?thesis
    by (auto simp: program_ok_def)
next
  case next_panic
  with assms(2) turn_ok [of "env_deps env" "pg_sentinel p" "world_of p" "[]"] show ?thesis
    by (auto simp: program_ok_def)
next
  case (probe path handler ctx resp w)
  with assms(2) mux_frame [OF probe(6,7)] show ?thesis
    by (auto simp: program_ok_def loop_ready_def)
next
  case (scrape path handler ctx resp w)
  with assms(2) scrape_frame [OF scrape(6,7)] show ?thesis by (auto simp: program_ok_def)
qed (use assms(2) in \<open>auto simp: program_ok_def\<close>)

lemma program_run_ok:
  "program_run env p0 ls p \<Longrightarrow> program_ok env p0 \<Longrightarrow> Panic \<notin> set ls \<and> program_ok env p"
proof (induction rule: program_run.induct)
  case (one_more ls p l q)
  then show ?case using program_ok_step [OF one_more.hyps(2)] by auto
qed simp

lemma start_ok:
  assumes "loop_ready (env_deps env) s (ss_world st)" and "0 < sint (sc_PollInterval (st_config s))"
  shows "program_ok env (program_start s st)"
  using assms by (simp add: program_ok_def program_start_def loop_ready_def)

lemma readiness_now:
  "rd_ready (program_readiness env p) = pg_ready p"
  "list_all passes (check_outcomes (rd_checks (program_readiness env p)) rest) \<longleftrightarrow>
     pe_pub env \<noteq> None \<and> passes (fst (sv_PublisherHealth (pe_lib env) rest)) \<and> \<not> IsZero (LastSuccessfulPoll (pg_sentinel p))"
  using serve_readiness_passes [of "pe_lib env" "pe_pub env" "pg_sentinel p" rest]
  by (simp_all add: program_readiness_def SetReady_def)

lemma readyz_probe:
  assumes "program_step env p (Probe ''/readyz'' status) q"
  shows "\<exists>ctx. status = hr_status (fst (ReadyzHandler (pe_encode env) (program_readiness env p) ctx (world_of p))) \<and>
     world_of q = snd (ReadyzHandler (pe_encode env) (program_readiness env p) ctx (world_of p))"
  using assms
proof (cases rule: program_step.cases)
  case (probe handler ctx resp w)
  then have "handler = ReadyzHandler (pe_encode env) (program_readiness env p)"
    by (simp add: health_server_def healthServer_def program_mux_def healthMux_def gmap_simps)
  with probe have "status = hr_status (fst (ReadyzHandler (pe_encode env) (program_readiness env p) ctx (world_of p)))"
    "world_of q = snd (ReadyzHandler (pe_encode env) (program_readiness env p) ctx (world_of p))" by simp_all
  then show ?thesis by blast
qed

text \<open>The order of the abstract shutdown, carried over.\<close>

lemma run_order:
  assumes "program_run env (program_start s st) ls p" and "Panic \<notin> set ls"
  shows "(pg_ready p \<longleftrightarrow> signal_rank (pg_signal p) < 2) \<and> (pg_cancelled p \<longleftrightarrow> 3 \<le> signal_rank (pg_signal p)) \<and>
     (pg_main p \<notin> {BeforeLoop, Selecting} \<longrightarrow> pg_cancelled p)"
proof -
  let ?r = "NewReadinessChecker :: 'a readiness"
  have "process_inv ?r (abs_process ?r p)"
    using run_reachable [OF assms] by (rule reachable_inv)
  then show ?thesis
    by (cases "pg_main p") (auto simp: process_inv_def abs_process_def SetReady_def)
qed

text \<open>
  C10: The readiness of the running process. However its goroutines interleave, and whatever
  probes came before, the process never panics; a request for \<open>/readyz\<close> is answered 200 exactly
  when no signal has withdrawn the readiness, the publisher is there and healthy, and the
  sentinel as it is at that moment has completed a cycle, and 503 otherwise. Once the context is
  cancelled the answer is 503 and no check runs; and the loop is only left after that.
\<close>

theorem running_readiness:
  assumes "loop_ready (env_deps env) s (ss_world st)" and "0 < sint (sc_PollInterval (st_config s))"
    and "program_run env (program_start s st) ls p"
  shows "Panic \<notin> set ls \<and> pg_main p \<noteq> Crashed \<and>
     (pg_main p \<in> {AfterLoop, Ended} \<longrightarrow> pg_cancelled p) \<and>
     (\<forall>status q. program_step env p (Probe ''/readyz'' status) q \<longrightarrow>
        status = (if pg_signal p \<in> {AwaitingSignal, GotSignal} \<and> pe_pub env \<noteq> None \<and>
                     passes (fst (sv_PublisherHealth (pe_lib env) (wd_rest (world_of p)))) \<and>
                     \<not> IsZero (LastSuccessfulPoll (pg_sentinel p)) then 200 else 503) \<and>
        (pg_cancelled p \<longrightarrow> status = 503 \<and> wd_rest (world_of q) = wd_rest (world_of p)))"
proof -
  have ok: "Panic \<notin> set ls" "program_ok env p"
    using program_run_ok [OF assms(3) start_ok [OF assms(1,2)]] by simp_all
  note order = run_order [OF assms(3) ok(1)]
  have ready: "pg_ready p \<longleftrightarrow> pg_signal p \<in> {AwaitingSignal, GotSignal}"
    using order by (cases "pg_signal p") simp_all
  have unready: "\<not> pg_ready p" if "pg_cancelled p"
    using order that by simp
  have "status = (if pg_signal p \<in> {AwaitingSignal, GotSignal} \<and> pe_pub env \<noteq> None \<and>
                     passes (fst (sv_PublisherHealth (pe_lib env) (wd_rest (world_of p)))) \<and>
                     \<not> IsZero (LastSuccessfulPoll (pg_sentinel p)) then 200 else 503) \<and>
        (pg_cancelled p \<longrightarrow> status = 503 \<and> wd_rest (world_of q) = wd_rest (world_of p))"
    if step: "program_step env p (Probe ''/readyz'' status) q" for status q
  proof -
    from readyz_probe [OF step] obtain ctx where
      a: "status = hr_status (fst (ReadyzHandler (pe_encode env) (program_readiness env p) ctx (world_of p)))"
      "world_of q = snd (ReadyzHandler (pe_encode env) (program_readiness env p) ctx (world_of p))" by blast
    have "wd_rest (world_of q) = wd_rest (world_of p)" if "pg_cancelled p"
      unfolding a(2) using unready [OF that] by (simp add: ReadyzHandler_def IsReady_def readiness_now)
    then show ?thesis
      using unready unfolding a(1) by (auto simp: readyz_answer readiness_now ready)
  qed
  with ok order show ?thesis by (auto simp: program_ok_def)
qed

section \<open>What the goroutines beside the loop log\<close>

text \<open>How often a line was logged at the info level, and whether any error was.\<close>

definition said :: "string \<Rightarrow> ('w, 'prog) program \<Rightarrow> nat" where
  "said line p = count_list (pg_lines p) (LevelInfo, line)"

definition complained :: "('w, 'prog) program \<Rightarrow> bool" where
  "complained p \<longleftrightarrow> list_ex (\<lambda>line. fst line = LevelError) (pg_lines p)"

definition lines_inv :: "('w, 'env, 'ast, 'prog) program_env \<Rightarrow> ('w, 'prog) program \<Rightarrow> bool" where
  "lines_inv env p \<longleftrightarrow>
     said ''Received shutdown signal'' p = (if pg_signal p = AwaitingSignal then 0 else 1) \<and>
     said (''Starting health server on '' @ pe_health_address env) p = (if pg_health p = NotServing then 0 else 1) \<and>
     said (''Starting metrics server on '' @ pe_metrics_address env) p = (if pg_metrics p = NotServing then 0 else 1) \<and>
     (pg_health p = ServerReturned \<longrightarrow> \<not> pg_health_up p) \<and> (pg_metrics p = ServerReturned \<longrightarrow> \<not> pg_metrics_up p) \<and>
     (complained p \<longrightarrow> \<not> pg_health_up p \<or> \<not> pg_metrics_up p)"

lemma lines_inv_start: "lines_inv env (program_start s st)"
  by (simp add: lines_inv_def said_def complained_def program_start_def)

lemma lines_inv_step:
  assumes "program_step env p l q" and "lines_inv env p"
  shows "lines_inv env q"
  using assms(1)
  by (cases rule: program_step.cases)
    (use assms(2) in \<open>auto simp: lines_inv_def said_def complained_def in_world_def in_lines_def log_failure_def
       serve_returned_def split: option.splits if_splits\<close>)

text \<open>
  The lines of the goroutines beside the loop: in every reachable state each server has announced
  itself at most once and exactly when its goroutine has begun, the signal is reported once and
  exactly when it has come, a server whose goroutine has returned is down, and an error line is
  there only when one of the servers is down.
\<close>

theorem background_lines:
  "program_run env (program_start s st) ls p \<Longrightarrow> lines_inv env p"
proof (induction rule: program_run.induct)
  case no_step
  show ?case by (rule lines_inv_start)
next
  case one_more
  then show ?case by (blast intro: lines_inv_step)
qed

section \<open>Messages are sent by turns of the loop only\<close>

lemma only_turns_send:
  assumes "program_step env p l q" and "l \<noteq> LoopTurn"
  shows "wd_sent (world_of q) = wd_sent (world_of p) \<and> pg_cycles q = pg_cycles p \<and>
     (pg_main p \<notin> {BeforeLoop, Selecting} \<longrightarrow> pg_main q \<notin> {BeforeLoop, Selecting})"
  using assms(1)
proof (cases rule: program_step.cases)
  case (probe path handler ctx resp w)
  with mux_frame [OF probe(6,7)] show ?thesis by simp
next
  case (scrape path handler ctx resp w)
  with scrape_frame [OF scrape(6,7)] show ?thesis by simp
qed (use assms(2) in \<open>auto simp: shutdown_tracing_held close_publisher_held\<close>)

lemma turn_in_loop: "program_step env p LoopTurn q \<Longrightarrow> pg_main p \<in> {BeforeLoop, Selecting}"
  by (auto elim: program_stepE)

lemma after_loop_run:
  "program_run env p ls q \<Longrightarrow> pg_main p \<notin> {BeforeLoop, Selecting} \<Longrightarrow>
     pg_main q \<notin> {BeforeLoop, Selecting} \<and> LoopTurn \<notin> set ls \<and> wd_sent (world_of q) = wd_sent (world_of p)"
proof (induction rule: program_run.induct)
  case (one_more ls p l q)
  then have "pg_main p \<notin> {BeforeLoop, Selecting}" by simp
  then have "l \<noteq> LoopTurn" using turn_in_loop one_more.hyps(2) by blast
  with one_more only_turns_send [OF one_more.hyps(2)] show ?case by auto
qed simp

section \<open>Without probes the process computes what the command computes\<close>

text \<open>Runs in which no probe is served and nothing panics; signals, scrapes and server failures may come at any time.\<close>

fun quiet_label :: "program_label \<Rightarrow> bool" where
  "quiet_label (Probe path status) = False"
| "quiet_label Panic = False"
| "quiet_label _ = True"

definition ticks :: "nat \<Rightarrow> select_event list" where
  "ticks n = replicate n Tick"

lemma ticks_simps: "ticks 0 = []" "ticks (Suc n) = ticks n @ [Tick]"
  by (simp_all add: ticks_def replicate_append_same)

text \<open>The loop ended after \<open>n\<close> ticks, in the state in which the deferred calls run.\<close>

definition stopped_after ::
    "('w, 'env, 'ast, 'prog) program_env \<Rightarrow> 'prog sentinel \<Rightarrow> 'w serve_state \<Rightarrow> nat \<Rightarrow> 'prog sentinel \<Rightarrow>
     'w serve_state \<Rightarrow> bool" where
  "stopped_after env s st n s' st' \<longleftrightarrow>
     (let st0 = pg_state (program_start s st) in
      \<exists>w. Start (env_deps env) [] (ticks n @ [CtxDone canceled]) s (ss_world st0) = Some (Returned canceled, s', w) \<and>
        st' = on_world (log_at LevelInfo [] ''Sentinel stopped gracefully'') (st0\<lparr>ss_world := w\<rparr>))"

lemma stopped_serve_loop:
  assumes "NewSentinel (sv_cel (pe_lib env)) (pe_cfg env) e = Inr s"
  shows "serve_loop (pe_lib env) (pe_cfg env) (pe_client env) e (pe_pub env) (ticks n @ [CtxDone canceled]) st =
       (Stopped, st') \<longleftrightarrow> (\<exists>s'. stopped_after env s st n s' st')"
  by (auto simp: serve_loop_def stopped_after_def program_start_def assms env_deps_def Let_def
      split: option.splits prod.splits loop_result.splits if_splits)

definition same_resources :: "'w serve_state \<Rightarrow> 'w serve_state \<Rightarrow> bool" where
  "same_resources st st' \<longleftrightarrow> ss_otel st = ss_otel st' \<and> ss_held st = ss_held st'"

lemma same_resources_world: "same_resources st st' \<Longrightarrow> st\<lparr>ss_world := w\<rparr> = st'\<lparr>ss_world := w\<rparr>"
  by (rule serve_state.equality) (simp_all add: same_resources_def)

lemma same_resources_simps [simp]:
  "same_resources st st" "same_resources (st\<lparr>ss_world := w\<rparr>) st' = same_resources st st'"
  by (simp_all add: same_resources_def)

definition follows_loop ::
    "('w, 'env, 'ast, 'prog) program_env \<Rightarrow> 'prog sentinel \<Rightarrow> 'w serve_state \<Rightarrow> ('w, 'prog) program \<Rightarrow> bool" where
  "follows_loop env s st p \<longleftrightarrow>
     (let st0 = pg_state (program_start s st) in
      case pg_main p of
        BeforeLoop \<Rightarrow> pg_state p = st0 \<and> pg_sentinel p = s \<and> pg_cycles p = 0
      | Selecting \<Rightarrow> \<exists>n. pg_cycles p = Suc n \<and> same_resources (pg_state p) st0 \<and>
          Start (env_deps env) [] (ticks n) s (ss_world st0) = Some (Running, pg_sentinel p, world_of p)
      | AfterLoop \<Rightarrow> \<exists>n. pg_cycles p = Suc n \<and> stopped_after env s st n (pg_sentinel p) (pg_state p)
      | Ended \<Rightarrow> \<exists>n st1. pg_cycles p = Suc n \<and> stopped_after env s st n (pg_sentinel p) st1 \<and>
          pg_state p = shutdown_tracing (pe_lib env) (pe_tracer env) (close_publisher (pe_lib env) (pe_pub env) st1)
      | Crashed \<Rightarrow> False)"

lemma follows_other:
  "follows_loop env s st p \<Longrightarrow> pg_main q = pg_main p \<Longrightarrow> pg_state q = pg_state p \<Longrightarrow>
     pg_sentinel q = pg_sentinel p \<Longrightarrow> pg_cycles q = pg_cycles p \<Longrightarrow> follows_loop env s st q"
  by (cases "pg_main p") (simp_all add: follows_loop_def)

lemma follows_selecting:
  assumes "follows_loop env s st p" and "pg_main p = Selecting"
  obtains n where "pg_cycles p = Suc n" "same_resources (pg_state p) (pg_state (program_start s st))"
    "Start (env_deps env) [] (ticks n) s (world_of (program_start s st)) = Some (Running, pg_sentinel p, world_of p)"
  using assms by (auto simp: follows_loop_def Let_def)

lemma follows_step:
  assumes "program_step env p l q" and "quiet_label l" and "follows_loop env s st p"
  shows "follows_loop env s st q"
  using assms(1)
proof (cases rule: program_step.cases)
  case (first_turn s1 w1)
  with assms(3) show ?thesis by (simp add: follows_loop_def Let_def ticks_simps)
next
  case (next_turn s1 w1)
  from assms(3) next_turn(3) obtain n where n: "pg_cycles p = Suc n"
    "same_resources (pg_state p) (pg_state (program_start s st))"
    "Start (env_deps env) [] (ticks n) s (world_of (program_start s st)) = Some (Running, pg_sentinel p, world_of p)"
    by (rule follows_selecting)
  from Start_append [OF n(3), of "[Tick]"] next_turn(4)
  have "Start (env_deps env) [] (ticks (Suc n)) s (world_of (program_start s st)) = Some (Running, s1, w1)"
    by (simp add: ticks_simps)
  with next_turn n(1,2) show ?thesis by (simp add: follows_loop_def Let_def)
next
  case (leave_loop s1 w1)
  from assms(3) leave_loop(3) obtain n where n: "pg_cycles p = Suc n"
    "same_resources (pg_state p) (pg_state (program_start s st))"
    "Start (env_deps env) [] (ticks n) s (world_of (program_start s st)) = Some (Running, pg_sentinel p, world_of p)"
    by (rule follows_selecting)
  from Start_append [OF n(3), of "[CtxDone canceled]"] leave_loop(5)
  have "Start (env_deps env) [] (ticks n @ [CtxDone canceled]) s (world_of (program_start s st)) =
      Some (Returned canceled, s1, w1)" by simp
  with same_resources_world [OF n(2)]
  have "stopped_after env s st n s1 ((pg_state p)\<lparr>ss_world := log_at LevelInfo [] ''Sentinel stopped gracefully'' w1\<rparr>)"
    by (simp add: stopped_after_def Let_def on_world_def)
  with leave_loop n(1) show ?thesis by (simp add: follows_loop_def Let_def)
next
  case run_deferred
  with assms(3) show ?thesis by (auto simp: follows_loop_def Let_def)
next
  case (scrape path handler ctx resp w)
  with assms(3) scrape_frame [OF scrape(6,7)] show ?thesis by simp
qed (use assms(2,3) in \<open>auto intro: follows_other\<close>)

lemma follows_run:
  "program_run env (program_start s st) ls p \<Longrightarrow> list_all quiet_label ls \<Longrightarrow> follows_loop env s st p"
proof (induction rule: program_run.induct)
  case no_step
  show ?case by (simp add: follows_loop_def program_start_def)
next
  case (one_more ls p l q)
  then show ?case using follows_step [OF one_more.hyps(2)] by simp
qed

text \<open>Conversely, every stop of the sequential loop is the end of a run.\<close>

lemma poll_loop_ticks:
  "poll_loop dp ctx (ticks n @ later) s w = Some r \<Longrightarrow>
     \<exists>s1 w1. poll_loop dp ctx (ticks n) s w = Some (Running, s1, w1) \<and> poll_loop dp ctx later s1 w1 = Some r"
proof (induction n arbitrary: s w)
  case 0
  then show ?case by (simp add: ticks_def)
next
  case (Suc n)
  from Suc.prems obtain s1 w1 where c: "run_cycle dp ctx ''Trigger failed'' s w = Some (s1, w1)"
    "poll_loop dp ctx (ticks n @ later) s1 w1 = Some r"
    by (auto simp: ticks_def split: bind_split_asm)
  from Suc.IH [OF c(2)] c(1) show ?case by (auto simp: ticks_def)
qed

lemma Start_ticks:
  assumes "Start dp ctx (ticks n @ later) s w = Some r"
  shows "\<exists>s1 w1. Start dp ctx (ticks n) s w = Some (Running, s1, w1) \<and> poll_loop dp ctx later s1 w1 = Some r"
proof -
  let ?w = "log_at LevelInfo ctx (''Starting sentinel resource_type='' @ sc_ResourceType (st_config s) @
                '' poll_interval='' @ duration_string (sc_PollInterval (st_config s))) w"
  from assms obtain s0 w0 where c: "\<not> sint (sc_PollInterval (st_config s)) \<le> 0"
    "run_cycle dp ctx ''Initial trigger failed'' s ?w = Some (s0, w0)" "poll_loop dp ctx (ticks n @ later) s0 w0 = Some r"
    by (auto simp: Start_def Let_def simp del: append.simps split: if_splits bind_split_asm)
  from poll_loop_ticks [OF c(3)] c(1,2) show ?thesis
    by (auto simp: Start_def Let_def simp del: append.simps)
qed

lemma run_step: "program_run env p0 ls p \<Longrightarrow> program_step env p l q \<Longrightarrow> list_all quiet_label ls \<Longrightarrow> quiet_label l \<Longrightarrow>
    \<exists>ls. program_run env p0 ls q \<and> list_all quiet_label ls"
  using one_more [of env p0 ls p l q] by (intro exI [of _ "ls @ [l]"]) simp

lemma turns_run:
  "Start (env_deps env) [] (ticks n) s (world_of (program_start s st)) = Some (Running, s', w') \<Longrightarrow>
     \<exists>ls. program_run env (program_start s st) ls
        (in_world w' (program_start s st)\<lparr>pg_sentinel := s', pg_main := Selecting, pg_cycles := Suc n\<rparr>) \<and>
       list_all quiet_label ls"
proof (induction n arbitrary: s' w')
  case 0
  have "program_step env (program_start s st) LoopTurn
      (in_world w' (program_start s st)\<lparr>pg_sentinel := s', pg_main := Selecting,
         pg_cycles := Suc (pg_cycles (program_start s st))\<rparr>)"
    using 0 by (intro first_turn) (simp_all add: program_start_def ticks_simps)
  from run_step [OF no_step this] show ?case by (simp add: program_start_def)
next
  case (Suc n)
  from Suc.prems obtain s1 w1 where
    c: "Start (env_deps env) [] (ticks n) s (world_of (program_start s st)) = Some (Running, s1, w1)"
    "poll_loop (env_deps env) [] [Tick] s1 w1 = Some (Running, s', w')"
    unfolding ticks_simps by (blast dest: Start_ticks)
  let ?p = "in_world w1 (program_start s st)\<lparr>pg_sentinel := s1, pg_main := Selecting, pg_cycles := Suc n\<rparr>"
  from Suc.IH [OF c(1)] obtain ls where ls: "program_run env (program_start s st) ls ?p" "list_all quiet_label ls" by blast
  have "program_step env ?p LoopTurn (in_world w' ?p\<lparr>pg_sentinel := s', pg_cycles := Suc (pg_cycles ?p)\<rparr>)"
    using c(2) by (intro next_turn) simp_all
  from run_step [OF ls(1) this ls(2)] show ?case by (simp add: in_world_def program_start_def)
qed

lemma three_signals:
  assumes "program_run env p0 ls p" and "list_all quiet_label ls" and "pg_main p = Selecting"
    and "pg_signal p = AwaitingSignal"
  shows "\<exists>ls. program_run env p0 ls
       (in_lines LevelInfo ''Received shutdown signal'' p
          \<lparr>pg_ready := False, pg_cancelled := True, pg_signal := CalledCancel\<rparr>) \<and> list_all quiet_label ls"
proof -
  let ?p1 = "in_lines LevelInfo ''Received shutdown signal'' p\<lparr>pg_signal := GotSignal\<rparr>"
  let ?p2 = "?p1\<lparr>pg_ready := False, pg_signal := SetUnready\<rparr>"
  let ?p3 = "?p2\<lparr>pg_cancelled := True, pg_signal := CalledCancel\<rparr>"
  have "program_step env p SignalStep ?p1" using assms by (intro signal_arrives) simp_all
  from run_step [OF assms(1) this assms(2)] obtain l1 where
    1: "program_run env p0 l1 ?p1" "list_all quiet_label l1" by auto
  have "program_step env ?p1 SignalStep ?p2" using assms by (intro signal_unready) simp_all
  from run_step [OF 1(1) this 1(2)] obtain l2 where
    2: "program_run env p0 l2 ?p2" "list_all quiet_label l2" by auto
  have "program_step env ?p2 SignalStep ?p3" using assms by (intro signal_cancel) simp_all
  from run_step [OF 2(1) this 2(2)] show ?thesis by simp
qed

lemma stop_run:
  assumes "stopped_after env s st n s' st'"
  shows "\<exists>ls q. program_run env (program_start s st) ls q \<and> list_all quiet_label ls \<and> pg_main q = Ended \<and>
     pg_cycles q = Suc n \<and>
     pg_state q = shutdown_tracing (pe_lib env) (pe_tracer env) (close_publisher (pe_lib env) (pe_pub env) st')"
proof -
  let ?start = "program_start s st"
  from assms obtain w where w:
    "Start (env_deps env) [] (ticks n @ [CtxDone canceled]) s (world_of ?start) = Some (Returned canceled, s', w)"
    "st' = on_world (log_at LevelInfo [] ''Sentinel stopped gracefully'') ((pg_state ?start)\<lparr>ss_world := w\<rparr>)"
    by (auto simp: stopped_after_def Let_def)
  from Start_ticks [OF w(1)] obtain s1 w1 where
    c: "Start (env_deps env) [] (ticks n) s (world_of ?start) = Some (Running, s1, w1)"
    "poll_loop (env_deps env) [] [CtxDone canceled] s1 w1 = Some (Returned canceled, s', w)" by blast
  let ?p = "in_world w1 ?start\<lparr>pg_sentinel := s1, pg_main := Selecting, pg_cycles := Suc n\<rparr>"
  let ?q = "in_lines LevelInfo ''Received shutdown signal'' ?p\<lparr>pg_ready := False, pg_cancelled := True, pg_signal := CalledCancel\<rparr>"
  let ?r = "in_world (log_at LevelInfo [] ''Sentinel stopped gracefully'' w) ?q\<lparr>pg_sentinel := s', pg_main := AfterLoop\<rparr>"
  from turns_run [OF c(1)] obtain l1 where "program_run env ?start l1 ?p" "list_all quiet_label l1" by blast
  moreover have "pg_signal ?p = AwaitingSignal" by (simp add: program_start_def in_world_def)
  ultimately obtain l2 where 2: "program_run env ?start l2 ?q" "list_all quiet_label l2"
    using three_signals [of env ?start l1 ?p] by auto
  have "program_step env ?q LoopLeft ?r" using c(2) by (intro leave_loop) simp_all
  from run_step [OF 2(1) this 2(2)] obtain l3 where
    3: "program_run env ?start l3 ?r" "list_all quiet_label l3" by auto
  let ?last = "?r\<lparr>pg_state := shutdown_tracing (pe_lib env) (pe_tracer env)
      (close_publisher (pe_lib env) (pe_pub env) (pg_state ?r)), pg_main := Ended\<rparr>"
  have "program_step env ?r Deferred ?last"
    by (rule run_deferred) simp
  from run_step [OF 3(1) this 3(2)] obtain l4 where
    4: "program_run env ?start l4 ?last" "list_all quiet_label l4" by auto
  have "pg_state ?r = st'" "pg_cycles ?r = Suc n"
    by (simp_all add: w(2) in_world_def on_world_def)
  then have "pg_main ?last = Ended" "pg_cycles ?last = Suc n"
    "pg_state ?last = shutdown_tracing (pe_lib env) (pe_tracer env) (close_publisher (pe_lib env) (pe_pub env) st')"
    by simp_all
  with 4 show ?thesis by blast
qed

text \<open>
  C9: The concurrent process computes what the sequential \<open>serve\<close> command computes. Consider the runs
  in which no probe is answered; the signal, scrapes of the metrics and failures of the servers may
  come at any moment. The
  states in which such a run ends after a given number of cycles are exactly those that the
  sequential loop, ended by a cancellation after that many cycles, leaves behind once the deferred
  calls have closed the publisher and shut the tracer down: no interleaving changes a message, a
  metric, a span or a line of the loop.
\<close>

theorem process_computes_serve:
  assumes "NewSentinel (sv_cel (pe_lib env)) (pe_cfg env) e = Inr s"
  shows "(\<exists>ls q. program_run env (program_start s st) ls q \<and> list_all quiet_label ls \<and> pg_main q = Ended \<and>
      pg_cycles q = Suc n \<and> pg_state q = final) \<longleftrightarrow>
    (\<exists>st'. serve_loop (pe_lib env) (pe_cfg env) (pe_client env) e (pe_pub env) (ticks n @ [CtxDone canceled]) st =
        (Stopped, st') \<and>
      final = shutdown_tracing (pe_lib env) (pe_tracer env) (close_publisher (pe_lib env) (pe_pub env) st'))"
proof
  assume "\<exists>ls q. program_run env (program_start s st) ls q \<and> list_all quiet_label ls \<and> pg_main q = Ended \<and>
      pg_cycles q = Suc n \<and> pg_state q = final"
  then show "\<exists>st'. serve_loop (pe_lib env) (pe_cfg env) (pe_client env) e (pe_pub env) (ticks n @ [CtxDone canceled]) st =
        (Stopped, st') \<and>
      final = shutdown_tracing (pe_lib env) (pe_tracer env) (close_publisher (pe_lib env) (pe_pub env) st')"
    unfolding stopped_serve_loop [OF assms] using follows_run by (fastforce simp: follows_loop_def Let_def)
next
  assume "\<exists>st'. serve_loop (pe_lib env) (pe_cfg env) (pe_client env) e (pe_pub env) (ticks n @ [CtxDone canceled]) st =
        (Stopped, st') \<and>
      final = shutdown_tracing (pe_lib env) (pe_tracer env) (close_publisher (pe_lib env) (pe_pub env) st')"
  then show "\<exists>ls q. program_run env (program_start s st) ls q \<and> list_all quiet_label ls \<and> pg_main q = Ended \<and>
      pg_cycles q = Suc n \<and> pg_state q = final"
    unfolding stopped_serve_loop [OF assms] using stop_run by blast
qed

section \<open>Instances\<close>

definition sample_env :: "(nat, unit, string, string) program_env" where
  "sample_env =
     \<lparr>pe_lib = sample_serve_libs, pe_cfg = sample_serve_config,
      pe_client = \<lparr>hc_endpoint = ''http://api'', hc_timeout = 10 * second, hc_userAgent = ''hyperfleet-sentinel/dev (s)''\<rparr>,
      pe_pub = Some ''rabbitmq'', pe_tracer = None, pe_encode = \<lambda>_. None, pe_page = \<lambda>_. (200, ''ok''),
      pe_health_address = '':8080'', pe_metrics_address = '':9090''\<rparr>"

definition sample_running :: "nat serve_state" where
  "sample_running = sample_serve_state\<lparr>ss_world := sample_world\<rparr>"

lemma sample_sentinel_made:
  obtains s where "NewSentinel (sv_cel (pe_lib sample_env)) (pe_cfg sample_env) e = Inr s" "st_config s = sample_serve_config"
proof -
  have "\<forall>data. sc_MessageData sample_serve_config = Some data \<longrightarrow>
      (\<exists>b. NewBuilder (sv_cel sample_serve_libs) (GMap data) = Inr b)"
    using sample_surroundings by (simp add: surroundings_ok_def)
  from NewSentinel_made [OF this, of e] that show ?thesis by (auto simp: sample_env_def)
qed

lemma sample_env_ready:
  assumes "st_config s = sample_serve_config"
  shows "loop_ready (env_deps sample_env) s (ss_world sample_running)"
    and "0 < sint (sc_PollInterval (st_config s))"
proof -
  have "deps_sound (env_deps sample_env)"
    using sample_surroundings by (simp add: env_deps_def sample_env_def deps_sound_def run_deps_def surroundings_ok_def)
  moreover have "sc_ResourceType sample_serve_config \<noteq> []"
    using sample_config_ok by (auto simp: config_ok_def dest: validResourceTypes_nonempty)
  ultimately show "loop_ready (env_deps sample_env) s (ss_world sample_running)"
    using assms sample_world_ready by (simp add: loop_ready_def sample_running_def)
  show "0 < sint (sc_PollInterval (st_config s))"
    using sample_config_ok assms by (simp add: config_ok_def)
qed

theorem running_readiness_witness:
  "\<exists>s p q. NewSentinel (sv_cel (pe_lib sample_env)) (pe_cfg sample_env) \<lparr>de_resultProg = ''true'', de_conditionsLookup = [], de_params = []\<rparr> = Inr s \<and>
     program_run sample_env (program_start s sample_running) [ServerTurn] p \<and>
     program_step sample_env p (Probe ''/readyz'' 503) q"
proof -
  obtain s where s: "NewSentinel (sv_cel (pe_lib sample_env)) (pe_cfg sample_env) \<lparr>de_resultProg = ''true'', de_conditionsLookup = [], de_params = []\<rparr> = Inr s" "st_config s = sample_serve_config"
    by (rule sample_sentinel_made)
  let ?start = "program_start s sample_running"
  let ?p = "in_lines LevelInfo (''Starting health server on '' @ pe_health_address sample_env) ?start\<lparr>pg_health := Serving\<rparr>"
  let ?h = "ReadyzHandler (pe_encode sample_env) (program_readiness sample_env ?p)"
  have "program_step sample_env ?start ServerTurn ?p"
    by (rule health_serves) (simp_all add: program_start_def)
  from one_more [OF no_step this] have run: "program_run sample_env ?start [ServerTurn] ?p" by simp
  obtain resp w where "?h [] (world_of ?p) = (resp, w)" by force
  then have step: "program_step sample_env ?p (Probe ''/readyz'' (hr_status resp)) (in_world w ?p)"
    by (intro probe [where handler = ?h and ctx = "[]"])
      (simp_all add: program_start_def health_server_def healthServer_def program_mux_def healthMux_def gmap_simps)
  have "IsZero (LastSuccessfulPoll s)" by (rule NewSentinel_not_polled [OF s(1)])
  with running_readiness [OF sample_env_ready [OF s(2)] run] step
  have "hr_status resp = 503" by (auto simp: program_start_def)
  with step s(1) run show ?thesis by auto
qed

theorem process_computes_serve_witness:
  "\<exists>s ls q. NewSentinel (sv_cel (pe_lib sample_env)) (pe_cfg sample_env) \<lparr>de_resultProg = ''true'', de_conditionsLookup = [], de_params = []\<rparr> = Inr s \<and>
     program_run sample_env (program_start s sample_running) ls q \<and> pg_main q = Ended \<and> pg_cycles q = 3"
proof -
  let ?e = "\<lparr>de_resultProg = ''true'', de_conditionsLookup = [], de_params = []\<rparr>"
  obtain s where s: "NewSentinel (sv_cel (pe_lib sample_env)) (pe_cfg sample_env) ?e = Inr s"
    by (rule sample_sentinel_made)
  have "metrics_ready (wd_metrics (ss_world sample_running))"
    using sample_world_ready by (simp add: sample_running_def)
  from serve_loop_outcome [OF sample_surroundings sample_config_ok this, of "pe_client sample_env" ?e "''rabbitmq''"
      "ticks 2 @ [CtxDone canceled]"]
  have "fst (serve_loop (pe_lib sample_env) (pe_cfg sample_env) (pe_client sample_env) ?e (pe_pub sample_env)
      (ticks 2 @ [CtxDone canceled]) sample_running) = Stopped"
    by (simp add: expected_outcome_def ticks_def sample_env_def numeral_2_eq_2)
  then obtain st' where "serve_loop (pe_lib sample_env) (pe_cfg sample_env) (pe_client sample_env) ?e (pe_pub sample_env)
      (ticks 2 @ [CtxDone canceled]) sample_running = (Stopped, st')"
    by (metis prod.collapse)
  with process_computes_serve [OF s, of sample_running 2] have "\<exists>ls q. program_run sample_env (program_start s sample_running) ls q \<and>
      pg_main q = Ended \<and> pg_cycles q = Suc 2" by blast
  with s show ?thesis by (auto simp: numeral_3_eq_3)
qed

end
