(* ===== verification/Command.thy ===== *)
theory Command
  imports Serve
begin

text \<open>
  The command line (\<open>cmd/sentinel/main.go\<close>): the three commands under \<open>sentinel\<close>, and \<open>main\<close> from the
  arguments to what the process prints and the code it exits with. Which command the arguments
  choose, and with which flags, is what cobra makes of them and a parameter.
\<close>

section \<open>The commands\<close>

record command =
  cm_Use :: string
  cm_Short :: string
  cm_Long :: string
  cm_SilenceUsage :: bool
  cm_SilenceErrors :: bool
  cm_Flags :: "flag_def list"

definition rootCmd :: command where
  "rootCmd =
     \<lparr>cm_Use = ''sentinel'',
      cm_Short = ''HyperFleet Sentinel - Resource polling and event publishing service'',
      cm_Long = ''HyperFleet Sentinel watches HyperFleet API resources and publishes'' @ newline @
        ''reconciliation events to a message broker based on configurable max age intervals.'',
      cm_SilenceUsage = False, cm_SilenceErrors = False, cm_Flags = []\<rparr>"

definition serve_command :: command where
  "serve_command =
     \<lparr>cm_Use = ''serve'', cm_Short = ''Start the Sentinel service'',
      cm_Long = ''Start the HyperFleet Sentinel service with the specified configuration.'',
      cm_SilenceUsage = True, cm_SilenceErrors = True, cm_Flags = newServeCommand\<rparr>"

definition config_dump_command :: command where
  "config_dump_command =
     \<lparr>cm_Use = ''config-dump'', cm_Short = ''Load and print the merged sentinel configuration as YAML'',
      cm_Long = ''Load the sentinel configuration from config file, environment variables,'' @ newline @
        ''and CLI flags, then print the merged result as YAML to stdout.'' @ newline @
        ''Exits with code 0 on success, non-zero on error.'' @ newline @ newline @
        ''Priority order (lowest to highest): config file < env vars < CLI flags'',
      cm_SilenceUsage = True, cm_SilenceErrors = True, cm_Flags = newConfigDumpCommand\<rparr>"

definition newVersionCommand :: command where
  "newVersionCommand =
     \<lparr>cm_Use = ''version'', cm_Short = ''Print version information'', cm_Long = [],
      cm_SilenceUsage = False, cm_SilenceErrors = False, cm_Flags = []\<rparr>"

definition subcommands :: "command list" where
  "subcommands = [serve_command, config_dump_command, newVersionCommand]"

section \<open>From the arguments to the exit\<close>

text \<open>
  What the arguments ask for: a command with the value of its \<open>--config\<close> flag and its flag set, or
  something cobra answers itself, with what it prints and the error it returns.
\<close>

datatype invocation =
    InvokeServe string "cli_flag gmap"
  | InvokeConfigDump string "cli_flag gmap"
  | InvokeVersion
  | Answered string "go_error option"

text \<open>How the process stands: what it printed, and its exit code, \<open>None\<close> while it runs.\<close>

record 'w main_result =
  mr_stdout :: string
  mr_stderr :: string
  mr_code :: "int option"
  mr_logging :: log_state
  mr_state :: "'w serve_state"

definition finish :: "string list \<Rightarrow> string \<Rightarrow> go_error option \<Rightarrow> log_state \<Rightarrow> 'w serve_state \<Rightarrow> 'w main_result" where
  "finish args out err lst st =
     (case main_exit args err of
        None \<Rightarrow> \<lparr>mr_stdout = out, mr_stderr = [], mr_code = Some 0, mr_logging = lst, mr_state = st\<rparr>
      | Some (line, code) \<Rightarrow>
          \<lparr>mr_stdout = out, mr_stderr = line, mr_code = Some code, mr_logging = lst, mr_state = st\<rparr>)"

text \<open>\<open>main\<close> with the build's version, commit and date. A panic ends a Go program with code 2.\<close>

definition sentinel_main ::
    "(command \<Rightarrow> command list \<Rightarrow> string list \<Rightarrow> invocation) \<Rightarrow> ('w, 'env, 'ast, 'prog) serve_libs \<Rightarrow>
     'file config_libs \<Rightarrow> log_runtime \<Rightarrow> string \<times> string \<times> string \<Rightarrow> nat \<Rightarrow> string list \<Rightarrow>
     select_event list \<Rightarrow> log_state \<Rightarrow> 'w serve_state \<Rightarrow> 'w main_result" where
  "sentinel_main cobra lib clib rt build registry args evs lst st =
     (let (version, commit, date) = build
      in case cobra rootCmd subcommands args of
           InvokeServe configFile flags \<Rightarrow>
             (case serve_RunE lib clib rt version commit registry configFile flags evs lst st of
                (Failed err, lst, st) \<Rightarrow> finish args [] (Some err) lst st
              | (Stopped, lst, st) \<Rightarrow> finish args [] None lst st
              | (StillRunning, lst, st) \<Rightarrow>
                  \<lparr>mr_stdout = [], mr_stderr = [], mr_code = None, mr_logging = lst, mr_state = st\<rparr>
              | (Panicked, lst, st) \<Rightarrow>
                  \<lparr>mr_stdout = [], mr_stderr = [], mr_code = Some 2, mr_logging = lst, mr_state = st\<rparr>)
         | InvokeConfigDump configFile flags \<Rightarrow>
             (case runConfigDump clib (sv_Marshal lib) configFile (Some flags) of
                Inl err \<Rightarrow> finish args [] (Some err) lst st
              | Inr data \<Rightarrow> finish args data None lst st)
         | InvokeVersion \<Rightarrow> finish args (version_text version commit date) None lst st
         | Answered out err \<Rightarrow> finish args out err lst st)"

section \<open>The exit code\<close>

lemma finish_simps [simp]:
  "mr_code (finish args out err lst st) = Some (if err = None then 0 else 1)"
  "mr_stdout (finish args out err lst st) = out" "mr_state (finish args out err lst st) = st"
  "mr_logging (finish args out err lst st) = lst"
  "mr_stderr (finish args out err lst st) = [] \<longleftrightarrow> err = None"
  by (auto simp: finish_def main_exit_def Let_def split: option.split)

section \<open>How the serve command ends\<close>

lemma poll_loop_end: "poll_loop dp ctx evs s w = Some (r, s', w') \<Longrightarrow> r = loop_end evs"
proof (induction evs arbitrary: s w)
  case (Cons ev evs)
  then show ?case by (cases ev) (auto split: bind_split_asm)
qed simp

lemma Start_end: "Start dp ctx evs s w = Some (r, s', w') \<Longrightarrow> r = loop_end evs"
  by (auto simp: Start_def Let_def simp del: append.simps split: if_splits bind_split_asm dest: poll_loop_end)

text \<open>What an outcome says of the events the loop took and of the messages sent.\<close>

definition outcome_tells ::
    "select_event list \<Rightarrow> serve_outcome \<Rightarrow> 'w serve_state \<Rightarrow> 'w serve_state \<Rightarrow> bool" where
  "outcome_tells evs result st st' \<longleftrightarrow>
     (case result of
        Stopped \<Rightarrow> loop_end evs = Returned canceled
      | StillRunning \<Rightarrow> loop_end evs = Running
      | Failed err \<Rightarrow> wd_sent (ss_world st') = wd_sent (ss_world st) \<or>
          (\<exists>e. loop_end evs = Returned e \<and> e \<noteq> canceled \<and> err = ErrWrap ''sentinel failed'' e)
      | Panicked \<Rightarrow> True)"

lemma outcome_tells_frame:
  "outcome_tells evs result st1 st2 \<Longrightarrow> wd_sent (ss_world st1) = wd_sent (ss_world st) \<Longrightarrow>
     wd_sent (ss_world st') = wd_sent (ss_world st2) \<Longrightarrow> outcome_tells evs result st st'"
  by (auto simp: outcome_tells_def split: serve_outcome.splits)

lemma serve_loop_tells:
  assumes "serve_loop lib cfg client e pub evs st = (result, st')"
  shows "outcome_tells evs result st st'"
  using assms
  by (auto simp: serve_loop_def outcome_tells_def Let_def
      split: sum.splits option.splits prod.splits loop_result.splits if_splits dest!: Start_end)

lemma serve_publisher_tells:
  assumes "serve_publisher lib version registry cfg client evs st = (result, st')"
  shows "outcome_tells evs result st st'"
  using assms
proof (cases rule: serve_publisher_cases)
  case failed
  then show ?thesis by (simp add: outcome_tells_def)
next
  case (loop e pub st1 st2)
  show ?thesis
    by (rule outcome_tells_frame [OF serve_loop_tells [OF loop(1)] loop(4)]) (simp add: loop(2) close_publisher_held)
qed

lemma serve_body_tells:
  assumes "serve_body lib version commit registry cfg logCfg evs st = (result, st')"
  shows "outcome_tells evs result st st'"
  using serve_body_cases [OF assms]
proof
  assume "result \<notin> {StillRunning, Stopped} \<and> ss_held st' = ss_held st \<and>
    wd_sent (ss_world st') = wd_sent (ss_world st)"
  then show ?thesis by (auto simp: outcome_tells_def split: serve_outcome.split)
next
  assume "\<exists>client st1. serve_publisher lib version registry cfg client evs st1 = (result, st') \<and> ss_held st1 = ss_held st \<and>
    wd_sent (ss_world st1) = wd_sent (ss_world st)"
  then obtain client st1 where "serve_publisher lib version registry cfg client evs st1 = (result, st')"
    "wd_sent (ss_world st1) = wd_sent (ss_world st)" by blast
  from outcome_tells_frame [OF serve_publisher_tells [OF this(1)] this(2)] show ?thesis by simp
qed

lemma runServe_tells:
  assumes "runServe lib version commit registry cfg logCfg evs st = (result, st')"
  shows "outcome_tells evs result st st'"
proof -
  obtain tp st1 where tr: "setup_tracing lib version logCfg st = (tp, st1)" by force
  obtain out st2 where body: "serve_body lib version commit registry cfg logCfg evs st1 = (out, st2)" by force
  from assms tr body have out: "result = out"
    and st': "st' = (if out = StillRunning then st2 else shutdown_tracing lib tp st2)"
    by (auto simp: runServe_def)
  from setup_tracing_held [OF tr] show ?thesis
    unfolding out by (intro outcome_tells_frame [OF serve_body_tells [OF body]]) (simp_all add: st' shutdown_tracing_held)
qed

text \<open>The events that were acquired are released, in reverse order.\<close>

definition all_released :: "'w serve_state \<Rightarrow> 'w serve_state \<Rightarrow> bool" where
  "all_released st st' \<longleftrightarrow>
     (\<exists>traced opened. ss_held st' = ss_held st @ kept traced TracerStarted @ kept opened PublisherOpened @
        kept opened PublisherClosed @ kept traced TracerShutDown)"

lemma all_released_refl [simp]: "all_released st st"
  unfolding all_released_def by (intro exI [of _ False]) (simp add: kept_def)

lemma serve_RunE_ends:
  assumes "serve_RunE lib clib rt version commit registry configFile flags evs lst st = (result, lst', st')"
  shows "outcome_tells evs result st st'" and "result \<noteq> StillRunning \<Longrightarrow> all_released st st'"
    and "result \<in> {StillRunning, Stopped} \<Longrightarrow>
      \<exists>cfg logs. LoadConfig clib configFile (Some flags) = (Inr cfg, logs) \<and> Validate cfg = None"
proof -
  obtain loaded logs where load: "LoadConfig clib configFile (Some flags) = (loaded, logs)" by force
  consider (early) err where "result = Failed err" "st' = st" | (served) cfg logCfg where "loaded = Inr cfg"
    "runServe lib version commit registry cfg logCfg evs st = (result, st')"
    using assms by (auto simp: serve_RunE_def load split: sum.splits prod.splits)
  then have "outcome_tells evs result st st' \<and> (result \<noteq> StillRunning \<longrightarrow> all_released st st') \<and>
     (result \<in> {StillRunning, Stopped} \<longrightarrow>
        (\<exists>cfg logs. LoadConfig clib configFile (Some flags) = (Inr cfg, logs) \<and> Validate cfg = None))"
  proof cases
    case early
    then show ?thesis by (simp add: outcome_tells_def)
  next
    case served
    have "result \<noteq> StillRunning \<longrightarrow> all_released st st'"
    proof
      assume "result \<noteq> StillRunning"
      with runServe_held [OF served(2)] show "all_released st st'" by (simp add: all_released_def)
    qed
    with runServe_tells [OF served(2)] load served(1) show ?thesis by (auto elim: LoadConfig_Inr)
  qed
  then show "outcome_tells evs result st st'" "result \<noteq> StillRunning \<Longrightarrow> all_released st st'"
    "result \<in> {StillRunning, Stopped} \<Longrightarrow>
      \<exists>cfg logs. LoadConfig clib configFile (Some flags) = (Inr cfg, logs) \<and> Validate cfg = None" by simp_all
qed

text \<open>
  C23: The exit code of \<open>sentinel serve\<close> tells the truth. The context of the loop ends by
  \<open>cancel()\<close> only. The process runs on exactly as long as its loop does; it exits with 0 only after
  a valid configuration was loaded and the loop was cancelled, and then prints nothing; it exits
  with 1 only with a line on the error output and without ever having handed a message to the
  broker; the only other code is that of a panic; nothing is printed to the standard output;
  and whenever it exits, the tracer and the publisher it had acquired have been released.
\<close>

theorem serve_exit_code:
  assumes "cobra rootCmd subcommands args = InvokeServe configFile flags"
    and "\<And>err. CtxDone err \<in> set evs \<Longrightarrow> err = canceled"
    and "r = sentinel_main cobra lib clib rt build registry args evs lst st"
  shows "mr_stdout r = [] \<and> mr_code r \<in> {None, Some 0, Some 1, Some 2} \<and>
    (mr_code r = None \<longrightarrow> loop_end evs = Running \<and> mr_stderr r = []) \<and>
    (mr_code r = Some 0 \<longrightarrow> loop_end evs = Returned canceled \<and> mr_stderr r = []) \<and>
    (mr_code r \<in> {None, Some 0} \<longrightarrow>
       (\<exists>cfg logs. LoadConfig clib configFile (Some flags) = (Inr cfg, logs) \<and> Validate cfg = None)) \<and>
    (mr_code r = Some 1 \<longrightarrow> mr_stderr r \<noteq> [] \<and> wd_sent (ss_world (mr_state r)) = wd_sent (ss_world st)) \<and>
    (mr_code r \<noteq> None \<longrightarrow> all_released st (mr_state r))"
proof -
  obtain version commit date where build: "build = (version, commit, date)" by (cases build)
  obtain result lst' st' where run:
    "serve_RunE lib clib rt version commit registry configFile flags evs lst st = (result, lst', st')"
    by (metis prod.collapse)
  have "CtxDone e \<in> set evs" if "loop_end evs = Returned e" for e
    using that by (induction evs rule: loop_end.induct) auto
  with assms(2) have only: "loop_end evs = Returned e \<Longrightarrow> e = canceled" for e by blast
  note ends = serve_RunE_ends [OF run]
  show ?thesis
    using ends only by (cases result) (auto simp: assms(1,3) sentinel_main_def build run outcome_tells_def)
qed

end
