(* ===== verification/Config_Copy.thy ===== *)
theory Config_Copy
  imports Config
begin

text \<open>
  \<open>RedactedCopy\<close> of \<open>internal/config/config.go\<close> over an explicit store, because what it promises, a
  copy that shares nothing with the original, is about pointers: a configuration is a
  struct whose sections are addresses, a map holds values or addresses of other maps, and
  \<open>view\<close> reads the value a configuration stands for.
\<close>

section \<open>The store\<close>

datatype cell = Val gval | Ref nat

datatype heap_object =
    ApiObject api_config
  | BrokerObject broker_config
  | SelectorArray label_selector_list
  | MapObject "(string \<times> cell) list"
  | DecisionObject message_decision_config

record store =
  sto_objects :: "nat \<rightharpoonup> heap_object"
  sto_next :: nat

definition alloc :: "heap_object \<Rightarrow> store \<Rightarrow> nat \<times> store" where
  "alloc obj st =
     (sto_next st, \<lparr>sto_objects = (sto_objects st)(sto_next st \<mapsto> obj), sto_next = Suc (sto_next st)\<rparr>)"

definition write_object :: "nat \<Rightarrow> heap_object \<Rightarrow> store \<Rightarrow> store" where
  "write_object a obj st = st\<lparr>sto_objects := (sto_objects st)(a \<mapsto> obj)\<rparr>"

text \<open>The struct: its scalar fields in one record, its pointers, slices and maps as addresses.\<close>

record config_struct =
  cs_Scalars :: sentinel_config
  cs_Api :: "nat option"
  cs_Broker :: "nat option"
  cs_Selectors :: "nat option"
  cs_Data :: "nat option"
  cs_Decision :: "nat option"

text \<open>Every address below the next one holds an object, and every reference is below it.\<close>

fun cell_below :: "nat \<Rightarrow> cell \<Rightarrow> bool" where
  "cell_below n (Val v) = True"
| "cell_below n (Ref a) = (a < n)"

definition address_below :: "nat \<Rightarrow> nat option \<Rightarrow> bool" where
  "address_below n a = (case a of None \<Rightarrow> True | Some a \<Rightarrow> a < n)"

definition store_ok :: "store \<Rightarrow> bool" where
  "store_ok st \<longleftrightarrow> dom (sto_objects st) = {..<sto_next st} \<and>
     (\<forall>a m. sto_objects st a = Some (MapObject m) \<longrightarrow> distinct (map fst m) \<and>
        (\<forall>kc \<in> set m. cell_below (sto_next st) (snd kc)))"

section \<open>The copy\<close>

text \<open>\<open>api := *cp.Clients.HyperFleetAPI; cp.Clients.HyperFleetAPI = &api\<close>, and its kin.\<close>

definition copy_object :: "nat option \<Rightarrow> store \<Rightarrow> nat option \<times> store" where
  "copy_object a st =
     (case a of
        None \<Rightarrow> (None, st)
      | Some a \<Rightarrow>
          (case sto_objects st a of
             None \<Rightarrow> (Some a, st)
           | Some obj \<Rightarrow> (let (b, st) = alloc obj st in (Some b, st))))"

text \<open>The loop over \<open>MessageData\<close>: a new map with the same values, addresses of nested maps included.\<close>

definition copy_map :: "nat option \<Rightarrow> store \<Rightarrow> nat option \<times> store" where
  "copy_map a st =
     (case a of
        None \<Rightarrow> (None, st)
      | Some a \<Rightarrow>
          (case sto_objects st a of
             Some (MapObject m) \<Rightarrow>
               (let (b, st) = alloc (MapObject (gmap_copy (\<lambda>v. v) m)) st in (Some b, st))
           | _ \<Rightarrow> (Some a, st)))"

definition RedactedCopy :: "config_struct \<Rightarrow> store \<Rightarrow> config_struct \<times> store" where
  "RedactedCopy c st =
     (let cp = c;
          (api, st) = copy_object (cs_Api cp) st;
          cp = cp\<lparr>cs_Api := api\<rparr>;
          (b, st) = copy_object (cs_Broker cp) st;
          cp = cp\<lparr>cs_Broker := b\<rparr>;
          (rs, st) = copy_object (cs_Selectors c) st;
          cp = cp\<lparr>cs_Selectors := rs\<rparr>;
          (md, st) = copy_map (cs_Data c) st;
          cp = cp\<lparr>cs_Data := md\<rparr>
      in (cp, st))"

section \<open>What a configuration stands for\<close>

text \<open>Reading a map through its references; the fuel bounds the depth of nesting.\<close>

fun read_map :: "nat \<Rightarrow> store \<Rightarrow> nat \<Rightarrow> gval option" where
  "read_map 0 st a = None"
| "read_map (Suc n) st a =
     (case sto_objects st a of
        Some (MapObject m) \<Rightarrow>
          map_option GMap (those (map (\<lambda>(k, c). map_option (Pair k) (case c of Val v \<Rightarrow> Some v | Ref b \<Rightarrow> read_map n st b)) m))
      | _ \<Rightarrow> None)"

definition lookup :: "store \<Rightarrow> nat option \<Rightarrow> heap_object option" where
  "lookup st a = Option.bind a (sto_objects st)"

text \<open>Two structs stand for the same configuration: same scalars, same objects, same trees.\<close>

definition same_view :: "config_struct \<Rightarrow> store \<Rightarrow> config_struct \<Rightarrow> store \<Rightarrow> bool" where
  "same_view c st d st' \<longleftrightarrow>
     cs_Scalars c = cs_Scalars d \<and> lookup st (cs_Api c) = lookup st' (cs_Api d) \<and>
     lookup st (cs_Broker c) = lookup st' (cs_Broker d) \<and>
     lookup st (cs_Selectors c) = lookup st' (cs_Selectors d) \<and>
     lookup st (cs_Decision c) = lookup st' (cs_Decision d) \<and>
     (\<forall>n. Option.bind (cs_Data c) (read_map n st) = Option.bind (cs_Data d) (read_map n st'))"

definition struct_ok :: "config_struct \<Rightarrow> store \<Rightarrow> bool" where
  "struct_ok c st \<longleftrightarrow>
     list_all (address_below (sto_next st)) [cs_Api c, cs_Broker c, cs_Selectors c, cs_Data c, cs_Decision c] \<and>
     (\<forall>a. cs_Data c = Some a \<longrightarrow> (\<exists>m. sto_objects st a = Some (MapObject m)))"

section \<open>Frames\<close>

text \<open>The store has grown: the objects that were there are there still.\<close>

definition grown :: "store \<Rightarrow> store \<Rightarrow> bool" where
  "grown st st' \<longleftrightarrow> sto_next st \<le> sto_next st' \<and> (\<forall>a < sto_next st. sto_objects st' a = sto_objects st a)"

lemma grown_refl: "grown st st"
  by (simp add: grown_def)

lemma grown_trans: "grown a b \<Longrightarrow> grown b c \<Longrightarrow> grown a c"
  by (auto simp: grown_def)

lemma grown_write: "grown st st' \<Longrightarrow> sto_next st \<le> a \<Longrightarrow> grown st (write_object a obj st')"
  by (auto simp: grown_def write_object_def)

lemma read_map_grown:
  assumes "store_ok st" and "grown st st'"
  shows "a < sto_next st \<Longrightarrow> read_map n st' a = read_map n st a"
proof (induction n arbitrary: a)
  case 0
  then show ?case by simp
next
  case (Suc n)
  have objs: "sto_objects st' a = sto_objects st a"
    using assms(2) Suc.prems by (simp add: grown_def)
  show ?case
  proof (cases "sto_objects st a")
    case None
    then show ?thesis by (simp add: objs)
  next
    case (Some obj)
    show ?thesis
    proof (cases obj)
      case (MapObject m)
      then have below: "\<forall>kc \<in> set m. cell_below (sto_next st) (snd kc)"
        using assms(1) Some by (auto simp: store_ok_def)
      have "map (\<lambda>(k, c). map_option (Pair k) (case c of Val v \<Rightarrow> Some v | Ref b \<Rightarrow> read_map n st' b)) m =
            map (\<lambda>(k, c). map_option (Pair k) (case c of Val v \<Rightarrow> Some v | Ref b \<Rightarrow> read_map n st b)) m"
      proof (rule map_cong [OF refl])
        fix kc assume "kc \<in> set m"
        with below have "cell_below (sto_next st) (snd kc)" by blast
        then show "(case kc of (k, c) \<Rightarrow> map_option (Pair k) (case c of Val v \<Rightarrow> Some v | Ref b \<Rightarrow> read_map n st' b)) =
              (case kc of (k, c) \<Rightarrow> map_option (Pair k) (case c of Val v \<Rightarrow> Some v | Ref b \<Rightarrow> read_map n st b))"
          by (cases kc) (auto simp: Suc.IH split: cell.split)
      qed
      then show ?thesis
        by (simp only: read_map.simps objs Some MapObject option.case heap_object.case)
    qed (simp_all add: objs Some)
  qed
qed

lemma lookup_grown: "grown st st' \<Longrightarrow> address_below (sto_next st) a \<Longrightarrow> lookup st' a = lookup st a"
  by (cases a) (auto simp: lookup_def grown_def address_below_def)

lemma same_view_grown:
  assumes "store_ok st" and "struct_ok c st" and "grown st st'"
  shows "same_view c st c st'"
proof -
  have "Option.bind (cs_Data c) (read_map n st) = Option.bind (cs_Data c) (read_map n st')" for n
    using assms read_map_grown [OF assms(1,3)]
    by (cases "cs_Data c") (auto simp: struct_ok_def address_below_def)
  with assms show ?thesis
    by (simp add: same_view_def struct_ok_def lookup_grown)
qed

section \<open>What the steps of the copy do\<close>

lemma alloc_facts:
  "alloc obj st = (b, st') \<Longrightarrow>
     b = sto_next st \<and> sto_next st' = Suc b \<and> sto_objects st' = (sto_objects st)(b \<mapsto> obj) \<and> grown st st'"
  by (auto simp: alloc_def grown_def)

text \<open>A copied pointer is nil when the original is, and otherwise fresh with the same object behind it.\<close>

definition fresh_copy :: "store \<Rightarrow> nat option \<Rightarrow> store \<Rightarrow> nat option \<Rightarrow> bool" where
  "fresh_copy st a st' b \<longleftrightarrow>
     (a = None \<longleftrightarrow> b = None) \<and> lookup st' b = lookup st a \<and>
     (\<forall>x. b = Some x \<longrightarrow> sto_next st \<le> x \<and> x < sto_next st')"

lemma fresh_copy_grown:
  "fresh_copy st a st1 b \<Longrightarrow> grown st1 st2 \<Longrightarrow> fresh_copy st a st2 b"
  by (cases b) (auto simp: fresh_copy_def grown_def lookup_def)

lemma fresh_copy_from:
  "fresh_copy st1 a st2 b \<Longrightarrow> grown st st1 \<Longrightarrow> address_below (sto_next st) a \<Longrightarrow> fresh_copy st a st2 b"
  by (auto simp: fresh_copy_def lookup_grown dest: grown_def [THEN iffD1])

lemma copy_object_fresh:
  assumes "copy_object a st = (b, st')" and "dom (sto_objects st) = {..<sto_next st}" and "address_below (sto_next st) a"
  shows "fresh_copy st a st' b \<and> grown st st' \<and> dom (sto_objects st') = {..<sto_next st'}"
proof (cases a)
  case None
  with assms show ?thesis
    by (auto simp: copy_object_def fresh_copy_def grown_refl lookup_def)
next
  case (Some x)
  with assms have "x \<in> dom (sto_objects st)"
    by (simp add: address_below_def)
  then obtain obj where obj: "sto_objects st x = Some obj" by blast
  with assms(1) Some have al: "alloc obj st = (the b, st')" and "b \<noteq> None"
    by (auto simp: copy_object_def split: prod.splits)
  note f = alloc_facts [OF al]
  with \<open>b \<noteq> None\<close> Some obj assms(2) show ?thesis
    by (auto simp: fresh_copy_def lookup_def lessThan_Suc)
qed

lemma copy_map_object:
  assumes "\<forall>x. a = Some x \<longrightarrow> (\<exists>m. sto_objects st x = Some (MapObject m) \<and> gmap_ok m)"
  shows "copy_map a st = copy_object a st"
proof (cases a)
  case None
  then show ?thesis by (simp add: copy_map_def copy_object_def)
next
  case (Some x)
  with assms obtain m where m: "sto_objects st x = Some (MapObject m)" and "gmap_ok m" by blast
  then have "gmap_copy (\<lambda>v. v) m = m" by (simp add: gmap_copy_eq)
  with m Some show ?thesis by (simp add: copy_map_def copy_object_def)
qed

lemma RedactedCopy_facts:
  assumes "store_ok st" and "struct_ok c st" and "RedactedCopy c st = (d, st')"
  shows "grown st st'" and "fresh_copy st (cs_Api c) st' (cs_Api d)"
    and "fresh_copy st (cs_Broker c) st' (cs_Broker d)"
    and "fresh_copy st (cs_Selectors c) st' (cs_Selectors d)"
    and "fresh_copy st (cs_Data c) st' (cs_Data d)"
    and "cs_Decision d = cs_Decision c" and "cs_Scalars d = cs_Scalars c"
proof -
  obtain a1 st1 where s1: "copy_object (cs_Api c) st = (a1, st1)" by force
  obtain a2 st2 where s2: "copy_object (cs_Broker c) st1 = (a2, st2)" by force
  obtain a3 st3 where s3: "copy_object (cs_Selectors c) st2 = (a3, st3)" by force
  obtain a4 st4 where s4: "copy_map (cs_Data c) st3 = (a4, st4)" by force
  from assms(3) have d: "d = c\<lparr>cs_Api := a1, cs_Broker := a2, cs_Selectors := a3, cs_Data := a4\<rparr>" "st' = st4"
    by (simp_all add: RedactedCopy_def Let_def s1 s2 s3 s4)
  note below = assms(2) [unfolded struct_ok_def list.pred_inject]
  have up: "address_below (sto_next st) a \<Longrightarrow> grown st u \<Longrightarrow> address_below (sto_next u) a" for a u
    by (auto simp: address_below_def grown_def split: option.splits)
  have dom: "dom (sto_objects st) = {..<sto_next st}"
    using assms(1) by (simp add: store_ok_def)
  from copy_object_fresh [OF s1 dom] below have
    f1: "fresh_copy st (cs_Api c) st1 a1" "grown st st1" "dom (sto_objects st1) = {..<sto_next st1}"
    by blast+
  from copy_object_fresh [OF s2 f1(3)] below up [OF _ f1(2)] have
    f2: "fresh_copy st1 (cs_Broker c) st2 a2" "grown st1 st2" "dom (sto_objects st2) = {..<sto_next st2}"
    by blast+
  have g2: "grown st st2" by (rule grown_trans [OF f1(2) f2(2)])
  from copy_object_fresh [OF s3 f2(3)] below up [OF _ g2] have
    f3: "fresh_copy st2 (cs_Selectors c) st3 a3" "grown st2 st3" "dom (sto_objects st3) = {..<sto_next st3}"
    by blast+
  have g3: "grown st st3" by (rule grown_trans [OF g2 f3(2)])
  have data: "\<exists>m. sto_objects st3 x = Some (MapObject m) \<and> gmap_ok m" if x: "cs_Data c = Some x" for x
  proof -
    from assms(2) x obtain m where m: "sto_objects st x = Some (MapObject m)" and "x < sto_next st"
      by (auto simp: struct_ok_def address_below_def)
    with g3 assms(1) show ?thesis by (auto simp: grown_def store_ok_def gmap_ok_def)
  qed
  have "copy_object (cs_Data c) st3 = (a4, st4)"
    using s4 copy_map_object [of "cs_Data c" st3] data by simp
  from copy_object_fresh [OF this f3(3)] below up [OF _ g3] have
    f4: "fresh_copy st3 (cs_Data c) st4 a4" "grown st3 st4"
    by blast+
  show "grown st st'" unfolding d by (rule grown_trans [OF g3 f4(2)])
  show "fresh_copy st (cs_Api c) st' (cs_Api d)"
    using fresh_copy_grown [OF f1(1)] grown_trans [OF f2(2) grown_trans [OF f3(2) f4(2)]] by (simp add: d)
  show "fresh_copy st (cs_Broker c) st' (cs_Broker d)"
    using fresh_copy_grown [OF fresh_copy_from [OF f2(1) f1(2)]] grown_trans [OF f3(2) f4(2)] below by (simp add: d)
  show "fresh_copy st (cs_Selectors c) st' (cs_Selectors d)"
    using fresh_copy_grown [OF fresh_copy_from [OF f3(1) g2] f4(2)] below by (simp add: d)
  show "fresh_copy st (cs_Data c) st' (cs_Data d)"
    using fresh_copy_from [OF f4(1) g3] below by (simp add: d)
  show "cs_Decision d = cs_Decision c" "cs_Scalars d = cs_Scalars c"
    by (simp_all add: d)
qed

lemma read_map_fresh:
  assumes "store_ok st" and "grown st st'" and "fresh_copy st a st' b" and "address_below (sto_next st) a"
  shows "Option.bind b (read_map n st') = Option.bind a (read_map n st)"
proof (cases a)
  case None
  with assms(3) show ?thesis by (simp add: fresh_copy_def)
next
  case (Some x)
  with assms(3) obtain y where y: "b = Some y" "sto_objects st' y = sto_objects st x"
    by (auto simp: fresh_copy_def lookup_def)
  have x: "x < sto_next st" using assms(4) Some by (simp add: address_below_def)
  then have "sto_objects st' y = sto_objects st' x" using y assms(2) by (simp add: grown_def)
  then have "read_map n st' y = read_map n st' x" by (cases n) simp_all
  with read_map_grown [OF assms(1,2) x] Some y(1) show ?thesis by simp
qed

section \<open>What the copy promises and what it does not\<close>

text \<open>
  The copy is a copy: read through its own pointers it is the configuration it was made of,
  every section and every nested \<open>message_data\<close> value included, and the original still reads
  as it did.
\<close>

theorem redacted_copy_equal:
  assumes "store_ok st" and "struct_ok c st" and "RedactedCopy c st = (d, st')"
  shows "same_view c st d st' \<and> same_view c st c st'"
proof -
  note f = RedactedCopy_facts [OF assms]
  have "Option.bind (cs_Data c) (read_map n st) = Option.bind (cs_Data d) (read_map n st')" for n
    using read_map_fresh [OF assms(1) f(1,5)] assms(2) by (simp add: struct_ok_def)
  moreover have "lookup st (cs_Decision c) = lookup st' (cs_Decision d)"
    using assms(2) f(1,6) by (simp add: struct_ok_def lookup_grown)
  ultimately have "same_view c st d st'"
    using f by (simp add: same_view_def fresh_copy_def)
  with same_view_grown [OF assms(1,2) f(1)] show ?thesis by simp
qed

text \<open>
  C26: How deep the copy is. Whatever is written through the copy's API section, broker section,
  selector list or top-level \<open>message_data\<close> map, the original reads as before. But the copy is
  not deep: the message decision is the very same object, so a write through the copy is
  seen by the original, and the copied \<open>message_data\<close> map holds the addresses of the original's
  nested maps.
\<close>

theorem redacted_copy_isolation:
  assumes "store_ok st" and "struct_ok c st" and "RedactedCopy c st = (d, st')"
  shows "(\<forall>a \<in> {cs_Api d, cs_Broker d, cs_Selectors d, cs_Data d}. \<forall>x obj. a = Some x \<longrightarrow>
       same_view c st c (write_object x obj st')) \<and>
     (\<forall>x obj. cs_Decision d = Some x \<longrightarrow> lookup (write_object x obj st') (cs_Decision c) = Some obj) \<and>
     (\<forall>m. lookup st (cs_Data c) = Some (MapObject m) \<longrightarrow> lookup st' (cs_Data d) = Some (MapObject m))"
proof -
  note f = RedactedCopy_facts [OF assms]
  have "same_view c st c (write_object x obj st')"
    if "a \<in> {cs_Api d, cs_Broker d, cs_Selectors d, cs_Data d}" "a = Some x" for a x obj
  proof -
    have "sto_next st \<le> x" using that f(2-5) by (auto simp: fresh_copy_def)
    from same_view_grown [OF assms(1,2) grown_write [OF f(1) this]] show ?thesis .
  qed
  moreover have "lookup (write_object x obj st') (cs_Decision c) = Some obj" if "cs_Decision d = Some x" for x obj
    using that f(6) by (simp add: lookup_def write_object_def)
  moreover have "lookup st' (cs_Data d) = lookup st (cs_Data c)"
    using f(5) by (simp add: fresh_copy_def)
  ultimately show ?thesis by auto
qed

section \<open>Instances\<close>

definition sample_store :: store where
  "sample_store =
     \<lparr>sto_objects = [0 \<mapsto> ApiObject \<lparr>ac_BaseURL = ''http://api'', ac_Version = ''v1'', ac_Timeout = 0\<rparr>,
        1 \<mapsto> MapObject [(''id'', Val (GStr ''resource.id''))], 2 \<mapsto> MapObject [(''ref'', Ref 1)],
        3 \<mapsto> DecisionObject DefaultMessageDecision],
      sto_next = 4\<rparr>"

definition sample_struct :: config_struct where
  "sample_struct =
     \<lparr>cs_Scalars = NewSentinelConfig, cs_Api = Some 0, cs_Broker = None, cs_Selectors = None,
      cs_Data = Some 2, cs_Decision = Some 3\<rparr>"

lemma sample_store_ok: "store_ok sample_store"
proof -
  have "dom (sto_objects sample_store) = {..<sto_next sample_store}"
    by (auto simp: sample_store_def)
  then show ?thesis
    unfolding store_ok_def by (auto simp: sample_store_def split: if_splits)
qed

lemma sample_struct_ok: "struct_ok sample_struct sample_store"
  by (simp add: struct_ok_def sample_struct_def sample_store_def address_below_def)

theorem redacted_copy_equal_witness:
  "same_view sample_struct sample_store (fst (RedactedCopy sample_struct sample_store))
     (snd (RedactedCopy sample_struct sample_store))"
  using redacted_copy_equal [OF sample_store_ok sample_struct_ok, OF surjective_pairing] by blast

theorem redacted_copy_isolation_witness:
  "\<exists>x. cs_Decision (fst (RedactedCopy sample_struct sample_store)) = Some x \<and>
     lookup (write_object x (DecisionObject \<lparr>md_Result = ''true'', md_Params = []\<rparr>)
       (snd (RedactedCopy sample_struct sample_store))) (cs_Decision sample_struct) =
       Some (DecisionObject \<lparr>md_Result = ''true'', md_Params = []\<rparr>)"
proof -
  have "cs_Decision (fst (RedactedCopy sample_struct sample_store)) = Some 3" by code_simp
  with redacted_copy_isolation [OF sample_store_ok sample_struct_ok, OF surjective_pairing] show ?thesis
    by blast
qed

end
