(* ===== verification/Config_Dump.thy ===== *)
theory Config_Dump
  imports Serve
begin

text \<open>
  What \<open>config-dump\<close> prints. The YAML encoder follows the \<open>yaml\<close> tags of the configuration's
  structs (\<open>internal/config/config.go\<close>): the name of each field and whether an empty value is
  omitted. The tree below is that encoding, the text form being the library's. A dump is then
  loaded again with \<open>LoadConfig\<close>, and compared with the configuration it was made of.
\<close>

section \<open>The encoding the tags ask for\<close>

text \<open>What \<open>omitempty\<close> counts as empty, of the values that occur under it.\<close>

fun is_empty_value :: "gval \<Rightarrow> bool" where
  "is_empty_value GNil = True"
| "is_empty_value GNilMap = True"
| "is_empty_value (GMap m) = (m = [])"
| "is_empty_value (GList vs) = (vs = [])"
| "is_empty_value (GStr s) = (s = [])"
| "is_empty_value (GBool b) = (\<not> b)"
| "is_empty_value _ = False"

definition yaml_field :: "string \<Rightarrow> gval \<Rightarrow> gval gmap" where
  "yaml_field name v = [(name, v)]"

definition yaml_omitempty :: "string \<Rightarrow> gval \<Rightarrow> gval gmap" where
  "yaml_omitempty name v = (if is_empty_value v then [] else [(name, v)])"

text \<open>A duration is printed by its \<open>String\<close> method.\<close>

definition yaml_duration :: "duration \<Rightarrow> gval" where
  "yaml_duration d = GStr (duration_string d)"

definition yaml_log :: "log_config \<Rightarrow> gval gmap" where
  "yaml_log c =
     yaml_omitempty ''level'' (GStr (lc_Level c)) @ yaml_omitempty ''format'' (GStr (lc_Format c)) @
     yaml_omitempty ''output'' (GStr (lc_Output c))"

definition yaml_api :: "api_config \<Rightarrow> gval gmap" where
  "yaml_api c =
     yaml_field ''base_url'' (GStr (ac_BaseURL c)) @ yaml_omitempty ''version'' (GStr (ac_Version c)) @
     yaml_field ''timeout'' (yaml_duration (ac_Timeout c))"

text \<open>A nil pointer is printed as null where it is not omitted; a pointer to an empty struct is never empty.\<close>

definition yaml_clients :: "clients_config \<Rightarrow> gval gmap" where
  "yaml_clients c =
     yaml_field ''hyperfleet_api''
       (case cc_HyperFleetAPI c of None \<Rightarrow> GNil | Some api \<Rightarrow> GMap (yaml_api api)) @
     (case cc_Broker c of
        None \<Rightarrow> []
      | Some broker \<Rightarrow> yaml_field ''broker'' (GMap (yaml_omitempty ''topic'' (GStr (bc_Topic broker)))))"

text \<open>Fields without a \<open>yaml\<close> tag are named by their lower-case names.\<close>

definition yaml_param :: "param \<Rightarrow> gval" where
  "yaml_param p = GMap (yaml_field ''name'' (GStr (p_Name p)) @ yaml_field ''expr'' (GStr (p_Expr p)))"

definition yaml_decision :: "message_decision_config \<Rightarrow> gval gmap" where
  "yaml_decision d =
     yaml_field ''result'' (GStr (md_Result d)) @ yaml_field ''params'' (GList (map yaml_param (md_Params d)))"

definition yaml_selector :: "label_selector \<Rightarrow> gval" where
  "yaml_selector l = GMap (yaml_field ''label'' (GStr (ls_Label l)) @ yaml_field ''value'' (GStr (ls_Value l)))"

definition yaml_config :: "sentinel_config \<Rightarrow> gval gmap" where
  "yaml_config c =
     yaml_omitempty ''log'' (GMap (yaml_log (sc_Log c))) @
     yaml_field ''sentinel'' (GMap (yaml_field ''name'' (GStr (si_Name (sc_Sentinel c))))) @
     yaml_field ''resource_type'' (GStr (sc_ResourceType c)) @
     yaml_field ''clients'' (GMap (yaml_clients (sc_Clients c))) @
     (case sc_MessageData c of None \<Rightarrow> [] | Some data \<Rightarrow> yaml_omitempty ''message_data'' (GMap data)) @
     (case sc_MessageDecision c of None \<Rightarrow> [] | Some d \<Rightarrow> yaml_field ''message_decision'' (GMap (yaml_decision d))) @
     yaml_omitempty ''resource_selector'' (GList (map yaml_selector (sc_ResourceSelector c))) @
     yaml_field ''poll_interval'' (yaml_duration (sc_PollInterval c)) @
     yaml_omitempty ''debug_config'' (GBool (sc_DebugConfig c)) @
     yaml_omitempty ''tracing_enabled'' (GBool (sc_TracingEnabled c))"

section \<open>Finding a setting in the tree\<close>

text \<open>Viper's key delimiter is \<open>::\<close>.\<close>

fun path_keys :: "string \<Rightarrow> string list" where
  "path_keys [] = [[]]"
| "path_keys [c] = [[c]]"
| "path_keys (c # d # r) =
     (if c = CHR '':'' \<and> d = CHR '':'' then [] # path_keys r
      else case path_keys (d # r) of [] \<Rightarrow> [[c]] | k # ks \<Rightarrow> (c # k) # ks)"

fun tree_find :: "gval \<Rightarrow> string list \<Rightarrow> gval" where
  "tree_find v [] = v"
| "tree_find (GMap m) (k # ks) = (case gmap_get m k of None \<Rightarrow> GNil | Some v \<Rightarrow> tree_find v ks)"
| "tree_find v (k # ks) = GNil"

definition in_tree :: "gval gmap \<Rightarrow> string \<Rightarrow> gval" where
  "in_tree tree path = tree_find (GMap tree) (path_keys path)"

lemma setting_keys:
  "path_keys ''debug_config'' = [''debug_config'']" "path_keys ''sentinel::name'' = [''sentinel'', ''name'']"
  "path_keys ''log::level'' = [''log'', ''level'']" "path_keys ''log::format'' = [''log'', ''format'']"
  "path_keys ''log::output'' = [''log'', ''output'']" "path_keys ''resource_type'' = [''resource_type'']"
  "path_keys ''poll_interval'' = [''poll_interval'']" "path_keys ''tracing_enabled'' = [''tracing_enabled'']"
  "path_keys ''clients::hyperfleet_api::base_url'' = [''clients'', ''hyperfleet_api'', ''base_url'']"
  "path_keys ''clients::hyperfleet_api::version'' = [''clients'', ''hyperfleet_api'', ''version'']"
  "path_keys ''clients::hyperfleet_api::timeout'' = [''clients'', ''hyperfleet_api'', ''timeout'']"
  "path_keys ''clients::broker::topic'' = [''clients'', ''broker'', ''topic'']"
  by simp_all

lemma gmap_get_append: "gmap_get (m @ n) k = (case gmap_get m k of None \<Rightarrow> gmap_get n k | Some v \<Rightarrow> Some v)"
  by (simp add: gmap_get_def map_add_def split: option.split)

lemma gmap_get_field:
  "gmap_get (yaml_field name v) k = (if k = name then Some v else None)"
  "gmap_get (yaml_omitempty name v) k = (if k = name \<and> \<not> is_empty_value v then Some v else None)"
  by (simp_all add: yaml_field_def yaml_omitempty_def gmap_simps)

lemmas dump_simps =
  in_tree_def setting_keys yaml_config_def gmap_get_append gmap_get_field

lemma dumped_top:
  "in_tree (yaml_config c) ''sentinel::name'' = GStr (si_Name (sc_Sentinel c))"
  "in_tree (yaml_config c) ''resource_type'' = GStr (sc_ResourceType c)"
  "in_tree (yaml_config c) ''poll_interval'' = GStr (duration_string (sc_PollInterval c))"
  "in_tree (yaml_config c) ''debug_config'' = (if sc_DebugConfig c then GBool True else GNil)"
  "in_tree (yaml_config c) ''tracing_enabled'' = (if sc_TracingEnabled c then GBool True else GNil)"
  by (simp_all add: dump_simps yaml_duration_def split: option.split)

definition nonempty_text :: "string \<Rightarrow> gval" where
  "nonempty_text s = (if s = [] then GNil else GStr s)"

lemma yaml_log_empty: "yaml_log c = [] \<longleftrightarrow> lc_Level c = [] \<and> lc_Format c = [] \<and> lc_Output c = []"
  by (simp add: yaml_log_def yaml_omitempty_def)

lemma dumped_log:
  "in_tree (yaml_config c) ''log::level'' = nonempty_text (lc_Level (sc_Log c))"
  "in_tree (yaml_config c) ''log::format'' = nonempty_text (lc_Format (sc_Log c))"
  "in_tree (yaml_config c) ''log::output'' = nonempty_text (lc_Output (sc_Log c))"
  by (simp_all add: dump_simps nonempty_text_def yaml_log_empty)
    (auto simp: yaml_log_def gmap_get_append gmap_get_field gmap_simps split: option.split)

lemma dumped_clients:
  assumes "cc_HyperFleetAPI (sc_Clients c) = Some api"
  shows "in_tree (yaml_config c) ''clients::hyperfleet_api::base_url'' = GStr (ac_BaseURL api)"
    "in_tree (yaml_config c) ''clients::hyperfleet_api::version'' = nonempty_text (ac_Version api)"
    "in_tree (yaml_config c) ''clients::hyperfleet_api::timeout'' = GStr (duration_string (ac_Timeout api))"
    "cc_Broker (sc_Clients c) = Some broker \<Longrightarrow>
       in_tree (yaml_config c) ''clients::broker::topic'' = nonempty_text (bc_Topic broker)"
  using assms by (simp_all add: dump_simps nonempty_text_def yaml_clients_def yaml_api_def yaml_duration_def split: option.split)

section \<open>Loading a dump again\<close>

text \<open>The file that holds the dump, as viper finds the settings in it: the twelve scalars, the three sections.\<close>

definition reads_tree :: "'file config_libs \<Rightarrow> 'file \<Rightarrow> gval gmap \<Rightarrow> bool" where
  "reads_tree lib content tree \<longleftrightarrow>
     (\<forall>(name, env, path) \<in> set documented_settings. cl_Find lib content path = in_tree tree path) \<and>
     (\<forall>path \<in> set section_paths. cl_Find lib content path = in_tree tree path)"

definition no_overrides :: "'file config_libs \<Rightarrow> bool" where
  "no_overrides lib \<longleftrightarrow> (\<forall>(name, env, path) \<in> set documented_settings. cl_Getenv lib env = [])"

text \<open>The decoding of the values a dump holds that are not texts.\<close>

definition decodes_dump :: "(string \<Rightarrow> gval \<Rightarrow> gval) \<Rightarrow> sentinel_config \<Rightarrow> bool" where
  "decodes_dump decode c \<longleftrightarrow>
     decode ''debug_config'' (GBool True) = GBool True \<and> decode ''tracing_enabled'' (GBool True) = GBool True \<and>
     decode ''poll_interval'' (GStr (duration_string (sc_PollInterval c))) = GDuration (sc_PollInterval c) \<and>
     (\<forall>api. cc_HyperFleetAPI (sc_Clients c) = Some api \<longrightarrow>
        decode ''clients::hyperfleet_api::timeout'' (GStr (duration_string (ac_Timeout api))) = GDuration (ac_Timeout api))"

definition reloaded ::
    "(string \<Rightarrow> gval \<Rightarrow> gval) \<Rightarrow> 'file config_libs \<Rightarrow> gval gmap \<Rightarrow> sentinel_config \<Rightarrow> bool" where
  "reloaded decode lib tree c' \<longleftrightarrow>
     viper_documented decode lib \<and> no_overrides lib \<and>
     (\<exists>file content logs. cl_ReadInConfig lib (config_path lib file) = Inr content \<and>
        reads_tree lib content tree \<and> LoadConfig lib file None = (Inr c', logs))"

text \<open>Every documented setting with the place where a configuration keeps it.\<close>

lemma setting_paths:
  "snd ` snd ` set documented_settings = fst ` set config_fields"
  by code_simp

lemma reloaded_field:
  assumes "reloaded decode lib tree c'" and "(path, field) \<in> set config_fields"
  shows "(in_tree tree path \<noteq> GNil \<longrightarrow> field c' = decode path (in_tree tree path)) \<and>
     (in_tree tree path = GNil \<and> take 9 path \<noteq> ''clients::'' \<longrightarrow> field c' = field NewSentinelConfig)"
proof -
  from assms(1) obtain f content logs where r: "viper_documented decode lib" "no_overrides lib"
    "cl_ReadInConfig lib (config_path lib f) = Inr content" "reads_tree lib content tree"
    "LoadConfig lib f None = (Inr c', logs)"
    by (auto simp: reloaded_def)
  from assms(2) have "path \<in> snd ` snd ` set documented_settings"
    unfolding setting_paths by force
  then obtain name env where m: "(name, env, path) \<in> set documented_settings" by force
  then have "wanted_value lib content None (name, env, path) = in_tree tree path"
    using r(2,4) by (auto simp: wanted_value_def flag_value_def no_overrides_def reads_tree_def)
  with loaded_setting [OF r(1,5) m] r(3) assms(2) show ?thesis by auto
qed

lemma reloaded_text:
  assumes "reloaded decode lib tree c'" and "(path, field) \<in> set config_fields" and "path \<in> set string_paths"
    and "in_tree tree path = GStr v"
  shows "field c' = GStr v"
  using reloaded_field [OF assms(1,2)] assms(1,3,4) by (auto simp: reloaded_def viper_documented_def)

text \<open>What the reloaded configuration has of the dumped one.\<close>

definition or_default :: "string \<Rightarrow> string \<Rightarrow> string" where
  "or_default s d = (if s = [] then d else s)"

definition same_settings :: "sentinel_config \<Rightarrow> sentinel_config \<Rightarrow> bool" where
  "same_settings c c' \<longleftrightarrow>
     si_Name (sc_Sentinel c') = si_Name (sc_Sentinel c) \<and> sc_ResourceType c' = sc_ResourceType c \<and>
     sc_PollInterval c' = sc_PollInterval c \<and> sc_DebugConfig c' = sc_DebugConfig c \<and>
     lc_Level (sc_Log c') = or_default (lc_Level (sc_Log c)) ''info'' \<and>
     lc_Format (sc_Log c') = or_default (lc_Format (sc_Log c)) ''json'' \<and>
     lc_Output (sc_Log c') = or_default (lc_Output (sc_Log c)) ''stdout'' \<and>
     (\<exists>api api'. cc_HyperFleetAPI (sc_Clients c) = Some api \<and> cc_HyperFleetAPI (sc_Clients c') = Some api' \<and>
        ac_BaseURL api' = ac_BaseURL api \<and> ac_Timeout api' = ac_Timeout api \<and>
        (ac_Version api \<noteq> [] \<longrightarrow> ac_Version api' = ac_Version api)) \<and>
     (\<forall>b. cc_Broker (sc_Clients c) = Some b \<and> bc_Topic b \<noteq> [] \<longrightarrow>
        (\<exists>b'. cc_Broker (sc_Clients c') = Some b' \<and> bc_Topic b' = bc_Topic b)) \<and>
     sc_ResourceSelector c' = sc_ResourceSelector c \<and> sc_MessageDecision c' = sc_MessageDecision c \<and>
     sc_MessageData c' = sc_MessageData c"

lemma reloaded_top:
  assumes "reloaded decode lib (yaml_config c) c'" and "decodes_dump decode c"
  shows "si_Name (sc_Sentinel c') = si_Name (sc_Sentinel c)" "sc_ResourceType c' = sc_ResourceType c"
    "sc_PollInterval c' = sc_PollInterval c" "sc_DebugConfig c' = sc_DebugConfig c" "sc_TracingEnabled c'"
proof -
  have "GStr (si_Name (sc_Sentinel c')) = GStr (si_Name (sc_Sentinel c))"
    by (rule reloaded_text [OF assms(1), where path = "''sentinel::name''" and field = "\<lambda>c. GStr (si_Name (sc_Sentinel c))"])
      (simp_all add: config_fields_def string_paths_def dumped_top)
  then show "si_Name (sc_Sentinel c') = si_Name (sc_Sentinel c)" by simp
  have "GStr (sc_ResourceType c') = GStr (sc_ResourceType c)"
    by (rule reloaded_text [OF assms(1), where path = "''resource_type''" and field = "\<lambda>c. GStr (sc_ResourceType c)"])
      (simp_all add: config_fields_def string_paths_def dumped_top)
  then show "sc_ResourceType c' = sc_ResourceType c" by simp
  show "sc_PollInterval c' = sc_PollInterval c"
    using reloaded_field [OF assms(1), where path = "''poll_interval''" and field = "\<lambda>c. GDuration (sc_PollInterval c)"]
      assms(2) by (simp add: config_fields_def dumped_top decodes_dump_def)
  show "sc_DebugConfig c' = sc_DebugConfig c"
    using reloaded_field [OF assms(1), where path = "''debug_config''" and field = "\<lambda>c. GBool (sc_DebugConfig c)"]
      assms(2) by (simp add: config_fields_def dumped_top decodes_dump_def NewSentinelConfig_def split: if_splits)
  show "sc_TracingEnabled c'"
    using reloaded_field [OF assms(1), where path = "''tracing_enabled''" and field = "\<lambda>c. GBool (sc_TracingEnabled c)"]
      assms(2) by (simp add: config_fields_def dumped_top decodes_dump_def NewSentinelConfig_def split: if_splits)
qed

lemma reloaded_nonempty:
  assumes "reloaded decode lib tree c'" and "(path, \<lambda>c. GStr (get c)) \<in> set config_fields"
    and "path \<in> set string_paths" and "in_tree tree path = nonempty_text v" and "take 9 path \<noteq> ''clients::''"
  shows "get c' = or_default v (get NewSentinelConfig)"
  using reloaded_text [OF assms(1-3), of v] reloaded_field [OF assms(1,2)] assms(4,5)
  by (auto simp: nonempty_text_def or_default_def)

lemma reloaded_log:
  assumes "reloaded decode lib (yaml_config c) c'"
  shows "lc_Level (sc_Log c') = or_default (lc_Level (sc_Log c)) ''info''"
    "lc_Format (sc_Log c') = or_default (lc_Format (sc_Log c)) ''json''"
    "lc_Output (sc_Log c') = or_default (lc_Output (sc_Log c)) ''stdout''"
  using reloaded_nonempty [OF assms, of "''log::level''" "\<lambda>c. lc_Level (sc_Log c)" "lc_Level (sc_Log c)"]
    reloaded_nonempty [OF assms, of "''log::format''" "\<lambda>c. lc_Format (sc_Log c)" "lc_Format (sc_Log c)"]
    reloaded_nonempty [OF assms, of "''log::output''" "\<lambda>c. lc_Output (sc_Log c)" "lc_Output (sc_Log c)"]
  by (simp_all add: config_fields_def string_paths_def dumped_log NewSentinelConfig_def)

lemma reloaded_api:
  assumes "reloaded decode lib (yaml_config c) c'" and "decodes_dump decode c"
    and "cc_HyperFleetAPI (sc_Clients c) = Some api"
  shows "\<exists>api'. cc_HyperFleetAPI (sc_Clients c') = Some api' \<and> ac_BaseURL api' = ac_BaseURL api \<and>
     ac_Timeout api' = ac_Timeout api \<and> (ac_Version api \<noteq> [] \<longrightarrow> ac_Version api' = ac_Version api)"
proof -
  have "api_field (\<lambda>a. GStr (ac_BaseURL a)) c' = GStr (ac_BaseURL api)"
    by (rule reloaded_text [OF assms(1), where path = "''clients::hyperfleet_api::base_url''"])
      (simp_all add: config_fields_def string_paths_def dumped_clients [OF assms(3)])
  moreover have "api_field (\<lambda>a. GStr (ac_Version a)) c' = GStr (ac_Version api)" if "ac_Version api \<noteq> []"
    by (rule reloaded_text [OF assms(1), where path = "''clients::hyperfleet_api::version''"])
      (use that in \<open>simp_all add: config_fields_def string_paths_def dumped_clients [OF assms(3)] nonempty_text_def\<close>)
  moreover have "api_field (\<lambda>a. GDuration (ac_Timeout a)) c' = GDuration (ac_Timeout api)"
    using reloaded_field [OF assms(1), where path = "''clients::hyperfleet_api::timeout''" and
        field = "api_field (\<lambda>a. GDuration (ac_Timeout a))"] assms(2,3)
    by (simp add: config_fields_def dumped_clients [OF assms(3)] decodes_dump_def)
  ultimately show ?thesis
    by (cases "cc_HyperFleetAPI (sc_Clients c')") (simp_all add: api_field_def)
qed

lemma reloaded_broker:
  assumes "reloaded decode lib (yaml_config c) c'" and "cc_HyperFleetAPI (sc_Clients c) = Some api"
    and "cc_Broker (sc_Clients c) = Some b" and "bc_Topic b \<noteq> []"
  shows "\<exists>b'. cc_Broker (sc_Clients c') = Some b' \<and> bc_Topic b' = bc_Topic b"
proof -
  have "(case cc_Broker (sc_Clients c') of None \<Rightarrow> GNil | Some b \<Rightarrow> GStr (bc_Topic b)) = GStr (bc_Topic b)"
    by (rule reloaded_text [OF assms(1), where path = "''clients::broker::topic''" and
          field = "\<lambda>c. case cc_Broker (sc_Clients c) of None \<Rightarrow> GNil | Some b \<Rightarrow> GStr (bc_Topic b)"])
      (use assms(3,4) in \<open>simp_all add: config_fields_def string_paths_def dumped_clients [OF assms(2)] nonempty_text_def\<close>)
  then show ?thesis by (auto split: option.splits)
qed

text \<open>The three sections: each entry of the dump is read back by the tags of its struct.\<close>

lemma dumped_sections:
  "in_tree (yaml_config c) ''resource_selector'' =
     (if sc_ResourceSelector c = [] then GNil else GList (map yaml_selector (sc_ResourceSelector c)))"
  "sc_MessageDecision c = Some d \<Longrightarrow> in_tree (yaml_config c) ''message_decision'' = GMap (yaml_decision d)"
  "sc_MessageData c = Some data \<Longrightarrow>
     in_tree (yaml_config c) ''message_data'' = (if data = [] then GNil else GMap data)"
  by (simp_all add: dump_simps split: option.split)

lemma read_yaml_selector [simp]:
  "read_selector (yaml_selector l) = l" "has_texts [''label'', ''value''] (yaml_selector l)"
  by (simp_all add: read_selector_def yaml_selector_def yaml_field_def text_at_def gmap_simps has_texts_def)

lemma read_yaml_param [simp]:
  "read_param (yaml_param p) = p" "has_texts [''name'', ''expr''] (yaml_param p)"
  by (simp_all add: read_param_def yaml_param_def yaml_field_def text_at_def gmap_simps has_texts_def)

lemma read_yaml_decision [simp]:
  "read_decision (GMap (yaml_decision d)) = d" "has_decision (GMap (yaml_decision d))"
  by (simp_all add: read_decision_def yaml_decision_def yaml_field_def text_at_def items_at_def gmap_simps
      has_decision_def comp_def list_all_iff)

lemma reloaded_sections:
  assumes "reads_tree lib content (yaml_config c)" and "sections_documented lib" and "config_ok c"
    and "LoadConfig lib file None = (Inr c', logs)"
    and "cl_ReadInConfig lib (config_path lib file) = Inr content"
  shows "sc_ResourceSelector c' = sc_ResourceSelector c" "sc_MessageDecision c' = sc_MessageDecision c"
    "sc_MessageData c' = sc_MessageData c"
proof -
  from assms(3) obtain d data where d: "sc_MessageDecision c = Some d"
    and data: "sc_MessageData c = Some data" "leaf_ok (GMap data)" by (auto simp: config_ok_def)
  from assms(4,5) obtain c0 where un: "cl_UnmarshalExact lib (loaded_viper content None) NewSentinelConfig = Inr c0"
    and c': "c' = (if sc_MessageDecision c0 = None then c0\<lparr>sc_MessageDecision := Some DefaultMessageDecision\<rparr> else c0)"
    and valid: "Validate c' = None"
    by (elim LoadConfig_Inr) auto
  have e: "effective lib (loaded_viper content None) path = in_tree (yaml_config c) path"
    if "path \<in> set section_paths" for path
    using that assms(1) by (simp add: effective_section reads_tree_def)
  have "effective lib (loaded_viper content None) ''resource_selector'' =
      (if sc_ResourceSelector c = [] then GNil else GList (map yaml_selector (sc_ResourceSelector c)))"
    and dec: "effective lib (loaded_viper content None) ''message_decision'' = GMap (yaml_decision d)"
    and md: "effective lib (loaded_viper content None) ''message_data'' = (if data = [] then GNil else GMap data)"
    by (simp_all add: e section_paths_def dumped_sections d data)
  with assms(2) un have sel: "sc_ResourceSelector c0 = sc_ResourceSelector c"
    unfolding sections_documented_def
    by (cases "sc_ResourceSelector c = []") (force simp: NewSentinelConfig_def list_all_iff comp_def)+
  from assms(2) un dec have "sc_MessageDecision c0 = Some d"
    unfolding sections_documented_def by (metis read_yaml_decision)
  then have c0: "c' = c0" and "sc_MessageDecision c' = sc_MessageDecision c" by (simp_all add: c' d)
  then show "sc_MessageDecision c' = sc_MessageDecision c" by simp
  show "sc_ResourceSelector c' = sc_ResourceSelector c" using sel c0 by simp
  show "sc_MessageData c' = sc_MessageData c"
  proof (cases "data = []")
    case True
    with assms(2) un md have "sc_MessageData c0 = None"
      unfolding sections_documented_def by (simp add: NewSentinelConfig_def)
    with valid c0 show ?thesis by (simp add: validate_iff_config_ok config_ok_def)
  next
    case False
    with assms(2) un md data(2) have "sc_MessageData c0 = Some data"
      unfolding sections_documented_def by metis
    with c0 data(1) show ?thesis by simp
  qed
qed

text \<open>
  C12: A dumped configuration loads back as itself. When the output of \<open>config-dump\<close> is put into a
  file and loaded with no variable and no flag set, the resource selectors, the message decision,
  the payload tree and the twelve scalar settings are those that were dumped, with these
  exceptions. The fields that the dump omits when they are empty come back as their defaults: an
  empty log setting becomes info, json or stdout, and tracing, when it was switched off, comes back
  switched on. Of an API version or a topic that was empty nothing is claimed.
\<close>

theorem dump_loads_back:
  assumes "runConfigDump clib (\<lambda>c. yaml (yaml_config c)) configFile flags = Inr dump"
    and "LoadConfig clib configFile flags = (Inr cfg, logs0)"
    and "\<forall>tree. yaml tree = Inr dump \<longrightarrow> reads_tree lib content tree"
    and "viper_documented decode lib" and "no_overrides lib" and "decodes_dump decode cfg"
    and "cl_ReadInConfig lib (config_path lib file) = Inr content"
    and "LoadConfig lib file None = (Inr cfg', logs)"
    and "sections_documented lib"
  shows "same_settings cfg cfg' \<and> sc_TracingEnabled cfg'"
proof -
  obtain content where reads: "reads_tree lib content (yaml_config cfg)"
    and read: "cl_ReadInConfig lib (config_path lib file) = Inr content"
    using assms(1-3,7) by (auto simp: runConfigDump_def split: sum.splits)
  have r: "reloaded decode lib (yaml_config cfg) cfg'"
    using assms by (auto simp: runConfigDump_def reloaded_def split: sum.splits)
  have ok: "config_ok cfg"
    using assms(2) by (elim LoadConfig_Inr) (simp add: validate_iff_config_ok)
  then obtain api where api: "cc_HyperFleetAPI (sc_Clients cfg) = Some api" by (auto simp: config_ok_def)
  show ?thesis
    using reloaded_top [OF r assms(6)] reloaded_log [OF r] reloaded_api [OF r assms(6) api] reloaded_broker [OF r api] api
      reloaded_sections [OF reads assms(9) ok assms(8) read]
    by (simp add: same_settings_def)
qed

section \<open>Instances\<close>

text \<open>A file with a decision of its own, loaded with tracing switched off, dumped, and loaded again.\<close>

definition source_file :: "gval gmap" where
  "source_file =
     (''message_decision'',
      GMap [(''result'', GStr ''due''),
            (''params'', GList [GMap [(''name'', GStr ''due''), (''expr'', GStr ''resource.generation > 1'')]])])
     # sample_file"

definition dump_flags :: "cli_flag gmap" where
  "dump_flags = [(''tracing-enabled'', \<lparr>fl_Changed = True, fl_Value = ''false''\<rparr>)]"

definition dumped_config :: sentinel_config where
  "dumped_config =
     sample_unmarshal (effective (sample_base source_file) (loaded_viper source_file (Some dump_flags)))
       NewSentinelConfig"

definition dumped_tree :: "gval gmap" where
  "dumped_tree =
     [(''log'', GMap [(''level'', GStr ''warn''), (''format'', GStr ''json''), (''output'', GStr ''stdout'')]),
      (''sentinel'', GMap [(''name'', GStr ''hyperfleet-sentinel'')]),
      (''resource_type'', GStr ''nodepools''),
      (''clients'', GMap
        [(''hyperfleet_api'', GMap
           [(''base_url'', GStr ''http://api''), (''version'', GStr ''v1''), (''timeout'', GStr ''10s'')]),
         (''broker'', GMap [])]),
      (''message_data'', GMap [(''id'', GStr ''resource.id'')]),
      (''message_decision'', GMap
        [(''result'', GStr ''due''),
         (''params'', GList [GMap [(''name'', GStr ''due''), (''expr'', GStr ''resource.generation > 1'')]])]),
      (''resource_selector'', GList [GMap [(''label'', GStr ''shard''), (''value'', GStr ''1'')]]),
      (''poll_interval'', GStr ''5s'')]"

lemma dumped_tree: "yaml_config dumped_config = dumped_tree"
  by code_simp

definition dump_file :: "gval gmap" where
  "dump_file =
     map (\<lambda>path. (path, in_tree dumped_tree path)) section_paths @
     map (\<lambda>(name, env, path). (path, in_tree dumped_tree path)) documented_settings"

definition reload_libs :: "gval gmap config_libs" where
  "reload_libs = libs_over ((sample_base dump_file)\<lparr>cl_Getenv := \<lambda>_. []\<rparr>)"

definition sample_yaml :: "gval gmap \<Rightarrow> go_error + string" where
  "sample_yaml tree = (if tree = dumped_tree then Inr ''doc'' else Inl (ErrText ''unknown''))"

lemma dump_first_load:
  "LoadConfig (sample_config_libs source_file) [] (Some dump_flags) =
     (Inr dumped_config, [''Loading configuration from /etc/hyperfleet/config.yaml'', loaded_text dumped_config])"
  by code_simp

lemma dump_second_load: "\<exists>cfg' logs. LoadConfig reload_libs [] None = (Inr cfg', logs)"
proof -
  have "\<not> isl (fst (LoadConfig reload_libs [] None))" by code_simp
  then show ?thesis by (metis prod.collapse sum.collapse(2))
qed

lemma dump_reads: "reads_tree reload_libs dump_file dumped_tree"
proof -
  have "list_all (\<lambda>(name, env, path). cl_Find reload_libs dump_file path = in_tree dumped_tree path)
      documented_settings"
    by code_simp
  moreover have "list_all (\<lambda>path. cl_Find reload_libs dump_file path = in_tree dumped_tree path)
      section_paths"
    by code_simp
  ultimately show ?thesis by (simp add: reads_tree_def list_all_iff)
qed

theorem dump_loads_back_witness:
  "\<exists>cfg' logs. LoadConfig reload_libs [] None = (Inr cfg', logs) \<and>
     \<not> sc_TracingEnabled dumped_config \<and> sc_TracingEnabled cfg' \<and> sc_ResourceType cfg' = ''nodepools'' \<and>
     sc_ResourceSelector cfg' = [\<lparr>ls_Label = ''shard'', ls_Value = ''1''\<rparr>] \<and>
     sc_MessageDecision cfg' =
       Some \<lparr>md_Result = ''due'', md_Params = [\<lparr>p_Name = ''due'', p_Expr = ''resource.generation > 1''\<rparr>]\<rparr>"
proof -
  from dump_second_load obtain cfg' logs where l: "LoadConfig reload_libs [] None = (Inr cfg', logs)" by blast
  have dump: "runConfigDump (sample_config_libs source_file) (\<lambda>c. sample_yaml (yaml_config c)) [] (Some dump_flags) = Inr ''doc''"
    by (simp add: runConfigDump_def dump_first_load sample_yaml_def dumped_tree)
  have reads: "\<forall>tree. sample_yaml tree = Inr ''doc'' \<longrightarrow> reads_tree reload_libs dump_file tree"
    using dump_reads by (simp add: sample_yaml_def)
  have doc: "viper_documented sample_decode reload_libs"
    by (simp add: reload_libs_def over_documented)
  have env: "no_overrides reload_libs"
    by (simp add: no_overrides_def reload_libs_def libs_over_def split_def)
  have decodes: "decodes_dump sample_decode dumped_config"
  proof -
    have "duration_string (sc_PollInterval dumped_config) = ''5s''" "sc_PollInterval dumped_config = 5 * second"
      "map_option ac_Timeout (cc_HyperFleetAPI (sc_Clients dumped_config)) = Some (10 * second)"
      "duration_string (10 * second) = ''10s''"
      by code_simp+
    then show ?thesis by (auto simp: decodes_dump_def sample_decode_def)
  qed
  have sections: "sections_documented reload_libs"
    by (simp add: reload_libs_def over_sections)
  have read: "cl_ReadInConfig reload_libs (config_path reload_libs []) = Inr dump_file"
    by (simp add: reload_libs_def libs_over_def sample_base_def)
  have "same_settings dumped_config cfg' \<and> sc_TracingEnabled cfg'"
    by (rule dump_loads_back [OF dump dump_first_load reads doc env decodes read l sections])
  moreover have "\<not> sc_TracingEnabled dumped_config" "sc_ResourceType dumped_config = ''nodepools''"
    "sc_ResourceSelector dumped_config = [\<lparr>ls_Label = ''shard'', ls_Value = ''1''\<rparr>]"
    "sc_MessageDecision dumped_config =
       Some \<lparr>md_Result = ''due'', md_Params = [\<lparr>p_Name = ''due'', p_Expr = ''resource.generation > 1''\<rparr>]\<rparr>"
    by code_simp+
  ultimately show ?thesis using l by (auto simp: same_settings_def)
qed

end
