(* ===== verification/Spec2Isabelle.thy ===== *)
theory Spec2Isabelle
  imports Engine_Race Process Command Config_Copy Config_Dump
begin

text \<open>
  HyperFleet Sentinel polls an API for clusters or node pools, decides for each of them with
  CEL expressions whether a message is due, and publishes those messages to a broker. This
  library models the program as it is written and proves what it promises.

  The program and its theories. \<open>cmd/sentinel/main.go\<close> loads the configuration, sets up
  logging, tracing and metrics, builds the API client, the decision engine and the publisher,
  serves the health endpoints and runs the polling loop until a signal cancels it. In a cycle the
  loop fetches all resources, evaluates the decision for each, builds a payload and a CloudEvent
  for those that are due, publishes them, and updates metrics and spans on the way.

  \<^item> \<open>Prelude\<close>, \<open>Go_Time\<close>, \<open>Go_Value\<close>: Go maps (an association list in the order of one run
    through the map; laws as the locale \<open>string_map\<close>), durations as signed 64-bit words,
    saturating subtraction of times, dynamic values, errors.
  \<^item> \<open>Config\<close>, \<open>Config_Load\<close>, \<open>Config_Copy\<close>, \<open>Config_Dump\<close>: \<open>internal/config/config.go\<close>. Data, defaults,
    the built-in decision, \<open>Validate\<close>; \<open>LoadConfig\<close> over the layers of viper; \<open>RedactedCopy\<close> over an
    explicit store, since it is about sharing; the tree the \<open>yaml\<close> tags encode, and \<open>config-dump\<close>
    followed by a load.
  \<^item> \<open>Client\<close>: \<open>internal/client/client.go\<close>. Search strings, the two list calls and the conversion of
    their items, \<open>FetchResources\<close> with its retries, errors and which of them are retriable.
  \<^item> \<open>Cel\<close>, \<open>Engine\<close>, \<open>Default_Decision\<close>, \<open>Engine_Race\<close>: \<open>internal/engine/decision.go\<close>. Compilation, the
    look-up behind \<open>condition()\<close>, evaluation; the built-in decision against its specification
    \<open>wants_event\<close>; and \<open>Evaluate\<close> cut into its atomic parts, for calls that overlap.
  \<^item> \<open>Payload\<close>: \<open>internal/payload/builder.go\<close>. Parsing, compilation and evaluation of a
    \<open>message_data\<close> tree.
  \<^item> \<open>Metrics\<close>, \<open>Telemetry\<close>, \<open>Log_Context\<close>, \<open>Logger\<close>: \<open>internal/metrics/metrics.go\<close>,
    \<open>pkg/telemetry/otel.go\<close>, \<open>pkg/logger/operationid_middleware.go\<close>, and \<open>pkg/logger/logger.go\<close> with
    \<open>broker_adapter.go\<close>.
  \<^item> \<open>World\<close>, \<open>Sentinel\<close>, \<open>Sentinel_Cycle\<close>, \<open>Sentinel_Account\<close>: \<open>internal/sentinel/sentinel.go\<close>. The world
    is what the cycle reads and writes (log lines, API calls, spans, sent messages, metrics, and
    the state of the libraries); \<open>trigger\<close> is one cycle and \<open>Start\<close> the loop; the other two hold
    their proofs.
  \<^item> \<open>Health\<close>: \<open>internal/health/health.go\<close>. \<open>Publisher\<close>: \<open>internal/publisher/publisher.go\<close>.
  \<^item> \<open>Serve\<close>, \<open>Command\<close>, \<open>Shutdown\<close>, \<open>Process\<close>: \<open>cmd/sentinel/main.go\<close>. The commands as functions, with
    every early return and deferred call; \<open>main\<close> from the arguments to what is printed and the exit
    code; the goroutines of a shutdown as an abstract step relation, any
    interleaving allowed; and the same with the real parts, where a turn of the main goroutine is a
    cycle of the loop, a probe runs its handler and the end runs the deferred calls. The last refines the
    second, and ends in the states the first computes.
  \<^item> This theory joins them: a loaded configuration runs, and a cycle under the built-in decision
    refines its specification.

  How code is rendered. A method is the function of its name, from the receiver and the world to
  the result and the new world. An \<open>(x, error)\<close> pair is a sum, \<open>error\<close> alone an option, a panic the
  outer \<open>None\<close> (so \<open>None\<close> from \<open>trigger\<close> is a crash, never an excuse). A nil slice, map or
  pointer that the code tells from an empty one is an option. The polling loop consumes a list of
  the events its \<open>select\<close> takes, ticks and cancellation; that a cycle and the loop return is
  proved, not assumed.

  What the groups of lemmas show. Client: the search string reads back as the selector, whatever the
  values contain; retries stop at the first answer that is not retriable; every item is kept.
  Engine and payload: what is accepted and refused at start-up, what every evaluation returns on
  every branch, that evaluations do not influence each other, that a payload is the configured tree
  with its expressions replaced by their values and what has none pruned. Cycle: it always
  returns, its books balance (the messages, every series of the metrics, the spans), one message
  for each resource that is due. Logger: which messages leave a line and what the line says. Process: the
  precedence of settings, dumps that load back, clean-ups in reverse order on every path, probes
  and shutdown in every interleaving.

  Bounds. Durations and times are signed 64-bit nanoseconds as in Go, so tripling a poll interval
  wraps beyond 97 years and subtracting times saturates. \<open>read_map\<close> of
  \<open>Config_Copy\<close> reads nested maps with fuel: a store address holds only lower addresses in
  a well-formed store, so fuel above the address is always enough, and it is used in statements
  only. \<open>retry_attempts\<close> is one concrete retrier that serves in the witnesses.

  What is not under \<open>src/\<close> is a parameter, and what the code relies on a named hypothesis, each
  met by a concrete instance in a witness: \<open>retry_contract\<close> (the backoff library calls again
  after a retriable error and not after a permanent one), \<open>never_nil_reply\<close> (the generated API
  client returns a response or an error), \<open>cel_never_nil\<close> (an evaluation gives a value or an
  error), \<open>cel_reads\<close> (on the built-in expressions, the CEL operators mean what their
  specification says), \<open>readable_report\<close> (report times are texts CEL can read, within the range of
  a duration), \<open>viper_documented\<close> (set values over variables over file, each decoded into its
  field), \<open>sections_documented\<close> (the selectors, the decision and the payload tree are decoded by
  the \<open>mapstructure\<close> tags), \<open>reads_tree\<close> and \<open>decodes_dump\<close> (viper finds the settings of a dump in
  its file and decodes them), \<open>deps_sound\<close> (the first three, and a publisher that is there), and \<open>surroundings_ok\<close> (also that
  the API answers, the broker can be reached and the configured expressions compile).

  Interfaces as locales, each interpreted on the model's own definitions: \<open>string_map\<close> on the maps of
  the prelude, \<open>event_sink\<close> on the mock publisher and on the broker, \<open>metrics_sink\<close> on the package
  state of the metrics, \<open>log_sink\<close> on the logger, the broker's adapter and the capturing logger.

  Not modelled. The generated API client, cel-go, viper, cobra, the Prometheus and OpenTelemetry
  libraries, CloudEvents and the broker library beyond these parameters. Mutexes as such: what
  a mutex makes atomic is one step where goroutines meet (\<open>Process\<close>, \<open>Engine_Race\<close>), a cycle,
  a request and the evaluation of a CEL program are one step each, and elsewhere the components are sequential. How cobra reads the arguments, the text
  of the \<open>/metrics\<close> page and the time limits of the HTTP servers, which are kept as settings
  without an effect. When a run panics, the lines and messages it had written before are not part
  of the result. \<open>hack/tools.go\<close> has no behaviour; tests and charts are no part of the
  program.
\<close>

section \<open>From the configuration to the running program\<close>

text \<open>
  C4: A configuration that loads is one the program runs on. When the file, the variables and
  the flags load, the log settings parse, and the surroundings are there (the API answers, the
  broker can be reached, the configured CEL expressions compile), the \<open>serve\<close> command neither
  panics nor gives up: it polls until its context is done, reports success on a cancellation,
  and is still running as long as none has come.
\<close>

theorem loaded_program_serves:
  assumes "LoadConfig clib configFile (Some flags) = (Inr cfg, logs)"
    and "initLogging rt version (sc_Log cfg) (sc_TracingEnabled cfg) lst = (Inr logCfg, lst')"
    and "surroundings_ok lib cfg st"
  shows "fst (serve_RunE lib clib rt version commit registry configFile flags evs lst st) = expected_outcome evs"
proof -
  have "config_ok cfg"
    using assms(1) by (elim LoadConfig_Inr) (simp add: validate_iff_config_ok)
  from runServe_outcome [OF assms(3) this] assms(1,2) show ?thesis
    by (simp add: serve_RunE_def split_def)
qed

section \<open>What a cycle with the built-in decision does\<close>

text \<open>
  C2: A completed cycle refines the specification of the built-in decision. Polling with the
  default message decision hands the broker exactly one message for each fetched resource that
  has an ID and that \<open>wants_event\<close> at the time of the cycle (it is new, its generation is ahead,
  or its last report is too old), in the order of the API's answer, and none for any other
  resource. The hypotheses are those of the cycle and of the built-in decision: the libraries
  keep what they document, events can be built, and the clock reads within 292 years of
  the reports.
\<close>

theorem default_cycle_refines:
  assumes "metrics_ready (wd_metrics w)" and "sc_ResourceType (st_config s) \<noteq> []" and "deps_sound dp"
    and "trigger dp ctx s w = Some (None, s', w')"
    and "\<And>resources. cycle_fetch dp (st_config s) (Some (Inr resources)) \<Longrightarrow> events_buildable dp s resources"
    and "NewDecisionEngine (dp_cel dp) (Some DefaultMessageDecision) = Inr e"
    and "st_decisionEngine s = e\<lparr>de_conditionsLookup := l\<rparr>"
    and "cel_reads read_time (dp_cel dp) default_exprs"
    and "\<And>resources now r. cycle_fetch dp (st_config s) (Some (Inr resources)) \<Longrightarrow> r \<in> set resources \<Longrightarrow>
      clock_says (dp_lib dp) now \<Longrightarrow> readable_report read_time r now \<and> \<not> IsZero now"
  shows "\<exists>resources now messages. cycle_fetch dp (st_config s) (Some (Inr resources)) \<and> clock_says (dp_lib dp) now \<and>
     wd_sent w' = wd_sent w @ messages \<and>
     list_all2 (is_event_of dp (st_payloadBuilder s) (cycle_topic (st_config s)))
       (filter (\<lambda>r. r_ID r \<noteq> [] \<and> wants_event r now) resources) messages"
proof -
  from trigger_sends_due [OF assms(1-5)] obtain resources now messages where
    f: "cycle_fetch dp (st_config s) (Some (Inr resources))" and now: "clock_says (dp_lib dp) now"
    and sent: "wd_sent w' = wd_sent w @ messages"
    and all: "list_all2 (is_event_of dp (st_payloadBuilder s) (cycle_topic (st_config s)))
       (filter (event_due dp s now) resources) messages" by blast
  have "event_due dp s now r \<longleftrightarrow> r_ID r \<noteq> [] \<and> wants_event r now" if "r \<in> set resources" for r
  proof -
    from assms(9) [OF f that now] have "readable_report read_time r now" "\<not> IsZero now" by simp_all
    from default_decides [OF assms(6,8) this, of l] show ?thesis
      by (simp add: event_due_def assms(7) publish_decision_def no_publish_def)
  qed
  then have "filter (event_due dp s now) resources = filter (\<lambda>r. r_ID r \<noteq> [] \<and> wants_event r now) resources"
    by (auto intro: filter_cong)
  with f now sent all show ?thesis by auto
qed

section \<open>Instances\<close>

definition sample_runtime :: log_runtime where
  "sample_runtime =
     \<lparr>rt_Hostname = Inr ''h'', rt_Now = sample_time, rt_Callers = [], rt_ShowValue = \<lambda>_. [],
      rt_Sprintf = \<lambda>f _. f, rt_Marshal = \<lambda>_. Inr ''{}'', rt_Write = \<lambda>_ _. None\<rparr>"

definition sample_log_state :: log_state where
  "sample_log_state = \<lparr>ls_global = None, ls_written = [], ls_exit = None\<rparr>"

lemma loaded_surroundings: "surroundings_ok sample_serve_libs sample_loaded sample_serve_state"
proof -
  have decision: "sc_MessageDecision sample_loaded = Some DefaultMessageDecision"
    by (simp add: sample_loaded_def)
  have data: "sc_MessageData sample_loaded = Some [(''id'', GStr ''resource.id'')]"
    by code_simp
  have "\<exists>e. NewDecisionEngine literal_cel (Some DefaultMessageDecision) = Inr e"
  proof -
    have "\<not> isl (NewDecisionEngine literal_cel (Some DefaultMessageDecision))" by code_simp
    then show ?thesis by (metis sum.collapse(2))
  qed
  moreover have "\<exists>b. NewBuilder literal_cel (GMap [(''id'', GStr ''resource.id'')]) = Inr b"
    by (simp add: NewBuilder_def literal_cel_def newCELEnv_def compileNode.simps zero_value_def_def)
  ultimately show ?thesis
    using sample_surroundings
    by (simp add: surroundings_ok_def decision data) (simp add: sample_serve_libs_def)
qed

theorem loaded_program_serves_witness:
  "fst (serve_RunE sample_serve_libs (sample_config_libs sample_file) sample_runtime ''dev'' ''abc'' 0 []
     sample_flags [Tick, Tick, CtxDone canceled] sample_log_state sample_serve_state) = Stopped"
proof -
  have "\<not> isl (fst (initLogging sample_runtime ''dev'' (sc_Log sample_loaded) (sc_TracingEnabled sample_loaded)
      sample_log_state))"
    by code_simp
  then obtain logCfg lst' where
    "initLogging sample_runtime ''dev'' (sc_Log sample_loaded) (sc_TracingEnabled sample_loaded) sample_log_state =
       (Inr logCfg, lst')"
    by (metis prod.collapse sum.collapse(2))
  from loaded_program_serves [OF sample_load this loaded_surroundings] show ?thesis
    by (simp add: expected_outcome_def)
qed

definition sample_cobra :: "command \<Rightarrow> command list \<Rightarrow> string list \<Rightarrow> invocation" where
  "sample_cobra main commands args =
     (if args = [cm_Use serve_command] then InvokeServe [] sample_flags
      else Answered [] (Some (ErrText ''unknown command'')))"

theorem serve_exit_code_witness:
  "\<exists>r. r = sentinel_main sample_cobra sample_serve_libs (sample_config_libs sample_file) sample_runtime
       (''dev'', ''abc'', ''unknown'') 0 [''serve''] [Tick, CtxDone canceled] sample_log_state sample_serve_state \<and>
     mr_code r \<noteq> None \<and> mr_stdout r = [] \<and> all_released sample_serve_state (mr_state r)"
proof -
  let ?main = "sentinel_main sample_cobra sample_serve_libs (sample_config_libs sample_file) sample_runtime
       (''dev'', ''abc'', ''unknown'') 0 [''serve''] [Tick, CtxDone canceled] sample_log_state sample_serve_state"
  have chosen: "sample_cobra rootCmd subcommands [''serve''] = InvokeServe [] sample_flags"
    by (simp add: sample_cobra_def serve_command_def)
  have "loop_end [Tick, CtxDone canceled] \<noteq> Running" by simp
  with serve_exit_code [where r = ?main, OF chosen _ refl] have
    "mr_code ?main \<noteq> None \<and> mr_stdout ?main = [] \<and> all_released sample_serve_state (mr_state ?main)" by auto
  then show ?thesis by blast
qed

text \<open>The sample server, broker and clock, with the library of the built-in decision.\<close>

definition refine_deps :: "(nat, unit, cexp, cexp) deps" where
  "refine_deps =
     \<lparr>dp_lib = sample_libs, dp_api = sample_api 200, dp_retry = \<lambda>_. retry_attempts 3, dp_cel = fragment_cel\<rparr>"

definition refine_sentinel :: "cexp sentinel" where
  "refine_sentinel =
     \<lparr>st_lastSuccessfulPoll = zero_time, st_config = NewSentinelConfig\<lparr>sc_ResourceType := ''clusters''\<rparr>,
      st_decisionEngine = fragment_engine\<lparr>de_conditionsLookup := []\<rparr>,
      st_payloadBuilder = Some \<lparr>b_compiled = []\<rparr>\<rparr>"

lemma refine_completes: "\<exists>s' w'. trigger refine_deps [] refine_sentinel sample_world = Some (None, s', w')"
proof -
  have "map_option (\<lambda>(err, _). err) (trigger refine_deps [] refine_sentinel sample_world) = Some None"
    by code_simp
  then show ?thesis by auto
qed

lemma fragment_cel_never_nil: "cel_never_nil fragment_cel"
  by (simp add: cel_never_nil_def fragment_cel_def split: option.split)

lemma refine_sound: "deps_sound refine_deps"
  using fragment_cel_never_nil retry_attempts_contract
  by (simp add: deps_sound_def refine_deps_def never_nil_reply_def sample_api_def sample_libs_def)

lemma refine_fetched:
  assumes "cycle_fetch refine_deps (st_config refine_sentinel) (Some (Inr resources))" and "r \<in> set resources"
  shows "r = convert_cluster sample_item"
proof -
  from assms(1) obtain ctx net where
    "fst (FetchResources (sample_api 200) (\<lambda>_. retry_attempts 3) (Some ctx) ''clusters''
       (entries_of (ToMap [])) [] net) = Some (Inr resources)"
    by (auto simp: cycle_fetch_def refine_deps_def refine_sentinel_def NewSentinelConfig_def)
  then obtain net' where "FetchResources (sample_api 200) (\<lambda>_. retry_attempts 3) (Some ctx) ResourceTypeClusters
       (entries_of (ToMap [])) [] net = (Some (Inr resources), net')"
    by (metis ResourceTypeClusters_def prod.collapse)
  from fetched_clusters [OF retry_attempts_contract this] obtain w resp items where
    "GetClusters (sample_api 200) (search_param (buildSearchString (entries_of (ToMap [])) [])) w = (Reply resp, net_server net')"
    "rp_Items resp = Some items" "resources = map convert_cluster items" by blast
  with assms(2) show ?thesis by (auto simp: sample_api_def split: if_splits)
qed

lemma refine_readable:
  assumes "cycle_fetch refine_deps (st_config refine_sentinel) (Some (Inr resources))" and "r \<in> set resources"
    and "clock_says (dp_lib refine_deps) now"
  shows "readable_report sample_read_time r now \<and> \<not> IsZero now"
proof -
  have "r_Conditions r = []"
    unfolding refine_fetched [OF assms(1,2)] by (simp add: convert_cluster_def sample_item_def)
  then have "readable_report sample_read_time r now"
    by (simp add: readable_report_def condition_named_def)
  moreover have "\<not> IsZero now"
    using assms(3) by (auto simp: clock_says_def refine_deps_def sample_libs_def sample_time_def IsZero_def)
  ultimately show ?thesis ..
qed

theorem default_cycle_refines_witness:
  "\<exists>s' w' resources now messages. trigger refine_deps [] refine_sentinel sample_world = Some (None, s', w') \<and>
     wd_sent w' = messages \<and>
     list_all2 (is_event_of refine_deps (st_payloadBuilder refine_sentinel) (cycle_topic (st_config refine_sentinel)))
       (filter (\<lambda>r. r_ID r \<noteq> [] \<and> wants_event r now) resources) messages"
proof -
  obtain s' w' where t: "trigger refine_deps [] refine_sentinel sample_world = Some (None, s', w')"
    using refine_completes by blast
  have type: "sc_ResourceType (st_config refine_sentinel) \<noteq> []"
    by (simp add: refine_sentinel_def)
  have buildable: "events_buildable refine_deps refine_sentinel resources" for resources
    by (simp add: events_buildable_def uuid_error_def refine_deps_def sample_libs_def)
  have engine: "NewDecisionEngine (dp_cel refine_deps) (Some DefaultMessageDecision) = Inr fragment_engine"
    by (simp add: refine_deps_def fragment_engine_built)
  have current: "st_decisionEngine refine_sentinel = fragment_engine\<lparr>de_conditionsLookup := []\<rparr>"
    by (simp add: refine_sentinel_def)
  have reads: "cel_reads sample_read_time (dp_cel refine_deps) default_exprs"
    by (simp add: refine_deps_def fragment_cel_reads)
  have "\<exists>resources now messages.
      cycle_fetch refine_deps (st_config refine_sentinel) (Some (Inr resources)) \<and> clock_says (dp_lib refine_deps) now \<and>
      wd_sent w' = wd_sent sample_world @ messages \<and>
      list_all2 (is_event_of refine_deps (st_payloadBuilder refine_sentinel) (cycle_topic (st_config refine_sentinel)))
        (filter (\<lambda>r. r_ID r \<noteq> [] \<and> wants_event r now) resources) messages"
    by (rule default_cycle_refines [OF sample_world_ready type refine_sound t buildable engine current reads])
      (rule refine_readable)
  with t show ?thesis by (auto simp: sample_world_def)
qed

end
